(* ===== verification/Prelude.thy ===== *)
theory Prelude
  imports
    "HOL-Library.State_Monad"
    "HOL-Library.AList"
    "HOL-Library.Char_ord"
    "HOL-Library.List_Lexorder"
begin

text \<open>
  Shared vocabulary of the development.

  \<^item> Go errors: a value of type \<open>go_error\<close> lists the sentinels that \<open>errors.Is\<close> finds in
    its wrap chain and carries the text that \<open>Error()\<close> returns.
  \<^item> Calls: a Go function that returns \<open>(T, error)\<close> and acts on a state is a value of type
    \<open>('s, 'a) call\<close>, the state monad of the library with a sum as its result
    (\<open>Inl\<close> the error, \<open>Inr\<close> the value).
  \<^item> Go maps with string keys are association lists read through \<open>map_of\<close>.
  \<^item> \<open>wp\<close>, a weakest-precondition transformer for the state monad, given by equations so that
    the simplifier computes it, and \<open>emits\<close>, which bounds the effects a computation appends to
    the effect trace of a reconcile pass.
  \<^item> The functions of the packages \<open>strings\<close> and \<open>fmt\<close> that the sources use.
\<close>

section \<open>Collections of facts\<close>

named_theorems wp_simps \<open>equations that compute weakest preconditions\<close>
named_theorems emits_intros \<open>introduction rules for effect bounds\<close>
named_theorems client_simps \<open>behaviour of the client operations on concrete states\<close>

section \<open>Go errors\<close>

datatype sentinel =
    ErrNotFound | ErrUnauthorized | ErrInvalidInput | ErrConflict | ErrTransient
  | ErrInvalidProviderID | ErrCredentialsInvalid | ErrBootstrapDataInvalid | ErrInstanceGone
  | ErrNoCluster | StatusReasonNotFound

record go_error =
  err_chain :: "sentinel list"
  err_text :: string

definition errors_Is :: "go_error \<Rightarrow> sentinel \<Rightarrow> bool" where
  "errors_Is err target \<longleftrightarrow> target \<in> set (err_chain err)"

definition mk_error :: "sentinel list \<Rightarrow> string \<Rightarrow> go_error" where
  "mk_error ws msg = \<lparr>err_chain = ws, err_text = msg\<rparr>"

lemma errors_Is_mk_error [simp]: "errors_Is (mk_error ws msg) t \<longleftrightarrow> t \<in> set ws"
  by (simp add: errors_Is_def mk_error_def)

lemma err_text_mk_error [simp]: "err_text (mk_error ws msg) = msg"
  by (simp add: mk_error_def)

lemma err_chain_mk_error [simp]: "err_chain (mk_error ws msg) = ws"
  by (simp add: mk_error_def)

section \<open>Calls\<close>

type_synonym ('s, 'a) call = "('s, go_error + 'a) state"

abbreviation ret :: "'a \<Rightarrow> ('s, 'a) state" where
  "ret \<equiv> State_Monad.return"

definition fail_with :: "go_error \<Rightarrow> ('s, 'a) call" where
  "fail_with err = ret (Inl err)"

definition ok :: "'a \<Rightarrow> ('s, 'a) call" where
  "ok a = ret (Inr a)"

lemma run_fail_with [simp]: "run_state (fail_with err) s = (Inl err, s)"
  by (simp add: fail_with_def)

lemma run_ok [simp]: "run_state (ok a) s = (Inr a, s)"
  by (simp add: ok_def)

subsection \<open>Weakest preconditions\<close>

definition wp :: "('s, 'a) state \<Rightarrow> ('a \<Rightarrow> 's \<Rightarrow> bool) \<Rightarrow> 's \<Rightarrow> bool" where
  "wp m Q s = (case run_state m s of (a, s') \<Rightarrow> Q a s')"

lemma wp_return [wp_simps]: "wp (State_Monad.return a) Q s = Q a s"
  by (simp add: wp_def)

lemma wp_fail_with [wp_simps]: "wp (fail_with err) Q s = Q (Inl err) s"
  by (simp add: wp_def)

lemma wp_ok [wp_simps]: "wp (ok a) Q s = Q (Inr a) s"
  by (simp add: wp_def)

lemma wp_bind [wp_simps]: "wp (State_Monad.bind m f) Q s = wp m (\<lambda>a. wp (f a) Q) s"
  by (simp add: wp_def split: prod.splits)

lemma wp_get [wp_simps]: "wp State_Monad.get Q s = Q s s"
  by (simp add: wp_def)

lemma wp_State [wp_simps]: "wp (State f) Q s = (case f s of (a, s') \<Rightarrow> Q a s')"
  by (simp add: wp_def)

lemma wp_if [wp_simps]:
  "wp (if b then m else n) Q s = (if b then wp m Q s else wp n Q s)"
  by simp

lemma wp_case_sum [wp_simps]:
  "wp (case x of Inl a \<Rightarrow> f a | Inr b \<Rightarrow> g b) Q s =
     (case x of Inl a \<Rightarrow> wp (f a) Q s | Inr b \<Rightarrow> wp (g b) Q s)"
  by (cases x) simp_all

lemma wp_case_option [wp_simps]:
  "wp (case x of None \<Rightarrow> m | Some a \<Rightarrow> f a) Q s =
     (case x of None \<Rightarrow> wp m Q s | Some a \<Rightarrow> wp (f a) Q s)"
  by (cases x) simp_all

lemma wp_case_prod [wp_simps]:
  "wp (case x of (a, b) \<Rightarrow> f a b) Q s = (case x of (a, b) \<Rightarrow> wp (f a b) Q s)"
  by (cases x) simp

lemma wp_let [wp_simps]: "wp (Let x f) Q s = wp (f x) Q s"
  by (simp add: Let_def)

lemma wp_mono: "wp m Q s \<Longrightarrow> (\<And>a s'. Q a s' \<Longrightarrow> R a s') \<Longrightarrow> wp m R s"
  by (auto simp: wp_def split: prod.splits)

lemma wp_conj: "wp m Q s \<Longrightarrow> wp m R s \<Longrightarrow> wp m (\<lambda>a s'. Q a s' \<and> R a s') s"
  by (auto simp: wp_def split: prod.splits)

lemma wp_run: "run_state m s = (a, s') \<Longrightarrow> wp m Q s = Q a s'"
  by (simp add: wp_def)

lemma wpI: "(\<And>a s'. run_state m s = (a, s') \<Longrightarrow> Q a s') \<Longrightarrow> wp m Q s"
  by (simp add: wp_def split: prod.splits)

section \<open>Go maps with string keys\<close>

type_synonym 'v gomap = "(string \<times> 'v) list"

definition lookup_or :: "'v \<Rightarrow> 'v gomap \<Rightarrow> string \<Rightarrow> 'v" where
  \<comment> \<open>\<open>m[k]\<close> in Go: the zero value for a key that is absent\<close>
  "lookup_or z m k = (case map_of m k of None \<Rightarrow> z | Some v \<Rightarrow> v)"

lemma lookup_or_update [simp]:
  "lookup_or z (AList.update k v m) k' = (if k' = k then v else lookup_or z m k')"
  by (simp add: lookup_or_def update_conv')

lemma lookup_or_Nil [simp]: "lookup_or z [] k = z"
  by (simp add: lookup_or_def)

lemma lookup_or_Cons [simp]:
  "lookup_or z ((k, v) # m) k' = (if k' = k then v else lookup_or z m k')"
  by (auto simp: lookup_or_def)

lemma map_of_update_eq [simp]:
  "map_of (AList.update k v m) k' = (if k' = k then Some v else map_of m k')"
  by (simp add: update_conv')

lemma map_of_delete_eq [simp]:
  "map_of (AList.delete k m) k' = (if k' = k then None else map_of m k')"
  by (simp add: delete_conv')

lemma update_neq_Nil [simp]: "AList.update k v m \<noteq> []"
  by (cases m) auto

section \<open>The packages strings and fmt\<close>

definition HasPrefix :: "string \<Rightarrow> string \<Rightarrow> bool" where
  "HasPrefix s p \<longleftrightarrow> take (length p) s = p"

definition HasSuffix :: "string \<Rightarrow> string \<Rightarrow> bool" where
  "HasSuffix s p \<longleftrightarrow> length p \<le> length s \<and> drop (length s - length p) s = p"

definition TrimPrefix :: "string \<Rightarrow> string \<Rightarrow> string" where
  "TrimPrefix s p = (if HasPrefix s p then drop (length p) s else s)"

fun ContainsStr :: "string \<Rightarrow> string \<Rightarrow> bool" where
  "ContainsStr [] p \<longleftrightarrow> p = []"
| "ContainsStr (c # s) p \<longleftrightarrow> HasPrefix (c # s) p \<or> ContainsStr s p"

definition ReplaceChar :: "string \<Rightarrow> char \<Rightarrow> char \<Rightarrow> string" where
  \<comment> \<open>\<open>strings.ReplaceAll\<close> with one-byte old and new strings\<close>
  "ReplaceChar s old new = map (\<lambda>c. if c = old then new else c) s"

definition TrimRightChar :: "string \<Rightarrow> char \<Rightarrow> string" where
  \<comment> \<open>\<open>strings.TrimRight\<close> with a one-byte cutset\<close>
  "TrimRightChar s c = rev (dropWhile (\<lambda>d. d = c) (rev s))"

fun JoinStr :: "string list \<Rightarrow> string \<Rightarrow> string" where
  "JoinStr [] sep = []"
| "JoinStr [x] sep = x"
| "JoinStr (x # y # ys) sep = x @ sep @ JoinStr (y # ys) sep"

lemma HasPrefix_append [simp]: "HasPrefix (p @ s) p"
  by (simp add: HasPrefix_def)

lemma HasPrefix_iff: "HasPrefix s p \<longleftrightarrow> (\<exists>t. s = p @ t)"
proof
  assume "HasPrefix s p"
  then have "s = p @ drop (length p) s"
    by (metis HasPrefix_def append_take_drop_id)
  then show "\<exists>t. s = p @ t" ..
qed (auto simp: HasPrefix_def)

lemma TrimPrefix_append [simp]: "TrimPrefix (p @ s) p = s"
  by (simp add: TrimPrefix_def)

lemma HasSuffix_iff: "HasSuffix s p \<longleftrightarrow> (\<exists>t. s = t @ p)"
proof
  assume "HasSuffix s p"
  then have "s = take (length s - length p) s @ p"
    by (metis HasSuffix_def append_take_drop_id)
  then show "\<exists>t. s = t @ p" ..
qed (auto simp: HasSuffix_def)

lemma ContainsStr_single [simp]: "ContainsStr s [c] \<longleftrightarrow> c \<in> set s"
  by (induction s) (auto simp: HasPrefix_def)

lemma set_ReplaceChar: "set (ReplaceChar s a b) \<subseteq> insert b (set s - {a})"
  by (auto simp: ReplaceChar_def)

lemma length_ReplaceChar [simp]: "length (ReplaceChar s a b) = length s"
  by (simp add: ReplaceChar_def)

lemma length_TrimRightChar: "length (TrimRightChar s c) \<le> length s"
  by (simp add: TrimRightChar_def) (metis length_dropWhile_le length_rev)

lemma set_TrimRightChar: "set (TrimRightChar s c) \<subseteq> set s"
  by (auto simp: TrimRightChar_def dest: set_dropWhileD)

subsection \<open>The verbs of fmt\<close>

definition hex_digit :: "nat \<Rightarrow> char" where
  "hex_digit n = ''0123456789abcdef'' ! (n mod 16)"

definition quote_char :: "char \<Rightarrow> string" where
  \<comment> \<open>one byte under \<open>%q\<close>; bytes from 128 on are part of a printable rune and stay\<close>
  "quote_char c =
     (if c = CHR 0x22 then [CHR 0x5C, CHR 0x22]
      else if c = CHR 0x5C then [CHR 0x5C, CHR 0x5C]
      else if c = CHR 0x07 then [CHR 0x5C, CHR ''a'']
      else if c = CHR 0x08 then [CHR 0x5C, CHR ''b'']
      else if c = CHR 0x0C then [CHR 0x5C, CHR ''f'']
      else if c = CHR 0x0A then [CHR 0x5C, CHR ''n'']
      else if c = CHR 0x0D then [CHR 0x5C, CHR ''r'']
      else if c = CHR 0x09 then [CHR 0x5C, CHR ''t'']
      else if c = CHR 0x0B then [CHR 0x5C, CHR ''v'']
      else if of_char c < (32::nat) \<or> c = CHR 0x7F
        then [CHR 0x5C, CHR ''x'', hex_digit (of_char c div 16), hex_digit (of_char c)]
      else [c])"

definition quote :: "string \<Rightarrow> string" where
  "quote s = [CHR 0x22] @ concat (map quote_char s) @ [CHR 0x22]"

fun digits :: "nat \<Rightarrow> string" where
  "digits n = (if n < 10 then [hex_digit n] else digits (n div 10) @ [hex_digit (n mod 10)])"

declare digits.simps [simp del]

definition show_int :: "int \<Rightarrow> string" where
  "show_int i = (if i < 0 then CHR ''-'' # digits (nat (- i)) else digits (nat i))"

end
