(* ===== verification/Cloud_Types.thy ===== *)
theory Cloud_Types
  imports Prelude
begin

text \<open>
  The provider-neutral data of \<open>cloud/types.go\<close>, the sentinel errors of
  \<open>cloud/errors.go\<close>, and the interface \<open>Client\<close> of \<open>cloud/client.go\<close> as a record of
  operations on a state of type \<open>'c\<close>: the implementations (\<open>cloud/fake\<close>, the SDK client) are
  values of this record type, and the controllers take one as an argument.
\<close>

section \<open>Data\<close>

record Address =
  adr_Type :: string
  adr_Address :: string

record Server =
  srv_ID :: string
  srv_Name :: string
  srv_State :: string
  srv_PowerStatus :: string
  srv_ProviderID :: string
  srv_AvailabilityZone :: string
  srv_Addresses :: "Address list"

record Network =
  net_ID :: string
  net_Name :: string
  net_IPv4Prefixes :: "string list"

record LoadBalancer =
  lb_ID :: string
  lb_Name :: string
  lb_IP :: string
  lb_DNSName :: string
  lb_Port :: int

record PublicIP =
  pip_ID :: string
  pip_IP :: string
  pip_NetworkInterfaceID :: string

record SecurityGroup =
  sg_ID :: string
  sg_Name :: string

record Bastion =
  bas_ServerID :: string
  bas_ServerState :: string
  bas_ServerPowerStatus :: string
  bas_PublicIPID :: string
  bas_PublicIP :: string
  bas_SecurityGroupID :: string

record RootVolumeInput =
  rv_SizeGiB :: int
  rv_PerformanceClass :: string
  rv_DeleteOnTermination :: bool

record CreateNetworkInput =
  cni_Name :: string
  cni_IPv4Prefix :: string
  cni_Tags :: "string gomap"

record CreateServerInput =
  csi_Name :: string
  csi_ProjectID :: string
  csi_Region :: string
  csi_ImageID :: string
  csi_MachineType :: string
  csi_AvailabilityZone :: string
  csi_SSHKeyName :: string
  csi_NetworkID :: string
  csi_SecurityGroups :: "string list"
  csi_UserData :: string
  csi_Tags :: "string gomap"
  csi_RootVolume :: RootVolumeInput

record BastionInput =
  bi_Name :: string
  bi_ProjectID :: string
  bi_Region :: string
  bi_NetworkID :: string
  bi_ImageID :: string
  bi_MachineType :: string
  bi_SSHKeyName :: string
  bi_AllowedCIDRs :: "string list"
  bi_Tags :: "string gomap"
  bi_RootVolume :: RootVolumeInput
  bi_CloudInit :: string

record NodeSSHAccessInput =
  nsi_Name :: string
  nsi_ServerID :: string
  nsi_BastionSecurityGroupID :: string
  nsi_Tags :: "string gomap"

record LoadBalancerTargetInput =
  lti_Name :: string
  lti_IP :: string

record LoadBalancerInput =
  lbi_Name :: string
  lbi_ProjectID :: string
  lbi_Region :: string
  lbi_NetworkID :: string
  lbi_Tags :: "string gomap"
  lbi_Port :: int
  lbi_Targets :: "LoadBalancerTargetInput list"

record Credentials =
  cr_ProjectID :: string
  cr_Region :: string
  cr_ServiceAccountJSON :: string

definition empty_Bastion :: Bastion where
  "empty_Bastion = \<lparr>bas_ServerID = [], bas_ServerState = [], bas_ServerPowerStatus = [],
     bas_PublicIPID = [], bas_PublicIP = [], bas_SecurityGroupID = []\<rparr>"

definition empty_RootVolumeInput :: RootVolumeInput where
  "empty_RootVolumeInput =
     \<lparr>rv_SizeGiB = 0, rv_PerformanceClass = [], rv_DeleteOnTermination = False\<rparr>"

definition empty_BastionInput :: BastionInput where
  "empty_BastionInput = \<lparr>bi_Name = [], bi_ProjectID = [], bi_Region = [], bi_NetworkID = [],
     bi_ImageID = [], bi_MachineType = [], bi_SSHKeyName = [], bi_AllowedCIDRs = [],
     bi_Tags = [], bi_RootVolume = empty_RootVolumeInput, bi_CloudInit = []\<rparr>"

section \<open>Error classification\<close>

definition IsNotFound :: "go_error \<Rightarrow> bool" where
  "IsNotFound err = errors_Is err ErrNotFound"

definition IsUnauthorized :: "go_error \<Rightarrow> bool" where
  "IsUnauthorized err = errors_Is err ErrUnauthorized"

definition IsInvalidInput :: "go_error \<Rightarrow> bool" where
  "IsInvalidInput err = errors_Is err ErrInvalidInput"

definition IsConflict :: "go_error \<Rightarrow> bool" where
  "IsConflict err = errors_Is err ErrConflict"

definition IsTransient :: "go_error \<Rightarrow> bool" where
  "IsTransient err = errors_Is err ErrTransient"

definition IsRetryable :: "go_error \<Rightarrow> bool" where
  "IsRetryable err \<longleftrightarrow> IsConflict err \<or> IsTransient err"

lemmas error_class_defs =
  IsNotFound_def IsUnauthorized_def IsInvalidInput_def IsConflict_def IsTransient_def
  IsRetryable_def

section \<open>The client interface\<close>

record 'c Client =
  GetNetwork :: "string \<Rightarrow> ('c, Network) call"
  FindNetworkByTags :: "string gomap \<Rightarrow> ('c, Network) call"
  ListNetworksByTags :: "string gomap \<Rightarrow> ('c, Network list) call"
  CreateNetwork :: "CreateNetworkInput \<Rightarrow> ('c, Network) call"
  DeleteNetwork :: "string \<Rightarrow> ('c, unit) call"
  GetServer :: "string \<Rightarrow> ('c, Server) call"
  FindServerByTags :: "string gomap \<Rightarrow> ('c, Server) call"
  ListServersByTags :: "string gomap \<Rightarrow> ('c, Server list) call"
  CreateServer :: "CreateServerInput \<Rightarrow> ('c, Server) call"
  DeleteServer :: "string \<Rightarrow> ('c, unit) call"
  EnsureBastion :: "BastionInput \<Rightarrow> ('c, Bastion) call"
  DeleteBastion :: "BastionInput \<Rightarrow> Bastion \<Rightarrow> ('c, unit) call"
  EnsureNodeSSHAccess :: "NodeSSHAccessInput \<Rightarrow> ('c, SecurityGroup) call"
  DeleteNodeSSHAccess :: "string gomap \<Rightarrow> ('c, unit) call"
  ListPublicIPsByTags :: "string gomap \<Rightarrow> ('c, PublicIP list) call"
  ListSecurityGroupsByTags :: "string gomap \<Rightarrow> ('c, SecurityGroup list) call"
  EnsureAPIServerLoadBalancer :: "LoadBalancerInput \<Rightarrow> ('c, LoadBalancer option) call"
  ListAPIServerLoadBalancersByTags :: "string gomap \<Rightarrow> ('c, LoadBalancer list) call"
  SetAPIServerLoadBalancerTargets ::
    "string \<Rightarrow> int \<Rightarrow> LoadBalancerTargetInput list \<Rightarrow> ('c, unit) call"
  DeleteAPIServerLoadBalancer :: "string \<Rightarrow> ('c, unit) call"
  ListAvailabilityZones :: "('c, string list) call"

type_synonym 'c Factory = "Credentials \<Rightarrow> go_error + 'c Client"

text \<open>The labels of the calls, for the effect trace of a reconcile pass.\<close>

datatype cloud_op =
    OpGetNetwork string
  | OpFindNetworkByTags "string gomap"
  | OpCreateNetwork CreateNetworkInput
  | OpDeleteNetwork string
  | OpGetServer string
  | OpFindServerByTags "string gomap"
  | OpCreateServer CreateServerInput
  | OpDeleteServer string
  | OpEnsureBastion BastionInput
  | OpDeleteBastion BastionInput Bastion
  | OpEnsureNodeSSHAccess NodeSSHAccessInput
  | OpDeleteNodeSSHAccess "string gomap"
  | OpEnsureAPIServerLoadBalancer LoadBalancerInput
  | OpListAPIServerLoadBalancersByTags "string gomap"
  | OpSetAPIServerLoadBalancerTargets string int "LoadBalancerTargetInput list"
  | OpDeleteAPIServerLoadBalancer string
  | OpListAvailabilityZones

end
