(* ===== verification/Api_Types.thy ===== *)
theory Api_Types
  imports Cloud_Types
begin

text \<open>
  The API types of \<open>api/v1alpha1\<close> as records, and the fields of the Kubernetes and Cluster API
  objects (\<open>ObjectMeta\<close>, \<open>Cluster\<close>, \<open>Machine\<close>, \<open>Secret\<close>, \<open>ConfigMap\<close>,
  \<open>Condition\<close>) that the provider reads or writes. Byte slices are strings; a nil slice and an
  empty one are both \<open>[]\<close>, as the sources only ever ask for their length.
\<close>

section \<open>Kubernetes and Cluster API objects\<close>

record NamespacedName =
  nn_Namespace :: string
  nn_Name :: string

definition show_NamespacedName :: "NamespacedName \<Rightarrow> string" where
  "show_NamespacedName k = nn_Namespace k @ ''/'' @ nn_Name k"

record ObjectMeta =
  om_Name :: string
  om_Namespace :: string
  om_UID :: string
  om_Generation :: int
  om_Finalizers :: "string list"
  om_Labels :: "string gomap"
  om_Annotations :: "string gomap"
  om_DeletionTimestamp :: "int option"

datatype ConditionStatus = ConditionTrue | ConditionFalse | ConditionUnknown

record Condition =
  cond_Type :: string
  cond_Status :: ConditionStatus
  cond_ObservedGeneration :: int
  cond_LastTransitionTime :: int
  cond_Reason :: string
  cond_Message :: string

record ContractVersionedObjectReference =
  ref_APIGroup :: string
  ref_Kind :: string
  ref_Name :: string

record MachineAddress =
  ma_Type :: string
  ma_Address :: string

record FailureDomain =
  fd_Name :: string
  fd_ControlPlane :: "bool option"
  fd_Attributes :: "string gomap"

record APIEndpoint =
  ep_Host :: string
  ep_Port :: int

definition empty_APIEndpoint :: APIEndpoint where
  "empty_APIEndpoint = \<lparr>ep_Host = [], ep_Port = 0\<rparr>"

record Cluster =
  cl_meta :: ObjectMeta
  cl_Paused :: "bool option"
  cl_InfrastructureRef :: ContractVersionedObjectReference

record Machine =
  mc_meta :: ObjectMeta
  mc_ClusterName :: string
  mc_DataSecretName :: "string option"
  mc_FailureDomain :: string
  mc_InfrastructureRef :: ContractVersionedObjectReference
  mc_Addresses :: "MachineAddress list"

record Secret =
  sec_Namespace :: string
  sec_Name :: string
  sec_Data :: "string gomap"

record ConfigMap =
  cm_Namespace :: string
  cm_Name :: string
  cm_Data :: "string gomap"

record Result =
  RequeueAfter :: int

definition no_requeue :: Result where
  "no_requeue = \<lparr>RequeueAfter = 0\<rparr>"

definition requeue_after :: "int \<Rightarrow> Result" where
  "requeue_after d = \<lparr>RequeueAfter = d\<rparr>"

definition Result_IsZero :: "Result \<Rightarrow> bool" where
  "Result_IsZero r \<longleftrightarrow> r = no_requeue"

definition second :: int where
  \<comment> \<open>\<open>time.Second\<close>, in nanoseconds\<close>
  "second = 1000000000"

definition minute :: int where
  "minute = 60 * second"

text \<open>What a reconcile function returns: \<open>(ctrl.Result, error)\<close>.\<close>

type_synonym outcome = "Result \<times> go_error option"

section \<open>StackitMachine\<close>

definition MachineFinalizer :: string where
  "MachineFinalizer = ''stackitmachine.infrastructure.cluster.x-k8s.io''"

record StackitRootVolumeSpec =
  rvs_SizeGiB :: int
  rvs_PerformanceClass :: string
  rvs_DeleteOnTermination :: "bool option"

record StackitMachineSpec =
  sms_ProviderID :: "string option"
  sms_ImageID :: string
  sms_MachineType :: string
  sms_AvailabilityZone :: string
  sms_SSHKeyName :: string
  sms_RootVolume :: StackitRootVolumeSpec
  sms_NetworkID :: string
  sms_SecurityGroups :: "string list"
  sms_AdditionalLabels :: "string gomap"

record StackitMachineStatus =
  smst_Ready :: bool
  smst_Provisioned :: bool
  smst_ProviderID :: string
  smst_InstanceID :: string
  smst_InstanceState :: string
  smst_AvailabilityZone :: string
  smst_Addresses :: "MachineAddress list"
  smst_Conditions :: "Condition list"

record StackitMachine =
  sm_meta :: ObjectMeta
  sm_Spec :: StackitMachineSpec
  sm_Status :: StackitMachineStatus

definition MachineReadyCondition :: string where
  "MachineReadyCondition = ''Ready''"
definition MachineBootstrapReadyCondition :: string where
  "MachineBootstrapReadyCondition = ''BootstrapReady''"
definition MachineCredentialsReadyCondition :: string where
  "MachineCredentialsReadyCondition = ''CredentialsReady''"
definition MachineInstanceReadyCondition :: string where
  "MachineInstanceReadyCondition = ''InstanceReady''"

section \<open>StackitCluster\<close>

definition ClusterFinalizer :: string where
  "ClusterFinalizer = ''stackitcluster.infrastructure.cluster.x-k8s.io''"

record SecretReference =
  sr_Name :: string
  sr_Namespace :: string

record StackitBastionCloudInitRef =
  cir_Kind :: string
  cir_Name :: string
  cir_Key :: string

record StackitBastionSpec =
  bs_Enabled :: bool
  bs_ImageID :: string
  bs_MachineType :: string
  bs_SSHKeyName :: string
  bs_AllowedCIDRs :: "string list"
  bs_RootVolume :: StackitRootVolumeSpec
  bs_CloudInitRef :: "StackitBastionCloudInitRef option"

record StackitClusterSpec =
  scs_ProjectID :: string
  scs_Region :: string
  scs_CredentialsSecretRef :: SecretReference
  scs_NetworkID :: string
  scs_LoadBalancerEnabled :: bool
  scs_ControlPlaneEndpoint :: APIEndpoint
  scs_Bastion :: StackitBastionSpec
  scs_AdditionalLabels :: "string gomap"

record StackitBastionStatus =
  bst_ServerID :: string
  bst_PublicIPID :: string
  bst_PublicIP :: string
  bst_SecurityGroupID :: string
  bst_CloudInitHash :: string

record StackitNetworkStatus =
  nst_ID :: string
  nst_Managed :: bool

definition empty_BastionStatus :: StackitBastionStatus where
  "empty_BastionStatus = \<lparr>bst_ServerID = [], bst_PublicIPID = [], bst_PublicIP = [],
     bst_SecurityGroupID = [], bst_CloudInitHash = []\<rparr>"

definition empty_NetworkStatus :: StackitNetworkStatus where
  "empty_NetworkStatus = \<lparr>nst_ID = [], nst_Managed = False\<rparr>"

record StackitClusterStatus =
  scst_Ready :: bool
  scst_Provisioned :: bool
  scst_Network :: StackitNetworkStatus
  scst_APIServerEndpoint :: APIEndpoint
  scst_APIServerLoadBalancerID :: string
  scst_Bastion :: StackitBastionStatus
  scst_FailureDomains :: "FailureDomain list"
  scst_Conditions :: "Condition list"

record StackitCluster =
  sc_meta :: ObjectMeta
  sc_Spec :: StackitClusterSpec
  sc_Status :: StackitClusterStatus

definition ClusterReadyCondition :: string where
  "ClusterReadyCondition = ''Ready''"
definition ClusterNetworkReadyCondition :: string where
  "ClusterNetworkReadyCondition = ''NetworkReady''"
definition ClusterLoadBalancerReadyCondition :: string where
  "ClusterLoadBalancerReadyCondition = ''LoadBalancerReady''"
definition ClusterCredentialsReadyCondition :: string where
  "ClusterCredentialsReadyCondition = ''CredentialsReady''"
definition ClusterBastionReadyCondition :: string where
  "ClusterBastionReadyCondition = ''BastionReady''"

lemmas condition_names =
  MachineReadyCondition_def MachineBootstrapReadyCondition_def
  MachineCredentialsReadyCondition_def MachineInstanceReadyCondition_def
  ClusterReadyCondition_def ClusterNetworkReadyCondition_def
  ClusterLoadBalancerReadyCondition_def ClusterCredentialsReadyCondition_def
  ClusterBastionReadyCondition_def

section \<open>Field updates of the mutable objects\<close>

definition map_sc_Status ::
  "(StackitClusterStatus \<Rightarrow> StackitClusterStatus) \<Rightarrow> StackitCluster \<Rightarrow> StackitCluster" where
  "map_sc_Status f o' = o'\<lparr>sc_Status := f (sc_Status o')\<rparr>"

definition map_sm_Status ::
  "(StackitMachineStatus \<Rightarrow> StackitMachineStatus) \<Rightarrow> StackitMachine \<Rightarrow> StackitMachine" where
  "map_sm_Status f o' = o'\<lparr>sm_Status := f (sm_Status o')\<rparr>"

lemma map_sc_Status_sel [simp]:
  "sc_Status (map_sc_Status f o') = f (sc_Status o')"
  "sc_Spec (map_sc_Status f o') = sc_Spec o'"
  "sc_meta (map_sc_Status f o') = sc_meta o'"
  by (simp_all add: map_sc_Status_def)

lemma map_sm_Status_sel [simp]:
  "sm_Status (map_sm_Status f o') = f (sm_Status o')"
  "sm_Spec (map_sm_Status f o') = sm_Spec o'"
  "sm_meta (map_sm_Status f o') = sm_meta o'"
  by (simp_all add: map_sm_Status_def)

end
