(* ===== verification/K8s_Lib.thy ===== *)
theory K8s_Lib
  imports Api_Types
begin

text \<open>
  The pure functions of the Kubernetes libraries that the controllers call
  (\<open>meta.SetStatusCondition\<close>, \<open>meta.FindStatusCondition\<close>,
  \<open>meta.IsStatusConditionTrue\<close>, \<open>controllerutil.ContainsFinalizer\<close>,
  \<open>controllerutil.AddFinalizer\<close>, \<open>controllerutil.RemoveFinalizer\<close>,
  \<open>annotations.HasPaused\<close>) are not part of this repository: they are the fields of a record
  \<open>lib\<close> that the model takes as an argument, and the locale \<open>k8s_lib\<close> states their documented
  behaviour. \<open>util/conditions.go\<close> contains a second implementation of the condition list,
  \<open>SetCondition\<close>; it satisfies the same contract (\<open>condition_store\<close>), which the
  interpretation below proves.
\<close>

section \<open>SetCondition of util/conditions.go\<close>

fun setConditionLoop ::
  "int \<Rightarrow> Condition list \<Rightarrow> string \<Rightarrow> ConditionStatus \<Rightarrow> string \<Rightarrow> string \<Rightarrow> int \<Rightarrow> Condition list" where
  "setConditionLoop now [] condType status reason message generation =
     [\<lparr>cond_Type = condType, cond_Status = status, cond_ObservedGeneration = generation,
       cond_LastTransitionTime = now, cond_Reason = reason, cond_Message = message\<rparr>]"
| "setConditionLoop now (c # cs) condType status reason message generation =
     (if cond_Type c \<noteq> condType
      then c # setConditionLoop now cs condType status reason message generation
      else if cond_Status c = status \<and> cond_Reason c = reason \<and> cond_Message c = message \<and>
              cond_ObservedGeneration c = generation
      then c # cs
      else c\<lparr>cond_Status := status, cond_Reason := reason, cond_Message := message,
             cond_ObservedGeneration := generation,
             cond_LastTransitionTime :=
               (if cond_Status c \<noteq> status then now else cond_LastTransitionTime c)\<rparr> # cs)"

definition SetCondition ::
  "int \<Rightarrow> Condition list \<Rightarrow> string \<Rightarrow> ConditionStatus \<Rightarrow> string \<Rightarrow> string \<Rightarrow> int list \<Rightarrow> Condition list" where
  \<comment> \<open>\<open>now\<close> is the clock; \<open>observedGeneration\<close> is the variadic argument\<close>
  "SetCondition now conditions condType status reason message observedGeneration =
     (let generation = (case observedGeneration of [] \<Rightarrow> 0 | g # _ \<Rightarrow> g)
      in setConditionLoop now conditions condType status reason message generation)"

definition find_condition :: "Condition list \<Rightarrow> string \<Rightarrow> Condition option" where
  "find_condition cs t = find (\<lambda>c. cond_Type c = t) cs"

section \<open>The contract of a condition list\<close>

locale condition_store =
  fixes setc :: "Condition list \<Rightarrow> Condition \<Rightarrow> Condition list"
    and findc :: "Condition list \<Rightarrow> string \<Rightarrow> Condition option"
  assumes find_set_same:
      "\<exists>t. findc (setc cs c) (cond_Type c) = Some (c\<lparr>cond_LastTransitionTime := t\<rparr>)"
    and find_set_other: "t \<noteq> cond_Type c \<Longrightarrow> findc (setc cs c) t = findc cs t"
begin

definition set_all :: "Condition list \<Rightarrow> (string \<Rightarrow> Condition) \<Rightarrow> string list \<Rightarrow> Condition list" where
  "set_all cs mk ts = foldl (\<lambda>acc t. setc acc (mk t)) cs ts"

lemma find_set_all:
  assumes "\<And>t. cond_Type (mk t) = t"
  shows "t \<notin> set ts \<Longrightarrow> findc (set_all cs mk ts) t = findc cs t"
    and "t \<in> set ts \<Longrightarrow>
           \<exists>l. findc (set_all cs mk ts) t = Some ((mk t)\<lparr>cond_LastTransitionTime := l\<rparr>)"
proof (induction ts arbitrary: cs rule: rev_induct)
  case (snoc u us)
  {
    case 1
    with snoc.IH(1) assms show ?case
      by (simp add: set_all_def find_set_other)
  next
    case 2
    show ?case
    proof (cases "t = u")
      case True
      with find_set_same [of _ "mk u"] assms show ?thesis by (simp add: set_all_def)
    next
      case False
      with 2 snoc.IH(2) assms show ?thesis by (simp add: set_all_def find_set_other)
    qed
  }
qed (simp_all add: set_all_def)

end

lemma find_setConditionLoop_same:
  "\<exists>t. find_condition (setConditionLoop now cs ct st rs msg gen) ct =
       Some \<lparr>cond_Type = ct, cond_Status = st, cond_ObservedGeneration = gen,
             cond_LastTransitionTime = t, cond_Reason = rs, cond_Message = msg\<rparr>"
proof (induction cs)
  case (Cons a cs)
  then show ?case by (cases a) (auto simp: find_condition_def)
qed (simp add: find_condition_def)

lemma find_setConditionLoop_other:
  "t \<noteq> ct \<Longrightarrow>
   find_condition (setConditionLoop now cs ct st rs msg gen) t = find_condition cs t"
  by (induction cs) (auto simp: find_condition_def)

definition util_setc :: "int \<Rightarrow> Condition list \<Rightarrow> Condition \<Rightarrow> Condition list" where
  "util_setc now cs c =
     SetCondition now cs (cond_Type c) (cond_Status c) (cond_Reason c) (cond_Message c)
       [cond_ObservedGeneration c]"

interpretation util_store: condition_store "util_setc now" find_condition for now
proof unfold_locales
  fix cs :: "Condition list" and c :: Condition and t :: string
  show "\<exists>t. find_condition (util_setc now cs c) (cond_Type c) =
          Some (c\<lparr>cond_LastTransitionTime := t\<rparr>)"
    using find_setConditionLoop_same [of now cs "cond_Type c" "cond_Status c" "cond_Reason c"
        "cond_Message c" "cond_ObservedGeneration c"]
    by (cases c) (simp add: util_setc_def SetCondition_def)
  show "t \<noteq> cond_Type c \<Longrightarrow> find_condition (util_setc now cs c) t = find_condition cs t"
    by (simp add: util_setc_def SetCondition_def find_setConditionLoop_other)
qed

section \<open>The library record and its contract\<close>

record lib =
  SetStatusCondition :: "Condition list \<Rightarrow> Condition \<Rightarrow> Condition list"
  FindStatusCondition :: "Condition list \<Rightarrow> string \<Rightarrow> Condition option"
  IsStatusConditionTrue :: "Condition list \<Rightarrow> string \<Rightarrow> bool"
  ContainsFinalizer :: "string list \<Rightarrow> string \<Rightarrow> bool"
  AddFinalizer :: "string list \<Rightarrow> string \<Rightarrow> string list"
  RemoveFinalizer :: "string list \<Rightarrow> string \<Rightarrow> string list"
  HasPaused :: "ObjectMeta \<Rightarrow> bool"

locale k8s_lib =
  fixes L :: lib
  assumes find_same:
      "\<exists>t. FindStatusCondition L (SetStatusCondition L cs c) (cond_Type c) =
           Some (c\<lparr>cond_LastTransitionTime := t\<rparr>)"
    and find_other:
      "t \<noteq> cond_Type c \<Longrightarrow>
       FindStatusCondition L (SetStatusCondition L cs c) t = FindStatusCondition L cs t"
    and is_true_iff:
      "IsStatusConditionTrue L cs t \<longleftrightarrow>
       (\<exists>c. FindStatusCondition L cs t = Some c \<and> cond_Status c = ConditionTrue)"
    and contains_add: "ContainsFinalizer L (AddFinalizer L fs f) g \<longleftrightarrow>
       g = f \<or> ContainsFinalizer L fs g"
    and contains_remove: "ContainsFinalizer L (RemoveFinalizer L fs f) g \<longleftrightarrow>
       g \<noteq> f \<and> ContainsFinalizer L fs g"

sublocale k8s_lib \<subseteq> store: condition_store "SetStatusCondition L" "FindStatusCondition L"
  by unfold_locales (rule find_same, erule find_other)

text \<open>The contract is satisfiable: the provider's own condition list with finalizers as lists.\<close>

definition std_lib :: "int \<Rightarrow> lib" where
  "std_lib now =
     \<lparr>SetStatusCondition = util_setc now,
      FindStatusCondition = find_condition,
      IsStatusConditionTrue = (\<lambda>cs t. case find_condition cs t of
         None \<Rightarrow> False | Some c \<Rightarrow> cond_Status c = ConditionTrue),
      ContainsFinalizer = (\<lambda>fs f. List.member fs f),
      AddFinalizer = (\<lambda>fs f. if List.member fs f then fs else fs @ [f]),
      RemoveFinalizer = (\<lambda>fs f. filter (\<lambda>g. g \<noteq> f) fs),
      HasPaused = (\<lambda>m. map_of (om_Annotations m) ''cluster.x-k8s.io/paused'' \<noteq> None)\<rparr>"

interpretation std: k8s_lib "std_lib now" for now
  by unfold_locales
    (auto simp: std_lib_def split: option.splits
      intro: util_store.find_set_same util_store.find_set_other)

end
