(* ===== verification/Tags.thy ===== *)
theory Tags
  imports Cloud_Types
begin

text \<open>
  \<open>util/tags.go\<close>: the tags by which the provider finds its cloud resources again, and the
  matching of a resource's tags against a selector (\<open>mapContains\<close>, which
  \<open>cloud/fake/client.go\<close> and \<open>cloud/sdk_client.go\<close> both define with the same body).
  The lemmas say which tags a resource of the provider carries and that a machine selector
  identifies one machine.
\<close>

definition LabelClusterName :: string where
  "LabelClusterName = ''cluster.x-k8s.io/cluster-name''"
definition LabelClusterNamespace :: string where
  "LabelClusterNamespace = ''cluster.x-k8s.io/cluster-namespace''"
definition LabelMachineName :: string where
  "LabelMachineName = ''cluster.x-k8s.io/machine-name''"
definition LabelMachineUID :: string where
  "LabelMachineUID = ''cluster.x-k8s.io/machine-uid''"
definition LabelManagedBy :: string where
  "LabelManagedBy = ''cluster.x-k8s.io/managed-by''"
definition LabelResourceRole :: string where
  "LabelResourceRole = ''cluster-api-provider-stackit/resource-role''"
definition LabelE2E :: string where
  "LabelE2E = ''cluster-api-provider-stackit/e2e''"
definition LabelTestID :: string where
  "LabelTestID = ''cluster-api-provider-stackit/test-id''"
definition ManagedByValue :: string where
  "ManagedByValue = ''cluster-api-provider-stackit''"
definition ResourceRoleBastion :: string where
  "ResourceRoleBastion = ''bastion''"
definition ResourceRoleNodeSSH :: string where
  "ResourceRoleNodeSSH = ''node-ssh''"
definition E2EValue :: string where
  "E2EValue = ''true''"

lemmas label_defs =
  LabelClusterName_def LabelClusterNamespace_def LabelMachineName_def LabelMachineUID_def
  LabelManagedBy_def LabelResourceRole_def LabelE2E_def LabelTestID_def ManagedByValue_def
  ResourceRoleBastion_def ResourceRoleNodeSSH_def E2EValue_def

text \<open>The loop that both tag functions share: labels that are already set are skipped.\<close>

fun mergeLabels :: "string gomap \<Rightarrow> string gomap \<Rightarrow> string gomap" where
  "mergeLabels out [] = out"
| "mergeLabels out ((k, v) # rest) =
     (if map_of out k \<noteq> None then mergeLabels out rest
      else mergeLabels (AList.update k v out) rest)"

definition ClusterTags :: "string \<Rightarrow> string \<Rightarrow> string gomap \<Rightarrow> string gomap" where
  "ClusterTags clusterName clusterNamespace additionalLabels =
     mergeLabels
       [(LabelClusterName, clusterName),
        (LabelClusterNamespace, clusterNamespace),
        (LabelManagedBy, ManagedByValue)] additionalLabels"

definition MachineTags ::
  "string \<Rightarrow> string \<Rightarrow> string \<Rightarrow> string \<Rightarrow> string gomap \<Rightarrow> string gomap" where
  "MachineTags clusterName clusterNamespace machineName machineUID additionalLabels =
     mergeLabels
       [(LabelClusterName, clusterName),
        (LabelClusterNamespace, clusterNamespace),
        (LabelMachineName, machineName),
        (LabelMachineUID, machineUID),
        (LabelManagedBy, ManagedByValue)] additionalLabels"

definition mapContains :: "string gomap \<Rightarrow> string gomap \<Rightarrow> bool" where
  "mapContains haystack needle \<longleftrightarrow> list_all (\<lambda>(k, v). lookup_or [] haystack k = v) needle"

section \<open>Merging labels\<close>

lemma map_of_mergeLabels:
  "map_of (mergeLabels out ls) k = (case map_of out k of Some v \<Rightarrow> Some v | None \<Rightarrow> map_of ls k)"
  by (induction out ls rule: mergeLabels.induct) (auto split: option.splits)

lemma mergeLabels_neq_Nil: "out \<noteq> [] \<Longrightarrow> mergeLabels out ls \<noteq> []"
  by (induction out ls rule: mergeLabels.induct) auto

lemma distinct_mergeLabels:
  "distinct (map fst out) \<Longrightarrow> distinct (map fst (mergeLabels out ls))"
  by (induction out ls rule: mergeLabels.induct) (auto simp: distinct_update)

lemma ClusterTags_neq_Nil [simp]: "ClusterTags n ns ls \<noteq> []"
  by (simp add: ClusterTags_def mergeLabels_neq_Nil)

lemma MachineTags_neq_Nil [simp]: "MachineTags c ns m u ls \<noteq> []"
  by (simp add: MachineTags_def mergeLabels_neq_Nil)

lemma distinct_ClusterTags: "distinct (map fst (ClusterTags n ns ls))"
  unfolding ClusterTags_def by (rule distinct_mergeLabels) (simp add: label_defs)

lemma distinct_MachineTags: "distinct (map fst (MachineTags c ns m u ls))"
  unfolding MachineTags_def by (rule distinct_mergeLabels) (simp add: label_defs)

lemma map_of_ClusterTags:
  "map_of (ClusterTags n ns ls) k =
     (if k = LabelClusterName then Some n
      else if k = LabelClusterNamespace then Some ns
      else if k = LabelManagedBy then Some ManagedByValue
      else map_of ls k)"
  by (simp add: ClusterTags_def map_of_mergeLabels label_defs)

lemma map_of_MachineTags:
  "map_of (MachineTags c ns m u ls) k =
     (if k = LabelClusterName then Some c
      else if k = LabelClusterNamespace then Some ns
      else if k = LabelMachineName then Some m
      else if k = LabelMachineUID then Some u
      else if k = LabelManagedBy then Some ManagedByValue
      else map_of ls k)"
  by (simp add: MachineTags_def map_of_mergeLabels label_defs)

section \<open>Matching\<close>

lemma mapContains_Nil [simp]: "mapContains h []"
  by (simp add: mapContains_def)

lemma mapContains_Cons [simp]:
  "mapContains h ((k, v) # n) \<longleftrightarrow> lookup_or [] h k = v \<and> mapContains h n"
  by (simp add: mapContains_def)

lemma mapContains_iff:
  "distinct (map fst n) \<Longrightarrow>
   mapContains h n \<longleftrightarrow> (\<forall>k v. map_of n k = Some v \<longrightarrow> lookup_or [] h k = v)"
  by (auto simp: mapContains_def list_all_iff)

lemma mapContains_cong:
  "map_of h = map_of h' \<Longrightarrow> mapContains h n \<longleftrightarrow> mapContains h' n"
  by (simp add: mapContains_def lookup_or_def)

lemma mapContains_lookup:
  "distinct (map fst n) \<Longrightarrow> mapContains h n \<Longrightarrow> map_of n k = Some v \<Longrightarrow> lookup_or [] h k = v"
  by (simp add: mapContains_iff)

lemma mapContains_refl: "distinct (map fst n) \<Longrightarrow> mapContains n n"
  by (simp add: mapContains_iff lookup_or_def)

lemma mapContains_trans:
  assumes "distinct (map fst b)" "distinct (map fst c)" "mapContains a b" "mapContains b c"
    and "\<And>k v. map_of c k = Some v \<Longrightarrow> map_of b k \<noteq> None"
  shows "mapContains a c"
proof -
  have "lookup_or [] a k = v" if k: "map_of c k = Some v" for k v
  proof -
    obtain w where w: "map_of b k = Some w" using assms(5) [OF k] by auto
    then have "lookup_or [] a k = w" using assms(1,3) by (simp add: mapContains_lookup)
    moreover have "lookup_or [] b k = v" using assms(2,4) k by (simp add: mapContains_lookup)
    ultimately show ?thesis using w by (simp add: lookup_or_def)
  qed
  with assms(2) show ?thesis by (simp add: mapContains_iff)
qed

lemma mapContains_MachineTagsD:
  assumes "mapContains (MachineTags c ns m u ls) (MachineTags c' ns' m' u' ls')"
  shows "c = c' \<and> ns = ns' \<and> m = m' \<and> u = u'"
proof -
  let ?h = "MachineTags c ns m u ls"
  have l: "lookup_or [] ?h k = v" if "map_of (MachineTags c' ns' m' u' ls') k = Some v" for k v
    using mapContains_lookup [OF distinct_MachineTags assms that] .
  show ?thesis
    using l [of LabelClusterName c'] l [of LabelClusterNamespace ns']
      l [of LabelMachineName m'] l [of LabelMachineUID u']
    by (simp add: map_of_MachineTags lookup_or_def label_defs)
qed

text \<open>
  The selector of a machine identifies that machine. If the tags of one machine's server
  match the selector of another machine, both have the same cluster, namespace, name and UID,
  whatever labels the users added to either: \<open>additionalLabels\<close> can neither overwrite nor
  forge the provider's own tags.
\<close>

theorem MachineTags_identify:
  assumes "mapContains (MachineTags c ns m u ls) (MachineTags c' ns' m' u' ls')"
  shows "c = c' \<and> ns = ns' \<and> m = m' \<and> u = u'"
  using assms by (rule mapContains_MachineTagsD)

theorem MachineTags_identify_witness:
  "mapContains (MachineTags ''c'' ''ns'' ''m'' ''u'' [(''team'', ''x''), (LabelMachineUID, ''v'')])
               (MachineTags ''c'' ''ns'' ''m'' ''u'' []) \<and> ''u'' = ''u''"
proof -
  have h: "mapContains
      (MachineTags ''c'' ''ns'' ''m'' ''u'' [(''team'', ''x''), (LabelMachineUID, ''v'')])
      (MachineTags ''c'' ''ns'' ''m'' ''u'' [])"
    by (simp add: MachineTags_def label_defs)
  from MachineTags_identify [OF h] h show ?thesis by simp
qed

text \<open>
  The tags of a cluster-wide resource are the three reserved ones together with exactly the
  user's labels under other keys; in particular no label of the user changes a reserved tag.
\<close>

theorem ClusterTags_spec:
  "map_of (ClusterTags n ns ls) =
     (map_of ls)(LabelClusterName \<mapsto> n, LabelClusterNamespace \<mapsto> ns,
                 LabelManagedBy \<mapsto> ManagedByValue)"
  by (rule ext) (simp add: map_of_ClusterTags label_defs)

end
