(* ===== verification/Util.thy ===== *)
theory Util
  imports K8s_Lib Tags
begin

text \<open>
  The package \<open>util\<close>: conditions and the outcome of a failed pass
  (\<open>util/conditions.go\<close>), credentials (\<open>util/credentials.go\<close>), bootstrap data
  (\<open>util/bootstrap.go\<close>), pausing and the construction of a cloud client
  (\<open>util/reconcile.go\<close>). The Kubernetes API client is a parameter, the record \<open>Kube\<close>.
\<close>

section \<open>The Kubernetes API client\<close>

datatype MachineFilter = ControlPlaneMachines string | ActiveMachines

record 'k Kube =
  kube_GetStackitCluster :: "NamespacedName \<Rightarrow> ('k, StackitCluster) call"
  kube_GetStackitMachine :: "NamespacedName \<Rightarrow> ('k, StackitMachine) call"
  kube_GetSecret :: "NamespacedName \<Rightarrow> ('k, Secret) call"
  kube_GetConfigMap :: "NamespacedName \<Rightarrow> ('k, ConfigMap) call"
  kube_GetOwnerCluster :: "ObjectMeta \<Rightarrow> ('k, Cluster option) call"
  kube_GetOwnerMachine :: "ObjectMeta \<Rightarrow> ('k, Machine option) call"
  kube_GetClusterFromMetadata :: "ObjectMeta \<Rightarrow> ('k, Cluster option) call"
  kube_GetFilteredMachinesForCluster ::
    "Cluster \<Rightarrow> MachineFilter list \<Rightarrow> ('k, Machine list) call"
  kube_ListStackitClusters :: "string \<Rightarrow> ('k, StackitCluster list) call"
  kube_ListMachines :: "string \<Rightarrow> ('k, Machine list) call"
  kube_NewHelperStackitCluster :: "StackitCluster \<Rightarrow> ('k, unit) call"
  kube_NewHelperStackitMachine :: "StackitMachine \<Rightarrow> ('k, unit) call"
  kube_PatchStackitCluster :: "StackitCluster \<Rightarrow> ('k, unit) call"
  kube_PatchStackitMachine :: "StackitMachine \<Rightarrow> ('k, unit) call"

definition apierrors_IsNotFound :: "go_error \<Rightarrow> bool" where
  "apierrors_IsNotFound err = errors_Is err StatusReasonNotFound"

definition wrap_error :: "string \<Rightarrow> go_error \<Rightarrow> go_error" where
  \<comment> \<open>\<open>fmt.Errorf("prefix: %w", err)\<close>\<close>
  "wrap_error prefix err = mk_error (err_chain err) (prefix @ '': '' @ err_text err)"

lemma errors_Is_wrap_error [simp]: "errors_Is (wrap_error p err) t = errors_Is err t"
  by (simp add: wrap_error_def errors_Is_def)

lemma apierrors_IsNotFound_wrap [simp]:
  "apierrors_IsNotFound (wrap_error p err) = apierrors_IsNotFound err"
  by (simp add: apierrors_IsNotFound_def)

section \<open>Conditions\<close>

definition SetConditions ::
  "lib \<Rightarrow> Condition list \<Rightarrow> int \<Rightarrow> ConditionStatus \<Rightarrow> string \<Rightarrow> string \<Rightarrow> string list \<Rightarrow> Condition list" where
  "SetConditions L conditions generation status reason message conditionTypes =
     foldl (\<lambda>cs conditionType.
        SetStatusCondition L cs
          \<lparr>cond_Type = conditionType, cond_Status = status,
           cond_ObservedGeneration = generation, cond_LastTransitionTime = 0,
           cond_Reason = reason, cond_Message = message\<rparr>)
       conditions conditionTypes"

definition CredentialFailureResult ::
  "lib \<Rightarrow> Condition list \<Rightarrow> int \<Rightarrow> go_error \<Rightarrow> int \<Rightarrow> string list \<Rightarrow> Condition list \<times> outcome" where
  "CredentialFailureResult L conditions generation err requeueAfter conditionTypes =
     (SetConditions L conditions generation ConditionFalse ''CredentialsInvalid'' (err_text err)
        conditionTypes,
      if IsUnauthorized err \<or> IsInvalidInput err \<or> errors_Is err ErrCredentialsInvalid
      then (requeue_after requeueAfter, None)
      else (no_requeue, Some err))"

definition CloudFailureResult ::
  "lib \<Rightarrow> Condition list \<Rightarrow> int \<Rightarrow> string \<Rightarrow> go_error \<Rightarrow> int \<Rightarrow> bool \<Rightarrow> string list
     \<Rightarrow> Condition list \<times> outcome" where
  "CloudFailureResult L conditions generation reason err requeueAfter returnError conditionTypes =
     (SetConditions L conditions generation ConditionFalse reason (err_text err) conditionTypes,
      if IsRetryable err then (requeue_after requeueAfter, None)
      else if returnError then (no_requeue, Some err)
      else (no_requeue, None))"

context k8s_lib
begin

lemma find_SetConditions_other:
  "t \<notin> set ts \<Longrightarrow>
   FindStatusCondition L (SetConditions L cs gen st rs msg ts) t = FindStatusCondition L cs t"
  using store.find_set_all(1)
    [of "\<lambda>t. \<lparr>cond_Type = t, cond_Status = st, cond_ObservedGeneration = gen,
      cond_LastTransitionTime = 0, cond_Reason = rs, cond_Message = msg\<rparr>" t ts cs]
  by (simp add: SetConditions_def store.set_all_def)

lemma find_SetConditions_in:
  assumes "t \<in> set ts"
  obtains l where
    "FindStatusCondition L (SetConditions L cs gen st rs msg ts) t =
       Some \<lparr>cond_Type = t, cond_Status = st, cond_ObservedGeneration = gen,
             cond_LastTransitionTime = l, cond_Reason = rs, cond_Message = msg\<rparr>"
  using store.find_set_all(2)
    [of "\<lambda>t. \<lparr>cond_Type = t, cond_Status = st, cond_ObservedGeneration = gen,
      cond_LastTransitionTime = 0, cond_Reason = rs, cond_Message = msg\<rparr>" t ts cs] assms
  by (auto simp: SetConditions_def store.set_all_def)

lemma is_true_SetConditions:
  "IsStatusConditionTrue L (SetConditions L cs gen st rs msg ts) t \<longleftrightarrow>
     (if t \<in> set ts then st = ConditionTrue else IsStatusConditionTrue L cs t)"
proof (cases "t \<in> set ts")
  case True
  then obtain l where "FindStatusCondition L (SetConditions L cs gen st rs msg ts) t =
       Some \<lparr>cond_Type = t, cond_Status = st, cond_ObservedGeneration = gen,
             cond_LastTransitionTime = l, cond_Reason = rs, cond_Message = msg\<rparr>"
    by (rule find_SetConditions_in)
  with True show ?thesis by (simp add: is_true_iff)
qed (simp add: is_true_iff find_SetConditions_other)

end

section \<open>Pausing\<close>

definition ReconciliationPaused :: "lib \<Rightarrow> Cluster option \<Rightarrow> ObjectMeta \<Rightarrow> bool \<times> string" where
  "ReconciliationPaused L cluster m =
     (case cluster of
        None \<Rightarrow>
          if HasPaused L m then (True, ''object has the cluster.x-k8s.io/paused annotation'')
          else (False, [])
      | Some cl \<Rightarrow>
          (let reasons =
             (if cl_Paused cl = Some True then [''Cluster spec.paused is set to true''] else []) @
             (if HasPaused L m then [''object has the cluster.x-k8s.io/paused annotation''] else [])
           in if reasons = [] then (False, []) else (True, JoinStr reasons '', '')))"

definition PausedCondition :: string where
  "PausedCondition = ''Paused''"

definition SetPausedCondition ::
  "lib \<Rightarrow> Condition list \<Rightarrow> int \<Rightarrow> bool \<Rightarrow> string \<Rightarrow> Condition list" where
  "SetPausedCondition L conditions generation paused message =
     (if paused
      then SetConditions L conditions generation ConditionTrue ''Paused'' message [PausedCondition]
      else SetConditions L conditions generation ConditionFalse ''NotPaused'' [] [PausedCondition])"

lemma ReconciliationPaused_iff:
  "fst (ReconciliationPaused L cluster m) \<longleftrightarrow>
     HasPaused L m \<or> (\<exists>cl. cluster = Some cl \<and> cl_Paused cl = Some True)"
  by (auto simp: ReconciliationPaused_def Let_def split: option.splits)

section \<open>Credentials and bootstrap data\<close>

definition credentialsKeyProjectID :: string where
  "credentialsKeyProjectID = ''project-id''"
definition credentialsKeyServiceAcct :: string where
  "credentialsKeyServiceAcct = ''serviceaccount.json''"

definition ParseCredentialsSecret ::
  "Secret \<Rightarrow> string \<Rightarrow> string \<Rightarrow> go_error + Credentials" where
  "ParseCredentialsSecret secret specProjectID region =
     (case map_of (sec_Data secret) credentialsKeyServiceAcct of
        None \<Rightarrow> Inl (mk_error [ErrCredentialsInvalid]
                  (''credentials invalid: missing '' @ quote credentialsKeyServiceAcct @ '' key''))
      | Some sa \<Rightarrow>
          if sa = []
          then Inl (mk_error [ErrCredentialsInvalid]
                  (''credentials invalid: missing '' @ quote credentialsKeyServiceAcct @ '' key''))
          else
            let secretProjectID = lookup_or [] (sec_Data secret) credentialsKeyProjectID in
            if specProjectID \<noteq> [] \<and> secretProjectID \<noteq> [] \<and> specProjectID \<noteq> secretProjectID
            then Inl (mk_error [ErrCredentialsInvalid]
                   (''credentials invalid: spec.projectID '' @ quote specProjectID @
                    '' does not match secret project-id '' @ quote secretProjectID))
            else
              let projectID = (if specProjectID = [] then secretProjectID else specProjectID) in
              if projectID = []
              then Inl (mk_error [ErrCredentialsInvalid]
                     ''credentials invalid: no project ID in spec or secret'')
              else Inr \<lparr>cr_ProjectID = projectID, cr_Region = region,
                        cr_ServiceAccountJSON = sa\<rparr>)"

definition BootstrapReasonInvalid :: string where
  "BootstrapReasonInvalid = ''BootstrapDataInvalid''"

definition bootstrapDataInvalid :: go_error where
  "bootstrapDataInvalid = mk_error [ErrBootstrapDataInvalid]
     (''bootstrap data invalid: secret has no '' @ quote ''value'' @ '' or '' @
      quote ''userData'' @ '' key'')"

definition ExtractBootstrapData :: "Secret \<Rightarrow> go_error + string" where
  "ExtractBootstrapData secret =
     (case map_of (sec_Data secret) ''value'' of
        Some (x # xs) \<Rightarrow> Inr (x # xs)
      | _ \<Rightarrow>
        (case map_of (sec_Data secret) ''userData'' of
           Some (x # xs) \<Rightarrow> Inr (x # xs)
         | _ \<Rightarrow> Inl bootstrapDataInvalid))"

definition CredentialsSecretKey :: "StackitCluster \<Rightarrow> NamespacedName" where
  "CredentialsSecretKey stackitCluster =
     (let namespace = sr_Namespace (scs_CredentialsSecretRef (sc_Spec stackitCluster)) in
      \<lparr>nn_Namespace =
         (if namespace = [] then om_Namespace (sc_meta stackitCluster) else namespace),
       nn_Name = sr_Name (scs_CredentialsSecretRef (sc_Spec stackitCluster))\<rparr>)"

definition BuildCloudClient ::
  "'k Kube \<Rightarrow> 'c Factory option \<Rightarrow> StackitCluster \<Rightarrow> ('k, 'c Client) call" where
  "BuildCloudClient k8sClient factory stackitCluster =
     (case factory of
        None \<Rightarrow> fail_with (mk_error [] ''CloudClientFactory is not configured'')
      | Some fac \<Rightarrow>
          do {
            let key = CredentialsSecretKey stackitCluster;
            r \<leftarrow> kube_GetSecret k8sClient key;
            case r of
              Inl err \<Rightarrow>
                fail_with (wrap_error (''get credentials secret '' @ show_NamespacedName key) err)
            | Inr secret \<Rightarrow>
                (case ParseCredentialsSecret secret (scs_ProjectID (sc_Spec stackitCluster))
                        (scs_Region (sc_Spec stackitCluster)) of
                   Inl err \<Rightarrow> fail_with err
                 | Inr creds \<Rightarrow> ret (fac creds))
          })"

text \<open>
  What a credentials Secret is accepted for. Parsing succeeds exactly when the
  service-account document is there and non-empty, a project ID comes from the spec or from the
  Secret, and the two do not contradict each other; the credentials then carry the spec's project
  ID if there is one and the Secret's otherwise. Every rejection is classified as invalid
  credentials, the class on which a reconcile pass is retried slowly.
\<close>

theorem ParseCredentialsSecret_spec:
  "(ParseCredentialsSecret secret p region = Inr creds \<longleftrightarrow>
      (let sp = lookup_or [] (sec_Data secret) credentialsKeyProjectID;
           sa = lookup_or [] (sec_Data secret) credentialsKeyServiceAcct
       in sa \<noteq> [] \<and> (p \<noteq> [] \<or> sp \<noteq> []) \<and> (p = [] \<or> sp = [] \<or> p = sp) \<and>
          creds = \<lparr>cr_ProjectID = (if p = [] then sp else p), cr_Region = region,
                   cr_ServiceAccountJSON = sa\<rparr>)) \<and>
   (\<forall>err. ParseCredentialsSecret secret p region = Inl err \<longrightarrow> errors_Is err ErrCredentialsInvalid)"
  by (auto simp: ParseCredentialsSecret_def Let_def lookup_or_def split: option.splits)

theorem ParseCredentialsSecret_spec_witness:
  "\<exists>err. ParseCredentialsSecret \<lparr>sec_Namespace = ''ns'', sec_Name = ''s'', sec_Data = []\<rparr> ''p'' ''eu01'' =
       Inl err \<and> errors_Is err ErrCredentialsInvalid"
proof -
  let ?p = "ParseCredentialsSecret \<lparr>sec_Namespace = ''ns'', sec_Name = ''s'', sec_Data = []\<rparr> ''p'' ''eu01''"
  obtain err where "?p = Inl err" by (simp add: ParseCredentialsSecret_def)
  with ParseCredentialsSecret_spec
    [of "\<lparr>sec_Namespace = ''ns'', sec_Name = ''s'', sec_Data = []\<rparr>" "''p''" "''eu01''"]
  show ?thesis by blast
qed

text \<open>
  Bootstrap data comes from the key \<open>value\<close> if that holds a non-empty document, from
  \<open>userData\<close> if only that does, and is an error otherwise: a server is never created with empty
  user data.
\<close>

theorem ExtractBootstrapData_spec:
  "ExtractBootstrapData secret =
     (let v = lookup_or [] (sec_Data secret) ''value'';
          u = lookup_or [] (sec_Data secret) ''userData''
      in if v \<noteq> [] then Inr v else if u \<noteq> [] then Inr u else Inl bootstrapDataInvalid)"
  by (simp add: ExtractBootstrapData_def lookup_or_def Let_def split: option.splits list.splits)

end
