(* ===== verification/Reconcile_State.thy ===== *)
theory Reconcile_State
  imports Util "HOL-Library.Word"
begin

text \<open>
  The state of one reconcile pass: the cloud behind the cloud client, the Kubernetes API server
  behind the Kubernetes client, the API object that the pass mutates through a pointer, and the
  sequence of effects the pass has caused so far (patches of the object, calls of the cloud
  client, recorded Kubernetes events). Log lines are not modelled.

  \<open>emits P m\<close> says that the computation \<open>m\<close> only appends effects, and only such that
  satisfy \<open>P\<close>; its rules follow the structure of the program.
\<close>

datatype 'o effect =
    Patch 'o bool \<comment> \<open>the object as sent, and whether the API server took it\<close>
  | Cloud cloud_op
  | Event string string string \<comment> \<open>type, reason, message\<close>

record ('c, 'k, 'o) rstate =
  cloud :: 'c
  kube :: 'k
  obj :: 'o
  effects :: "'o effect list"

definition cloudCall ::
  "cloud_op \<Rightarrow> ('c, 'a) call \<Rightarrow> (('c, 'k, 'o) rstate, 'a) call" where
  "cloudCall op m = State (\<lambda>s. case run_state m (cloud s) of
     (r, c') \<Rightarrow> (r, s\<lparr>cloud := c', effects := effects s @ [Cloud op]\<rparr>))"

definition kubeCall :: "('k, 'a) call \<Rightarrow> (('c, 'k, 'o) rstate, 'a) call" where
  "kubeCall m = State (\<lambda>s. case run_state m (kube s) of (r, k') \<Rightarrow> (r, s\<lparr>kube := k'\<rparr>))"

definition kubeState :: "('k, 'a) state \<Rightarrow> (('c, 'k, 'o) rstate, 'a) state" where
  \<comment> \<open>a function of the Kubernetes client that does not return an error\<close>
  "kubeState m = State (\<lambda>s. case run_state m (kube s) of (a, k') \<Rightarrow> (a, s\<lparr>kube := k'\<rparr>))"

definition patchCall :: "('o \<Rightarrow> ('k, unit) call) \<Rightarrow> (('c, 'k, 'o) rstate, unit) call" where
  "patchCall patch = State (\<lambda>s. case run_state (patch (obj s)) (kube s) of
     (r, k') \<Rightarrow> (r, s\<lparr>kube := k',
                     effects := effects s @ [Patch (obj s) (case r of Inl _ \<Rightarrow> False | Inr _ \<Rightarrow> True)]\<rparr>))"

definition getObj :: "(('c, 'k, 'o) rstate, 'o) state" where
  "getObj = State (\<lambda>s. (obj s, s))"

definition modifyObj :: "('o \<Rightarrow> 'o) \<Rightarrow> (('c, 'k, 'o) rstate, unit) state" where
  "modifyObj f = State (\<lambda>s. ((), s\<lparr>obj := f (obj s)\<rparr>))"

definition recordEvent :: "string \<Rightarrow> string \<Rightarrow> (('c, 'k, 'o) rstate, unit) state" where
  \<comment> \<open>\<open>record.Event\<close> and \<open>record.Eventf\<close>\<close>
  "recordEvent reason message =
     State (\<lambda>s. ((), s\<lparr>effects := effects s @ [Event ''Normal'' reason message]\<rparr>))"

definition recordWarn :: "string \<Rightarrow> string \<Rightarrow> (('c, 'k, 'o) rstate, unit) state" where
  \<comment> \<open>\<open>record.Warn\<close> and \<open>record.Warnf\<close>\<close>
  "recordWarn reason message =
     State (\<lambda>s. ((), s\<lparr>effects := effects s @ [Event ''Warning'' reason message]\<rparr>))"

section \<open>Weakest preconditions of the primitives\<close>

lemma wp_cloudCall [wp_simps]:
  "wp (cloudCall op m) Q s =
     (case run_state m (cloud s) of
        (r, c') \<Rightarrow> Q r (s\<lparr>cloud := c', effects := effects s @ [Cloud op]\<rparr>))"
  by (simp add: cloudCall_def wp_def split: prod.splits)

lemma wp_kubeCall [wp_simps]:
  "wp (kubeCall m) Q s = (case run_state m (kube s) of (r, k') \<Rightarrow> Q r (s\<lparr>kube := k'\<rparr>))"
  by (simp add: kubeCall_def wp_def split: prod.splits)

lemma wp_kubeState [wp_simps]:
  "wp (kubeState m) Q s = (case run_state m (kube s) of (a, k') \<Rightarrow> Q a (s\<lparr>kube := k'\<rparr>))"
  by (simp add: kubeState_def wp_def split: prod.splits)

lemma wp_patchCall [wp_simps]:
  "wp (patchCall patch) Q s =
     (case run_state (patch (obj s)) (kube s) of
        (r, k') \<Rightarrow> Q r (s\<lparr>kube := k',
          effects := effects s @ [Patch (obj s) (case r of Inl _ \<Rightarrow> False | Inr _ \<Rightarrow> True)]\<rparr>))"
  by (simp add: patchCall_def wp_def split: prod.splits)

lemma wp_getObj [wp_simps]: "wp getObj Q s = Q (obj s) s"
  by (simp add: getObj_def wp_def)

lemma wp_modifyObj [wp_simps]: "wp (modifyObj f) Q s = Q () (s\<lparr>obj := f (obj s)\<rparr>)"
  by (simp add: modifyObj_def wp_def)

lemma wp_recordEvent [wp_simps]:
  "wp (recordEvent r m) Q s = Q () (s\<lparr>effects := effects s @ [Event ''Normal'' r m]\<rparr>)"
  by (simp add: recordEvent_def wp_def)

lemma wp_recordWarn [wp_simps]:
  "wp (recordWarn r m) Q s = Q () (s\<lparr>effects := effects s @ [Event ''Warning'' r m]\<rparr>)"
  by (simp add: recordWarn_def wp_def)

section \<open>Effect bounds\<close>

definition emits :: "('o effect \<Rightarrow> bool) \<Rightarrow> (('c, 'k, 'o) rstate, 'a) state \<Rightarrow> bool" where
  "emits P m \<longleftrightarrow>
     (\<forall>s. \<exists>es. effects (snd (run_state m s)) = effects s @ es \<and> list_all P es)"

lemma emitsI:
  "(\<And>s. \<exists>es. effects (snd (run_state m s)) = effects s @ es \<and> list_all P es) \<Longrightarrow> emits P m"
  by (simp add: emits_def)

lemma emitsD:
  assumes "emits P m" and "run_state m s = (a, s')"
  obtains es where "effects s' = effects s @ es" and "list_all P es"
  using assms unfolding emits_def by (metis snd_conv)

lemma emits_mono: "emits P m \<Longrightarrow> (\<And>e. P e \<Longrightarrow> Q e) \<Longrightarrow> emits Q m"
  unfolding emits_def by (metis list.pred_mono_strong)

lemma emits_return [emits_intros]: "emits P (State_Monad.return a)"
  by (simp add: emits_def)

lemma emits_fail_with [emits_intros]: "emits P (fail_with err)"
  by (simp add: emits_def)

lemma emits_ok [emits_intros]: "emits P (ok a)"
  by (simp add: emits_def)

lemma emits_bind [emits_intros]:
  assumes "emits P m" and "\<And>a. emits P (f a)"
  shows "emits P (State_Monad.bind m f)"
proof (rule emitsI)
  fix s
  obtain a s1 where m: "run_state m s = (a, s1)" by fastforce
  obtain b s2 where f: "run_state (f a) s1 = (b, s2)" by fastforce
  from assms(1) m obtain es1 where "effects s1 = effects s @ es1" "list_all P es1"
    by (rule emitsD)
  moreover from assms(2) f obtain es2 where "effects s2 = effects s1 @ es2" "list_all P es2"
    by (rule emitsD)
  ultimately show "\<exists>es. effects (snd (run_state (State_Monad.bind m f) s)) = effects s @ es \<and>
      list_all P es"
    using m f by (intro exI [of _ "es1 @ es2"]) simp
qed

lemma emits_if [emits_intros]:
  "(b \<Longrightarrow> emits P m) \<Longrightarrow> (\<not> b \<Longrightarrow> emits P n) \<Longrightarrow> emits P (if b then m else n)"
  by simp

lemma emits_case_sum [emits_intros]:
  "(\<And>a. x = Inl a \<Longrightarrow> emits P (f a)) \<Longrightarrow> (\<And>b. x = Inr b \<Longrightarrow> emits P (g b)) \<Longrightarrow>
   emits P (case x of Inl a \<Rightarrow> f a | Inr b \<Rightarrow> g b)"
  by (cases x) simp_all

lemma emits_case_option [emits_intros]:
  "(x = None \<Longrightarrow> emits P m) \<Longrightarrow> (\<And>a. x = Some a \<Longrightarrow> emits P (f a)) \<Longrightarrow>
   emits P (case x of None \<Rightarrow> m | Some a \<Rightarrow> f a)"
  by (cases x) simp_all

lemma emits_case_prod [emits_intros]:
  "(\<And>a b. x = (a, b) \<Longrightarrow> emits P (f a b)) \<Longrightarrow> emits P (case x of (a, b) \<Rightarrow> f a b)"
  by (cases x) simp

lemma emits_let [emits_intros]: "emits P (f x) \<Longrightarrow> emits P (Let x f)"
  by (simp add: Let_def)

lemma emits_cloudCall [emits_intros]: "P (Cloud op) \<Longrightarrow> emits P (cloudCall op m)"
  by (auto simp: emits_def cloudCall_def split: prod.splits)

lemma emits_kubeCall [emits_intros]: "emits P (kubeCall m)"
  by (auto simp: emits_def kubeCall_def split: prod.splits)

lemma emits_kubeState [emits_intros]: "emits P (kubeState m)"
  by (auto simp: emits_def kubeState_def split: prod.splits)

lemma emits_patchCall [emits_intros]:
  "(\<And>o' b. P (Patch o' b)) \<Longrightarrow> emits P (patchCall patch)"
  by (auto simp: emits_def patchCall_def split: prod.splits)

lemma emits_getObj [emits_intros]: "emits P getObj"
  by (auto simp: emits_def getObj_def)

lemma emits_modifyObj [emits_intros]: "emits P (modifyObj f)"
  by (auto simp: emits_def modifyObj_def)

lemma emits_recordEvent [emits_intros]:
  "P (Event ''Normal'' r msg) \<Longrightarrow> emits P (recordEvent r msg)"
  by (auto simp: emits_def recordEvent_def)

lemma emits_recordWarn [emits_intros]:
  "P (Event ''Warning'' r msg) \<Longrightarrow> emits P (recordWarn r msg)"
  by (auto simp: emits_def recordWarn_def)

text \<open>
  What a reconciler of the package \<open>controller\<close> is built from: the Kubernetes client, the
  factory of cloud clients, and the library functions it calls.
\<close>

record ('c, 'k) Reconciler =
  r_lib :: lib
  r_sha256 :: "string \<Rightarrow> 8 word list"
  r_Client :: "'k Kube"
  r_CloudClientFactory :: "'c Factory option"

text \<open>Which effects are calls of the cloud.\<close>

fun is_cloud :: "'o effect \<Rightarrow> bool" where
  "is_cloud (Cloud op) = True"
| "is_cloud _ = False"

section \<open>Effects between two states\<close>

definition extends :: "('o effect \<Rightarrow> bool) \<Rightarrow> ('c, 'k, 'o) rstate \<Rightarrow> ('c, 'k, 'o) rstate \<Rightarrow> bool" where
  "extends P s s' \<longleftrightarrow> (\<exists>es. effects s' = effects s @ es \<and> list_all P es)"

fun is_patch :: "'o effect \<Rightarrow> bool" where
  "is_patch (Patch _ _) = True"
| "is_patch _ = False"

lemma extends_trans: "extends P s s1 \<Longrightarrow> extends P s1 s2 \<Longrightarrow> extends P s s2"
  by (auto simp: extends_def)

lemma extends_mono: "extends P s s' \<Longrightarrow> (\<And>e. P e \<Longrightarrow> Q e) \<Longrightarrow> extends Q s s'"
  unfolding extends_def by (metis list.pred_mono_strong)

lemma extends_same [simp]: "effects s' = effects s \<Longrightarrow> extends P s s'"
  by (simp add: extends_def)

lemma extends_record [simp]:
  "extends P s (s'\<lparr>obj := x\<rparr>) = extends P s s'"
  "extends P s (s'\<lparr>kube := k\<rparr>) = extends P s s'"
  "extends P s (s'\<lparr>cloud := c\<rparr>) = extends P s s'"
  "extends P (s\<lparr>obj := x\<rparr>) s' = extends P s s'"
  "extends P (s\<lparr>kube := k\<rparr>) s' = extends P s s'"
  "extends P (s\<lparr>cloud := c\<rparr>) s' = extends P s s'"
  "extends P s (s'\<lparr>effects := effects s @ es\<rparr>) = list_all P es"
  by (simp_all add: extends_def)

lemma emits_extends: "emits P m \<Longrightarrow> wp m (\<lambda>a s'. extends P s s') s"
  by (auto simp: emits_def extends_def wp_def split: prod.splits) (metis snd_conv)

lemma extends_start: "effects s1 = effects s \<Longrightarrow> extends P s1 s' \<Longrightarrow> extends P s s'"
  by (simp add: extends_def)

lemma extends_snoc: "effects s1 = effects s @ [e] \<Longrightarrow> P e \<Longrightarrow> extends P s1 s' \<Longrightarrow> extends P s s'"
  by (auto simp: extends_def)

lemma wp_extends_bind:
  assumes "wp m (\<lambda>a s'. extends P s s') s" and "\<And>a. emits P (f a)"
  shows "wp (State_Monad.bind m f) (\<lambda>a s'. extends P s s') s"
  unfolding wp_bind
  by (rule wp_mono [OF assms(1)]) (rule wp_mono [OF emits_extends [OF assms(2)]], rule extends_trans)

lemma wp_extends_start:
  "wp m (\<lambda>a s'. extends P s1 s') s1 \<Longrightarrow> effects s1 = effects s \<Longrightarrow> wp m (\<lambda>a s'. extends P s s') s1"
  by (erule wp_mono) (rule extends_start)

section \<open>The finalizer monitor\<close>

text \<open>
  A monitor that reads the trace of a pass and keeps one bit, whether the object as stored by the
  API server carries the finalizer; \<open>guarded\<close> says that the bit is set at every cloud call that
  may create a resource.
\<close>

fun creates :: "cloud_op \<Rightarrow> bool" where
  "creates (OpCreateNetwork _) = True"
| "creates (OpCreateServer _) = True"
| "creates (OpEnsureBastion _) = True"
| "creates (OpEnsureNodeSSHAccess _) = True"
| "creates (OpEnsureAPIServerLoadBalancer _) = True"
| "creates _ = False"

fun persisted :: "('o \<Rightarrow> bool) \<Rightarrow> bool \<Rightarrow> 'o effect list \<Rightarrow> bool" where
  "persisted fin b [] = b"
| "persisted fin b (Patch x accepted # es) = persisted fin (if accepted then fin x else b) es"
| "persisted fin b (Cloud op # es) = persisted fin b es"
| "persisted fin b (Event t r m # es) = persisted fin b es"

fun guarded :: "('o \<Rightarrow> bool) \<Rightarrow> bool \<Rightarrow> 'o effect list \<Rightarrow> bool" where
  "guarded fin b [] = True"
| "guarded fin b (Patch x accepted # es) = guarded fin (if accepted then fin x else b) es"
| "guarded fin b (Cloud op # es) = ((creates op \<longrightarrow> b) \<and> guarded fin b es)"
| "guarded fin b (Event t r m # es) = guarded fin b es"

lemma guarded_append [simp]:
  "guarded fin b (es @ es') \<longleftrightarrow> guarded fin b es \<and> guarded fin (persisted fin b es) es'"
  by (induction fin b es rule: guarded.induct) auto

lemma guarded_no_patch: "list_all (\<lambda>e. \<not> is_patch e) es \<Longrightarrow> guarded fin True es"
  by (induction fin True es rule: guarded.induct) auto

lemma guarded_no_create:
  "list_all (\<lambda>e. \<forall>op. e = Cloud op \<longrightarrow> \<not> creates op) es \<Longrightarrow> guarded fin b es"
  by (induction fin b es rule: guarded.induct) auto

lemma guarded_at:
  "guarded fin b es \<longleftrightarrow>
     (\<forall>xs op ys. es = xs @ Cloud op # ys \<and> creates op \<longrightarrow> persisted fin b xs)"
proof
  assume "guarded fin b es"
  then show "\<forall>xs op ys. es = xs @ Cloud op # ys \<and> creates op \<longrightarrow> persisted fin b xs" by auto
next
  assume "\<forall>xs op ys. es = xs @ Cloud op # ys \<and> creates op \<longrightarrow> persisted fin b xs"
  then show "guarded fin b es"
  proof (induction es rule: rev_induct)
    case (snoc e es)
    then have "guarded fin b es" by (metis append_Cons append_assoc)
    with snoc.prems show ?case by (cases e) auto
  qed simp
qed

end
