(* ===== verification/Netip.thy ===== *)
theory Netip
  imports Prelude "HOL-Library.Word"
begin

text \<open>
  The part of Go's package \<open>net/netip\<close> that the provider uses: \<open>ParsePrefix\<close> with the IPv4
  and IPv6 address parsers behind it, \<open>Masked\<close>, \<open>Next\<close>, \<open>Contains\<close> and
  \<open>String\<close> for IPv4. An IPv4 address is a 32-bit word; an IPv6 address is the list of its
  sixteen bytes. Parse errors carry no information the sources use, so parsers return an option.
  A word of warning on \<open>Next\<close>: past the last address it returns the invalid zero \<open>Addr\<close>, here
  \<open>None\<close>.
\<close>

unbundle bit_operations_syntax

datatype Addr = Addr4 "32 word" | Addr6 "nat list"

definition digit_val :: "char \<Rightarrow> nat option" where
  "digit_val c = (let n = (of_char c :: nat) in if 48 \<le> n \<and> n \<le> 57 then Some (n - 48) else None)"

definition hex_val :: "char \<Rightarrow> nat option" where
  "hex_val c =
     (let n = (of_char c :: nat) in
      if 48 \<le> n \<and> n \<le> 57 then Some (n - 48)
      else if 97 \<le> n \<and> n \<le> 102 then Some (n - 87)
      else if 65 \<le> n \<and> n \<le> 70 then Some (n - 55)
      else None)"

section \<open>Parsing\<close>

fun parseIPv4Fields :: "string \<Rightarrow> nat \<Rightarrow> nat \<Rightarrow> nat list \<Rightarrow> nat list option" where
  \<comment> \<open>rest of the input, value and digit count of the current octet, octets read\<close>
  "parseIPv4Fields [] val digLen octs =
     (if length octs < 3 then None else Some (octs @ [val]))"
| "parseIPv4Fields (c # s) val digLen octs =
     (case digit_val c of
        Some d \<Rightarrow>
          if digLen = 1 \<and> val = 0 then None
          else if val * 10 + d > 255 then None
          else parseIPv4Fields s (val * 10 + d) (Suc digLen) octs
      | None \<Rightarrow>
          if c = CHR ''.'' then
            (if digLen = 0 \<or> s = [] then None
             else if length octs = 3 then None
             else parseIPv4Fields s 0 0 (octs @ [val]))
          else None)"

definition word_of_bytes :: "nat list \<Rightarrow> 32 word" where
  "word_of_bytes bs = foldl (\<lambda>acc b. push_bit 8 acc OR of_nat b) 0 bs"

definition hex_value :: "string \<Rightarrow> nat" where
  "hex_value ds = foldl (\<lambda>acc c. acc * 16 + (case hex_val c of None \<Rightarrow> 0 | Some d \<Rightarrow> d)) 0 ds"

text \<open>The loop of \<open>parseIPv6\<close>; the first argument counts the 16-bit groups that still fit.\<close>

fun parseIPv6Loop ::
  "nat \<Rightarrow> string \<Rightarrow> nat list \<Rightarrow> nat option \<Rightarrow> (string \<times> nat list \<times> nat option) option" where
  "parseIPv6Loop 0 s ip ellipsis = Some (s, ip, ellipsis)"
| "parseIPv6Loop (Suc n) s ip ellipsis =
     (let ds = takeWhile (\<lambda>c. hex_val c \<noteq> None) s; rest = drop (length ds) s in
      if length ds > 4 \<or> ds = [] then None
      else (case rest of
        [] \<Rightarrow> Some ([], ip @ [hex_value ds div 256, hex_value ds mod 256], ellipsis)
      | c # s1 \<Rightarrow>
          if c = CHR ''.'' then
            (if (ellipsis = None \<and> length ip \<noteq> 12) \<or> length ip + 4 > 16 then None
             else (case parseIPv4Fields s 0 0 [] of
               None \<Rightarrow> None
             | Some fs \<Rightarrow> Some ([], ip @ fs, ellipsis)))
          else
            let ip' = ip @ [hex_value ds div 256, hex_value ds mod 256] in
            if c \<noteq> CHR '':'' then None
            else (case s1 of
                [] \<Rightarrow> None
              | d # s2 \<Rightarrow>
                  if d = CHR '':'' then
                    (if ellipsis \<noteq> None then None
                     else if s2 = [] then Some ([], ip', Some (length ip'))
                     else parseIPv6Loop n s2 ip' (Some (length ip')))
                  else parseIPv6Loop n s1 ip' ellipsis)))"

definition expandIPv6 :: "string \<times> nat list \<times> nat option \<Rightarrow> nat list option" where
  "expandIPv6 r =
     (case r of (s, ip, ellipsis) \<Rightarrow>
        if s \<noteq> [] then None
        else if length ip < 16 then
          (case ellipsis of
             None \<Rightarrow> None
           | Some e \<Rightarrow> Some (take e ip @ replicate (16 - length ip) 0 @ drop e ip))
        else if ellipsis \<noteq> None then None
        else Some ip)"

definition parseIPv6 :: "string \<Rightarrow> (nat list \<times> string) option" where
  \<comment> \<open>the bytes and the zone\<close>
  "parseIPv6 input =
     (let s = takeWhile (\<lambda>c. c \<noteq> CHR ''%'') input;
          zone = drop (Suc (length s)) input
      in if length s < length input \<and> zone = [] then None
         else
           let (s, ellipsis) =
             (if HasPrefix s ''::'' then (drop 2 s, Some 0) else (s, None))
           in if ellipsis = Some 0 \<and> s = [] then Some (replicate 16 0, zone)
              else case parseIPv6Loop 8 s [] ellipsis of
                None \<Rightarrow> None
              | Some r \<Rightarrow> map_option (\<lambda>ip. (ip, zone)) (expandIPv6 r))"

fun firstSpecial :: "string \<Rightarrow> char option" where
  "firstSpecial [] = None"
| "firstSpecial (c # s) =
     (if c = CHR ''.'' \<or> c = CHR '':'' \<or> c = CHR ''%'' then Some c else firstSpecial s)"

definition ParseAddr :: "string \<Rightarrow> (Addr \<times> string) option" where
  \<comment> \<open>the address and its zone\<close>
  "ParseAddr s =
     (case firstSpecial s of
        None \<Rightarrow> None
      | Some c \<Rightarrow>
          if c = CHR ''.'' then
            map_option (\<lambda>fs. (Addr4 (word_of_bytes fs), [])) (parseIPv4Fields s 0 0 [])
          else if c = CHR '':'' then map_option (\<lambda>(ip, z). (Addr6 ip, z)) (parseIPv6 s)
          else None)"

definition splitLastSlash :: "string \<Rightarrow> (string \<times> string) option" where
  "splitLastSlash s =
     (if CHR ''/'' \<notin> set s then None
      else let t = rev (takeWhile (\<lambda>c. c \<noteq> CHR ''/'') (rev s))
           in Some (take (length s - Suc (length t)) s, t))"

definition parseBits :: "string \<Rightarrow> nat option" where
  \<comment> \<open>\<open>strconv.Atoi\<close> after the check that rules out signs and leading zeros\<close>
  "parseBits s =
     (if s = [] \<or> (length s > 1 \<and> hd s = CHR ''0'') \<or> list_ex (\<lambda>c. digit_val c = None) s
      then None
      else Some (foldl (\<lambda>acc c. acc * 10 + (case digit_val c of None \<Rightarrow> 0 | Some d \<Rightarrow> d)) 0 s))"

definition ParsePrefix :: "string \<Rightarrow> (Addr \<times> nat) option" where
  "ParsePrefix s =
     (case splitLastSlash s of
        None \<Rightarrow> None
      | Some (a, bitsStr) \<Rightarrow>
          (case ParseAddr a of
             None \<Rightarrow> None
           | Some (ip, zone) \<Rightarrow>
               if zone \<noteq> [] then None
               else (case parseBits bitsStr of
                 None \<Rightarrow> None
               | Some bits \<Rightarrow>
                   if bits > (case ip of Addr4 _ \<Rightarrow> 32 | Addr6 _ \<Rightarrow> 128) then None
                   else Some (ip, bits))))"

section \<open>IPv4 prefixes\<close>

definition masked4 :: "32 word \<Rightarrow> nat \<Rightarrow> 32 word" where
  "masked4 a bits = a AND NOT (mask (32 - bits))"

definition next4 :: "32 word option \<Rightarrow> 32 word option" where
  "next4 a = (case a of None \<Rightarrow> None | Some w \<Rightarrow> if w + 1 = 0 then None else Some (w + 1))"

definition contains4 :: "32 word \<Rightarrow> nat \<Rightarrow> 32 word option \<Rightarrow> bool" where
  "contains4 p bits a = (case a of None \<Rightarrow> False | Some w \<Rightarrow> drop_bit (32 - bits) (w XOR p) = 0)"

definition octet4 :: "32 word \<Rightarrow> nat \<Rightarrow> nat" where
  \<comment> \<open>byte \<open>i\<close> of the address, the most significant first\<close>
  "octet4 w i = unat (drop_bit ((3 - i) * 8) w AND 255)"

definition string4 :: "32 word \<Rightarrow> string" where
  "string4 w = digits (octet4 w 0) @ ''.'' @ digits (octet4 w 1) @ ''.'' @
     digits (octet4 w 2) @ ''.'' @ digits (octet4 w 3)"

subsection \<open>The tenth address of a prefix\<close>

lemma bit_masked4: "bit (masked4 a bits) n \<longleftrightarrow> 32 - bits \<le> n \<and> n < 32 \<and> bit a n"
  by (auto simp: masked4_def bit_and_iff bit_not_iff bit_mask_iff dest: bit_imp_le_length)

lemma masked4_add:
  assumes "bits \<le> 28" and "take_bit 4 v = v"
  shows "masked4 a bits + v = masked4 a bits OR v"
proof (rule disjunctive_add)
  fix n
  have "bit v n \<Longrightarrow> n < 4" using assms(2) by (metis bit_take_bit_iff)
  with assms(1) show "\<not> bit (masked4 a bits) n \<or> \<not> bit v n" by (auto simp: bit_masked4)
qed

lemma masked4_add_nonzero:
  assumes "bits \<le> 28" and "take_bit 4 v = v" and "v \<noteq> 0"
  shows "masked4 a bits + v \<noteq> 0"
  using assms by (simp add: masked4_add or_eq_0_iff)

lemma contains4_masked4_add:
  assumes "bits \<le> 28" and "take_bit 4 v = v"
  shows "contains4 a bits (Some (masked4 a bits + v))"
proof -
  have "bit v n \<Longrightarrow> n < 4" for n using assms(2) by (metis bit_take_bit_iff)
  with assms(1) have "drop_bit (32 - bits) ((masked4 a bits OR v) XOR a) = 0"
    by (intro bit_eqI)
      (fastforce simp: bit_drop_bit_eq bit_xor_iff bit_or_iff bit_masked4 dest: bit_imp_le_length)
  with assms show ?thesis by (simp add: contains4_def masked4_add)
qed

lemma next4_funpow:
  assumes "bits \<le> 28" and "k < 16"
  shows "(next4 ^^ k) (Some (masked4 a bits)) = Some (masked4 a bits + of_nat k)"
  using assms(2)
proof (induction k)
  case (Suc k)
  have tb: "take_bit 4 (of_nat (Suc k) :: 32 word) = of_nat (Suc k)"
    using Suc.prems by (simp add: take_bit_of_nat take_bit_nat_eq_self del: of_nat_Suc)
  have nz: "(of_nat (Suc k) :: 32 word) \<noteq> 0"
    using Suc.prems by (auto simp: word_of_nat_eq_0_iff simp del: of_nat_Suc dest!: dvd_imp_le)
  show ?case
    using Suc masked4_add_nonzero [OF assms(1) tb nz] by (simp add: next4_def algebra_simps)
qed simp

end
