(* ===== verification/Services.thy ===== *)
theory Services
  imports Reconcile_State Netip
begin

text \<open>
  The services under \<open>cloud/services\<close> (the inputs they build from a cluster, the target pool of
  the API server, the lookups that find a resource to delete) and the cluster scope of
  \<open>scope/cluster_scope.go\<close>, whose methods are the setters of the mutable \<open>StackitCluster\<close>.
  SHA-256 of \<open>crypto/sha256\<close> is an argument, a function from bytes to bytes.
\<close>

section \<open>scope/cluster_scope.go\<close>

definition cluster_NetworkID :: "StackitCluster \<Rightarrow> string" where
  "cluster_NetworkID stackitCluster =
     (if scs_NetworkID (sc_Spec stackitCluster) \<noteq> [] then scs_NetworkID (sc_Spec stackitCluster)
      else nst_ID (scst_Network (sc_Status stackitCluster)))"

definition cluster_SetConditions ::
  "lib \<Rightarrow> ConditionStatus \<Rightarrow> string \<Rightarrow> string \<Rightarrow> string list \<Rightarrow> StackitCluster \<Rightarrow> StackitCluster" where
  "cluster_SetConditions L status reason message conditionTypes sc =
     map_sc_Status (\<lambda>st. st\<lparr>scst_Conditions :=
       SetConditions L (scst_Conditions st) (om_Generation (sc_meta sc)) status reason message
         conditionTypes\<rparr>) sc"

definition cluster_SetReady :: "lib \<Rightarrow> StackitCluster \<Rightarrow> StackitCluster" where
  "cluster_SetReady L sc =
     cluster_SetConditions L ConditionTrue ''Available'' [] [ClusterReadyCondition]
       (map_sc_Status (\<lambda>st. st\<lparr>scst_Ready := True, scst_Provisioned := True\<rparr>) sc)"

definition cluster_SetNotReady ::
  "lib \<Rightarrow> string \<Rightarrow> string \<Rightarrow> string list \<Rightarrow> StackitCluster \<Rightarrow> StackitCluster" where
  "cluster_SetNotReady L reason message conditionTypes sc =
     cluster_SetConditions L ConditionFalse reason message conditionTypes
       (map_sc_Status (\<lambda>st. st\<lparr>scst_Ready := False\<rparr>) sc)"

definition SetAPIServerEndpoint :: "APIEndpoint \<Rightarrow> StackitCluster \<Rightarrow> StackitCluster" where
  "SetAPIServerEndpoint endpoint sc =
     map_sc_Status (\<lambda>st. st\<lparr>scst_APIServerEndpoint := endpoint\<rparr>)
       (sc\<lparr>sc_Spec := (sc_Spec sc)\<lparr>scs_ControlPlaneEndpoint := endpoint\<rparr>\<rparr>)"

definition SetBastionStatus :: "Bastion \<Rightarrow> string \<Rightarrow> StackitCluster \<Rightarrow> StackitCluster" where
  "SetBastionStatus bastion cloudInitHash sc =
     map_sc_Status (\<lambda>st. st\<lparr>scst_Bastion :=
       \<lparr>bst_ServerID = bas_ServerID bastion, bst_PublicIPID = bas_PublicIPID bastion,
        bst_PublicIP = bas_PublicIP bastion, bst_SecurityGroupID = bas_SecurityGroupID bastion,
        bst_CloudInitHash = cloudInitHash\<rparr>\<rparr>) sc"

definition ClearBastionStatus :: "StackitCluster \<Rightarrow> StackitCluster" where
  "ClearBastionStatus sc = map_sc_Status (\<lambda>st. st\<lparr>scst_Bastion := empty_BastionStatus\<rparr>) sc"

definition SetFailureDomains :: "FailureDomain list \<Rightarrow> StackitCluster \<Rightarrow> StackitCluster" where
  "SetFailureDomains failureDomains sc =
     map_sc_Status (\<lambda>st. st\<lparr>scst_FailureDomains := failureDomains\<rparr>) sc"

lemmas cluster_scope_defs =
  cluster_SetConditions_def cluster_SetReady_def cluster_SetNotReady_def
  SetAPIServerEndpoint_def SetBastionStatus_def ClearBastionStatus_def SetFailureDomains_def

section \<open>cloud/services/bastion\<close>

definition cluster_tags_of :: "StackitCluster \<Rightarrow> string gomap" where
  \<comment> \<open>\<open>util.ClusterTags\<close> on the name, namespace and labels of the cluster\<close>
  "cluster_tags_of sc =
     ClusterTags (om_Name (sc_meta sc)) (om_Namespace (sc_meta sc))
       (scs_AdditionalLabels (sc_Spec sc))"

definition bastion_Input :: "StackitCluster \<Rightarrow> string \<Rightarrow> BastionInput" where
  "bastion_Input sc cloudInit =
     (let b = scs_Bastion (sc_Spec sc);
          deleteOnTermination = (case rvs_DeleteOnTermination (bs_RootVolume b) of
             None \<Rightarrow> True | Some d \<Rightarrow> d)
      in \<lparr>bi_Name = om_Name (sc_meta sc) @ ''-bastion'',
          bi_ProjectID = scs_ProjectID (sc_Spec sc),
          bi_Region = scs_Region (sc_Spec sc),
          bi_NetworkID = cluster_NetworkID sc,
          bi_ImageID = bs_ImageID b,
          bi_MachineType = bs_MachineType b,
          bi_SSHKeyName = bs_SSHKeyName b,
          bi_AllowedCIDRs = bs_AllowedCIDRs b,
          bi_Tags = AList.update LabelResourceRole ResourceRoleBastion (cluster_tags_of sc),
          bi_RootVolume = \<lparr>rv_SizeGiB = rvs_SizeGiB (bs_RootVolume b),
                           rv_PerformanceClass = rvs_PerformanceClass (bs_RootVolume b),
                           rv_DeleteOnTermination = deleteOnTermination\<rparr>,
          bi_CloudInit = cloudInit\<rparr>)"

definition NodeSSHAccessTags :: "StackitCluster \<Rightarrow> string gomap" where
  "NodeSSHAccessTags sc = AList.update LabelResourceRole ResourceRoleNodeSSH (cluster_tags_of sc)"

section \<open>cloud/services/network\<close>

definition DefaultNetworkPrefix :: string where
  "DefaultNetworkPrefix = ''10.0.0.0/24''"

definition NetworkTags :: "StackitCluster \<Rightarrow> string gomap" where
  "NetworkTags sc = cluster_tags_of sc"

definition network_Input :: "StackitCluster \<Rightarrow> CreateNetworkInput" where
  "network_Input sc =
     \<lparr>cni_Name = om_Name (sc_meta sc) @ ''-network'', cni_IPv4Prefix = DefaultNetworkPrefix,
      cni_Tags = NetworkTags sc\<rparr>"

definition ResolveManagedNetworkID ::
  "'c Client \<Rightarrow> StackitCluster \<Rightarrow> (('c, 'k, 'o) rstate, string) call" where
  "ResolveManagedNetworkID cloudClient sc =
     (if scs_NetworkID (sc_Spec sc) \<noteq> [] then ok []
      else if nst_ID (scst_Network (sc_Status sc)) \<noteq> [] then
        ok (nst_ID (scst_Network (sc_Status sc)))
      else do {
        r \<leftarrow> cloudCall (OpFindNetworkByTags (NetworkTags sc))
               (FindNetworkByTags cloudClient (NetworkTags sc));
        case r of
          Inl err \<Rightarrow> if IsNotFound err then ok [] else fail_with err
        | Inr network \<Rightarrow> ok (net_ID network)
      })"

section \<open>cloud/services/loadbalancer\<close>

definition defaultAPIServerPort :: int where
  "defaultAPIServerPort = 6443"

definition maxTargetNameLength :: nat where
  "maxTargetNameLength = 63"

definition targetNameDigestLength :: nat where
  "targetNameDigestLength = 7"

definition APIServerTags :: "StackitCluster \<Rightarrow> string gomap" where
  "APIServerTags sc = cluster_tags_of sc"

definition APIServerInput ::
  "StackitCluster \<Rightarrow> LoadBalancerTargetInput list \<Rightarrow> LoadBalancerInput" where
  "APIServerInput sc targets =
     \<lparr>lbi_Name = om_Name (sc_meta sc) @ ''-apiserver'',
      lbi_ProjectID = scs_ProjectID (sc_Spec sc),
      lbi_Region = scs_Region (sc_Spec sc),
      lbi_NetworkID = cluster_NetworkID sc,
      lbi_Tags = APIServerTags sc,
      lbi_Port = defaultAPIServerPort,
      lbi_Targets = targets\<rparr>"

definition BootstrapTarget :: "string \<Rightarrow> LoadBalancerTargetInput" where
  "BootstrapTarget ip = \<lparr>lti_Name = ''capi-bootstrap-placeholder'', lti_IP = ip\<rparr>"

definition hex_encode :: "8 word list \<Rightarrow> string" where
  "hex_encode bs = concat (map (\<lambda>b. [hex_digit (unat b div 16), hex_digit (unat b mod 16)]) bs)"

definition targetName :: "(string \<Rightarrow> 8 word list) \<Rightarrow> string \<Rightarrow> string" where
  "targetName sha256 machineName =
     (if length machineName \<le> maxTargetNameLength \<and> \<not> ContainsStr machineName ''.''
      then machineName
      else
        let suffix = ''-'' @ take targetNameDigestLength (hex_encode (sha256 machineName));
            name = ReplaceChar machineName CHR ''.'' CHR ''-'';
            name' = (if length name > maxTargetNameLength - length suffix
                     then TrimRightChar (take (maxTargetNameLength - length suffix) name) CHR ''-''
                     else name)
        in name' @ suffix)"

fun firstInternalIP :: "MachineAddress list \<Rightarrow> string" where
  "firstInternalIP [] = []"
| "firstInternalIP (address # rest) =
     (if ma_Type address = ''InternalIP'' \<and> ma_Address address \<noteq> [] then ma_Address address
      else firstInternalIP rest)"

fun targetsLoop ::
  "(string \<Rightarrow> 8 word list) \<Rightarrow> string list \<Rightarrow> Machine list \<Rightarrow> LoadBalancerTargetInput list" where
  "targetsLoop sha256 seen [] = []"
| "targetsLoop sha256 seen (machine # rest) =
     (let ip = firstInternalIP (mc_Addresses machine) in
      if ip = [] then targetsLoop sha256 seen rest
      else if List.member seen ip then targetsLoop sha256 seen rest
      else \<lparr>lti_Name = targetName sha256 (om_Name (mc_meta machine)), lti_IP = ip\<rparr>
           # targetsLoop sha256 (ip # seen) rest)"

definition APIServerTargets ::
  "(string \<Rightarrow> 8 word list) \<Rightarrow> Machine option list \<Rightarrow> LoadBalancerTargetInput list" where
  \<comment> \<open>a nil pointer in the list is \<open>None\<close>\<close>
  "APIServerTargets sha256 machines =
     targetsLoop sha256 []
       (sort_key (\<lambda>m. om_Name (mc_meta m)) (List.map_filter id machines))"

definition ResolveID :: "'c Client \<Rightarrow> StackitCluster \<Rightarrow> (('c, 'k, 'o) rstate, string) call" where
  "ResolveID cloudClient sc =
     (if scst_APIServerLoadBalancerID (sc_Status sc) \<noteq> []
      then ok (scst_APIServerLoadBalancerID (sc_Status sc))
      else do {
        r \<leftarrow> cloudCall (OpListAPIServerLoadBalancersByTags (APIServerTags sc))
               (ListAPIServerLoadBalancersByTags cloudClient (APIServerTags sc));
        case r of
          Inl err \<Rightarrow> fail_with err
        | Inr loadBalancers \<Rightarrow>
            (case loadBalancers of
               [] \<Rightarrow> ok []
             | [lb] \<Rightarrow> ok (lb_ID lb)
             | _ \<Rightarrow> fail_with (mk_error [ErrConflict]
                      ''multiple API server load balancers match cluster tags: conflict''))
      })"

end
