(* ===== verification/Server_State.thy ===== *)
theory Server_State
  imports Prelude
begin

text \<open>
  \<open>controller/server_state.go\<close>: the table of STACKIT server states and the mapping of a
  server state and power status to a readiness condition. The table is an association list in the
  order of the source.
\<close>

record serverStateInfo =
  ssi_reason :: string
  ssi_description :: string
  ssi_warn :: bool

definition ssi :: "string \<Rightarrow> string \<Rightarrow> bool \<Rightarrow> serverStateInfo" where
  "ssi r d w = \<lparr>ssi_reason = r, ssi_description = d, ssi_warn = w\<rparr>"

definition serverStates :: "serverStateInfo gomap" where
  "serverStates =
    [(''ACTIVE'', ssi ''InstanceActive'' ''server is active'' False),
     (''BACKING-UP'', ssi ''InstanceBusy'' ''server is temporarily unavailable'' False),
     (''CREATING'', ssi ''InstanceStarting'' ''server is starting'' False),
     (''DEALLOCATED'', ssi ''InstanceDeallocated'' ''server is deallocated'' True),
     (''DEALLOCATING'', ssi ''InstanceDeallocating'' ''server is being deallocated'' False),
     (''DELETED'', ssi ''InstanceDeleting'' ''server is deleted'' False),
     (''DELETING'', ssi ''InstanceDeleting'' ''server is being deleted'' False),
     (''ERROR'', ssi ''InstanceFailed'' ''server failed'' True),
     (''INACTIVE'', ssi ''InstanceStopped'' ''server is stopped'' True),
     (''MIGRATING'', ssi ''InstanceBusy'' ''server is temporarily unavailable'' False),
     (''PAUSED'', ssi ''InstancePaused'' ''server is paused'' True),
     (''REBOOT'', ssi ''InstanceBusy'' ''server is temporarily unavailable'' False),
     (''REBOOTING'', ssi ''InstanceBusy'' ''server is temporarily unavailable'' False),
     (''REBUILD'', ssi ''InstanceBusy'' ''server is temporarily unavailable'' False),
     (''REBUILDING'', ssi ''InstanceBusy'' ''server is temporarily unavailable'' False),
     (''RESCUE'', ssi ''InstanceInRescue'' ''server is in rescue mode'' True),
     (''RESCUING'', ssi ''InstanceEnteringRescue'' ''server is entering rescue mode'' False),
     (''RESIZING'', ssi ''InstanceBusy'' ''server is temporarily unavailable'' False),
     (''RESTORING'', ssi ''InstanceBusy'' ''server is temporarily unavailable'' False),
     (''SNAPSHOTTING'', ssi ''InstanceBusy'' ''server is temporarily unavailable'' False),
     (''STARTING'', ssi ''InstanceStarting'' ''server is starting'' False),
     (''STOPPING'', ssi ''InstanceStopping'' ''server is stopping'' False),
     (''UNRESCUING'', ssi ''InstanceLeavingRescue'' ''server is leaving rescue mode'' False),
     (''UPDATING'', ssi ''InstanceBusy'' ''server is temporarily unavailable'' False)]"

definition serverStateCondition :: "string \<Rightarrow> string \<Rightarrow> bool \<times> string \<times> string \<times> bool" where
  "serverStateCondition state powerStatus =
     (if state = [] then (True, [], [], False)
      else
        let info = (case map_of serverStates state of
                      Some i \<Rightarrow> i
                    | None \<Rightarrow> ssi ''InstanceNotActive'' ''server is not active'' False);
            (ready, reason, description, warn) =
              (if state = ''ACTIVE'' \<and> powerStatus = ''CRASHED''
               then (False, ''InstanceCrashed'', ''server crashed'', True)
               else if state = ''ACTIVE'' \<and> powerStatus = ''ERROR''
               then (False, ''InstancePowerError'', ''server power error'', True)
               else (state = ''ACTIVE'', ssi_reason info, ssi_description info, ssi_warn info));
            details = ''state '' @ state @
              (if powerStatus \<noteq> [] then '', power status '' @ powerStatus else [])
        in (ready, reason, description @ '' ('' @ details @ '')'', warn))"

definition state_ready :: "string \<Rightarrow> string \<Rightarrow> bool" where
  "state_ready state powerStatus = fst (serverStateCondition state powerStatus)"

definition state_reason :: "string \<Rightarrow> string \<Rightarrow> string" where
  "state_reason state powerStatus = fst (snd (serverStateCondition state powerStatus))"

definition state_warn :: "string \<Rightarrow> string \<Rightarrow> bool" where
  "state_warn state powerStatus = snd (snd (snd (serverStateCondition state powerStatus)))"

lemma state_ready_iff:
  "state_ready st p \<longleftrightarrow> st = [] \<or> (st = ''ACTIVE'' \<and> p \<noteq> ''CRASHED'' \<and> p \<noteq> ''ERROR'')"
  by (auto simp: state_ready_def serverStateCondition_def Let_def)

lemma state_reason_unfold:
  "st \<noteq> [] \<Longrightarrow> state_reason st p =
     (if st = ''ACTIVE'' \<and> p = ''CRASHED'' then ''InstanceCrashed''
      else if st = ''ACTIVE'' \<and> p = ''ERROR'' then ''InstancePowerError''
      else case map_of serverStates st of Some i \<Rightarrow> ssi_reason i | None \<Rightarrow> ''InstanceNotActive'')"
  by (auto simp: state_reason_def serverStateCondition_def Let_def ssi_def split: option.splits)

lemma state_warn_unfold:
  "state_warn st p \<longleftrightarrow> st \<noteq> [] \<and>
     ((st = ''ACTIVE'' \<and> (p = ''CRASHED'' \<or> p = ''ERROR'')) \<or>
      (\<exists>i. map_of serverStates st = Some i \<and> ssi_warn i))"
  by (auto simp: state_warn_def serverStateCondition_def Let_def ssi_def serverStates_def
      split: option.splits if_splits)

definition warn_reasons :: "string list" where
  "warn_reasons = [''InstanceCrashed'', ''InstancePowerError'', ''InstanceDeallocated'',
     ''InstanceFailed'', ''InstanceStopped'', ''InstancePaused'', ''InstanceInRescue'']"

lemma serverStates_warn_reasons:
  "list_all (\<lambda>(k, i). ssi_warn i = List.member warn_reasons (ssi_reason i)) serverStates"
  by (simp add: serverStates_def ssi_def warn_reasons_def)

lemma state_warn_iff_reason:
  assumes "st \<noteq> []"
  shows "state_warn st p \<longleftrightarrow> state_reason st p \<in> set warn_reasons"
proof (cases "map_of serverStates st")
  case None
  then have "st \<noteq> ''ACTIVE''" by (auto simp: serverStates_def)
  with None assms show ?thesis
    by (simp add: state_warn_unfold state_reason_unfold warn_reasons_def)
next
  case (Some i)
  then have "(st, i) \<in> set serverStates" by (rule map_of_SomeD)
  then have "ssi_warn i = (ssi_reason i \<in> set warn_reasons)"
    using serverStates_warn_reasons by (auto simp: list_all_iff)
  with Some assms show ?thesis
    by (auto simp: state_warn_unfold state_reason_unfold warn_reasons_def)
qed

text \<open>
  A server counts as usable exactly when the cloud reports no state or reports it active
  without a crashed or failed power status; and a state that needs an operator (a warning) never
  shares its reason with a state that resolves on its own. Warnings are deduplicated by reason, so
  this is what makes every entry into a bad state produce one.
\<close>

theorem serverStateCondition_spec:
  "(state_ready st p \<longleftrightarrow> st = [] \<or> (st = ''ACTIVE'' \<and> p \<noteq> ''CRASHED'' \<and> p \<noteq> ''ERROR'')) \<and>
   (state_warn st p \<longrightarrow> \<not> state_ready st p) \<and>
   (state_warn st p \<and> \<not> state_warn st' p' \<longrightarrow> state_reason st p \<noteq> state_reason st' p')"
proof -
  have "state_reason [] p' = []" by (simp add: state_reason_def serverStateCondition_def)
  moreover have "state_warn st p \<Longrightarrow> st \<noteq> []" by (simp add: state_warn_unfold)
  moreover have "[] \<notin> set warn_reasons" by (simp add: warn_reasons_def)
  ultimately have "state_warn st p \<and> \<not> state_warn st' p' \<longrightarrow>
      state_reason st p \<noteq> state_reason st' p'"
    by (metis state_warn_iff_reason)
  moreover have "state_warn st p \<longrightarrow> \<not> state_ready st p"
    by (auto simp: state_warn_unfold state_ready_iff serverStates_def ssi_def)
  ultimately show ?thesis using state_ready_iff [of st p] by blast
qed

theorem serverStateCondition_spec_witness:
  "state_warn ''DEALLOCATED'' [] \<and> \<not> state_warn ''DEALLOCATING'' [] \<and>
   state_reason ''DEALLOCATED'' [] \<noteq> state_reason ''DEALLOCATING'' [] \<and>
   \<not> state_ready ''DEALLOCATED'' []"
proof -
  have "state_warn ''DEALLOCATED'' []" "\<not> state_warn ''DEALLOCATING'' []"
    by (simp_all add: state_warn_unfold serverStates_def ssi_def)
  then show ?thesis
    using serverStateCondition_spec [of "''DEALLOCATED''" "[]" "''DEALLOCATING''" "[]"] by simp
qed

end
