(* ===== verification/Provider_Id.thy ===== *)
theory Provider_Id
  imports Cloud_Types
begin

text \<open>
  \<open>cloud/providerid.go\<close>: the provider IDs that tie a machine to its node. The header of the
  Go file fixes the format \<open>stackit://<server-id>\<close>.
\<close>

definition providerIDScheme :: string where
  "providerIDScheme = ''stackit://''"

definition NewProviderID :: "string \<Rightarrow> string \<Rightarrow> string \<Rightarrow> string" where
  "NewProviderID projectID region serverID = providerIDScheme @ serverID"

definition ParseProviderID :: "string \<Rightarrow> go_error + string \<times> string \<times> string" where
  "ParseProviderID providerID =
     (if \<not> HasPrefix providerID providerIDScheme
      then Inl (mk_error [ErrInvalidProviderID]
                  (''invalid providerID: missing scheme '' @ quote providerIDScheme))
      else let serverID = TrimPrefix providerID providerIDScheme in
        if serverID = [] \<or> ContainsStr serverID ''/''
        then Inl (mk_error [ErrInvalidProviderID]
                    (''invalid providerID: expected <server>, got '' @ quote serverID))
        else Inr ([], [], serverID))"

lemma ParseProviderID_Inr_iff:
  "ParseProviderID p = Inr (a, b, i) \<longleftrightarrow>
     a = [] \<and> b = [] \<and> p = providerIDScheme @ i \<and> i \<noteq> [] \<and> CHR ''/'' \<notin> set i"
  by (auto simp: ParseProviderID_def Let_def HasPrefix_iff)

lemma ParseProviderID_Inl_chain:
  "ParseProviderID p = Inl err \<Longrightarrow> errors_Is err ErrInvalidProviderID"
  by (auto simp: ParseProviderID_def Let_def split: if_splits)

text \<open>
  C29: provider IDs round-trip. For a server ID that is a single non-empty path segment, parsing
  the provider ID that \<open>NewProviderID\<close> prints gives the server ID back, whatever the project
  and region; and every provider ID that \<open>ParseProviderID\<close> accepts is one that
  \<open>NewProviderID\<close> prints for the ID it returns.
\<close>

theorem providerID_roundtrip:
  "(i \<noteq> [] \<and> CHR ''/'' \<notin> set i \<longrightarrow> ParseProviderID (NewProviderID pr rg i) = Inr ([], [], i)) \<and>
   (\<forall>p a b. ParseProviderID p = Inr (a, b, i) \<longrightarrow> NewProviderID pr rg i = p)"
  by (auto simp: NewProviderID_def ParseProviderID_Inr_iff)

theorem providerID_roundtrip_witness:
  "ParseProviderID (NewProviderID ''proj'' ''eu01'' ''srv-1'') = Inr ([], [], ''srv-1'')"
  using providerID_roundtrip [of "''srv-1''" "''proj''" "''eu01''"] by simp

end
