(* ===== verification/Machine_Controller.thy ===== *)
theory Machine_Controller
  imports Services Server_State Provider_Id
begin

text \<open>
  The machine controller: \<open>scope/machine_scope.go\<close>,
  \<open>controller/stackitmachine_infrastructure.go\<close> and
  \<open>controller/stackitmachine_controller.go\<close>. The pointers \<open>Cluster\<close>, \<open>Machine\<close>
  and \<open>StackitCluster\<close> of a scope are values, because \<open>Reconcile\<close> returns before it builds
  a scope when one of them is nil; the mutable \<open>StackitMachine\<close> is the object of the reconcile
  state. \<open>reconcileNormal\<close> is cut at the points where the Go function has finished one concern:
  persisting the finalizer, the guards before the cloud, the server, the access to it.
\<close>

section \<open>controller/constants.go\<close>

definition retryableErrorRequeueAfter :: int where
  "retryableErrorRequeueAfter = 5 * second"

definition deleteRequeueAfter :: int where
  "deleteRequeueAfter = 5 * second"

definition credentialsRetryRequeueAfter :: int where
  "credentialsRetryRequeueAfter = minute"

section \<open>scope/machine_scope.go\<close>

record MachineScope =
  ms_Cluster :: Cluster
  ms_Machine :: Machine
  ms_StackitCluster :: StackitCluster

definition machine_SetConditions ::
  "lib \<Rightarrow> ConditionStatus \<Rightarrow> string \<Rightarrow> string \<Rightarrow> string list \<Rightarrow> StackitMachine \<Rightarrow> StackitMachine" where
  "machine_SetConditions L status reason message conditionTypes sm =
     map_sm_Status (\<lambda>st. st\<lparr>smst_Conditions :=
       SetConditions L (smst_Conditions st) (om_Generation (sm_meta sm)) status reason message
         conditionTypes\<rparr>) sm"

definition machine_SetReady :: "lib \<Rightarrow> StackitMachine \<Rightarrow> StackitMachine" where
  "machine_SetReady L sm =
     machine_SetConditions L ConditionTrue ''Available'' []
       [MachineInstanceReadyCondition, MachineReadyCondition]
       (map_sm_Status (\<lambda>st. st\<lparr>smst_Ready := True\<rparr>) sm)"

definition machine_SetNotReady ::
  "lib \<Rightarrow> string \<Rightarrow> string \<Rightarrow> string list \<Rightarrow> StackitMachine \<Rightarrow> StackitMachine" where
  "machine_SetNotReady L reason message conditionTypes sm =
     machine_SetConditions L ConditionFalse reason message conditionTypes
       (map_sm_Status (\<lambda>st. st\<lparr>smst_Ready := False\<rparr>) sm)"

definition machine_Tags :: "MachineScope \<Rightarrow> StackitMachine \<Rightarrow> string gomap" where
  "machine_Tags ms sm =
     MachineTags (om_Name (cl_meta (ms_Cluster ms))) (om_Namespace (cl_meta (ms_Cluster ms)))
       (om_Name (mc_meta (ms_Machine ms))) (om_UID (mc_meta (ms_Machine ms)))
       (sms_AdditionalLabels (sm_Spec sm))"

definition machine_ProviderID :: "MachineScope \<Rightarrow> Server \<Rightarrow> string" where
  "machine_ProviderID ms server =
     NewProviderID (scs_ProjectID (sc_Spec (ms_StackitCluster ms)))
       (scs_Region (sc_Spec (ms_StackitCluster ms))) (srv_ID server)"

definition SetInstance :: "MachineScope \<Rightarrow> Server \<Rightarrow> StackitMachine \<Rightarrow> StackitMachine" where
  "SetInstance ms server sm =
     map_sm_Status (\<lambda>st. st\<lparr>smst_InstanceID := srv_ID server,
                           smst_InstanceState := srv_State server,
                           smst_AvailabilityZone := srv_AvailabilityZone server,
                           smst_ProviderID := machine_ProviderID ms server,
                           smst_Provisioned := True\<rparr>)
       (sm\<lparr>sm_Spec := (sm_Spec sm)\<lparr>sms_ProviderID := Some (machine_ProviderID ms server)\<rparr>\<rparr>)"

definition ClearInstance :: "StackitMachine \<Rightarrow> StackitMachine" where
  "ClearInstance sm =
     map_sm_Status (\<lambda>st. st\<lparr>smst_InstanceID := [], smst_InstanceState := [],
                           smst_AvailabilityZone := []\<rparr>) sm"

definition machine_AvailabilityZone :: "MachineScope \<Rightarrow> StackitMachine \<Rightarrow> string" where
  "machine_AvailabilityZone ms sm =
     (if mc_FailureDomain (ms_Machine ms) \<noteq> [] then mc_FailureDomain (ms_Machine ms)
      else if sms_AvailabilityZone (sm_Spec sm) \<noteq> [] then sms_AvailabilityZone (sm_Spec sm)
      else
        let fds = scst_FailureDomains (sc_Status (ms_StackitCluster ms)) in
        if fds \<noteq> [] then hd (sort (map fd_Name fds))
        else if scs_Region (sc_Spec (ms_StackitCluster ms)) \<noteq> []
        then scs_Region (sc_Spec (ms_StackitCluster ms)) @ ''-1''
        else [])"

definition machine_NetworkID :: "MachineScope \<Rightarrow> StackitMachine \<Rightarrow> string" where
  "machine_NetworkID ms sm =
     (if sms_NetworkID (sm_Spec sm) \<noteq> [] then sms_NetworkID (sm_Spec sm)
      else if scs_NetworkID (sc_Spec (ms_StackitCluster ms)) \<noteq> []
      then scs_NetworkID (sc_Spec (ms_StackitCluster ms))
      else nst_ID (scst_Network (sc_Status (ms_StackitCluster ms))))"

lemmas machine_scope_defs =
  machine_SetConditions_def machine_SetReady_def machine_SetNotReady_def SetInstance_def
  ClearInstance_def

section \<open>controller/stackitmachine_infrastructure.go\<close>

definition knownAZ :: "FailureDomain list \<Rightarrow> string \<Rightarrow> bool" where
  "knownAZ clusterFailureDomains zone = list_ex (\<lambda>fd. fd_Name fd = zone) clusterFailureDomains"

definition validateMachineAvailabilityZone ::
  "MachineScope \<Rightarrow> StackitMachine \<Rightarrow> go_error option" where
  "validateMachineAvailabilityZone ms sm =
     (let fds = scst_FailureDomains (sc_Status (ms_StackitCluster ms));
          az = sms_AvailabilityZone (sm_Spec sm);
          fd = mc_FailureDomain (ms_Machine ms)
      in if fds = [] then None
         else if az \<noteq> [] \<and> \<not> knownAZ fds az
         then Some (mk_error [] (''availabilityZone '' @ quote az @
                ('' is not published in StackitCluster status.failureDomains'')))
         else if fd \<noteq> [] \<and> \<not> knownAZ fds fd
         then Some (mk_error [] (''machine failureDomain '' @ quote fd @
                ('' is not published in StackitCluster status.failureDomains'')))
         else None)"

definition fetchBootstrapData ::
  "'k Kube \<Rightarrow> Machine \<Rightarrow> ('k, string \<times> ConditionStatus \<times> string \<times> string) state" where
  "fetchBootstrapData K machine =
     (case mc_DataSecretName machine of
        None \<Rightarrow> ret ([], ConditionFalse, ''BootstrapDataSecretMissing'',
                    ''Machine.spec.bootstrap.dataSecretName is empty'')
      | Some name \<Rightarrow>
          if name = []
          then ret ([], ConditionFalse, ''BootstrapDataSecretMissing'',
                    ''Machine.spec.bootstrap.dataSecretName is empty'')
          else do {
            let key = \<lparr>nn_Namespace = om_Namespace (mc_meta machine), nn_Name = name\<rparr>;
            res \<leftarrow> kube_GetSecret K key;
            case res of
              Inl err \<Rightarrow>
                if apierrors_IsNotFound err
                then ret ([], ConditionFalse, ''BootstrapDataSecretNotFound'',
                       ''bootstrap secret '' @ show_NamespacedName key @ '' not found'')
                else ret ([], ConditionFalse, ''BootstrapDataSecretError'', err_text err)
            | Inr secret \<Rightarrow>
                (case ExtractBootstrapData secret of
                   Inl err \<Rightarrow> ret ([], ConditionFalse, BootstrapReasonInvalid, err_text err)
                 | Inr data \<Rightarrow> ret (data, ConditionTrue, ''Available'', []))
          })"

definition errInstanceGone :: "string \<Rightarrow> go_error" where
  "errInstanceGone instanceID = mk_error [ErrInstanceGone]
     (''instance gone: server '' @ instanceID @ ''; the Machine must be replaced'')"

definition createServerInput ::
  "MachineScope \<Rightarrow> StackitMachine \<Rightarrow> string \<Rightarrow> string \<Rightarrow> CreateServerInput" where
  "createServerInput ms sm networkID userData =
     \<lparr>csi_Name = om_Name (sm_meta sm),
      csi_ProjectID = scs_ProjectID (sc_Spec (ms_StackitCluster ms)),
      csi_Region = scs_Region (sc_Spec (ms_StackitCluster ms)),
      csi_ImageID = sms_ImageID (sm_Spec sm),
      csi_MachineType = sms_MachineType (sm_Spec sm),
      csi_AvailabilityZone = machine_AvailabilityZone ms sm,
      csi_SSHKeyName = sms_SSHKeyName (sm_Spec sm),
      csi_NetworkID = networkID,
      csi_SecurityGroups = sms_SecurityGroups (sm_Spec sm),
      csi_UserData = userData,
      csi_Tags = machine_Tags ms sm,
      csi_RootVolume =
        \<lparr>rv_SizeGiB = rvs_SizeGiB (sms_RootVolume (sm_Spec sm)),
         rv_PerformanceClass = rvs_PerformanceClass (sms_RootVolume (sm_Spec sm)),
         rv_DeleteOnTermination =
           (case rvs_DeleteOnTermination (sms_RootVolume (sm_Spec sm)) of
              None \<Rightarrow> True | Some b \<Rightarrow> b)\<rparr>\<rparr>"

definition createMissingServer ::
  "'c Client \<Rightarrow> MachineScope \<Rightarrow> string \<Rightarrow>
   (('c, 'k, StackitMachine) rstate, Server \<times> bool) call" where
  \<comment> \<open>the part of \<open>ensureServer\<close> after both lookups have found nothing\<close>
  "createMissingServer cloudClient ms userData = do {
     sm \<leftarrow> getObj;
     if smst_Provisioned (sm_Status sm)
     then fail_with (errInstanceGone (smst_InstanceID (sm_Status sm)))
     else do {
       let networkID = machine_NetworkID ms sm;
       if networkID = []
       then fail_with (mk_error [ErrTransient]
              ''transient: cluster network ID is not yet available'')
       else do {
         let input = createServerInput ms sm networkID userData;
         res \<leftarrow> cloudCall (OpCreateServer input) (CreateServer cloudClient input);
         case res of Inl err \<Rightarrow> fail_with err | Inr server \<Rightarrow> ok (server, True)
       }
     }
   }"

definition findServerOrCreate ::
  "'c Client \<Rightarrow> MachineScope \<Rightarrow> string \<Rightarrow>
   (('c, 'k, StackitMachine) rstate, Server \<times> bool) call" where
  \<comment> \<open>the part of \<open>ensureServer\<close> from the lookup by tags on\<close>
  "findServerOrCreate cloudClient ms userData = do {
     sm \<leftarrow> getObj;
     let tags = machine_Tags ms sm;
     res \<leftarrow> cloudCall (OpFindServerByTags tags) (FindServerByTags cloudClient tags);
     case res of
       Inr server \<Rightarrow> ok (server, False)
     | Inl err \<Rightarrow>
         if IsNotFound err then createMissingServer cloudClient ms userData else fail_with err
   }"

definition ensureServer ::
  "'c Client \<Rightarrow> MachineScope \<Rightarrow> string \<Rightarrow>
   (('c, 'k, StackitMachine) rstate, Server \<times> bool) call" where
  "ensureServer cloudClient ms userData = do {
     sm \<leftarrow> getObj;
     let instanceID = smst_InstanceID (sm_Status sm);
     if instanceID = [] then findServerOrCreate cloudClient ms userData
     else do {
       res \<leftarrow> cloudCall (OpGetServer instanceID) (GetServer cloudClient instanceID);
       case res of
         Inr server \<Rightarrow> ok (server, False)
       | Inl err \<Rightarrow>
           if IsNotFound err then findServerOrCreate cloudClient ms userData else fail_with err
     }
   }"

definition reconcileBastionNodeSSHAccess ::
  "'c Client \<Rightarrow> MachineScope \<Rightarrow> Server \<Rightarrow> (('c, 'k, StackitMachine) rstate, unit) call" where
  "reconcileBastionNodeSSHAccess cloudClient ms server =
     (let sc = ms_StackitCluster ms;
          securityGroupID = bst_SecurityGroupID (scst_Bastion (sc_Status sc))
      in if \<not> bs_Enabled (scs_Bastion (sc_Spec sc)) then ok ()
         else if securityGroupID = []
         then fail_with (mk_error [ErrTransient]
                ''transient: bastion security group ID is empty'')
         else if srv_ID server = []
         then fail_with (mk_error [ErrTransient] ''transient: server ID is empty'')
         else do {
           let input = \<lparr>nsi_Name = om_Name (sc_meta sc) @ ''-node-ssh'',
                        nsi_ServerID = srv_ID server,
                        nsi_BastionSecurityGroupID = securityGroupID,
                        nsi_Tags = NodeSSHAccessTags sc\<rparr>;
           res \<leftarrow> cloudCall (OpEnsureNodeSSHAccess input) (EnsureNodeSSHAccess cloudClient input);
           case res of Inl err \<Rightarrow> fail_with err | Inr sg \<Rightarrow> ok ()
         })"

definition machineAddressesFromCloud :: "Address list \<Rightarrow> MachineAddress list" where
  "machineAddressesFromCloud xs =
     map (\<lambda>a. \<lparr>ma_Type = adr_Type a, ma_Address = adr_Address a\<rparr>) xs"

definition getStackitCluster :: "'k Kube \<Rightarrow> Cluster \<Rightarrow> ('k, StackitCluster option) call" where
  "getStackitCluster K cluster =
     (if ref_Name (cl_InfrastructureRef cluster) = [] then ok None
      else do {
        let key = \<lparr>nn_Namespace = om_Namespace (cl_meta cluster),
                   nn_Name = ref_Name (cl_InfrastructureRef cluster)\<rparr>;
        res \<leftarrow> kube_GetStackitCluster K key;
        case res of
          Inl err \<Rightarrow>
            if apierrors_IsNotFound err then ok None
            else fail_with (wrap_error (''get StackitCluster '' @ show_NamespacedName key) err)
        | Inr sc \<Rightarrow> ok (Some sc)
      })"

subsection \<open>reconcileNormal\<close>

definition ensureMachineFinalizer ::
  "('c, 'k) Reconciler \<Rightarrow> (('c, 'k, StackitMachine) rstate, unit) call" where
  "ensureMachineFinalizer r = do {
     sm \<leftarrow> getObj;
     if ContainsFinalizer (r_lib r) (om_Finalizers (sm_meta sm)) MachineFinalizer then ok ()
     else do {
       _ \<leftarrow> modifyObj (\<lambda>sm. sm\<lparr>sm_meta := (sm_meta sm)\<lparr>om_Finalizers :=
              AddFinalizer (r_lib r) (om_Finalizers (sm_meta sm)) MachineFinalizer\<rparr>\<rparr>);
       res \<leftarrow> patchCall (kube_PatchStackitMachine (r_Client r));
       case res of
         Inl err \<Rightarrow> fail_with (wrap_error ''persist finalizer'' err)
       | Inr _ \<Rightarrow> ok ()
     }
   }"

definition machineCloudFailure ::
  "('c, 'k) Reconciler \<Rightarrow> string \<Rightarrow> go_error \<Rightarrow> string list \<Rightarrow>
   (('c, 'k, StackitMachine) rstate, outcome) state" where
  \<comment> \<open>\<open>SetNotReady\<close> followed by the return of \<open>util.CloudFailureResult\<close> with returned error\<close>
  "machineCloudFailure r reason err conditionTypes = do {
     _ \<leftarrow> modifyObj (machine_SetNotReady (r_lib r) reason (err_text err) conditionTypes);
     sm \<leftarrow> getObj;
     let (conds, out) = CloudFailureResult (r_lib r) (smst_Conditions (sm_Status sm))
           (om_Generation (sm_meta sm)) reason err retryableErrorRequeueAfter True conditionTypes;
     _ \<leftarrow> modifyObj (map_sm_Status (\<lambda>st. st\<lparr>smst_Conditions := conds\<rparr>));
     ret out
   }"

definition reconcileMachineAccess ::
  "('c, 'k) Reconciler \<Rightarrow> 'c Client \<Rightarrow> MachineScope \<Rightarrow> Server \<Rightarrow>
   (('c, 'k, StackitMachine) rstate, outcome) state" where
  "reconcileMachineAccess r cloudClient ms server = do {
     res \<leftarrow> reconcileBastionNodeSSHAccess cloudClient ms server;
     case res of
       Inl err \<Rightarrow> do {
         _ \<leftarrow> recordWarn ''FailedNodeSSHAccess''
                (''Failed to configure bastion SSH access for server '' @ srv_ID server @ '': '' @
                 err_text err);
         machineCloudFailure r ''BastionSSHAccessError'' err [MachineReadyCondition]
       }
     | Inr _ \<Rightarrow> do {
         _ \<leftarrow> modifyObj (machine_SetReady (r_lib r));
         ret (no_requeue, None)
       }
   }"

definition reconcileMachineState ::
  "('c, 'k) Reconciler \<Rightarrow> 'c Client \<Rightarrow> MachineScope \<Rightarrow> Server \<Rightarrow>
   (('c, 'k, StackitMachine) rstate, outcome) state" where
  "reconcileMachineState r cloudClient ms server = do {
     _ \<leftarrow> modifyObj (map_sm_Status (\<lambda>st. st\<lparr>smst_InstanceState := srv_State server,
            smst_Addresses := machineAddressesFromCloud (srv_Addresses server)\<rparr>));
     _ \<leftarrow> modifyObj (SetInstance ms server);
     let (ready, reason, message, warn) =
       serverStateCondition (srv_State server) (srv_PowerStatus server);
     if \<not> ready then do {
       sm \<leftarrow> getObj;
       let previousReason =
         (case FindStatusCondition (r_lib r) (smst_Conditions (sm_Status sm))
                 MachineInstanceReadyCondition of
            None \<Rightarrow> [] | Some previous \<Rightarrow> cond_Reason previous);
       _ \<leftarrow> modifyObj (machine_SetNotReady (r_lib r) reason message
              [MachineInstanceReadyCondition, MachineReadyCondition]);
       _ \<leftarrow> (if warn \<and> previousReason \<noteq> reason
             then recordWarn reason (''Server '' @ srv_ID server @ '': '' @ message)
             else ret ());
       ret (requeue_after (15 * second), None)
     }
     else reconcileMachineAccess r cloudClient ms server
   }"

definition reconcileMachineInstance ::
  "('c, 'k) Reconciler \<Rightarrow> 'c Client \<Rightarrow> MachineScope \<Rightarrow> string \<Rightarrow>
   (('c, 'k, StackitMachine) rstate, outcome) state" where
  "reconcileMachineInstance r cloudClient ms bootstrapData = do {
     res \<leftarrow> ensureServer cloudClient ms bootstrapData;
     sm \<leftarrow> getObj;
     case res of
       Inl err \<Rightarrow>
         if errors_Is err ErrInstanceGone then do {
           _ \<leftarrow> modifyObj (machine_SetNotReady (r_lib r) ''InstanceNotFound'' (err_text err)
                  [MachineInstanceReadyCondition, MachineReadyCondition]);
           _ \<leftarrow> recordWarn ''InstanceNotFound''
                  (''Server '' @ smst_InstanceID (sm_Status sm) @
                   '' no longer exists; the Machine must be replaced'');
           ret (no_requeue, None)
         }
         else do {
           _ \<leftarrow> recordWarn ''FailedCreateInstance''
                  (''Failed to create server '' @ om_Name (sm_meta sm) @
                   '' (imageID: '' @ sms_ImageID (sm_Spec sm) @
                   '', networkID: '' @ machine_NetworkID ms sm @
                   '', region: '' @ scs_Region (sc_Spec (ms_StackitCluster ms)) @ ''): '' @
                   err_text err);
           machineCloudFailure r ''InstanceError'' err
             [MachineInstanceReadyCondition, MachineReadyCondition]
         }
     | Inr (server, created) \<Rightarrow> do {
         _ \<leftarrow> (if created
               then recordEvent ''InstanceCreated'' (''Created instance '' @ srv_ID server)
               else ret ());
         reconcileMachineState r cloudClient ms server
       }
   }"

definition reconcileMachineCredentials ::
  "('c, 'k) Reconciler \<Rightarrow> MachineScope \<Rightarrow> string \<Rightarrow>
   (('c, 'k, StackitMachine) rstate, outcome) state" where
  "reconcileMachineCredentials r ms bootstrapData = do {
     res \<leftarrow> kubeCall (BuildCloudClient (r_Client r) (r_CloudClientFactory r) (ms_StackitCluster ms));
     case res of
       Inl err \<Rightarrow> do {
         _ \<leftarrow> recordWarn ''InvalidCredentials'' (''Failed to build cloud client: '' @ err_text err);
         sm \<leftarrow> getObj;
         let (conds, out) = CredentialFailureResult (r_lib r) (smst_Conditions (sm_Status sm))
               (om_Generation (sm_meta sm)) err credentialsRetryRequeueAfter
               [MachineCredentialsReadyCondition, MachineReadyCondition];
         _ \<leftarrow> modifyObj (map_sm_Status (\<lambda>st. st\<lparr>smst_Conditions := conds\<rparr>));
         ret out
       }
     | Inr cloudClient \<Rightarrow> do {
         _ \<leftarrow> modifyObj (machine_SetConditions (r_lib r) ConditionTrue ''Available'' []
                [MachineCredentialsReadyCondition]);
         reconcileMachineInstance r cloudClient ms bootstrapData
       }
   }"

definition reconcileMachineBootstrap ::
  "('c, 'k) Reconciler \<Rightarrow> MachineScope \<Rightarrow> (('c, 'k, StackitMachine) rstate, outcome) state" where
  "reconcileMachineBootstrap r ms = do {
     (bootstrapData, conditionStatus, reason, message) \<leftarrow>
       kubeState (fetchBootstrapData (r_Client r) (ms_Machine ms));
     _ \<leftarrow> modifyObj (machine_SetConditions (r_lib r) conditionStatus reason message
            [MachineBootstrapReadyCondition]);
     if conditionStatus \<noteq> ConditionTrue then do {
       _ \<leftarrow> recordWarn reason (''Bootstrap data error: '' @ message);
       _ \<leftarrow> modifyObj (machine_SetConditions (r_lib r) ConditionFalse reason message
              [MachineReadyCondition]);
       if reason = BootstrapReasonInvalid then ret (no_requeue, None)
       else ret (requeue_after retryableErrorRequeueAfter, None)
     }
     else reconcileMachineCredentials r ms bootstrapData
   }"

definition reconcileMachineGuards ::
  "('c, 'k) Reconciler \<Rightarrow> MachineScope \<Rightarrow> (('c, 'k, StackitMachine) rstate, outcome) state" where
  "reconcileMachineGuards r ms =
     (if \<not> scst_Ready (sc_Status (ms_StackitCluster ms)) then do {
        _ \<leftarrow> modifyObj (machine_SetNotReady (r_lib r) ''InfrastructureNotReady''
               ''waiting for StackitCluster to be ready'' [MachineReadyCondition]);
        ret (no_requeue, None)
      }
      else do {
        sm \<leftarrow> getObj;
        case validateMachineAvailabilityZone ms sm of
          Some err \<Rightarrow> do {
            _ \<leftarrow> recordWarn ''InvalidFailureDomain'' (err_text err);
            _ \<leftarrow> modifyObj (machine_SetNotReady (r_lib r) ''InvalidFailureDomain'' (err_text err)
                   [MachineInstanceReadyCondition, MachineReadyCondition]);
            ret (no_requeue, None)
          }
        | None \<Rightarrow> reconcileMachineBootstrap r ms
      })"

definition machine_reconcileNormal ::
  "('c, 'k) Reconciler \<Rightarrow> MachineScope \<Rightarrow> (('c, 'k, StackitMachine) rstate, outcome) state" where
  "machine_reconcileNormal r ms = do {
     fin \<leftarrow> ensureMachineFinalizer r;
     case fin of
       Inl err \<Rightarrow> ret (no_requeue, Some err)
     | Inr _ \<Rightarrow> reconcileMachineGuards r ms
   }"

subsection \<open>reconcileDelete\<close>

definition resolveServerForDeletion ::
  "'c Client \<Rightarrow> MachineScope \<Rightarrow> (('c, 'k, StackitMachine) rstate, string) call" where
  "resolveServerForDeletion cloudClient ms = do {
     sm \<leftarrow> getObj;
     if smst_InstanceID (sm_Status sm) \<noteq> [] then ok (smst_InstanceID (sm_Status sm))
     else do {
       let tags = machine_Tags ms sm;
       res \<leftarrow> cloudCall (OpFindServerByTags tags) (FindServerByTags cloudClient tags);
       case res of
         Inl err \<Rightarrow> if IsNotFound err then ok [] else fail_with err
       | Inr server \<Rightarrow> ok (srv_ID server)
     }
   }"

definition removeMachineFinalizer ::
  "('c, 'k) Reconciler \<Rightarrow> (('c, 'k, StackitMachine) rstate, unit) state" where
  "removeMachineFinalizer r =
     modifyObj (\<lambda>sm. sm\<lparr>sm_meta := (sm_meta sm)\<lparr>om_Finalizers :=
       RemoveFinalizer (r_lib r) (om_Finalizers (sm_meta sm)) MachineFinalizer\<rparr>\<rparr>)"

definition deleteServerByID ::
  "('c, 'k) Reconciler \<Rightarrow> 'c Client \<Rightarrow> string \<Rightarrow> (('c, 'k, StackitMachine) rstate, unit) call" where
  "deleteServerByID r cloudClient instanceID =
     (if instanceID = [] then do { _ \<leftarrow> removeMachineFinalizer r; ok () }
      else do {
        del \<leftarrow> cloudCall (OpDeleteServer instanceID) (DeleteServer cloudClient instanceID);
        let failed = (case del of
            Inl err \<Rightarrow> if IsNotFound err then None else Some err
          | Inr _ \<Rightarrow> None);
        case failed of
          Some err \<Rightarrow> do {
            _ \<leftarrow> recordWarn ''FailedDeleteInstance''
                   (''Failed to delete server '' @ instanceID @ '': '' @ err_text err);
            fail_with err
          }
        | None \<Rightarrow> do {
            _ \<leftarrow> modifyObj ClearInstance;
            _ \<leftarrow> recordEvent ''InstanceDeleted'' (''Deleted instance '' @ instanceID);
            _ \<leftarrow> removeMachineFinalizer r;
            ok ()
          }
      })"

definition deleteMachineServer ::
  "('c, 'k) Reconciler \<Rightarrow> 'c Client \<Rightarrow> MachineScope \<Rightarrow>
   (('c, 'k, StackitMachine) rstate, unit) call" where
  "deleteMachineServer r cloudClient ms = do {
     res \<leftarrow> resolveServerForDeletion cloudClient ms;
     case res of
       Inl err \<Rightarrow> do {
         _ \<leftarrow> recordWarn ''FailedResolveInstance''
                (''Failed to resolve server for deletion: '' @ err_text err);
         fail_with err
       }
     | Inr instanceID \<Rightarrow> deleteServerByID r cloudClient instanceID
   }"

definition machine_reconcileDelete ::
  "('c, 'k) Reconciler \<Rightarrow> MachineScope \<Rightarrow> (('c, 'k, StackitMachine) rstate, unit) call" where
  "machine_reconcileDelete r ms = do {
     res \<leftarrow> kubeCall (BuildCloudClient (r_Client r) (r_CloudClientFactory r) (ms_StackitCluster ms));
     case res of
       Inl err \<Rightarrow>
         if apierrors_IsNotFound err then do {
           _ \<leftarrow> recordWarn ''CleanupSkipped''
                  (''Credentials Secret is gone; finalizing without cloud cleanup. '' @
                   ''Any remaining STACKIT server for this machine must be removed manually: '' @
                   err_text err);
           _ \<leftarrow> removeMachineFinalizer r;
           ok ()
         }
         else do {
           _ \<leftarrow> recordWarn ''InvalidCredentials''
                  (''Failed to build cloud client for deletion: '' @ err_text err);
           sm \<leftarrow> getObj;
           let (conds, out) = CredentialFailureResult (r_lib r) (smst_Conditions (sm_Status sm))
                 (om_Generation (sm_meta sm)) err credentialsRetryRequeueAfter
                 [MachineCredentialsReadyCondition];
           _ \<leftarrow> modifyObj (map_sm_Status (\<lambda>st. st\<lparr>smst_Conditions := conds\<rparr>));
           (case snd out of None \<Rightarrow> ok () | Some e \<Rightarrow> fail_with e)
         }
     | Inr cloudClient \<Rightarrow> deleteMachineServer r cloudClient ms
   }"

section \<open>controller/stackitmachine_controller.go\<close>

definition machine_runPhases ::
  "('c, 'k) Reconciler \<Rightarrow> MachineScope \<Rightarrow> (('c, 'k, StackitMachine) rstate, outcome) state" where
  \<comment> \<open>the body of \<open>Reconcile\<close> under the deferred patch\<close>
  "machine_runPhases r ms = do {
     sm \<leftarrow> getObj;
     let (paused, message) = ReconciliationPaused (r_lib r) (Some (ms_Cluster ms)) (sm_meta sm);
     _ \<leftarrow> modifyObj (map_sm_Status (\<lambda>st. st\<lparr>smst_Conditions :=
            SetPausedCondition (r_lib r) (smst_Conditions st) (om_Generation (sm_meta sm)) paused
              message\<rparr>));
     if paused then ret (no_requeue, None)
     else if om_DeletionTimestamp (sm_meta sm) \<noteq> None then do {
       res \<leftarrow> machine_reconcileDelete r ms;
       (case res of
          Inl err \<Rightarrow> ret (no_requeue, Some err)
        | Inr _ \<Rightarrow> ret (no_requeue, None))
     }
     else machine_reconcileNormal r ms
   }"

definition machine_reconcileScope ::
  "('c, 'k) Reconciler \<Rightarrow> MachineScope \<Rightarrow> (('c, 'k, StackitMachine) rstate, outcome) state" where
  "machine_reconcileScope r ms = do {
     (result, err) \<leftarrow> machine_runPhases r ms;
     patched \<leftarrow> patchCall (kube_PatchStackitMachine (r_Client r));
     (case patched of
        Inl patchErr \<Rightarrow> ret (result, if err = None then Some patchErr else err)
      | Inr _ \<Rightarrow> ret (result, err))
   }"

definition NewMachineScope ::
  "'k Kube \<Rightarrow> Cluster \<Rightarrow> Machine \<Rightarrow> StackitCluster \<Rightarrow> StackitMachine \<Rightarrow> ('k, MachineScope) call" where
  \<comment> \<open>the patch helper of the scope is the snapshot that the Kubernetes client takes\<close>
  "NewMachineScope K cluster machine stackitCluster stackitMachine = do {
     res \<leftarrow> kube_NewHelperStackitMachine K stackitMachine;
     case res of
       Inl err \<Rightarrow> fail_with err
     | Inr _ \<Rightarrow> ok \<lparr>ms_Cluster = cluster, ms_Machine = machine, ms_StackitCluster = stackitCluster\<rparr>
   }"

definition machine_lookupScope ::
  "('c, 'k) Reconciler \<Rightarrow> StackitMachine \<Rightarrow> ('k, MachineScope option) call" where
  \<comment> \<open>the reads of \<open>Reconcile\<close> between the machine and its scope; \<open>None\<close> where it returns early\<close>
  "machine_lookupScope r sm = do {
     mres \<leftarrow> kube_GetOwnerMachine (r_Client r) (sm_meta sm);
     case mres of
       Inl err \<Rightarrow> fail_with (wrap_error ''get owner machine'' err)
     | Inr None \<Rightarrow> ok None
     | Inr (Some machine) \<Rightarrow> do {
         cres \<leftarrow> kube_GetClusterFromMetadata (r_Client r) (mc_meta machine);
         (case cres of
            Inl err \<Rightarrow> fail_with (wrap_error ''get cluster from machine metadata'' err)
          | Inr None \<Rightarrow> ok None
          | Inr (Some cluster) \<Rightarrow> do {
              sres \<leftarrow> getStackitCluster (r_Client r) cluster;
              (case sres of
                 Inl err \<Rightarrow> fail_with err
               | Inr None \<Rightarrow> ok None
               | Inr (Some sc) \<Rightarrow> do {
                   hres \<leftarrow> NewMachineScope (r_Client r) cluster machine sc sm;
                   (case hres of
                      Inl err \<Rightarrow> fail_with (wrap_error ''create machine scope'' err)
                    | Inr ms \<Rightarrow> ok (Some ms))
                 })
            })
       }
   }"

definition machine_Reconcile ::
  "('c, 'k) Reconciler \<Rightarrow> NamespacedName \<Rightarrow> (('c, 'k, StackitMachine) rstate, outcome) state" where
  "machine_Reconcile r req = do {
     res \<leftarrow> kubeCall (kube_GetStackitMachine (r_Client r) req);
     case res of
       Inl err \<Rightarrow>
         ret (if apierrors_IsNotFound err then (no_requeue, None) else (no_requeue, Some err))
     | Inr sm \<Rightarrow> do {
         _ \<leftarrow> modifyObj (\<lambda>_. sm);
         scope \<leftarrow> kubeCall (machine_lookupScope r sm);
         (case scope of
            Inl err \<Rightarrow> ret (no_requeue, Some err)
          | Inr None \<Rightarrow> ret (no_requeue, None)
          | Inr (Some ms) \<Rightarrow> machine_reconcileScope r ms)
       }
   }"

end
