(* ===== verification/Fake_Client.thy ===== *)
theory Fake_Client
  imports Tags
begin

text \<open>
  \<open>cloud/fake/client.go\<close>: the in-memory implementation of the cloud client, with the failure
  injection that the tests use. Its five Go maps are association lists; a loop over a map that
  returns the first match is a search of the list, so the theorems, which are about every list,
  cover every iteration order. The mutex (every method holds it for its whole body), the test
  hooks \<open>BeforeCreateServer\<close> and \<open>BeforeGetNetwork\<close>, and the defensive copies of results
  have no counterpart in a pure model. Sets of security group IDs are lists.
\<close>

section \<open>State\<close>

record serverEntry =
  se_server :: Server
  se_tags :: "string gomap"
  se_securityGroups :: "string list"
  se_userData :: string

record lbEntry =
  le_lb :: LoadBalancer
  le_tags :: "string gomap"
  le_targets :: "string gomap"

record publicIPEntry =
  pe_publicIP :: PublicIP
  pe_tags :: "string gomap"

record securityGroupEntry =
  sge_securityGroup :: SecurityGroup
  sge_tags :: "string gomap"
  sge_allowedCIDRs :: "string list"
  sge_remoteSecurityGroups :: "string list"

record networkEntry =
  ne_network :: Network
  ne_tags :: "string gomap"

record fake_failures =
  FailNextCreateServer :: "go_error option"
  FailNextDeleteServer :: "go_error option"
  FailNextGetServer :: "go_error option"
  FailNextFindServer :: "go_error option"
  FailNextEnsureLB :: "go_error option"
  FailNextDeleteLB :: "go_error option"
  FailNextSetTargets :: "go_error option"
  FailNextGetNetwork :: "go_error option"
  FailNextCreateNetwork :: "go_error option"
  FailNextDeleteNetwork :: "go_error option"
  FailNextEnsureBastion :: "go_error option"
  FailNextDeleteBastion :: "go_error option"
  FailNextEnsureNodeSSH :: "go_error option"
  FailNextDeleteNodeSSH :: "go_error option"
  FailNextListAZ :: "go_error option"

record fake =
  servers :: "serverEntry gomap"
  loadBalancers :: "lbEntry gomap"
  publicIPs :: "publicIPEntry gomap"
  securityGroups :: "securityGroupEntry gomap"
  networks :: "networkEntry gomap"
  nextID :: nat
  failures :: fake_failures
  AvailabilityZones :: "string list"
  LastCreateServerInput :: "CreateServerInput option"
  CreateServerCalls :: nat
  EnsureBastionCalls :: nat
  EnsureNodeSSHCalls :: nat

definition no_failures :: fake_failures where
  "no_failures = \<lparr>FailNextCreateServer = None, FailNextDeleteServer = None,
     FailNextGetServer = None, FailNextFindServer = None, FailNextEnsureLB = None,
     FailNextDeleteLB = None, FailNextSetTargets = None, FailNextGetNetwork = None,
     FailNextCreateNetwork = None, FailNextDeleteNetwork = None, FailNextEnsureBastion = None,
     FailNextDeleteBastion = None, FailNextEnsureNodeSSH = None, FailNextDeleteNodeSSH = None,
     FailNextListAZ = None\<rparr>"

definition fake_New :: "Network list \<Rightarrow> fake" where
  "fake_New nets =
     \<lparr>servers = [], loadBalancers = [], publicIPs = [], securityGroups = [],
      networks = foldl (\<lambda>m n. AList.update (net_ID n) \<lparr>ne_network = n, ne_tags = []\<rparr> m) [] nets,
      nextID = 0, failures = no_failures, AvailabilityZones = [], LastCreateServerInput = None,
      CreateServerCalls = 0, EnsureBastionCalls = 0, EnsureNodeSSHCalls = 0\<rparr>"

definition consume ::
  "(fake_failures \<Rightarrow> go_error option) \<Rightarrow>
   ((go_error option \<Rightarrow> go_error option) \<Rightarrow> fake_failures \<Rightarrow> fake_failures) \<Rightarrow>
   (fake, 'a) call \<Rightarrow> (fake, 'a) call" where
  \<comment> \<open>the injected error is returned and cleared, otherwise the body runs\<close>
  "consume sel upd body = State (\<lambda>c.
     case sel (failures c) of
       Some err \<Rightarrow> (Inl err, c\<lparr>failures := upd (\<lambda>_. None) (failures c)\<rparr>)
     | None \<Rightarrow> run_state body c)"

definition fake_id :: "nat \<Rightarrow> string" where
  "fake_id n = ''fake-'' @ digits n"

section \<open>Servers\<close>

definition fake_GetServer :: "string \<Rightarrow> (fake, Server) call" where
  "fake_GetServer i = consume FailNextGetServer FailNextGetServer_update (State (\<lambda>c.
     case map_of (servers c) i of
       None \<Rightarrow> (Inl (mk_error [ErrNotFound] (''server '' @ quote i @ '': not found'')), c)
     | Some entry \<Rightarrow> (Inr (se_server entry), c)))"

definition fake_FindServerByTags :: "string gomap \<Rightarrow> (fake, Server) call" where
  "fake_FindServerByTags tags = consume FailNextFindServer FailNextFindServer_update (State (\<lambda>c.
     if tags = [] then (Inl (mk_error [ErrNotFound] ''empty tags: not found''), c)
     else case find (\<lambda>(i, entry). mapContains (se_tags entry) tags) (servers c) of
       Some (i, entry) \<Rightarrow> (Inr (se_server entry), c)
     | None \<Rightarrow> (Inl (mk_error [ErrNotFound] ''no server matching tags: not found''), c)))"

definition fake_ListServersByTags :: "string gomap \<Rightarrow> (fake, Server list) call" where
  "fake_ListServersByTags tags = State (\<lambda>c.
     if tags = [] then (Inl (mk_error [ErrInvalidInput] ''empty tags: invalid input''), c)
     else (Inr (map (\<lambda>(i, entry). se_server entry)
             (filter (\<lambda>(i, entry). mapContains (se_tags entry) tags) (servers c))), c))"

definition securityGroupSet :: "string list \<Rightarrow> string list" where
  "securityGroupSet ids = remdups (filter (\<lambda>i. i \<noteq> []) ids)"

definition newServerEntry :: "string \<Rightarrow> CreateServerInput \<Rightarrow> serverEntry" where
  \<comment> \<open>the entry that \<open>CreateServer\<close> stores under a generated ID\<close>
  "newServerEntry i input =
     \<lparr>se_server =
        \<lparr>srv_ID = i, srv_Name = csi_Name input, srv_State = ''ACTIVE'', srv_PowerStatus = [],
         srv_ProviderID = [],
         srv_AvailabilityZone =
           (if csi_AvailabilityZone input = [] then ''eu01-1'' else csi_AvailabilityZone input),
         srv_Addresses = [\<lparr>adr_Type = ''InternalIP'', adr_Address = ''10.0.0.10''\<rparr>]\<rparr>,
      se_tags = csi_Tags input,
      se_securityGroups = securityGroupSet (csi_SecurityGroups input),
      se_userData = csi_UserData input\<rparr>"

definition fake_CreateServer :: "CreateServerInput \<Rightarrow> (fake, Server) call" where
  "fake_CreateServer input = consume FailNextCreateServer FailNextCreateServer_update (State (\<lambda>c.
     case find (\<lambda>(i, entry). csi_Tags input \<noteq> [] \<and> mapContains (se_tags entry) (csi_Tags input))
            (servers c) of
       Some (i, entry) \<Rightarrow> (Inr (se_server entry), c)
     | None \<Rightarrow>
         let i = fake_id (Suc (nextID c));
             entry = newServerEntry i input
         in (Inr (se_server entry),
             c\<lparr>nextID := Suc (nextID c),
               LastCreateServerInput := Some input,
               servers := AList.update i entry (servers c),
               CreateServerCalls := Suc (CreateServerCalls c)\<rparr>)))"

definition fake_DeleteServer :: "string \<Rightarrow> (fake, unit) call" where
  "fake_DeleteServer i = consume FailNextDeleteServer FailNextDeleteServer_update (State (\<lambda>c.
     (Inr (), c\<lparr>servers := AList.delete i (servers c)\<rparr>)))"

section \<open>Networks\<close>

definition fake_GetNetwork :: "string \<Rightarrow> (fake, Network) call" where
  "fake_GetNetwork i = consume FailNextGetNetwork FailNextGetNetwork_update (State (\<lambda>c.
     case map_of (networks c) i of
       None \<Rightarrow> (Inl (mk_error [ErrNotFound] (''network '' @ quote i @ '': not found'')), c)
     | Some entry \<Rightarrow> (Inr (ne_network entry), c)))"

definition networksByTags :: "fake \<Rightarrow> string gomap \<Rightarrow> Network list" where
  "networksByTags c tags =
     map (\<lambda>(i, entry). ne_network entry)
       (filter (\<lambda>(i, entry). mapContains (ne_tags entry) tags) (networks c))"

definition fake_FindNetworkByTags :: "string gomap \<Rightarrow> (fake, Network) call" where
  "fake_FindNetworkByTags tags = State (\<lambda>c.
     (case networksByTags c tags of
        [] \<Rightarrow> Inl (mk_error [ErrNotFound] ''not found: no network matching tags'')
      | [n] \<Rightarrow> Inr n
      | _ \<Rightarrow> Inl (mk_error [ErrConflict] ''conflict: multiple networks matching tags''), c))"

definition fake_ListNetworksByTags :: "string gomap \<Rightarrow> (fake, Network list) call" where
  "fake_ListNetworksByTags tags = State (\<lambda>c.
     if tags = [] then (Inl (mk_error [ErrInvalidInput] ''invalid input: empty tag selector''), c)
     else (Inr (networksByTags c tags), c))"

definition fake_CreateNetwork :: "CreateNetworkInput \<Rightarrow> (fake, Network) call" where
  "fake_CreateNetwork input = consume FailNextCreateNetwork FailNextCreateNetwork_update (State (\<lambda>c.
     if cni_Name input = []
     then (Inl (mk_error [ErrInvalidInput] ''invalid input: network name is required''), c)
     else
       let matched = (if cni_Tags input \<noteq> [] then networksByTags c (cni_Tags input) else []) in
       case matched of
         [n] \<Rightarrow> (Inr n, c)
       | _ # _ # _ \<Rightarrow>
           (Inl (mk_error [ErrConflict] ''conflict: multiple networks matching tags''), c)
       | [] \<Rightarrow>
           let net = \<lparr>net_ID = fake_id (Suc (nextID c)), net_Name = cni_Name input,
                      net_IPv4Prefixes =
                        (if cni_IPv4Prefix input \<noteq> [] then [cni_IPv4Prefix input] else [])\<rparr>
           in (Inr net,
               c\<lparr>nextID := Suc (nextID c),
                 networks := AList.update (net_ID net)
                   \<lparr>ne_network = net, ne_tags = cni_Tags input\<rparr> (networks c)\<rparr>)))"

definition fake_DeleteNetwork :: "string \<Rightarrow> (fake, unit) call" where
  "fake_DeleteNetwork i = consume FailNextDeleteNetwork FailNextDeleteNetwork_update (State (\<lambda>c.
     case map_of (networks c) i of
       None \<Rightarrow> (Inl (mk_error [ErrNotFound] (''network '' @ quote i @ '': not found'')), c)
     | Some _ \<Rightarrow> (Inr (), c\<lparr>networks := AList.delete i (networks c)\<rparr>)))"

section \<open>Bastion, public IPs and security groups\<close>

definition publicIPByTags :: "fake \<Rightarrow> string gomap \<Rightarrow> PublicIP option" where
  "publicIPByTags c tags =
     map_option (\<lambda>(i, entry). pe_publicIP entry)
       (find (\<lambda>(i, entry). mapContains (pe_tags entry) tags) (publicIPs c))"

definition securityGroupByTags :: "fake \<Rightarrow> string gomap \<Rightarrow> SecurityGroup option" where
  "securityGroupByTags c tags =
     map_option (\<lambda>(i, entry). sge_securityGroup entry)
       (find (\<lambda>(i, entry). mapContains (sge_tags entry) tags) (securityGroups c))"

definition idOfPublicIP :: "PublicIP option \<Rightarrow> string" where
  "idOfPublicIP p = (case p of None \<Rightarrow> [] | Some ip \<Rightarrow> pip_ID ip)"

definition ipOfPublicIP :: "PublicIP option \<Rightarrow> string" where
  "ipOfPublicIP p = (case p of None \<Rightarrow> [] | Some ip \<Rightarrow> pip_IP ip)"

definition idOfSecurityGroup :: "SecurityGroup option \<Rightarrow> string" where
  "idOfSecurityGroup g = (case g of None \<Rightarrow> [] | Some sg \<Rightarrow> sg_ID sg)"

definition fake_EnsureBastion :: "BastionInput \<Rightarrow> (fake, Bastion) call" where
  "fake_EnsureBastion input = consume FailNextEnsureBastion FailNextEnsureBastion_update (State (\<lambda>c.
     case find (\<lambda>(i, entry). bi_Tags input \<noteq> [] \<and> mapContains (se_tags entry) (bi_Tags input))
            (servers c) of
       Some (i, entry) \<Rightarrow>
         let publicIP = publicIPByTags c (bi_Tags input);
             securityGroup = securityGroupByTags c (bi_Tags input)
         in (Inr \<lparr>bas_ServerID = srv_ID (se_server entry),
                  bas_ServerState = srv_State (se_server entry),
                  bas_ServerPowerStatus = srv_PowerStatus (se_server entry),
                  bas_PublicIPID = idOfPublicIP publicIP,
                  bas_PublicIP = ipOfPublicIP publicIP,
                  bas_SecurityGroupID = idOfSecurityGroup securityGroup\<rparr>, c)
     | None \<Rightarrow>
         let securityGroupID = fake_id (Suc (nextID c));
             serverID = fake_id (Suc (Suc (nextID c)));
             publicIPID = fake_id (Suc (Suc (Suc (nextID c))))
         in (Inr \<lparr>bas_ServerID = serverID, bas_ServerState = ''ACTIVE'',
                  bas_ServerPowerStatus = [], bas_PublicIPID = publicIPID,
                  bas_PublicIP = ''203.0.113.22'', bas_SecurityGroupID = securityGroupID\<rparr>,
             c\<lparr>nextID := Suc (Suc (Suc (nextID c))),
               securityGroups := AList.update securityGroupID
                 \<lparr>sge_securityGroup = \<lparr>sg_ID = securityGroupID, sg_Name = bi_Name input @ ''-ssh''\<rparr>,
                  sge_tags = bi_Tags input, sge_allowedCIDRs = bi_AllowedCIDRs input,
                  sge_remoteSecurityGroups = []\<rparr> (securityGroups c),
               servers := AList.update serverID
                 \<lparr>se_server = \<lparr>srv_ID = serverID, srv_Name = bi_Name input, srv_State = ''ACTIVE'',
                     srv_PowerStatus = [], srv_ProviderID = [], srv_AvailabilityZone = [],
                     srv_Addresses = [\<lparr>adr_Type = ''InternalIP'', adr_Address = ''10.0.0.20''\<rparr>]\<rparr>,
                  se_tags = bi_Tags input,
                  se_securityGroups = securityGroupSet [securityGroupID],
                  se_userData = bi_CloudInit input\<rparr> (servers c),
               publicIPs := AList.update publicIPID
                 \<lparr>pe_publicIP = \<lparr>pip_ID = publicIPID, pip_IP = ''203.0.113.22'',
                     pip_NetworkInterfaceID = ''fake-nic-'' @ serverID\<rparr>,
                  pe_tags = bi_Tags input\<rparr> (publicIPs c),
               EnsureBastionCalls := Suc (EnsureBastionCalls c)\<rparr>)))"

definition delete_nonempty :: "string \<Rightarrow> 'v gomap \<Rightarrow> 'v gomap" where
  "delete_nonempty i m = (if i \<noteq> [] then AList.delete i m else m)"

definition fake_DeleteBastion :: "BastionInput \<Rightarrow> Bastion \<Rightarrow> (fake, unit) call" where
  "fake_DeleteBastion input status =
     consume FailNextDeleteBastion FailNextDeleteBastion_update (State (\<lambda>c.
       (Inr (),
        c\<lparr>servers := filter (\<lambda>(i, e). \<not> mapContains (se_tags e) (bi_Tags input))
            (delete_nonempty (bas_ServerID status) (servers c)),
          publicIPs := filter (\<lambda>(i, e). \<not> mapContains (pe_tags e) (bi_Tags input))
            (delete_nonempty (bas_PublicIPID status) (publicIPs c)),
          securityGroups := filter (\<lambda>(i, e). \<not> mapContains (sge_tags e) (bi_Tags input))
            (delete_nonempty (bas_SecurityGroupID status) (securityGroups c))\<rparr>)))"

definition fake_EnsureNodeSSHAccess :: "NodeSSHAccessInput \<Rightarrow> (fake, SecurityGroup) call" where
  "fake_EnsureNodeSSHAccess input =
     consume FailNextEnsureNodeSSH FailNextEnsureNodeSSH_update (State (\<lambda>c.
       case map_of (servers c) (nsi_ServerID input) of
         None \<Rightarrow> (Inl (mk_error [ErrNotFound]
                    (''server '' @ quote (nsi_ServerID input) @ '': not found'')), c)
       | Some entry \<Rightarrow>
           let (securityGroup, c1) =
             (case securityGroupByTags c (nsi_Tags input) of
                None \<Rightarrow>
                  let sg = \<lparr>sg_ID = fake_id (Suc (nextID c)), sg_Name = nsi_Name input\<rparr>
                  in (sg, c\<lparr>nextID := Suc (nextID c),
                            securityGroups := AList.update (sg_ID sg)
                              \<lparr>sge_securityGroup = sg, sge_tags = nsi_Tags input,
                               sge_allowedCIDRs = [],
                               sge_remoteSecurityGroups = [nsi_BastionSecurityGroupID input]\<rparr>
                              (securityGroups c)\<rparr>)
              | Some sg \<Rightarrow>
                  (sg, c\<lparr>securityGroups := AList.map_entry (sg_ID sg)
                           (\<lambda>e. if List.member (sge_remoteSecurityGroups e)
                                     (nsi_BastionSecurityGroupID input) then e
                                else e\<lparr>sge_remoteSecurityGroups :=
                                  sge_remoteSecurityGroups e @ [nsi_BastionSecurityGroupID input]\<rparr>)
                           (securityGroups c)\<rparr>))
           in (Inr securityGroup,
               c1\<lparr>servers := AList.update (nsi_ServerID input)
                    (entry\<lparr>se_securityGroups :=
                       List.insert (sg_ID securityGroup) (se_securityGroups entry)\<rparr>) (servers c1),
                  EnsureNodeSSHCalls := Suc (EnsureNodeSSHCalls c1)\<rparr>)))"

definition fake_DeleteNodeSSHAccess :: "string gomap \<Rightarrow> (fake, unit) call" where
  "fake_DeleteNodeSSHAccess tags =
     consume FailNextDeleteNodeSSH FailNextDeleteNodeSSH_update (State (\<lambda>c.
       let doomed = map fst (filter (\<lambda>(i, e). mapContains (sge_tags e) tags) (securityGroups c))
       in (Inr (),
           c\<lparr>securityGroups := filter (\<lambda>(i, e). \<not> mapContains (sge_tags e) tags) (securityGroups c),
             servers := map (\<lambda>(i, e). (i, e\<lparr>se_securityGroups :=
               filter (\<lambda>g. \<not> List.member doomed g) (se_securityGroups e)\<rparr>)) (servers c)\<rparr>)))"

definition fake_ListPublicIPsByTags :: "string gomap \<Rightarrow> (fake, PublicIP list) call" where
  "fake_ListPublicIPsByTags tags = State (\<lambda>c.
     if tags = [] then (Inl (mk_error [ErrInvalidInput] ''empty tags: invalid input''), c)
     else (Inr (map (\<lambda>(i, entry). pe_publicIP entry)
             (filter (\<lambda>(i, entry). mapContains (pe_tags entry) tags) (publicIPs c))), c))"

definition fake_ListSecurityGroupsByTags :: "string gomap \<Rightarrow> (fake, SecurityGroup list) call" where
  "fake_ListSecurityGroupsByTags tags = State (\<lambda>c.
     if tags = [] then (Inl (mk_error [ErrInvalidInput] ''empty tags: invalid input''), c)
     else (Inr (map (\<lambda>(i, entry). sge_securityGroup entry)
             (filter (\<lambda>(i, entry). mapContains (sge_tags entry) tags) (securityGroups c))), c))"

section \<open>Load balancers and zones\<close>

definition targets_map :: "LoadBalancerTargetInput list \<Rightarrow> string gomap" where
  "targets_map ts = foldl (\<lambda>m t. AList.update (lti_Name t) (lti_IP t) m) [] ts"

definition fake_EnsureAPIServerLoadBalancer ::
  "LoadBalancerInput \<Rightarrow> (fake, LoadBalancer option) call" where
  "fake_EnsureAPIServerLoadBalancer input =
     consume FailNextEnsureLB FailNextEnsureLB_update (State (\<lambda>c.
       case find (\<lambda>(i, entry). lbi_Tags input \<noteq> [] \<and> mapContains (le_tags entry) (lbi_Tags input))
              (loadBalancers c) of
         Some (i, entry) \<Rightarrow> (Inr (Some (le_lb entry)), c)
       | None \<Rightarrow>
           let i = fake_id (Suc (nextID c));
               lb = \<lparr>lb_ID = i, lb_Name = lbi_Name input, lb_IP = ''203.0.113.10'',
                     lb_DNSName = [], lb_Port = lbi_Port input\<rparr>;
               targets = (if lbi_Targets input = []
                          then [(''capi-bootstrap-placeholder'', ''10.0.0.1'')]
                          else targets_map (lbi_Targets input))
           in (Inr (Some lb),
               c\<lparr>nextID := Suc (nextID c),
                 loadBalancers := AList.update i
                   \<lparr>le_lb = lb, le_tags = lbi_Tags input, le_targets = targets\<rparr>
                   (loadBalancers c)\<rparr>)))"

definition fake_ListAPIServerLoadBalancersByTags ::
  "string gomap \<Rightarrow> (fake, LoadBalancer list) call" where
  "fake_ListAPIServerLoadBalancersByTags tags = State (\<lambda>c.
     if tags = [] then (Inl (mk_error [ErrInvalidInput] ''empty tags: invalid input''), c)
     else (Inr (map (\<lambda>(i, entry). le_lb entry)
             (filter (\<lambda>(i, entry). mapContains (le_tags entry) tags) (loadBalancers c))), c))"

definition fake_SetAPIServerLoadBalancerTargets ::
  "string \<Rightarrow> int \<Rightarrow> LoadBalancerTargetInput list \<Rightarrow> (fake, unit) call" where
  "fake_SetAPIServerLoadBalancerTargets loadBalancerID port targets =
     consume FailNextSetTargets FailNextSetTargets_update (State (\<lambda>c.
       if loadBalancerID = [] \<or> port \<le> 0
       then (Inl (mk_error [ErrInvalidInput]
              ''load balancer ID and target port are required: invalid input''), c)
       else if targets = []
       then (Inl (mk_error [ErrInvalidInput] ''at least one target is required: invalid input''), c)
       else case map_of (loadBalancers c) loadBalancerID of
         None \<Rightarrow> (Inl (mk_error [ErrNotFound]
                    (''load balancer '' @ quote loadBalancerID @ '': not found'')), c)
       | Some entry \<Rightarrow>
           if list_ex (\<lambda>t. lti_Name t = [] \<or> lti_IP t = []) targets
           then (Inl (mk_error [ErrInvalidInput]
                  ''target name and target IP are required: invalid input''), c)
           else (Inr (), c\<lparr>loadBalancers := AList.update loadBalancerID
                  (entry\<lparr>le_targets := targets_map targets\<rparr>) (loadBalancers c)\<rparr>)))"

definition fake_DeleteAPIServerLoadBalancer :: "string \<Rightarrow> (fake, unit) call" where
  "fake_DeleteAPIServerLoadBalancer i =
     consume FailNextDeleteLB FailNextDeleteLB_update (State (\<lambda>c.
       (Inr (), c\<lparr>loadBalancers := AList.delete i (loadBalancers c)\<rparr>)))"

definition fake_ListAvailabilityZones :: "(fake, string list) call" where
  "fake_ListAvailabilityZones =
     consume FailNextListAZ FailNextListAZ_update (State (\<lambda>c.
       (Inr (if AvailabilityZones c \<noteq> [] then AvailabilityZones c
             else [''eu01-1'', ''eu01-2'', ''eu01-3'']), c)))"

section \<open>The client\<close>

definition fake_Client :: "fake Client" where
  "fake_Client =
     \<lparr>GetNetwork = fake_GetNetwork,
      FindNetworkByTags = fake_FindNetworkByTags,
      ListNetworksByTags = fake_ListNetworksByTags,
      CreateNetwork = fake_CreateNetwork,
      DeleteNetwork = fake_DeleteNetwork,
      GetServer = fake_GetServer,
      FindServerByTags = fake_FindServerByTags,
      ListServersByTags = fake_ListServersByTags,
      CreateServer = fake_CreateServer,
      DeleteServer = fake_DeleteServer,
      EnsureBastion = fake_EnsureBastion,
      DeleteBastion = fake_DeleteBastion,
      EnsureNodeSSHAccess = fake_EnsureNodeSSHAccess,
      DeleteNodeSSHAccess = fake_DeleteNodeSSHAccess,
      ListPublicIPsByTags = fake_ListPublicIPsByTags,
      ListSecurityGroupsByTags = fake_ListSecurityGroupsByTags,
      EnsureAPIServerLoadBalancer = fake_EnsureAPIServerLoadBalancer,
      ListAPIServerLoadBalancersByTags = fake_ListAPIServerLoadBalancersByTags,
      SetAPIServerLoadBalancerTargets = fake_SetAPIServerLoadBalancerTargets,
      DeleteAPIServerLoadBalancer = fake_DeleteAPIServerLoadBalancer,
      ListAvailabilityZones = fake_ListAvailabilityZones\<rparr>"

lemma fake_Client_sel [simp]:
  "GetNetwork fake_Client = fake_GetNetwork"
  "FindNetworkByTags fake_Client = fake_FindNetworkByTags"
  "ListNetworksByTags fake_Client = fake_ListNetworksByTags"
  "CreateNetwork fake_Client = fake_CreateNetwork"
  "DeleteNetwork fake_Client = fake_DeleteNetwork"
  "GetServer fake_Client = fake_GetServer"
  "FindServerByTags fake_Client = fake_FindServerByTags"
  "ListServersByTags fake_Client = fake_ListServersByTags"
  "CreateServer fake_Client = fake_CreateServer"
  "DeleteServer fake_Client = fake_DeleteServer"
  "EnsureBastion fake_Client = fake_EnsureBastion"
  "DeleteBastion fake_Client = fake_DeleteBastion"
  "EnsureNodeSSHAccess fake_Client = fake_EnsureNodeSSHAccess"
  "DeleteNodeSSHAccess fake_Client = fake_DeleteNodeSSHAccess"
  "ListPublicIPsByTags fake_Client = fake_ListPublicIPsByTags"
  "ListSecurityGroupsByTags fake_Client = fake_ListSecurityGroupsByTags"
  "EnsureAPIServerLoadBalancer fake_Client = fake_EnsureAPIServerLoadBalancer"
  "ListAPIServerLoadBalancersByTags fake_Client = fake_ListAPIServerLoadBalancersByTags"
  "SetAPIServerLoadBalancerTargets fake_Client = fake_SetAPIServerLoadBalancerTargets"
  "DeleteAPIServerLoadBalancer fake_Client = fake_DeleteAPIServerLoadBalancer"
  "ListAvailabilityZones fake_Client = fake_ListAvailabilityZones"
  by (simp_all add: fake_Client_def)

end
