(* ===== verification/Sample_API.thy ===== *)
theory Sample_API
  imports Reconcile_State Fake_Client
begin

text \<open>
  A small concrete Kubernetes API server, an instance of the parameter \<open>Kube\<close>: one cluster and
  one machine with their infrastructure objects, and any number of Secrets and ConfigMaps. The
  theorems are applied to it where they have hypotheses.
\<close>

record api =
  api_StackitCluster :: StackitCluster
  api_StackitMachine :: StackitMachine
  api_Cluster :: Cluster
  api_Machine :: Machine
  api_Secrets :: "Secret list"
  api_ConfigMaps :: "ConfigMap list"

definition api_NotFound :: "string \<Rightarrow> go_error" where
  "api_NotFound name = mk_error [StatusReasonNotFound] (quote name @ '' not found'')"

definition api_get :: "string \<Rightarrow> 'a option \<Rightarrow> go_error + 'a" where
  "api_get name x = (case x of None \<Rightarrow> Inl (api_NotFound name) | Some a \<Rightarrow> Inr a)"

definition named :: "NamespacedName \<Rightarrow> ObjectMeta \<Rightarrow> bool" where
  "named key m \<longleftrightarrow> om_Namespace m = nn_Namespace key \<and> om_Name m = nn_Name key"

definition sample_Kube :: "api Kube" where
  "sample_Kube =
     \<lparr>kube_GetStackitCluster = (\<lambda>key. State (\<lambda>a. (api_get (nn_Name key)
        (if named key (sc_meta (api_StackitCluster a)) then Some (api_StackitCluster a) else None), a))),
      kube_GetStackitMachine = (\<lambda>key. State (\<lambda>a. (api_get (nn_Name key)
        (if named key (sm_meta (api_StackitMachine a)) then Some (api_StackitMachine a) else None), a))),
      kube_GetSecret = (\<lambda>key. State (\<lambda>a. (api_get (nn_Name key)
        (find (\<lambda>s. sec_Namespace s = nn_Namespace key \<and> sec_Name s = nn_Name key) (api_Secrets a)), a))),
      kube_GetConfigMap = (\<lambda>key. State (\<lambda>a. (api_get (nn_Name key)
        (find (\<lambda>s. cm_Namespace s = nn_Namespace key \<and> cm_Name s = nn_Name key) (api_ConfigMaps a)), a))),
      kube_GetOwnerCluster = (\<lambda>m. State (\<lambda>a. (Inr (Some (api_Cluster a)), a))),
      kube_GetOwnerMachine = (\<lambda>m. State (\<lambda>a. (Inr (Some (api_Machine a)), a))),
      kube_GetClusterFromMetadata = (\<lambda>m. State (\<lambda>a. (Inr (Some (api_Cluster a)), a))),
      kube_GetFilteredMachinesForCluster = (\<lambda>c fs. State (\<lambda>a. (Inr [], a))),
      kube_ListStackitClusters = (\<lambda>ns. State (\<lambda>a. (Inr [api_StackitCluster a], a))),
      kube_ListMachines = (\<lambda>ns. State (\<lambda>a. (Inr [api_Machine a], a))),
      kube_NewHelperStackitCluster = (\<lambda>sc. ok ()),
      kube_NewHelperStackitMachine = (\<lambda>sm. ok ()),
      kube_PatchStackitCluster = (\<lambda>sc. State (\<lambda>a. (Inr (), a\<lparr>api_StackitCluster := sc\<rparr>))),
      kube_PatchStackitMachine = (\<lambda>sm. State (\<lambda>a. (Inr (), a\<lparr>api_StackitMachine := sm\<rparr>)))\<rparr>"

definition sample_meta :: "string \<Rightarrow> ObjectMeta" where
  "sample_meta name =
     \<lparr>om_Name = name, om_Namespace = ''ns'', om_UID = ''uid-'' @ name, om_Generation = 1,
      om_Finalizers = [], om_Labels = [], om_Annotations = [], om_DeletionTimestamp = None\<rparr>"

definition sample_volume :: StackitRootVolumeSpec where
  "sample_volume = \<lparr>rvs_SizeGiB = 20, rvs_PerformanceClass = [], rvs_DeleteOnTermination = None\<rparr>"

definition sample_StackitMachine :: StackitMachine where
  "sample_StackitMachine =
     \<lparr>sm_meta = sample_meta ''m'',
      sm_Spec = \<lparr>sms_ProviderID = None, sms_ImageID = ''img'', sms_MachineType = ''c1.2'',
                 sms_AvailabilityZone = [], sms_SSHKeyName = [], sms_RootVolume = sample_volume,
                 sms_NetworkID = [], sms_SecurityGroups = [], sms_AdditionalLabels = []\<rparr>,
      sm_Status = \<lparr>smst_Ready = False, smst_Provisioned = False, smst_ProviderID = [],
                   smst_InstanceID = [], smst_InstanceState = [], smst_AvailabilityZone = [],
                   smst_Addresses = [], smst_Conditions = []\<rparr>\<rparr>"

definition sample_StackitCluster :: StackitCluster where
  "sample_StackitCluster =
     \<lparr>sc_meta = sample_meta ''c'',
      sc_Spec = \<lparr>scs_ProjectID = ''proj'', scs_Region = ''eu01'',
                 scs_CredentialsSecretRef = \<lparr>sr_Name = ''creds'', sr_Namespace = []\<rparr>,
                 scs_NetworkID = [], scs_LoadBalancerEnabled = True,
                 scs_ControlPlaneEndpoint = empty_APIEndpoint,
                 scs_Bastion = \<lparr>bs_Enabled = False, bs_ImageID = [], bs_MachineType = [],
                    bs_SSHKeyName = [], bs_AllowedCIDRs = [], bs_RootVolume = sample_volume,
                    bs_CloudInitRef = None\<rparr>,
                 scs_AdditionalLabels = []\<rparr>,
      sc_Status = \<lparr>scst_Ready = True, scst_Provisioned = True,
                   scst_Network = \<lparr>nst_ID = ''net-1'', nst_Managed = True\<rparr>,
                   scst_APIServerEndpoint = empty_APIEndpoint,
                   scst_APIServerLoadBalancerID = [], scst_Bastion = empty_BastionStatus,
                   scst_FailureDomains = [], scst_Conditions = []\<rparr>\<rparr>"

definition sample_Cluster :: Cluster where
  "sample_Cluster =
     \<lparr>cl_meta = sample_meta ''c'', cl_Paused = None,
      cl_InfrastructureRef = \<lparr>ref_APIGroup = ''infrastructure.cluster.x-k8s.io'',
        ref_Kind = ''StackitCluster'', ref_Name = ''c''\<rparr>\<rparr>"

definition sample_Machine :: Machine where
  "sample_Machine =
     \<lparr>mc_meta = sample_meta ''m'', mc_ClusterName = ''c'', mc_DataSecretName = Some ''boot'',
      mc_FailureDomain = [],
      mc_InfrastructureRef = \<lparr>ref_APIGroup = ''infrastructure.cluster.x-k8s.io'',
        ref_Kind = ''StackitMachine'', ref_Name = ''m''\<rparr>,
      mc_Addresses = []\<rparr>"

definition sample_api :: api where
  "sample_api =
     \<lparr>api_StackitCluster = sample_StackitCluster, api_StackitMachine = sample_StackitMachine,
      api_Cluster = sample_Cluster, api_Machine = sample_Machine,
      api_Secrets =
        [\<lparr>sec_Namespace = ''ns'', sec_Name = ''creds'', sec_Data = [(''serviceaccount.json'', ''{}'')]\<rparr>,
         \<lparr>sec_Namespace = ''ns'', sec_Name = ''boot'', sec_Data = [(''value'', ''#cloud-config'')]\<rparr>],
      api_ConfigMaps = []\<rparr>"

definition sample_Reconciler :: "(fake, api) Reconciler" where
  "sample_Reconciler =
     \<lparr>r_lib = std_lib 0, r_sha256 = (\<lambda>_. replicate 32 0), r_Client = sample_Kube,
      r_CloudClientFactory = Some (\<lambda>creds. Inr fake_Client)\<rparr>"

lemma sample_Reconciler_sel [simp]:
  "r_lib sample_Reconciler = std_lib 0" "r_Client sample_Reconciler = sample_Kube"
  "r_CloudClientFactory sample_Reconciler = Some (\<lambda>creds. Inr fake_Client)"
  "r_sha256 sample_Reconciler x = replicate 32 0"
  by (simp_all add: sample_Reconciler_def)

lemma sample_lib [simp]: "k8s_lib (std_lib now)"
  by (rule std.k8s_lib_axioms)

definition sample_state :: "'o \<Rightarrow> (fake, api, 'o) rstate" where
  "sample_state x = \<lparr>cloud = fake_New [], kube = sample_api, obj = x, effects = []\<rparr>"

lemma sample_state_sel [simp]:
  "cloud (sample_state x) = fake_New []" "kube (sample_state x) = sample_api"
  "obj (sample_state x) = x" "effects (sample_state x) = []"
  by (simp_all add: sample_state_def)

end
