(* ===== verification/Machine_Safety.thy ===== *)
theory Machine_Safety
  imports Machine_Controller Sample_API
begin

text \<open>
  What a pass of the machine controller may do, whatever the cloud client and the Kubernetes
  client answer: the order of the finalizer and of cloud calls, when a server is created and with
  what input, when the finalizer goes, when the machine is reported ready, and that a paused
  machine is left alone.
\<close>

definition sample_scope :: MachineScope where
  "sample_scope = \<lparr>ms_Cluster = sample_Cluster, ms_Machine = sample_Machine,
     ms_StackitCluster = sample_StackitCluster\<rparr>"

section \<open>Traces of the phases\<close>

definition machine_create_ok :: "MachineScope \<Rightarrow> StackitMachine \<Rightarrow> CreateServerInput \<Rightarrow> bool" where
  \<comment> \<open>when a server is created for a machine and with what input\<close>
  "machine_create_ok ms sm input \<longleftrightarrow>
     \<not> smst_Provisioned (sm_Status sm) \<and> machine_NetworkID ms sm \<noteq> [] \<and>
     input = createServerInput ms sm (machine_NetworkID ms sm) (csi_UserData input)"

fun normal_effect :: "MachineScope \<Rightarrow> StackitMachine \<Rightarrow> StackitMachine effect \<Rightarrow> bool" where
  "normal_effect ms sm (Patch _ _) = False"
| "normal_effect ms sm (Event _ _ _) = True"
| "normal_effect ms sm (Cloud (OpGetServer i)) = (i = smst_InstanceID (sm_Status sm))"
| "normal_effect ms sm (Cloud (OpFindServerByTags t)) = (t = machine_Tags ms sm)"
| "normal_effect ms sm (Cloud (OpCreateServer input)) =
     (machine_create_ok ms sm input \<and> csi_UserData input \<noteq> [])"
| "normal_effect ms sm (Cloud (OpEnsureNodeSSHAccess input)) =
     (bs_Enabled (scs_Bastion (sc_Spec (ms_StackitCluster ms))))"
| "normal_effect ms sm (Cloud _) = False"

lemma createServerInput_sel [simp]:
  "csi_Tags (createServerInput ms sm n ud) = machine_Tags ms sm"
  "csi_NetworkID (createServerInput ms sm n ud) = n"
  "csi_AvailabilityZone (createServerInput ms sm n ud) = machine_AvailabilityZone ms sm"
  by (simp_all add: createServerInput_def)

lemma normal_effect_cong:
  assumes "om_Name (sm_meta a) = om_Name (sm_meta b)" "sm_Spec a = sm_Spec b"
    "smst_Provisioned (sm_Status a) = smst_Provisioned (sm_Status b)"
    "smst_InstanceID (sm_Status a) = smst_InstanceID (sm_Status b)"
  shows "normal_effect ms a = normal_effect ms b"
proof
  fix e
  have "createServerInput ms a = createServerInput ms b" "machine_NetworkID ms a = machine_NetworkID ms b"
    "machine_Tags ms a = machine_Tags ms b"
    using assms by (auto simp: createServerInput_def machine_AvailabilityZone_def machine_Tags_def
        machine_NetworkID_def fun_eq_iff)
  with assms show "normal_effect ms a e = normal_effect ms b e"
    by (cases "(ms, a, e)" rule: normal_effect.cases) (auto simp: machine_create_ok_def)
qed

lemma ensureServer_trace:
  "ud \<noteq> [] \<Longrightarrow> wp (ensureServer C ms ud)
     (\<lambda>res s'. extends (normal_effect ms (obj s)) s s' \<and> obj s' = obj s) s"
  unfolding ensureServer_def findServerOrCreate_def createMissingServer_def extends_def
  by (auto simp: wp_simps Let_def machine_create_ok_def createServerInput_def
      split: prod.splits sum.splits if_splits)

lemma reconcileMachineState_trace:
  "emits (normal_effect ms sm) (reconcileMachineState r C ms server)"
  unfolding reconcileMachineState_def reconcileMachineAccess_def machineCloudFailure_def
    reconcileBastionNodeSSHAccess_def
  by (intro emits_intros) simp_all

lemma reconcileMachineInstance_trace:
  assumes "ud \<noteq> []" and "normal_effect ms (obj s) = normal_effect ms sm"
  shows "wp (reconcileMachineInstance r C ms ud) (\<lambda>_ s'. extends (normal_effect ms sm) s s') s"
  unfolding reconcileMachineInstance_def
proof (rule wp_extends_bind)
  show "wp (ensureServer C ms ud) (\<lambda>_ s'. extends (normal_effect ms sm) s s') s"
    by (rule wp_mono [OF ensureServer_trace [OF assms(1)]]) (simp add: assms(2))
qed (intro emits_intros reconcileMachineState_trace,
     simp_all add: machineCloudFailure_def emits_intros)

lemma conditions_normal_effect:
  "normal_effect ms (machine_SetConditions L st rs msg ts sm) = normal_effect ms sm"
  by (rule normal_effect_cong) (simp_all add: machine_scope_defs)

lemma reconcileMachineCredentials_trace:
  assumes "ud \<noteq> []" and "normal_effect ms (obj s) = normal_effect ms sm"
  shows "wp (reconcileMachineCredentials r ms ud) (\<lambda>_ s'. extends (normal_effect ms sm) s s') s"
  unfolding reconcileMachineCredentials_def
  using assms
  by (auto simp: wp_simps Let_def conditions_normal_effect
      intro!: wp_extends_start [OF reconcileMachineInstance_trace]
      split: prod.splits sum.splits)

lemma fetchBootstrapData_nonempty:
  "run_state (fetchBootstrapData K mc) k = ((d, ConditionTrue, rs, msg), k') \<Longrightarrow> d \<noteq> []"
  by (auto simp: fetchBootstrapData_def ExtractBootstrapData_def Let_def
      split: option.splits if_splits prod.splits sum.splits list.splits)

lemma reconcileMachineBootstrap_trace:
  assumes "normal_effect ms (obj s) = normal_effect ms sm"
  shows "wp (reconcileMachineBootstrap r ms) (\<lambda>_ s'. extends (normal_effect ms sm) s s') s"
  unfolding reconcileMachineBootstrap_def
  using assms
  by (auto simp: wp_simps Let_def conditions_normal_effect dest: fetchBootstrapData_nonempty
      intro!: wp_extends_start [OF reconcileMachineCredentials_trace]
      split: prod.splits)

section \<open>The whole pass\<close>

definition machine_finalized :: "lib \<Rightarrow> StackitMachine \<Rightarrow> bool" where
  "machine_finalized L sm = ContainsFinalizer L (om_Finalizers (sm_meta sm)) MachineFinalizer"

definition add_machine_finalizer :: "lib \<Rightarrow> StackitMachine \<Rightarrow> StackitMachine" where
  "add_machine_finalizer L sm =
     sm\<lparr>sm_meta := (sm_meta sm)\<lparr>om_Finalizers :=
       AddFinalizer L (om_Finalizers (sm_meta sm)) MachineFinalizer\<rparr>\<rparr>"

lemma add_machine_finalizer_sel [simp]:
  "sm_Spec (add_machine_finalizer L sm) = sm_Spec sm"
  "sm_Status (add_machine_finalizer L sm) = sm_Status sm"
  "om_Name (sm_meta (add_machine_finalizer L sm)) = om_Name (sm_meta sm)"
  by (simp_all add: add_machine_finalizer_def)

lemma normal_effect_add_finalizer [simp]:
  "normal_effect ms (add_machine_finalizer L sm) = normal_effect ms sm"
  by (rule normal_effect_cong) simp_all

lemma normal_effect_map_conditions [simp]:
  "normal_effect ms (map_sm_Status (\<lambda>st. st\<lparr>smst_Conditions := cs st\<rparr>) sm) = normal_effect ms sm"
  by (rule normal_effect_cong) simp_all

lemma finalized_add_machine_finalizer:
  "k8s_lib L \<Longrightarrow> machine_finalized L (add_machine_finalizer L sm)"
  by (simp add: machine_finalized_def add_machine_finalizer_def k8s_lib.contains_add)

lemma wp_ensureMachineFinalizer:
  "wp (ensureMachineFinalizer r) Q s =
     (if machine_finalized (r_lib r) (obj s) then Q (Inr ()) s
      else let sm = add_machine_finalizer (r_lib r) (obj s) in
        case run_state (kube_PatchStackitMachine (r_Client r) sm) (kube s) of
          (Inl err, k') \<Rightarrow> Q (Inl (wrap_error ''persist finalizer'' err))
             (s\<lparr>obj := sm, kube := k', effects := effects s @ [Patch sm False]\<rparr>)
        | (Inr u, k') \<Rightarrow> Q (Inr ())
             (s\<lparr>obj := sm, kube := k', effects := effects s @ [Patch sm True]\<rparr>))"
  by (simp add: ensureMachineFinalizer_def wp_simps machine_finalized_def Let_def
      add_machine_finalizer_def split: prod.splits sum.splits)

definition machine_create_allowed :: "MachineScope \<Rightarrow> StackitMachine \<Rightarrow> bool" where
  "machine_create_allowed ms sm \<longleftrightarrow>
     scst_Ready (sc_Status (ms_StackitCluster ms)) \<and> validateMachineAvailabilityZone ms sm = None"

definition guarded_effect :: "MachineScope \<Rightarrow> StackitMachine \<Rightarrow> StackitMachine effect \<Rightarrow> bool" where
  "guarded_effect ms sm e \<longleftrightarrow>
     normal_effect ms sm e \<and> (is_cloud e \<longrightarrow> machine_create_allowed ms sm)"

lemma reconcileMachineGuards_trace:
  assumes "normal_effect ms (obj s) = normal_effect ms sm" and "sm_Spec (obj s) = sm_Spec sm"
  shows "wp (reconcileMachineGuards r ms) (\<lambda>_ s'. extends (guarded_effect ms sm) s s') s"
proof -
  have val: "validateMachineAvailabilityZone ms (obj s) = validateMachineAvailabilityZone ms sm"
    using assms(2) by (simp add: validateMachineAvailabilityZone_def)
  have boot: "wp (reconcileMachineBootstrap r ms) (\<lambda>_ s'. extends (guarded_effect ms sm) s s') s"
    if "machine_create_allowed ms sm"
    by (rule wp_mono [OF reconcileMachineBootstrap_trace [OF assms(1)]], erule extends_mono)
      (simp add: guarded_effect_def that)
  show ?thesis
    unfolding reconcileMachineGuards_def
    by (simp add: wp_simps val boot machine_create_allowed_def guarded_effect_def
        split: option.split)
qed

definition normal_trace ::
  "lib \<Rightarrow> MachineScope \<Rightarrow> StackitMachine \<Rightarrow> StackitMachine effect list \<Rightarrow> bool" where
  \<comment> \<open>the traces of \<open>reconcileNormal\<close>\<close>
  "normal_trace L ms sm es \<longleftrightarrow>
     (if machine_finalized L sm then list_all (guarded_effect ms sm) es
      else es = [Patch (add_machine_finalizer L sm) False] \<or>
        (\<exists>es'. es = Patch (add_machine_finalizer L sm) True # es' \<and>
               list_all (guarded_effect ms sm) es'))"

lemma machine_reconcileNormal_trace:
  "wp (machine_reconcileNormal r ms)
     (\<lambda>_ s'. \<exists>es. effects s' = effects s @ es \<and> normal_trace (r_lib r) ms (obj s) es) s"
proof -
  have guards: "wp (reconcileMachineGuards r ms)
      (\<lambda>_ s'. \<exists>es. effects s' = effects s1 @ es \<and> list_all (guarded_effect ms (obj s)) es) s1"
    if "normal_effect ms (obj s1) = normal_effect ms (obj s)" "sm_Spec (obj s1) = sm_Spec (obj s)"
    for s1 :: "('a, 'b, StackitMachine) rstate"
    using reconcileMachineGuards_trace [OF that, of r] by (simp add: extends_def)
  show ?thesis
    unfolding machine_reconcileNormal_def wp_bind wp_ensureMachineFinalizer
    by (auto simp: wp_simps Let_def normal_trace_def guards
        intro!: wp_mono [OF guards] split: prod.splits sum.splits)
qed

fun delete_effect :: "MachineScope \<Rightarrow> StackitMachine effect \<Rightarrow> bool" where
  "delete_effect ms (Event _ _ _) = True"
| "delete_effect ms (Cloud (OpFindServerByTags _)) = True"
| "delete_effect ms (Cloud (OpDeleteServer _)) = True"
| "delete_effect ms _ = False"

lemma machine_reconcileDelete_trace: "emits (delete_effect ms) (machine_reconcileDelete r ms)"
  unfolding machine_reconcileDelete_def deleteMachineServer_def deleteServerByID_def resolveServerForDeletion_def
    removeMachineFinalizer_def
  by (intro emits_intros) simp_all

definition unpaused :: "lib \<Rightarrow> StackitMachine \<Rightarrow> StackitMachine" where
  "unpaused L sm = map_sm_Status (\<lambda>st. st\<lparr>smst_Conditions :=
     SetPausedCondition L (smst_Conditions st) (om_Generation (sm_meta sm)) False []\<rparr>) sm"

lemma unpaused_sel [simp]:
  "sm_meta (unpaused L sm) = sm_meta sm" "sm_Spec (unpaused L sm) = sm_Spec sm"
  "machine_finalized L (unpaused L sm) = machine_finalized L sm"
  "guarded_effect ms (unpaused L sm) = guarded_effect ms sm"
  "smst_InstanceID (sm_Status (unpaused L sm)) = smst_InstanceID (sm_Status sm)"
  "smst_Provisioned (sm_Status (unpaused L sm)) = smst_Provisioned (sm_Status sm)"
  by (simp_all add: unpaused_def machine_finalized_def guarded_effect_def fun_eq_iff
      machine_create_allowed_def validateMachineAvailabilityZone_def)

definition machine_paused :: "lib \<Rightarrow> MachineScope \<Rightarrow> StackitMachine \<Rightarrow> bool" where
  "machine_paused L ms sm \<longleftrightarrow> fst (ReconciliationPaused L (Some (ms_Cluster ms)) (sm_meta sm))"

definition pass_trace ::
  "lib \<Rightarrow> MachineScope \<Rightarrow> StackitMachine \<Rightarrow> StackitMachine effect list \<Rightarrow> bool" where
  \<comment> \<open>the traces of a pass before its last patch\<close>
  "pass_trace L ms sm es \<longleftrightarrow>
     (if machine_paused L ms sm then es = []
      else if om_DeletionTimestamp (sm_meta sm) \<noteq> None then list_all (delete_effect ms) es
      else normal_trace L ms (unpaused L sm) es)"

lemma wp_machine_runPhases:
  "wp (machine_runPhases r ms) Q s =
     (if machine_paused (r_lib r) ms (obj s)
      then Q (no_requeue, None) (s\<lparr>obj := map_sm_Status (\<lambda>st. st\<lparr>smst_Conditions :=
             SetPausedCondition (r_lib r) (smst_Conditions st) (om_Generation (sm_meta (obj s))) True
               (snd (ReconciliationPaused (r_lib r) (Some (ms_Cluster ms)) (sm_meta (obj s))))\<rparr>)
             (obj s)\<rparr>)
      else let s1 = s\<lparr>obj := unpaused (r_lib r) (obj s)\<rparr> in
        if om_DeletionTimestamp (sm_meta (obj s)) \<noteq> None
        then wp (machine_reconcileDelete r ms)
               (\<lambda>res. Q (no_requeue, case res of Inl err \<Rightarrow> Some err | Inr _ \<Rightarrow> None)) s1
        else wp (machine_reconcileNormal r ms) Q s1)"
proof -
  have unpaused: "(\<lambda>sm'. map_sm_Status (\<lambda>st. st\<lparr>smst_Conditions :=
       SetPausedCondition (r_lib r) (smst_Conditions st) (om_Generation (sm_meta sm)) False msg\<rparr>) sm') sm
     = unpaused (r_lib r) sm" for sm msg
    by (simp add: unpaused_def SetPausedCondition_def)
  show ?thesis
    unfolding machine_runPhases_def machine_paused_def
    by (cases "ReconciliationPaused (r_lib r) (Some (ms_Cluster ms)) (sm_meta (obj s))")
      (auto simp: wp_simps Let_def unpaused elim!: wp_mono split: sum.splits)
qed

lemma machine_runPhases_trace:
  "wp (machine_runPhases r ms)
     (\<lambda>_ s'. \<exists>es. effects s' = effects s @ es \<and> pass_trace (r_lib r) ms (obj s) es) s"
proof -
  let ?s1 = "s\<lparr>obj := unpaused (r_lib r) (obj s)\<rparr>"
  have "wp (machine_reconcileDelete r ms)
      (\<lambda>_ s'. \<exists>es. effects s' = effects s @ es \<and> list_all (delete_effect ms) es) ?s1"
    using emits_extends [OF machine_reconcileDelete_trace, of r ms ?s1] by (simp add: extends_def)
  moreover have "wp (machine_reconcileNormal r ms)
      (\<lambda>_ s'. \<exists>es. effects s' = effects s @ es \<and>
         normal_trace (r_lib r) ms (unpaused (r_lib r) (obj s)) es) ?s1"
    using machine_reconcileNormal_trace [of r ms ?s1] by simp
  ultimately show ?thesis
    unfolding wp_machine_runPhases by (simp add: pass_trace_def Let_def)
qed

lemma machine_reconcileScope_trace:
  "wp (machine_reconcileScope r ms)
     (\<lambda>_ s'. \<exists>es b. effects s' = effects s @ es @ [Patch (obj s') b] \<and>
        pass_trace (r_lib r) ms (obj s) es) s"
  unfolding machine_reconcileScope_def wp_bind
  by (rule wp_mono [OF machine_runPhases_trace]) (auto simp: wp_simps split: prod.splits sum.splits)

lemma machine_Reconcile_cases:
  assumes "run_state (machine_Reconcile r req) s = (out, s')"
  obtains (none) "effects s' = effects s"
  | (pass) sm ms k' where
      "fst (run_state (kube_GetStackitMachine (r_Client r) req) (kube s)) = Inr sm"
      "run_state (machine_reconcileScope r ms) (s\<lparr>obj := sm, kube := k'\<rparr>) = (out, s')"
proof -
  let ?Q = "\<lambda>out s'. effects s' = effects s \<or> (\<exists>sm ms k'.
      fst (run_state (kube_GetStackitMachine (r_Client r) req) (kube s)) = Inr sm \<and>
      run_state (machine_reconcileScope r ms) (s\<lparr>obj := sm, kube := k'\<rparr>) = (out, s'))"
  have "wp (machine_Reconcile r req) ?Q s"
    unfolding machine_Reconcile_def
    by (auto simp: wp_simps wp_def [of "machine_reconcileScope r ms" for ms]
        split: prod.splits sum.splits option.splits)
  with assms show thesis using none pass by (auto simp: wp_run)
qed

lemma normal_effect_not_patch: "normal_effect ms sm e \<Longrightarrow> \<not> is_patch e"
  by (cases "(ms, sm, e)" rule: normal_effect.cases) auto

lemma guarded_normal_trace:
  assumes "k8s_lib L" and "normal_trace L ms sm es"
  shows "guarded (machine_finalized L) (machine_finalized L sm) es"
proof -
  have g: "guarded fin True es'" if "list_all (guarded_effect ms sm) es'" for fin es'
    by (rule guarded_no_patch)
      (use that in \<open>auto simp: list_all_iff guarded_effect_def dest: normal_effect_not_patch\<close>)
  with assms finalized_add_machine_finalizer [OF assms(1), of sm] show ?thesis
    by (auto simp: normal_trace_def split: if_splits)
qed

lemma guarded_pass_trace:
  assumes "k8s_lib L" and "pass_trace L ms sm es"
  shows "guarded (machine_finalized L) (machine_finalized L sm) es"
proof -
  have "guarded fin b es" if "list_all (delete_effect ms) es" for fin b
  proof (rule guarded_no_create)
    have "delete_effect ms e \<Longrightarrow> \<forall>op. e = Cloud op \<longrightarrow> \<not> creates op" for e
      by (cases "(ms, e)" rule: delete_effect.cases) auto
    with that show "list_all (\<lambda>e. \<forall>op. e = Cloud op \<longrightarrow> \<not> creates op) es"
      by (rule list.pred_mono_strong)
  qed
  with assms guarded_normal_trace [OF assms(1), of ms "unpaused L sm" es] show ?thesis
    by (auto simp: pass_trace_def split: if_splits)
qed

text \<open>
  C1: no server without a finalizer. In every pass of the machine controller, whatever the cloud
  and the API server answer, each cloud call that may create a resource happens while the machine
  as stored by the API server carries the provider's finalizer: it was there when the pass read
  the machine, or a patch that added it has been accepted earlier in the same pass.
\<close>

theorem machine_finalizer_before_create:
  assumes "k8s_lib (r_lib r)"
    and "run_state (machine_Reconcile r req) s = (out, s')" and "effects s = []"
    and "fst (run_state (kube_GetStackitMachine (r_Client r) req) (kube s)) = Inr sm"
  shows "guarded (machine_finalized (r_lib r)) (machine_finalized (r_lib r) sm) (effects s')"
  using assms(2)
proof (cases rule: machine_Reconcile_cases)
  case none
  then show ?thesis using assms(3) by simp
next
  case (pass sm' ms k')
  then have "sm' = sm" using assms(4) by simp
  with pass(2) machine_reconcileScope_trace [of r ms "s\<lparr>obj := sm, kube := k'\<rparr>"] assms(3)
  obtain es b where "effects s' = es @ [Patch (obj s') b]" "pass_trace (r_lib r) ms sm es"
    by (auto simp: wp_run)
  with guarded_pass_trace [OF assms(1)] show ?thesis by simp
qed

theorem machine_finalizer_before_create_witness:
  "guarded (machine_finalized (std_lib 0)) False
     (effects (snd (run_state (machine_Reconcile sample_Reconciler
        \<lparr>nn_Namespace = ''ns'', nn_Name = ''m''\<rparr>) (sample_state sample_StackitMachine))))"
proof -
  let ?req = "\<lparr>nn_Namespace = ''ns'', nn_Name = ''m''\<rparr>" and ?s = "sample_state sample_StackitMachine"
  have "fst (run_state (kube_GetStackitMachine sample_Kube ?req) (kube ?s)) = Inr sample_StackitMachine"
    by (simp add: sample_Kube_def sample_api_def sample_StackitMachine_def sample_meta_def named_def
        api_get_def)
  with machine_finalizer_before_create [of sample_Reconciler ?req ?s, OF _ prod.collapse [symmetric]]
  have "guarded (machine_finalized (std_lib 0)) (machine_finalized (std_lib 0) sample_StackitMachine)
     (effects (snd (run_state (machine_Reconcile sample_Reconciler ?req) ?s)))" by simp
  moreover have "machine_finalized (std_lib 0) sample_StackitMachine = False" by code_simp
  ultimately show ?thesis by simp
qed

section \<open>Creating a server\<close>

lemma validated_zone:
  assumes "validateMachineAvailabilityZone ms sm = None"
    and "scst_FailureDomains (sc_Status (ms_StackitCluster ms)) \<noteq> []"
  shows "machine_AvailabilityZone ms sm \<in>
           fd_Name ` set (scst_FailureDomains (sc_Status (ms_StackitCluster ms)))"
proof -
  let ?fds = "scst_FailureDomains (sc_Status (ms_StackitCluster ms))"
  have known: "knownAZ ?fds z \<longleftrightarrow> z \<in> fd_Name ` set ?fds" for z
    by (auto simp: knownAZ_def list_ex_iff)
  have "hd (sort (map fd_Name ?fds)) \<in> set (sort (map fd_Name ?fds))"
    using assms(2) by (intro hd_in_set) (metis length_0_conv length_map length_sort)
  then have "hd (sort (map fd_Name ?fds)) \<in> fd_Name ` set ?fds" by simp
  with assms known show ?thesis
    by (auto simp: validateMachineAvailabilityZone_def machine_AvailabilityZone_def Let_def
        split: if_splits)
qed

lemma pass_trace_create:
  assumes "pass_trace L ms sm es" and "Cloud (OpCreateServer input) \<in> set es"
  shows "\<not> machine_paused L ms sm \<and> om_DeletionTimestamp (sm_meta sm) = None \<and>
    machine_create_allowed ms sm \<and> machine_create_ok ms sm input \<and> csi_UserData input \<noteq> []"
proof -
  have "\<not> delete_effect ms (Cloud (OpCreateServer input))" by simp
  then have "\<not> machine_paused L ms sm" "om_DeletionTimestamp (sm_meta sm) = None"
    "guarded_effect ms sm (Cloud (OpCreateServer input))"
    using assms by (auto simp: pass_trace_def normal_trace_def list_all_iff split: if_splits)
  then show ?thesis by (simp add: guarded_effect_def)
qed

text \<open>
  C7: when a server is created, and with what. If a pass calls \<open>CreateServer\<close>, the machine was
  neither paused nor being deleted nor provisioned before (a machine that once had a server is
  never given a second one), and its cluster was ready; the input carries the machine's own tags,
  non-empty bootstrap data and a network, asks for the zone that \<open>AvailabilityZone\<close> resolves,
  and that zone is one the cluster publishes, if it publishes any.
\<close>

theorem machine_create_server_spec:
  assumes "run_state (machine_reconcileScope r ms) s = (out, s')" and "effects s = []"
    and "Cloud (OpCreateServer input) \<in> set (effects s')"
  shows "\<not> machine_paused (r_lib r) ms (obj s) \<and> om_DeletionTimestamp (sm_meta (obj s)) = None \<and>
    \<not> smst_Provisioned (sm_Status (obj s)) \<and> scst_Ready (sc_Status (ms_StackitCluster ms)) \<and>
    csi_Tags input = machine_Tags ms (obj s) \<and> csi_UserData input \<noteq> [] \<and>
    csi_NetworkID input = machine_NetworkID ms (obj s) \<and> csi_NetworkID input \<noteq> [] \<and>
    csi_AvailabilityZone input = machine_AvailabilityZone ms (obj s) \<and>
    (scst_FailureDomains (sc_Status (ms_StackitCluster ms)) \<noteq> [] \<longrightarrow>
       csi_AvailabilityZone input \<in>
         fd_Name ` set (scst_FailureDomains (sc_Status (ms_StackitCluster ms))))"
proof -
  from machine_reconcileScope_trace [of r ms s] assms(1,2)
  obtain es b where es: "effects s' = es @ [Patch (obj s') b]"
    "pass_trace (r_lib r) ms (obj s) es" by (auto simp: wp_run)
  with assms(3) have "Cloud (OpCreateServer input) \<in> set es" by auto
  from pass_trace_create [OF es(2) this] show ?thesis
    using validated_zone [of ms "obj s"]
    unfolding machine_create_ok_def machine_create_allowed_def
    by (metis createServerInput_sel)
qed

fun creates_with :: "CreateServerInput \<Rightarrow> 'o effect \<Rightarrow> bool" where
  "creates_with input (Cloud (OpCreateServer i)) = (i = input)"
| "creates_with input _ = False"

lemma creates_with_mem: "list_ex (creates_with input) es \<Longrightarrow> Cloud (OpCreateServer input) \<in> set es"
  by (auto simp: list_ex_iff elim: creates_with.elims)

definition sample_create_input :: CreateServerInput where
  "sample_create_input =
     createServerInput sample_scope sample_StackitMachine ''net-1'' ''#cloud-config''"

theorem machine_create_server_spec_witness:
  "csi_Tags sample_create_input = machine_Tags sample_scope sample_StackitMachine \<and>
   csi_UserData sample_create_input \<noteq> []"
proof -
  let ?s = "sample_state sample_StackitMachine"
  have "list_ex (creates_with sample_create_input)
      (effects (snd (run_state (machine_reconcileScope sample_Reconciler sample_scope) ?s)))"
    by code_simp
  then have "Cloud (OpCreateServer sample_create_input) \<in>
      set (effects (snd (run_state (machine_reconcileScope sample_Reconciler sample_scope) ?s)))"
    by (rule creates_with_mem)
  from machine_create_server_spec [OF prod.collapse [symmetric] _ this] show ?thesis by simp
qed



end
