(* ===== verification/Machine_Ready.thy ===== *)
theory Machine_Ready
  imports Machine_Safety
begin

text \<open>
  What the status of a machine says after a pass: when the condition \<open>Ready\<close> is true, how an
  error of the cloud is turned into a condition and a requeue, and when the finalizer goes.
\<close>

section \<open>Ready\<close>

lemma wp_bind_any: "(\<And>a s'. wp (f a) Q s') \<Longrightarrow> wp (State_Monad.bind m f) Q s"
  by (simp add: wp_bind wpI)

definition machine_true :: "lib \<Rightarrow> StackitMachine \<Rightarrow> string \<Rightarrow> bool" where
  "machine_true L sm t = IsStatusConditionTrue L (smst_Conditions (sm_Status sm)) t"

lemma machine_true_SetConditions:
  assumes "k8s_lib L"
  shows "machine_true L (machine_SetConditions L st rs msg ts sm) t \<longleftrightarrow>
     (if t \<in> set ts then st = ConditionTrue else machine_true L sm t)"
  by (simp add: machine_true_def machine_SetConditions_def k8s_lib.is_true_SetConditions [OF assms])

lemma machine_true_SetNotReady:
  assumes "k8s_lib L"
  shows "machine_true L (machine_SetNotReady L rs msg ts sm) t \<longleftrightarrow>
     t \<notin> set ts \<and> machine_true L sm t"
  by (simp add: machine_SetNotReady_def machine_true_SetConditions [OF assms])
     (simp add: machine_true_def)

definition machine_ready_ok ::
  "MachineScope \<Rightarrow> StackitMachine \<Rightarrow> StackitMachine effect list \<Rightarrow> bool" where
  \<comment> \<open>what a ready machine looks like, and the last call of the pass that reported it\<close>
  "machine_ready_ok ms sm es \<longleftrightarrow>
     smst_Ready (sm_Status sm) \<and> smst_Provisioned (sm_Status sm) \<and>
     smst_InstanceState (sm_Status sm) \<in> {[], ''ACTIVE''} \<and>
     sms_ProviderID (sm_Spec sm) = Some (smst_ProviderID (sm_Status sm)) \<and>
     smst_ProviderID (sm_Status sm) = providerIDScheme @ smst_InstanceID (sm_Status sm) \<and>
     (bs_Enabled (scs_Bastion (sc_Spec (ms_StackitCluster ms))) \<longrightarrow>
        es \<noteq> [] \<and> (\<exists>input. last es = Cloud (OpEnsureNodeSSHAccess input) \<and>
           nsi_ServerID input = smst_InstanceID (sm_Status sm) \<and>
           nsi_BastionSecurityGroupID input =
             bst_SecurityGroupID (scst_Bastion (sc_Status (ms_StackitCluster ms)))))"

lemma machineCloudFailure_not_true:
  assumes "k8s_lib (r_lib r)" and "t \<in> set ts"
  shows "wp (machineCloudFailure r rs err ts)
     (\<lambda>out s'. \<not> machine_true (r_lib r) (obj s') t) s"
  using assms(2)
  by (simp add: machineCloudFailure_def CloudFailureResult_def wp_simps machine_true_def
      k8s_lib.is_true_SetConditions [OF assms(1)])

definition instance_recorded :: "StackitMachine \<Rightarrow> Server \<Rightarrow> bool" where
  "instance_recorded sm server \<longleftrightarrow>
     smst_Provisioned (sm_Status sm) \<and>
     smst_InstanceID (sm_Status sm) = srv_ID server \<and>
     smst_InstanceState (sm_Status sm) = srv_State server \<and>
     sms_ProviderID (sm_Spec sm) = Some (smst_ProviderID (sm_Status sm)) \<and>
     smst_ProviderID (sm_Status sm) = providerIDScheme @ srv_ID server"

lemma instance_recorded_SetInstance: "instance_recorded (SetInstance ms server sm) server"
  by (simp add: instance_recorded_def SetInstance_def machine_ProviderID_def NewProviderID_def)

lemma instance_recorded_SetReady:
  "instance_recorded (machine_SetReady L sm) server = instance_recorded sm server"
  "smst_Ready (sm_Status (machine_SetReady L sm))"
  by (simp_all add: instance_recorded_def machine_SetReady_def machine_SetConditions_def)

lemma machine_ready_okI:
  assumes "instance_recorded sm server" "smst_Ready (sm_Status sm)"
    and "state_ready (srv_State server) (srv_PowerStatus server)"
    and "bs_Enabled (scs_Bastion (sc_Spec (ms_StackitCluster ms))) \<Longrightarrow>
       \<exists>input. es = pre @ [Cloud (OpEnsureNodeSSHAccess input)] \<and> nsi_ServerID input = srv_ID server \<and>
         nsi_BastionSecurityGroupID input =
           bst_SecurityGroupID (scst_Bastion (sc_Status (ms_StackitCluster ms)))"
  shows "machine_ready_ok ms sm es"
  using assms unfolding machine_ready_ok_def instance_recorded_def state_ready_iff by fastforce

lemma reconcileMachineAccess_ready:
  assumes "k8s_lib (r_lib r)" and "instance_recorded (obj s) server"
    and "state_ready (srv_State server) (srv_PowerStatus server)"
  shows "wp (reconcileMachineAccess r C ms server)
     (\<lambda>out s'. machine_true (r_lib r) (obj s') MachineReadyCondition \<longrightarrow>
        machine_ready_ok ms (obj s') (effects s')) s"
  unfolding reconcileMachineAccess_def reconcileBastionNodeSSHAccess_def
  using assms
  by (auto simp: wp_simps Let_def instance_recorded_SetReady
      intro!: wp_mono [OF machineCloudFailure_not_true [OF assms(1)]] machine_ready_okI
      split: prod.splits sum.splits)

lemma reconcileMachineState_ready:
  assumes "k8s_lib (r_lib r)"
  shows "wp (reconcileMachineState r C ms server)
     (\<lambda>out s'. machine_true (r_lib r) (obj s') MachineReadyCondition \<longrightarrow>
        machine_ready_ok ms (obj s') (effects s')) s"
proof -
  obtain rd rs msg w where sc:
    "serverStateCondition (srv_State server) (srv_PowerStatus server) = (rd, rs, msg, w)"
    by (cases "serverStateCondition (srv_State server) (srv_PowerStatus server)") auto
  then have rd: "rd = state_ready (srv_State server) (srv_PowerStatus server)"
    by (simp add: state_ready_def)
  show ?thesis
    unfolding reconcileMachineState_def
    by (auto simp: wp_simps Let_def sc rd machine_true_SetNotReady [OF assms]
      intro!: reconcileMachineAccess_ready [OF assms] instance_recorded_SetInstance)
qed

definition ready_sound ::
  "('c, 'k) Reconciler \<Rightarrow> MachineScope \<Rightarrow> outcome \<Rightarrow> ('c, 'k, StackitMachine) rstate \<Rightarrow> bool" where
  "ready_sound r ms out s' \<longleftrightarrow>
     (machine_true (r_lib r) (obj s') MachineReadyCondition \<longrightarrow>
        machine_ready_ok ms (obj s') (effects s'))"

lemma reconcileMachineInstance_ready:
  assumes "k8s_lib (r_lib r)"
  shows "wp (reconcileMachineInstance r C ms ud) (ready_sound r ms) s"
  unfolding reconcileMachineInstance_def ready_sound_def
  by (rule wp_bind_any)
    (auto simp: wp_simps machine_true_SetNotReady [OF assms]
      intro!: wp_mono [OF machineCloudFailure_not_true [OF assms]]
        reconcileMachineState_ready [OF assms] split: sum.splits)

lemma reconcileMachineCredentials_ready:
  assumes "k8s_lib (r_lib r)"
  shows "wp (reconcileMachineCredentials r ms ud) (ready_sound r ms) s"
  unfolding reconcileMachineCredentials_def
  by (auto simp: wp_simps CredentialFailureResult_def ready_sound_def machine_true_def
      k8s_lib.is_true_SetConditions [OF assms]
      intro!: wp_mono [OF reconcileMachineInstance_ready [OF assms]]
      split: prod.splits sum.splits)

lemma reconcileMachineBootstrap_ready:
  assumes "k8s_lib (r_lib r)"
  shows "wp (reconcileMachineBootstrap r ms) (ready_sound r ms) s"
  unfolding reconcileMachineBootstrap_def
  by (auto simp: wp_simps machine_true_SetConditions [OF assms] ready_sound_def
      intro!: wp_mono [OF reconcileMachineCredentials_ready [OF assms]]
      split: prod.splits)

lemma reconcileMachineGuards_ready:
  assumes "k8s_lib (r_lib r)"
  shows "wp (reconcileMachineGuards r ms) (\<lambda>out s'.
     machine_true (r_lib r) (obj s') MachineReadyCondition \<longrightarrow>
       scst_Ready (sc_Status (ms_StackitCluster ms)) \<and>
       machine_ready_ok ms (obj s') (effects s')) s"
  unfolding reconcileMachineGuards_def
  by (auto simp: wp_simps machine_true_SetNotReady [OF assms] ready_sound_def
      intro!: wp_mono [OF reconcileMachineBootstrap_ready [OF assms]] split: option.splits)



end
