(* ===== verification/Cloud_Contract.thy ===== *)
theory Cloud_Contract
  imports Tags
begin

text \<open>
  What the machine controller relies on in a cloud client, as an interface: the locale
  \<open>server_store\<close>. A view \<open>srvs\<close> gives the servers of the cloud by ID, each with its tags, and
  \<open>fits\<close> says which tags match a selector;
  lookups do not change it, a lookup says \<open>not found\<close> only when the view has no such server, a
  create adds at most one server, under a fresh ID and with the tags of its input, and may do so
  even when it reports an error; a delete removes at most the server it names, now or later. A
  create may or may not look for an existing server first. The locale \<open>server_cloud\<close> adds that a
  delete has happened when it returns. The in-memory client satisfies both (\<open>Fake_Servers\<close>); the
  SDK client satisfies \<open>server_store\<close> over an API that keeps its promises (\<open>SDK_Servers\<close>).
\<close>

type_synonym 'v server_view = "string \<rightharpoonup> 'v \<times> string gomap"

definition matching ::
  "(string gomap \<Rightarrow> string gomap \<Rightarrow> bool) \<Rightarrow> 'v server_view \<Rightarrow> string gomap \<Rightarrow> string set" where
  "matching fits v tags = {i. \<exists>sv t. v i = Some (sv, t) \<and> fits t tags}"

definition at_most_one :: "'a set \<Rightarrow> bool" where
  "at_most_one A \<longleftrightarrow> (\<forall>x \<in> A. \<forall>y \<in> A. x = y)"

lemma at_most_one_empty [simp]: "at_most_one {}"
  by (simp add: at_most_one_def)

lemma at_most_one_subset: "at_most_one A \<Longrightarrow> B \<subseteq> A \<Longrightarrow> at_most_one B"
  by (auto simp: at_most_one_def)

lemma matching_update_None: "matching fits (v(i := None)) tags = matching fits v tags - {i}"
  by (auto simp: matching_def)

lemma matching_update_Some:
  "matching fits (v(i \<mapsto> (sv, t))) tags \<subseteq> insert i (matching fits v tags)"
  by (auto simp: matching_def)

definition adds_server :: "'v server_view \<Rightarrow> 'v server_view \<Rightarrow> string gomap \<Rightarrow> bool" where
  \<comment> \<open>one server more, under an ID that was free, with these tags (as a map)\<close>
  "adds_server v v' tags \<longleftrightarrow>
     (\<exists>i sv t. i \<noteq> [] \<and> v i = None \<and> map_of t = map_of tags \<and> v' = v(i \<mapsto> (sv, t)))"

lemma adds_server_unique:
  assumes "adds_server v v' t" and "matching fits v tags = {}"
  shows "at_most_one (matching fits v' tags)"
proof -
  from assms(1) obtain i sv t' where "v' = v(i \<mapsto> (sv, t'))"
    by (auto simp: adds_server_def)
  with matching_update_Some [of fits v i sv t' tags] assms(2)
  have "matching fits v' tags \<subseteq> {i}" by simp
  then show ?thesis by (auto simp: at_most_one_def)
qed

lemma adds_server_other:
  assumes "adds_server v v' t" and "\<And>t'. map_of t' = map_of t \<Longrightarrow> \<not> fits t' tags"
  shows "matching fits v' tags \<subseteq> matching fits v tags"
  using assms by (auto simp: adds_server_def matching_def split: if_splits)

lemma adds_server_at_most_one:
  assumes "v' = v \<or> adds_server v v' t" and "at_most_one (matching fits v tags)"
    and "t = tags \<and> matching fits v tags = {} \<or> (\<forall>t'. map_of t' = map_of t \<longrightarrow> \<not> fits t' tags)"
  shows "at_most_one (matching fits v' tags)"
proof (cases "v' = v")
  case False
  with assms(1) have "adds_server v v' t" by simp
  with assms(2,3) adds_server_unique adds_server_other at_most_one_subset show ?thesis by metis
qed (use assms(2) in simp)

locale server_store =
  fixes C :: "'c Client"
    and fits :: "string gomap \<Rightarrow> string gomap \<Rightarrow> bool"
    and srvs :: "'c \<Rightarrow> 'v server_view"
    and inv :: "'c \<Rightarrow> bool"
  assumes fits_contains: "fits t tags \<Longrightarrow> mapContains t tags"
    and fits_cong: "fits t tags \<Longrightarrow> map_of t = map_of t' \<Longrightarrow> fits t' tags"
    and view_id: "inv c \<Longrightarrow> srvs c i = Some vt \<Longrightarrow> i \<noteq> []"
    and get_keeps: "inv c \<Longrightarrow> run_state (GetServer C i) c = (res, c') \<Longrightarrow>
       inv c' \<and> srvs c' = srvs c"
    and get_found: "inv c \<Longrightarrow> run_state (GetServer C i) c = (Inr sv, c') \<Longrightarrow>
       srv_ID sv = i \<and> srvs c i \<noteq> None"
    and get_missing: "inv c \<Longrightarrow> run_state (GetServer C i) c = (Inl err, c') \<Longrightarrow>
       IsNotFound err \<Longrightarrow> srvs c i = None"
    and find_keeps: "inv c \<Longrightarrow> run_state (FindServerByTags C tags) c = (res, c') \<Longrightarrow>
       inv c' \<and> srvs c' = srvs c"
    and find_found: "inv c \<Longrightarrow> run_state (FindServerByTags C tags) c = (Inr sv, c') \<Longrightarrow>
       srv_ID sv \<in> matching fits (srvs c) tags"
    and find_missing: "inv c \<Longrightarrow> run_state (FindServerByTags C tags) c = (Inl err, c') \<Longrightarrow>
       IsNotFound err \<Longrightarrow> tags \<noteq> [] \<Longrightarrow> matching fits (srvs c) tags = {}"
    and create_inv: "inv c \<Longrightarrow> run_state (CreateServer C inp) c = (res, c') \<Longrightarrow> inv c'"
    and create_adds: "inv c \<Longrightarrow> run_state (CreateServer C inp) c = (res, c') \<Longrightarrow>
       srvs c' = srvs c \<or> adds_server (srvs c) (srvs c') (csi_Tags inp)"
    and create_found: "inv c \<Longrightarrow> run_state (CreateServer C inp) c = (Inr sv, c') \<Longrightarrow>
       srvs c' (srv_ID sv) \<noteq> None"
    and delete_inv: "inv c \<Longrightarrow> run_state (DeleteServer C i) c = (del, c') \<Longrightarrow> inv c'"
    and delete_shrinks: "inv c \<Longrightarrow> run_state (DeleteServer C i) c = (del, c') \<Longrightarrow>
       srvs c' = srvs c \<or> srvs c' = (srvs c)(i := None)"
    and ssh_keeps: "inv c \<Longrightarrow> run_state (EnsureNodeSSHAccess C sin) c = (grp, c') \<Longrightarrow>
       inv c' \<and> srvs c' = srvs c"
begin

lemma matching_present: "i \<in> matching fits (srvs c) tags \<Longrightarrow> srvs c i \<noteq> None"
  by (auto simp: matching_def)

lemma matching_nonempty: "inv c \<Longrightarrow> [] \<notin> matching fits (srvs c) tags"
  using view_id by (fastforce simp: matching_def)

lemma foreign_fits:
  "\<not> mapContains t tags \<Longrightarrow> map_of t' = map_of t \<Longrightarrow> \<not> fits t' tags"
  using fits_contains fits_cong by metis

end

locale server_cloud = server_store C fits srvs inv
  for C :: "'c Client"
    and fits :: "string gomap \<Rightarrow> string gomap \<Rightarrow> bool"
    and srvs :: "'c \<Rightarrow> 'v server_view"
    and inv :: "'c \<Rightarrow> bool" +
  assumes delete_ok: "inv c \<Longrightarrow> run_state (DeleteServer C i) c = (Inr u, c') \<Longrightarrow>
       srvs c' = (srvs c)(i := None)"
    and delete_fail: "inv c \<Longrightarrow> run_state (DeleteServer C i) c = (Inl err, c') \<Longrightarrow>
       srvs c' = srvs c \<and> (IsNotFound err \<longrightarrow> srvs c i = None)"
begin

lemma delete_result:
  assumes "inv c" and "run_state (DeleteServer C i) c = (res, c')"
    and "\<And>err. res = Inl err \<Longrightarrow> IsNotFound err"
  shows "srvs c' = (srvs c)(i := None)"
proof (cases res)
  case (Inl err)
  with delete_fail [OF assms(1)] assms(2,3) show ?thesis by (auto simp: fun_eq_iff)
next
  case (Inr u)
  with delete_ok [OF assms(1)] assms(2) show ?thesis by simp
qed

end

end
