(* ===== verification/Fake_Servers.thy ===== *)
theory Fake_Servers
  imports Fake_Client Cloud_Contract
begin

text \<open>
  The in-memory client implements the interface \<open>server_cloud\<close>: the invariant of its server map
  (the key of an entry is the ID of its server, IDs in use are \<open>fake-n\<close> with \<open>n\<close> at most the
  counter, an injected failure of a lookup or a delete does not pretend that a server is missing)
  is kept by every server operation, and the laws hold.
\<close>

lemma set_AList_update: "p \<in> set (AList.update k v m) \<Longrightarrow> p = (k, v) \<or> p \<in> set m"
  by (induction m) (auto split: if_splits)

section \<open>Generated IDs are fresh\<close>

definition undigit :: "char \<Rightarrow> nat" where
  "undigit c = of_char c - 48"

lemma undigit_hex_digit:
  assumes "n < 10"
  shows "undigit (hex_digit n) = n"
proof -
  from assms have "n \<in> {0, 1, 2, 3, 4, 5, 6, 7, 8, 9}" by auto
  then show ?thesis by (auto simp: undigit_def hex_digit_def)
qed

lemma foldl_undigit_digits: "foldl (\<lambda>a c. 10 * a + undigit c) 0 (digits n) = n"
proof (induction n rule: digits.induct)
  case (1 n)
  show ?case
  proof (cases "n < 10")
    case True
    then show ?thesis by (simp add: digits.simps [of n] undigit_hex_digit)
  next
    case False
    with 1 show ?thesis by (simp add: digits.simps [of n] undigit_hex_digit)
  qed
qed

lemma fake_id_inject [simp]: "fake_id m = fake_id n \<longleftrightarrow> m = n"
  using foldl_undigit_digits by (auto simp: fake_id_def) metis

lemma fake_id_neq_Nil [simp]: "fake_id n \<noteq> []" "[] \<noteq> fake_id n"
  by (simp_all add: fake_id_def)

section \<open>The invariant\<close>

definition honest :: "go_error option \<Rightarrow> bool" where
  "honest f = (case f of None \<Rightarrow> True | Some err \<Rightarrow> \<not> IsNotFound err)"

definition fake_srvs :: "fake \<Rightarrow> Server server_view" where
  "fake_srvs c i = map_option (\<lambda>e. (se_server e, se_tags e)) (map_of (servers c) i)"

definition fake_server_inv :: "fake \<Rightarrow> bool" where
  "fake_server_inv c \<longleftrightarrow>
     distinct (map fst (servers c)) \<and>
     list_all (\<lambda>(i, e). srv_ID (se_server e) = i \<and> (\<exists>n \<le> nextID c. i = fake_id n)) (servers c) \<and>
     honest (FailNextGetServer (failures c)) \<and> honest (FailNextFindServer (failures c)) \<and>
     honest (FailNextDeleteServer (failures c))"

lemma fake_srvs_iff:
  "fake_srvs c i = Some (sv, t) \<longleftrightarrow>
     (\<exists>e. map_of (servers c) i = Some e \<and> sv = se_server e \<and> t = se_tags e)"
  by (auto simp: fake_srvs_def)

lemma fake_inv_entry:
  "fake_server_inv c \<Longrightarrow> map_of (servers c) i = Some e \<Longrightarrow>
   srv_ID (se_server e) = i \<and> (\<exists>n \<le> nextID c. i = fake_id n)"
  by (auto simp: fake_server_inv_def list_all_iff dest!: map_of_SomeD)

lemma fake_inv_mem:
  "fake_server_inv c \<Longrightarrow> (i, e) \<in> set (servers c) \<Longrightarrow> map_of (servers c) i = Some e"
  by (auto simp: fake_server_inv_def)

lemma fake_next_free: "fake_server_inv c \<Longrightarrow> map_of (servers c) (fake_id (Suc (nextID c))) = None"
  using fake_inv_entry by (cases "map_of (servers c) (fake_id (Suc (nextID c)))") fastforce+

lemma run_consume:
  "run_state (consume sel upd body) c =
     (case sel (failures c) of
        Some err \<Rightarrow> (Inl err, c\<lparr>failures := upd (\<lambda>_. None) (failures c)\<rparr>)
      | None \<Rightarrow> run_state body c)"
  by (simp add: consume_def)

lemma honest_simps [simp]: "honest None" "honest (Some e) \<longleftrightarrow> \<not> IsNotFound e"
  by (simp_all add: honest_def)

lemma find_server_Some:
  assumes "fake_server_inv c" and "find (\<lambda>(i, e). P e) (servers c) = Some (i, e)"
  shows "map_of (servers c) i = Some e \<and> P e \<and> srv_ID (se_server e) = i"
proof -
  from assms(2) have "(i, e) \<in> set (servers c)" "P e" by (auto simp: find_Some_iff set_conv_nth)
  with fake_inv_mem [OF assms(1)] fake_inv_entry [OF assms(1)] show ?thesis by blast
qed

lemma find_server_None:
  assumes "find (\<lambda>(i, e). P e) (servers c) = None" and "map_of (servers c) i = Some e"
  shows "\<not> P e"
  using assms by (auto simp: find_None_iff dest: map_of_SomeD)

section \<open>The operations keep the invariant\<close>

lemma fake_inv_failures:
  "fake_server_inv c \<Longrightarrow> honest (FailNextGetServer f) \<Longrightarrow> honest (FailNextFindServer f) \<Longrightarrow>
   honest (FailNextDeleteServer f) \<Longrightarrow> fake_server_inv (c\<lparr>failures := f\<rparr>)"
  by (simp add: fake_server_inv_def)

lemma fake_inv_honest:
  assumes "fake_server_inv c"
  shows "honest (FailNextGetServer (failures c))" "honest (FailNextFindServer (failures c))"
    "honest (FailNextDeleteServer (failures c))"
  using assms by (simp_all add: fake_server_inv_def)

lemma fake_srvs_failures [simp]: "fake_srvs (c\<lparr>failures := f\<rparr>) = fake_srvs c"
  by (simp add: fake_srvs_def fun_eq_iff)

lemma GetServer_cases:
  assumes "fake_server_inv c" and "run_state (fake_GetServer i) c = (res, c')"
  shows "fake_server_inv c' \<and> fake_srvs c' = fake_srvs c \<and>
    (case res of Inr sv \<Rightarrow> \<exists>t. fake_srvs c i = Some (sv, t)
     | Inl err \<Rightarrow> IsNotFound err \<longrightarrow> fake_srvs c i = None)"
  using assms fake_inv_honest [OF assms(1)]
  by (auto simp: fake_GetServer_def run_consume fake_srvs_def intro: fake_inv_failures
      split: option.splits)

lemma FindServer_cases:
  assumes "fake_server_inv c" and "run_state (fake_FindServerByTags tags) c = (res, c')"
  shows "fake_server_inv c' \<and> fake_srvs c' = fake_srvs c \<and>
    (case res of
       Inr sv \<Rightarrow> srv_ID sv \<in> matching mapContains (fake_srvs c) tags \<and>
                 (\<exists>t. fake_srvs c (srv_ID sv) = Some (sv, t))
     | Inl err \<Rightarrow> IsNotFound err \<and> tags \<noteq> [] \<longrightarrow> matching mapContains (fake_srvs c) tags = {})"
proof (cases "FailNextFindServer (failures c)")
  case (Some err)
  with assms fake_inv_honest [OF assms(1)] show ?thesis
    by (auto simp: fake_FindServerByTags_def run_consume intro: fake_inv_failures)
next
  case nofail: None
  let ?f = "find (\<lambda>(i, e). mapContains (se_tags e) tags) (servers c)"
  show ?thesis
  proof (cases "tags = [] \<or> ?f = None")
    case True
    with assms nofail find_server_None [of "\<lambda>e. mapContains (se_tags e) tags" c]
    show ?thesis
      by (auto simp: fake_FindServerByTags_def run_consume matching_def fake_srvs_iff
          split: if_splits)
  next
    case False
    then obtain i e where f: "tags \<noteq> []" "?f = Some (i, e)" by auto
    with assms nofail find_server_Some [OF assms(1) f(2)] show ?thesis
      by (auto simp: fake_FindServerByTags_def run_consume matching_def fake_srvs_iff)
  qed
qed

lemma CreateServer_cases:
  assumes "fake_server_inv c" and "run_state (fake_CreateServer inp) c = (res, c')"
  shows "fake_server_inv c' \<and>
    (fake_srvs c' = fake_srvs c \<or> adds_server (fake_srvs c) (fake_srvs c') (csi_Tags inp)) \<and>
    (\<forall>sv. res = Inr sv \<longrightarrow> (\<exists>t. fake_srvs c' (srv_ID sv) = Some (sv, t)))"
proof (cases "FailNextCreateServer (failures c)")
  case (Some err)
  with assms fake_inv_honest [OF assms(1)] show ?thesis
    by (auto simp: fake_CreateServer_def run_consume intro: fake_inv_failures)
next
  case nofail: None
  let ?f = "find (\<lambda>(i, e). csi_Tags inp \<noteq> [] \<and> mapContains (se_tags e) (csi_Tags inp)) (servers c)"
  show ?thesis
  proof (cases ?f)
    case (Some p)
    obtain i e where p: "p = (i, e)" by fastforce
    from find_server_Some [OF assms(1) Some [unfolded p]]
    have "map_of (servers c) i = Some e" "srv_ID (se_server e) = i" by auto
    moreover from assms(2) nofail Some p have "res = Inr (se_server e)" "c' = c"
      by (auto simp: fake_CreateServer_def run_consume)
    ultimately show ?thesis using assms(1) by (auto simp: fake_srvs_iff)
  next
    case None
    let ?i = "fake_id (Suc (nextID c))"
    define e where "e = newServerEntry ?i inp"
    then have e: "srv_ID (se_server e) = ?i" "se_tags e = csi_Tags inp"
      by (simp_all add: newServerEntry_def)
    have c': "c' = c\<lparr>nextID := Suc (nextID c), LastCreateServerInput := Some inp,
          servers := AList.update ?i e (servers c),
          CreateServerCalls := Suc (CreateServerCalls c)\<rparr>"
      and res: "res = Inr (se_server e)"
      using assms(2) nofail None by (auto simp: fake_CreateServer_def run_consume Let_def e_def)
    have free: "map_of (servers c) ?i = None" by (rule fake_next_free [OF assms(1)])
    have view: "fake_srvs c' = (fake_srvs c)(?i \<mapsto> (se_server e, se_tags e))"
      by (rule ext) (simp add: c' fake_srvs_def)
    have "fake_server_inv c'"
      using assms(1) e
      by (auto simp: fake_server_inv_def c' list_all_iff distinct_update
          dest!: set_AList_update intro: le_SucI)
    moreover have "adds_server (fake_srvs c) (fake_srvs c') (csi_Tags inp)"
      unfolding adds_server_def using view e free
      by (intro exI [of _ "fake_id (Suc (nextID c))"] exI [of _ "se_server e"] exI [of _ "csi_Tags inp"])
        (simp add: fake_srvs_def)
    moreover have "\<forall>sv. res = Inr sv \<longrightarrow> (\<exists>t. fake_srvs c' (srv_ID sv) = Some (sv, t))"
      using res view e by simp
    ultimately show ?thesis by blast
  qed
qed

lemma DeleteServer_cases:
  assumes "fake_server_inv c" and "run_state (fake_DeleteServer i) c = (res, c')"
  shows "fake_server_inv c' \<and>
    (case res of Inr u \<Rightarrow> fake_srvs c' = (fake_srvs c)(i := None)
     | Inl err \<Rightarrow> fake_srvs c' = fake_srvs c \<and> \<not> IsNotFound err)"
proof (cases "FailNextDeleteServer (failures c)")
  case (Some err)
  with assms fake_inv_honest [OF assms(1)] show ?thesis
    by (auto simp: fake_DeleteServer_def run_consume intro: fake_inv_failures)
next
  case None
  with assms(2) have c': "res = Inr ()" "c' = c\<lparr>servers := AList.delete i (servers c)\<rparr>"
    by (auto simp: fake_DeleteServer_def run_consume)
  have "fake_server_inv c'"
    using assms(1) unfolding c'
    by (auto simp: fake_server_inv_def list_all_iff AList.delete_eq intro: distinct_map_filter)
  with c' show ?thesis by (auto simp: fake_srvs_def fun_eq_iff)
qed

lemma fake_inv_same_servers:
  assumes "fake_server_inv c" and "map fst (servers c') = map fst (servers c)"
    and "\<And>i e'. (i, e') \<in> set (servers c') \<Longrightarrow>
           \<exists>e. (i, e) \<in> set (servers c) \<and> se_server e' = se_server e"
    and "nextID c \<le> nextID c'" and "failures c' = failures c"
  shows "fake_server_inv c'"
  using assms unfolding fake_server_inv_def list_all_iff by (fastforce intro: order_trans)

lemma EnsureNodeSSH_cases:
  assumes "fake_server_inv c" and "run_state (fake_EnsureNodeSSHAccess sin) c = (res, c')"
  shows "fake_server_inv c' \<and> fake_srvs c' = fake_srvs c"
proof (cases "FailNextEnsureNodeSSH (failures c) \<noteq> None \<or> map_of (servers c) (nsi_ServerID sin) = None")
  case True
  with assms fake_inv_honest [OF assms(1)] show ?thesis
    by (auto simp: fake_EnsureNodeSSHAccess_def run_consume intro: fake_inv_failures
        split: option.splits)
next
  case False
  then obtain e where e: "map_of (servers c) (nsi_ServerID sin) = Some e"
    and nf: "FailNextEnsureNodeSSH (failures c) = None" by auto
  have "servers c' = AList.update (nsi_ServerID sin)
          (e\<lparr>se_securityGroups := se_securityGroups (the (map_of (servers c') (nsi_ServerID sin)))\<rparr>)
          (servers c) \<and> nextID c \<le> nextID c' \<and> failures c' = failures c"
    using assms(2) e nf
    by (auto simp: fake_EnsureNodeSSHAccess_def run_consume Let_def split: option.splits)
  then obtain g where c': "servers c' = AList.update (nsi_ServerID sin)
      (e\<lparr>se_securityGroups := g\<rparr>) (servers c)" "nextID c \<le> nextID c'" "failures c' = failures c"
    by blast
  have mem: "(nsi_ServerID sin, e) \<in> set (servers c)" using e by (rule map_of_SomeD)
  have "fake_server_inv c'"
  proof (rule fake_inv_same_servers [OF assms(1)])
    show "map fst (servers c') = map fst (servers c)"
      using mem by (force simp: c' AList.update_keys)
  qed (use c' mem in \<open>auto dest!: set_AList_update\<close>)
  moreover have "fake_srvs c' = fake_srvs c"
    using e by (auto simp: fake_srvs_def c' fun_eq_iff)
  ultimately show ?thesis by blast
qed

interpretation fake_cloud: server_cloud fake_Client mapContains fake_srvs fake_server_inv
proof unfold_locales
  fix c i and vt :: "Server \<times> string gomap"
  assume "fake_server_inv c" "fake_srvs c i = Some vt"
  then show "i \<noteq> []" by (cases vt) (auto simp: fake_srvs_iff dest!: fake_inv_entry)
next
  fix c i and sv :: Server and c'
  assume inv: "fake_server_inv c" and run: "run_state (GetServer fake_Client i) c = (Inr sv, c')"
  from GetServer_cases [OF inv run [simplified]] obtain e where "map_of (servers c) i = Some e" "sv = se_server e"
    by (auto simp: fake_srvs_iff)
  with fake_inv_entry [OF inv] show "srv_ID sv = i \<and> fake_srvs c i \<noteq> None"
    by (simp add: fake_srvs_def)
next
  fix c inp and sv :: Server and c'
  assume "fake_server_inv c" "run_state (CreateServer fake_Client inp) c = (Inr sv, c')"
  from CreateServer_cases [OF this [simplified]] show "fake_srvs c' (srv_ID sv) \<noteq> None" by auto
next
  fix c i and del :: "go_error + unit" and c'
  assume "fake_server_inv c" "run_state (DeleteServer fake_Client i) c = (del, c')"
  from DeleteServer_cases [OF this [simplified]]
  show "fake_srvs c' = fake_srvs c \<or> fake_srvs c' = (fake_srvs c)(i := None)"
    by (cases del) auto
qed (auto dest: GetServer_cases FindServer_cases CreateServer_cases DeleteServer_cases
      EnsureNodeSSH_cases mapContains_cong [THEN iffD1])

end
