(* ===== verification/Machine_Cloud.thy ===== *)
theory Machine_Cloud
  imports Machine_Ready Fake_Servers
begin

text \<open>
  The machine controller on top of a cloud: the lemmas of the locale \<open>server_cloud\<close>, proved once
  from the laws of the interface, and the properties that follow for the in-memory client. The
  servers of a machine are those whose tags match the machine's selector.
\<close>

section \<open>Lemmas over the interface\<close>

definition uses_client :: "'c Factory option \<Rightarrow> 'c Client \<Rightarrow> bool" where
  \<comment> \<open>the factory builds this client or fails\<close>
  "uses_client factory C \<longleftrightarrow>
     (\<forall>fac creds cl. factory = Some fac \<longrightarrow> fac creds = Inr cl \<longrightarrow> cl = C)"

lemma BuildCloudClient_uses:
  assumes "uses_client factory C"
    and "run_state (BuildCloudClient K factory sc) k = (Inr cl, k')"
  shows "cl = C"
  using assms
  by (auto simp: BuildCloudClient_def uses_client_def Let_def split: option.splits prod.splits sum.splits)

definition own_or_foreign :: "MachineScope \<Rightarrow> StackitMachine \<Rightarrow> string gomap \<Rightarrow> bool" where
  "own_or_foreign ms sm tags \<longleftrightarrow>
     machine_Tags ms sm = tags \<or> \<not> mapContains (machine_Tags ms sm) tags"

context server_store
begin

lemma wp_GetServer:
  assumes "inv (cloud s)"
    and "\<And>res c'. inv c' \<Longrightarrow> srvs c' = srvs (cloud s) \<Longrightarrow>
      (\<And>sv. res = Inr sv \<Longrightarrow> srv_ID sv = i \<and> srvs c' i \<noteq> None) \<Longrightarrow>
      Q res (s\<lparr>cloud := c', effects := effects s @ [Cloud op]\<rparr>)"
  shows "wp (cloudCall op (GetServer C i)) Q s"
proof -
  obtain res c' where run: "run_state (GetServer C i) (cloud s) = (res, c')" by fastforce
  with get_keeps [OF assms(1)] have k: "inv c'" "srvs c' = srvs (cloud s)" by auto
  have "Q res (s\<lparr>cloud := c', effects := effects s @ [Cloud op]\<rparr>)"
    by (rule assms(2) [OF k]) (use get_found [OF assms(1)] run k in auto)
  with run show ?thesis by (simp add: wp_simps)
qed

lemma wp_FindServer:
  assumes "inv (cloud s)"
    and "\<And>res c'. inv c' \<Longrightarrow> srvs c' = srvs (cloud s) \<Longrightarrow>
      (\<And>sv. res = Inr sv \<Longrightarrow> srv_ID sv \<in> matching fits (srvs c') tags) \<Longrightarrow>
      (\<And>err. res = Inl err \<Longrightarrow> IsNotFound err \<Longrightarrow> tags \<noteq> [] \<Longrightarrow> matching fits (srvs c') tags = {}) \<Longrightarrow>
      Q res (s\<lparr>cloud := c', effects := effects s @ [Cloud op]\<rparr>)"
  shows "wp (cloudCall op (FindServerByTags C tags)) Q s"
proof -
  obtain res c' where run: "run_state (FindServerByTags C tags) (cloud s) = (res, c')" by fastforce
  with find_keeps [OF assms(1)] have k: "inv c'" "srvs c' = srvs (cloud s)" by auto
  have "Q res (s\<lparr>cloud := c', effects := effects s @ [Cloud op]\<rparr>)"
    by (rule assms(2) [OF k])
      (use find_found [OF assms(1)] find_missing [OF assms(1)] run k in auto)
  with run show ?thesis by (simp add: wp_simps)
qed

lemma wp_CreateServer:
  assumes "inv (cloud s)"
    and "\<And>res c'. inv c' \<Longrightarrow>
      srvs c' = srvs (cloud s) \<or> adds_server (srvs (cloud s)) (srvs c') (csi_Tags inp) \<Longrightarrow>
      (\<And>sv. res = Inr sv \<Longrightarrow> srvs c' (srv_ID sv) \<noteq> None) \<Longrightarrow>
      Q res (s\<lparr>cloud := c', effects := effects s @ [Cloud op]\<rparr>)"
  shows "wp (cloudCall op (CreateServer C inp)) Q s"
proof -
  obtain res c' where run: "run_state (CreateServer C inp) (cloud s) = (res, c')" by fastforce
  have "Q res (s\<lparr>cloud := c', effects := effects s @ [Cloud op]\<rparr>)"
    by (rule assms(2) [OF create_inv [OF assms(1) run] create_adds [OF assms(1) run]])
      (use create_found [OF assms(1)] run in auto)
  with run show ?thesis by (simp add: wp_simps)
qed

definition one_server :: "string gomap \<Rightarrow> ('c, 'k, 'o) rstate \<Rightarrow> bool" where
  "one_server tags s \<longleftrightarrow> inv (cloud s) \<and> at_most_one (matching fits (srvs (cloud s)) tags)"

lemma one_server_record [simp]:
  "one_server tags (s\<lparr>obj := x\<rparr>) = one_server tags s"
  "one_server tags (s\<lparr>kube := k\<rparr>) = one_server tags s"
  "one_server tags (s\<lparr>effects := es\<rparr>) = one_server tags s"
  by (simp_all add: one_server_def)

text \<open>
  What \<open>ensureServer\<close> leaves behind: at most one server of the machine, and the server it returns
  is there. The selector \<open>tags\<close> is that of the machine itself or of another machine.
\<close>

definition server_ensured ::
  "string gomap \<Rightarrow> StackitMachine \<Rightarrow> go_error + Server \<times> bool \<Rightarrow> ('c, 'k, StackitMachine) rstate \<Rightarrow> bool" where
  "server_ensured tags sm res s' \<longleftrightarrow> one_server tags s' \<and> obj s' = sm \<and>
     (\<forall>sv b. res = Inr (sv, b) \<longrightarrow> srvs (cloud s') (srv_ID sv) \<noteq> None)"

lemma createMissingServer_unique:
  assumes "one_server tags s" and "own_or_foreign ms (obj s) tags"
    and "matching fits (srvs (cloud s)) (machine_Tags ms (obj s)) = {}"
  shows "wp (createMissingServer C ms ud) (server_ensured tags (obj s)) s"
proof -
  have "wp (cloudCall (OpCreateServer inp) (CreateServer C inp))
     (\<lambda>res. wp (case res of Inl err \<Rightarrow> fail_with err | Inr sv \<Rightarrow> ok (sv, True))
        (server_ensured tags (obj s))) s" if "csi_Tags inp = machine_Tags ms (obj s)" for inp
  proof (rule wp_CreateServer)
    show "inv (cloud s)" using assms(1) by (simp add: one_server_def)
  next
    fix res :: "go_error + Server" and c'
    assume "inv c'" "srvs c' = srvs (cloud s) \<or> adds_server (srvs (cloud s)) (srvs c') (csi_Tags inp)"
      and found: "\<And>sv. res = Inr sv \<Longrightarrow> srvs c' (srv_ID sv) \<noteq> None"
    with adds_server_at_most_one [of "srvs c'" "srvs (cloud s)" "csi_Tags inp" fits tags]
      foreign_fits [of "csi_Tags inp" tags] assms that
    have "inv c'" "at_most_one (matching fits (srvs c') tags)"
      by (auto simp: one_server_def own_or_foreign_def)
    with found show "wp (case res of Inl err \<Rightarrow> fail_with err | Inr sv \<Rightarrow> ok (sv, True))
        (server_ensured tags (obj s)) (s\<lparr>cloud := c', effects := effects s @ [Cloud (OpCreateServer inp)]\<rparr>)"
      by (auto simp: wp_simps server_ensured_def one_server_def split: sum.split)
  qed
  then show ?thesis
    unfolding createMissingServer_def using assms
    by (simp add: wp_simps Let_def server_ensured_def)
qed

lemma findServerOrCreate_unique:
  assumes "one_server tags s" and "own_or_foreign ms (obj s) tags"
  shows "wp (findServerOrCreate C ms ud) (server_ensured tags (obj s)) s"
proof -
  let ?t = "machine_Tags ms (obj s)"
  have [simp]: "?t \<noteq> []" by (simp add: machine_Tags_def)
  show ?thesis
    unfolding findServerOrCreate_def wp_bind wp_getObj wp_let
  proof (rule wp_FindServer)
    show "inv (cloud s)" using assms by (simp add: one_server_def)
  next
    fix res :: "go_error + Server" and c'
    let ?s = "s\<lparr>cloud := c', effects := effects s @ [Cloud (OpFindServerByTags ?t)]\<rparr>"
    assume c': "inv c'" "srvs c' = srvs (cloud s)"
      and found: "\<And>sv. res = Inr sv \<Longrightarrow> srv_ID sv \<in> matching fits (srvs c') ?t"
      and missing: "\<And>err. res = Inl err \<Longrightarrow> IsNotFound err \<Longrightarrow> ?t \<noteq> [] \<Longrightarrow>
         matching fits (srvs c') ?t = {}"
    show "wp (case res of Inl err \<Rightarrow> if IsNotFound err then createMissingServer C ms ud else fail_with err
        | Inr server \<Rightarrow> ok (server, False)) (server_ensured tags (obj s)) ?s"
      using createMissingServer_unique [of tags ?s ms ud] c' found missing assms matching_present
      by (auto simp: wp_simps server_ensured_def one_server_def split: sum.split)
  qed
qed

lemma ensureServer_unique:
  assumes "one_server tags s" and "own_or_foreign ms (obj s) tags"
  shows "wp (ensureServer C ms ud) (server_ensured tags (obj s)) s"
proof -
  let ?i = "smst_InstanceID (sm_Status (obj s))"
  have "wp (cloudCall (OpGetServer ?i) (GetServer C ?i))
     (\<lambda>res. wp (case res of Inr server \<Rightarrow> ok (server, False) | Inl err \<Rightarrow>
         if IsNotFound err then findServerOrCreate C ms ud else fail_with err)
       (server_ensured tags (obj s))) s"
  proof (rule wp_GetServer)
    show "inv (cloud s)" using assms by (simp add: one_server_def)
  next
    fix res :: "go_error + Server" and c'
    let ?s = "s\<lparr>cloud := c', effects := effects s @ [Cloud (OpGetServer ?i)]\<rparr>"
    assume c': "inv c'" "srvs c' = srvs (cloud s)"
      and found: "\<And>sv. res = Inr sv \<Longrightarrow> srv_ID sv = ?i \<and> srvs c' ?i \<noteq> None"
    show "wp (case res of Inr server \<Rightarrow> ok (server, False) | Inl err \<Rightarrow>
         if IsNotFound err then findServerOrCreate C ms ud else fail_with err)
       (server_ensured tags (obj s)) ?s"
      using findServerOrCreate_unique [of tags ?s ms ud] c' found assms view_id [OF c'(1)]
      by (force simp: wp_simps server_ensured_def one_server_def split: sum.split)
  qed
  with findServerOrCreate_unique [OF assms] show ?thesis
    unfolding ensureServer_def by (simp add: wp_simps Let_def)
qed

lemma machineCloudFailure_one:
  "one_server tags s \<Longrightarrow> wp (machineCloudFailure r rs err ts) (\<lambda>_ s'. one_server tags s') s"
  by (simp add: machineCloudFailure_def CloudFailureResult_def wp_simps)

lemma reconcileBastionNodeSSHAccess_one:
  assumes "one_server tags s"
  shows "wp (reconcileBastionNodeSSHAccess C ms sv) (\<lambda>_ s'. one_server tags s') s"
  unfolding reconcileBastionNodeSSHAccess_def using assms
  by (auto simp: wp_simps Let_def one_server_def dest!: ssh_keeps [rotated]
      split: sum.splits prod.splits)

lemma reconcileMachineAccess_one:
  assumes "one_server tags s"
  shows "wp (reconcileMachineAccess r C ms sv) (\<lambda>_ s'. one_server tags s') s"
  unfolding reconcileMachineAccess_def wp_bind
  by (rule wp_mono [OF reconcileBastionNodeSSHAccess_one [OF assms]])
    (simp add: wp_simps machineCloudFailure_one split: sum.split)

lemma reconcileMachineState_one:
  assumes "one_server tags s"
  shows "wp (reconcileMachineState r C ms sv) (\<lambda>_ s'. one_server tags s') s"
  unfolding reconcileMachineState_def using assms
  by (simp add: wp_simps Let_def reconcileMachineAccess_one split: prod.split)

lemma reconcileMachineInstance_one:
  assumes "one_server tags s" and "own_or_foreign ms (obj s) tags"
  shows "wp (reconcileMachineInstance r C ms ud) (\<lambda>_ s'. one_server tags s') s"
  unfolding reconcileMachineInstance_def wp_bind
  by (rule wp_mono [OF ensureServer_unique [OF assms]])
    (auto simp: wp_simps server_ensured_def machineCloudFailure_one reconcileMachineState_one
      split: sum.split prod.split)

lemma own_or_foreign_cong:
  "sm_Spec a = sm_Spec b \<Longrightarrow> own_or_foreign ms a tags = own_or_foreign ms b tags"
  by (simp add: own_or_foreign_def machine_Tags_def)

lemma reconcileMachineCredentials_one:
  assumes "uses_client (r_CloudClientFactory r) C"
    and "one_server tags s" and "own_or_foreign ms (obj s) tags"
  shows "wp (reconcileMachineCredentials r ms ud) (\<lambda>_ s'. one_server tags s') s"
  unfolding reconcileMachineCredentials_def using assms(2,3)
  by (auto simp: wp_simps CredentialFailureResult_def machine_scope_defs
      own_or_foreign_cong [of "map_sm_Status f sm" sm for f sm]
      dest!: BuildCloudClient_uses [OF assms(1)] intro!: reconcileMachineInstance_one
      split: prod.splits sum.splits)

lemma machine_reconcileNormal_one:
  assumes "uses_client (r_CloudClientFactory r) C"
    and "one_server tags s" and "own_or_foreign ms (obj s) tags"
  shows "wp (machine_reconcileNormal r ms) (\<lambda>_ s'. one_server tags s') s"
proof -
  have boot: "wp (reconcileMachineBootstrap r ms) (\<lambda>_ s'. one_server tags s') s1"
    if "one_server tags s1" "own_or_foreign ms (obj s1) tags" for s1
    unfolding reconcileMachineBootstrap_def using that
    by (auto simp: wp_simps machine_scope_defs own_or_foreign_cong [of "map_sm_Status f sm" sm for f sm]
        intro!: reconcileMachineCredentials_one [OF assms(1)] split: prod.splits)
  show ?thesis
    unfolding machine_reconcileNormal_def reconcileMachineGuards_def wp_bind
      wp_ensureMachineFinalizer using assms(2,3)
    by (auto simp: wp_simps Let_def boot own_or_foreign_cong [of "add_machine_finalizer L sm" sm for L sm]
        split: prod.splits sum.splits option.splits)
qed

lemma shrink_one:
  assumes "one_server tags s" and "inv (cloud s')"
    and "srvs (cloud s') = srvs (cloud s) \<or> srvs (cloud s') = (srvs (cloud s))(i := None)"
  shows "one_server tags s'"
  using assms by (auto simp: one_server_def matching_update_None intro: at_most_one_subset)

lemma deleteServerByID_one:
  assumes "one_server tags s"
  shows "wp (deleteServerByID r C j) (\<lambda>_ s'. one_server tags s') s"
proof -
  obtain del c' where run: "run_state (DeleteServer C j) (cloud s) = (del, c')" by fastforce
  have "inv (cloud s)" using assms by (simp add: one_server_def)
  with run delete_inv delete_shrinks have "one_server tags (s\<lparr>cloud := c'\<rparr>)"
    by (intro shrink_one [OF assms, of _ j]) auto
  with run assms show ?thesis
    by (auto simp: deleteServerByID_def wp_simps removeMachineFinalizer_def Let_def
        split: sum.split option.split)
qed

lemma resolveServerForDeletion_one:
  assumes "one_server tags s"
  shows "wp (resolveServerForDeletion C ms) (\<lambda>_ s'. one_server tags s') s"
proof -
  have "inv (cloud s)" using assms by (simp add: one_server_def)
  then have "wp (cloudCall (OpFindServerByTags t) (FindServerByTags C t))
     (\<lambda>res. wp (case res of Inl err \<Rightarrow> if IsNotFound err then ok [] else fail_with err
        | Inr server \<Rightarrow> ok (srv_ID server)) (\<lambda>_ s'. one_server tags s')) s" for t
    using assms by (intro wp_FindServer) (auto simp: wp_simps one_server_def split: sum.split)
  with assms show ?thesis
    unfolding resolveServerForDeletion_def by (simp add: wp_simps Let_def)
qed

lemma machine_reconcileDelete_one:
  assumes "uses_client (r_CloudClientFactory r) C" and "one_server tags s"
  shows "wp (machine_reconcileDelete r ms) (\<lambda>_ s'. one_server tags s') s"
proof -
  have "wp (deleteMachineServer r C ms) (\<lambda>_ s'. one_server tags s') (s\<lparr>kube := k\<rparr>)" for k
    unfolding deleteMachineServer_def wp_bind
    by (rule wp_mono [OF resolveServerForDeletion_one])
      (auto simp: assms(2) wp_simps intro!: deleteServerByID_one split: sum.split)
  then show ?thesis
    unfolding machine_reconcileDelete_def using assms(2)
    by (auto simp: wp_simps CredentialFailureResult_def removeMachineFinalizer_def
        dest!: BuildCloudClient_uses [OF assms(1)] split: prod.splits sum.splits option.splits)
qed

lemma machine_reconcileScope_one:
  assumes "uses_client (r_CloudClientFactory r) C"
    and "one_server tags s" and "own_or_foreign ms (obj s) tags"
  shows "wp (machine_reconcileScope r ms) (\<lambda>_ s'. one_server tags s') s"
proof -
  have "wp (machine_runPhases r ms) (\<lambda>_ s'. one_server tags s') s"
    unfolding wp_machine_runPhases using assms(2,3)
    by (auto simp: Let_def own_or_foreign_cong [of "unpaused L sm" sm for L sm]
        intro!: machine_reconcileNormal_one [OF assms(1)] machine_reconcileDelete_one [OF assms(1)])
  then show ?thesis
    unfolding machine_reconcileScope_def wp_bind
    by (rule wp_mono) (auto simp: wp_simps split: prod.splits sum.splits)
qed

end

context server_cloud
begin

text \<open>What \<open>deleteMachineServer\<close> does: it removes servers of the machine or the recorded
  one and no others, and once it succeeds none is left.\<close>

definition recorded :: "string gomap \<Rightarrow> string \<Rightarrow> ('c, 'k, 'o) rstate \<Rightarrow> bool" where
  \<comment> \<open>every server of the machine is the one whose ID the status records; without a recorded ID
    there is at most one\<close>
  "recorded tags i s \<longleftrightarrow>
     (if i = [] then at_most_one (matching fits (srvs (cloud s)) tags)
      else matching fits (srvs (cloud s)) tags \<subseteq> {i})"

definition server_deleted ::
  "string gomap \<Rightarrow> string \<Rightarrow> ('c, 'k, 'o) rstate \<Rightarrow> go_error + unit \<Rightarrow> ('c, 'k, 'o) rstate \<Rightarrow> bool" where
  "server_deleted tags i s res s' \<longleftrightarrow> inv (cloud s') \<and>
     (\<forall>j. srvs (cloud s') j = srvs (cloud s) j \<or>
          srvs (cloud s') j = None \<and> (j = i \<or> j \<in> matching fits (srvs (cloud s)) tags)) \<and>
     (res = Inr () \<longrightarrow> recorded tags i s \<longrightarrow> matching fits (srvs (cloud s')) tags = {})"

lemma wp_DeleteServer:
  assumes "inv (cloud s)"
    and "\<And>res c'. inv c' \<Longrightarrow>
      (\<And>err. res = Inl err \<Longrightarrow> \<not> IsNotFound err \<Longrightarrow> srvs c' = srvs (cloud s)) \<Longrightarrow>
      ((\<And>err. res = Inl err \<Longrightarrow> IsNotFound err) \<Longrightarrow> srvs c' = (srvs (cloud s))(i := None)) \<Longrightarrow>
      Q res (s\<lparr>cloud := c', effects := effects s @ [Cloud op]\<rparr>)"
  shows "wp (cloudCall op (DeleteServer C i)) Q s"
proof -
  obtain res c' where run: "run_state (DeleteServer C i) (cloud s) = (res, c')" by fastforce
  have "Q res (s\<lparr>cloud := c', effects := effects s @ [Cloud op]\<rparr>)"
    by (rule assms(2) [OF delete_inv [OF assms(1) run]])
      (use delete_fail [OF assms(1)] delete_result [OF assms(1) run] run in auto)
  with run show ?thesis by (simp add: wp_simps)
qed

definition resolved ::
  "string gomap \<Rightarrow> string \<Rightarrow> ('c, 'k, 'o) rstate \<Rightarrow> go_error + string \<Rightarrow> ('c, 'k, 'o) rstate \<Rightarrow> bool" where
  "resolved tags i s res s' \<longleftrightarrow> inv (cloud s') \<and> srvs (cloud s') = srvs (cloud s) \<and> obj s' = obj s \<and>
     (\<forall>j. res = Inr j \<longrightarrow>
        (if j = [] then matching fits (srvs (cloud s)) tags = {}
         else j = i \<or> i = [] \<and> j \<in> matching fits (srvs (cloud s)) tags))"

lemma resolveServerForDeletion_resolved:
  assumes "inv (cloud s)"
  shows "wp (resolveServerForDeletion C ms)
     (resolved (machine_Tags ms (obj s)) (smst_InstanceID (sm_Status (obj s))) s) s"
proof -
  let ?t = "machine_Tags ms (obj s)"
  have t: "?t \<noteq> []" by (simp add: machine_Tags_def)
  have "wp (cloudCall (OpFindServerByTags ?t) (FindServerByTags C ?t))
     (\<lambda>res. wp (case res of Inl err \<Rightarrow> if IsNotFound err then ok [] else fail_with err
        | Inr server \<Rightarrow> ok (srv_ID server)) (resolved ?t [] s)) s"
    using assms t
    by (intro wp_FindServer)
      (auto simp: wp_simps resolved_def matching_nonempty [OF assms] split: sum.split)
  with assms show ?thesis
    unfolding resolveServerForDeletion_def by (simp add: wp_simps Let_def resolved_def)
qed

lemma server_deleted_update:
  assumes "inv (cloud s')" "srvs (cloud s') = (srvs (cloud s))(j := None)" "j \<noteq> []"
    and "j = i \<or> i = [] \<and> j \<in> matching fits (srvs (cloud s)) tags"
  shows "server_deleted tags i s res s'"
proof -
  have "matching fits ((srvs (cloud s))(j := None)) tags = {}" if "recorded tags i s"
    using that assms(3,4)
    by (auto simp: matching_update_None recorded_def at_most_one_def split: if_splits)
  with assms show ?thesis by (simp add: server_deleted_def) blast
qed

lemma deleteServerByID_deleted:
  assumes "inv (cloud s1)" "srvs (cloud s1) = srvs (cloud s)"
    and "if j = [] then matching fits (srvs (cloud s)) tags = {}
         else j = i \<or> i = [] \<and> j \<in> matching fits (srvs (cloud s)) tags"
  shows "wp (deleteServerByID r C j) (server_deleted tags i s) s1"
proof (cases "j = []")
  case True
  with assms show ?thesis
    by (simp add: deleteServerByID_def wp_simps server_deleted_def removeMachineFinalizer_def)
next
  case False
  with assms(3) have j: "j = i \<or> i = [] \<and> j \<in> matching fits (srvs (cloud s)) tags" by auto
  show ?thesis
    unfolding deleteServerByID_def if_not_P [OF False] wp_bind
  proof (rule wp_DeleteServer [OF assms(1)])
    fix del :: "go_error + unit" and c'
    assume c': "inv c'"
      and kept: "\<And>err. del = Inl err \<Longrightarrow> \<not> IsNotFound err \<Longrightarrow> srvs c' = srvs (cloud s1)"
      and gone: "(\<And>err. del = Inl err \<Longrightarrow> IsNotFound err) \<Longrightarrow> srvs c' = (srvs (cloud s1))(j := None)"
    have upd: "server_deleted tags i s (Inr ()) s2"
      if "cloud s2 = c'" "\<And>err. del = Inl err \<Longrightarrow> IsNotFound err" for s2
      using server_deleted_update [OF _ _ False j, of s2] gone c' assms(2) that by simp
    have same: "server_deleted tags i s (Inl err) s2"
      if "cloud s2 = c'" "del = Inl err" "\<not> IsNotFound err" for err s2
      using kept [OF that(2,3)] c' assms(2) that(1) by (simp add: server_deleted_def)
    show "wp (let failed = case del of Inl err \<Rightarrow> if IsNotFound err then None else Some err | Inr _ \<Rightarrow> None
       in case failed of None \<Rightarrow> modifyObj ClearInstance \<bind> (\<lambda>_.
            recordEvent ''InstanceDeleted'' (''Deleted instance '' @ j) \<bind> (\<lambda>_.
            removeMachineFinalizer r \<bind> (\<lambda>_. ok ())))
          | Some err \<Rightarrow> recordWarn ''FailedDeleteInstance''
              (''Failed to delete server '' @ j @ '': '' @ err_text err) \<bind> (\<lambda>_. fail_with err))
       (server_deleted tags i s)
       (s1\<lparr>cloud := c', effects := effects s1 @ [Cloud (OpDeleteServer j)]\<rparr>)"
      by (cases del) (auto simp: wp_simps removeMachineFinalizer_def intro!: upd same)
  qed
qed

lemma deleteMachineServer_deleted:
  assumes "inv (cloud s)"
  shows "wp (deleteMachineServer r C ms)
     (server_deleted (machine_Tags ms (obj s)) (smst_InstanceID (sm_Status (obj s))) s) s"
  unfolding deleteMachineServer_def wp_bind
  by (rule wp_mono [OF resolveServerForDeletion_resolved [OF assms]])
    (auto simp: wp_simps resolved_def server_deleted_def
      intro!: deleteServerByID_deleted split: sum.split)

lemma machine_reconcileDelete_deleted:
  assumes "uses_client (r_CloudClientFactory r) C" and "inv (cloud s)"
  shows "wp (machine_reconcileDelete r ms) (\<lambda>res s'.
     (case fst (run_state (BuildCloudClient (r_Client r) (r_CloudClientFactory r) (ms_StackitCluster ms))
             (kube s)) of
        Inl err \<Rightarrow> cloud s' = cloud s \<and>
          (\<not> apierrors_IsNotFound err \<longrightarrow> sm_meta (obj s') = sm_meta (obj s))
      | Inr _ \<Rightarrow> server_deleted (machine_Tags ms (obj s)) (smst_InstanceID (sm_Status (obj s))) s res s')) s"
proof -
  let ?D = "server_deleted (machine_Tags ms (obj s)) (smst_InstanceID (sm_Status (obj s)))"
  have kube: "?D (s\<lparr>kube := k\<rparr>) = ?D s" for k
    by (simp add: server_deleted_def recorded_def fun_eq_iff)
  have "wp (deleteMachineServer r C ms) (?D s) (s\<lparr>kube := k\<rparr>)" for k
    using deleteMachineServer_deleted [of "s\<lparr>kube := k\<rparr>" r ms] assms(2) by (simp add: kube)
  then show ?thesis
    unfolding machine_reconcileDelete_def
    by (auto simp: wp_simps CredentialFailureResult_def removeMachineFinalizer_def
        dest!: BuildCloudClient_uses [OF assms(1)] split: prod.splits sum.splits option.splits)
qed

end

section \<open>Sequences of passes\<close>

text \<open>
  Any number of passes, over any machines, one after the other. Each pass starts from an arbitrary
  version of its machine and of the Kubernetes API, so that stale reads and status patches that
  were lost are covered; only the cloud carries over from one pass to the next.
\<close>

inductive machine_passes :: "('c, 'k) Reconciler \<Rightarrow> (MachineScope \<Rightarrow> StackitMachine \<Rightarrow> bool) \<Rightarrow> 'c \<Rightarrow> 'c \<Rightarrow> bool"
  for r :: "('c, 'k) Reconciler" and ok_machine where
  no_pass: "machine_passes r ok_machine c c"
| one_more: "machine_passes r ok_machine c (cloud s) \<Longrightarrow> ok_machine ms (obj s) \<Longrightarrow>
    run_state (machine_reconcileScope r ms) s = (out, s') \<Longrightarrow> machine_passes r ok_machine c (cloud s')"

definition fixed_labels :: "string \<Rightarrow> string gomap \<Rightarrow> MachineScope \<Rightarrow> StackitMachine \<Rightarrow> bool" where
  \<comment> \<open>the machine with this UID always has these tags\<close>
  "fixed_labels uid tags ms sm \<longleftrightarrow>
     (om_UID (mc_meta (ms_Machine ms)) = uid \<longrightarrow> machine_Tags ms sm = tags)"

lemma fixed_labels_own_or_foreign:
  assumes "fixed_labels uid (MachineTags c ns m uid ls) ms sm"
  shows "own_or_foreign ms sm (MachineTags c ns m uid ls)"
proof (cases "om_UID (mc_meta (ms_Machine ms)) = uid")
  case True
  with assms show ?thesis by (simp add: fixed_labels_def own_or_foreign_def)
next
  case False
  with mapContains_MachineTagsD show ?thesis
    unfolding own_or_foreign_def machine_Tags_def by blast
qed

context server_store
begin

lemma machine_passes_one:
  assumes "uses_client (r_CloudClientFactory r) C"
    and "machine_passes r (fixed_labels uid (MachineTags cl ns m uid ls)) c c'"
    and "inv c" and "at_most_one (matching fits (srvs c) (MachineTags cl ns m uid ls))"
  shows "inv c' \<and> at_most_one (matching fits (srvs c') (MachineTags cl ns m uid ls))"
  using assms(2-4)
proof (induction rule: machine_passes.induct)
  case (no_pass c)
  then show ?case by simp
next
  case (one_more c s ms out s')
  then have "one_server (MachineTags cl ns m uid ls) s" by (simp add: one_server_def)
  from machine_reconcileScope_one [OF assms(1) this fixed_labels_own_or_foreign [OF one_more.hyps(2)]]
  show ?case using one_more.hyps(3) by (simp add: wp_run one_server_def)
qed

end

section \<open>The properties\<close>

text \<open>
  A machine never gets two servers. Start from a cloud with at most one server that matches the
  selector of a machine, and run any number of passes over this and other machines, each on an
  arbitrary, possibly stale version of its objects (a status patch that was lost, a restart of the
  controller, an API server that rejects every patch, injected failures of the cloud): as long as
  the labels of the machine itself do not change, there is still at most one such server.
\<close>

theorem machine_never_duplicated:
  assumes "uses_client (r_CloudClientFactory r) fake_Client" and "fake_server_inv c"
    and "at_most_one (matching mapContains (fake_srvs c) (MachineTags cl ns m uid ls))"
    and "machine_passes r (fixed_labels uid (MachineTags cl ns m uid ls)) c c'"
  shows "at_most_one (matching mapContains (fake_srvs c') (MachineTags cl ns m uid ls))"
  using fake_cloud.machine_passes_one [OF assms(1,4,2,3)] by simp

theorem machine_never_duplicated_witness:
  "at_most_one (matching mapContains (fake_srvs (cloud (snd (run_state
      (machine_reconcileScope sample_Reconciler sample_scope) (sample_state sample_StackitMachine)))))
      (MachineTags ''c'' ''ns'' ''m'' ''uid-m'' []))"
proof -
  let ?t = "MachineTags ''c'' ''ns'' ''m'' ''uid-m'' []"
  let ?run = "run_state (machine_reconcileScope sample_Reconciler sample_scope)
      (sample_state sample_StackitMachine)"
  have "fixed_labels ''uid-m'' ?t sample_scope sample_StackitMachine" by code_simp
  with machine_passes.one_more [OF machine_passes.no_pass, of "fixed_labels ''uid-m'' ?t"
      sample_scope "sample_state sample_StackitMachine" sample_Reconciler "fst ?run" "snd ?run"]
  have passes: "machine_passes sample_Reconciler (fixed_labels ''uid-m'' ?t) (fake_New []) (cloud (snd ?run))"
    by simp
  have "uses_client (r_CloudClientFactory sample_Reconciler) fake_Client"
    by (simp add: uses_client_def)
  moreover have "fake_server_inv (fake_New [])"
    by (simp add: fake_server_inv_def fake_New_def no_failures_def)
  moreover have "at_most_one (matching mapContains (fake_srvs (fake_New [])) ?t)"
    by (simp add: matching_def fake_srvs_def fake_New_def)
  ultimately show ?thesis by (rule machine_never_duplicated [OF _ _ _ passes])
qed

lemma machine_reconcileDelete_error:
  "wp (machine_reconcileDelete r ms) (\<lambda>res s'. \<forall>err. res = Inl err \<longrightarrow> sm_meta (obj s') = sm_meta (obj s)) s"
  unfolding machine_reconcileDelete_def deleteMachineServer_def deleteServerByID_def
    resolveServerForDeletion_def removeMachineFinalizer_def
  by (auto simp: wp_simps Let_def ClearInstance_def
      split: prod.splits sum.splits option.splits if_splits)

text \<open>
  C3: the finalizer of a machine goes only when its server is gone. If deletion of a machine removes
  the finalizer, then either the credentials Secret does not exist any more (the one case that the
  code finalizes without asking the cloud), or the deletion succeeded and afterwards the cloud has
  no server that matches the machine's selector, provided the status names the machine's server or
  names none. In both cases every server that neither matches the selector nor is the recorded one
  is still there, unchanged.
\<close>

theorem machine_finalizer_removed:
  assumes "uses_client (r_CloudClientFactory r) fake_Client" and "fake_server_inv (cloud s)"
    and "run_state (machine_reconcileDelete r ms) s = (res, s')"
    and "machine_finalized (r_lib r) (obj s)" and "\<not> machine_finalized (r_lib r) (obj s')"
    and "matching mapContains (fake_srvs (cloud s)) (machine_Tags ms (obj s)) \<subseteq> {i}"
    and "smst_InstanceID (sm_Status (obj s)) = [] \<or> smst_InstanceID (sm_Status (obj s)) = i"
  shows "res = Inr () \<and>
    ((\<exists>err. fst (run_state (BuildCloudClient (r_Client r) (r_CloudClientFactory r)
          (ms_StackitCluster ms)) (kube s)) = Inl err \<and> apierrors_IsNotFound err) \<or>
     matching mapContains (fake_srvs (cloud s')) (machine_Tags ms (obj s)) = {}) \<and>
    (\<forall>j. j \<noteq> i \<longrightarrow> fake_srvs (cloud s') j = fake_srvs (cloud s) j)"
proof -
  let ?t = "machine_Tags ms (obj s)" and ?i = "smst_InstanceID (sm_Status (obj s))"
  let ?b = "fst (run_state (BuildCloudClient (r_Client r) (r_CloudClientFactory r)
          (ms_StackitCluster ms)) (kube s))"
  have meta: "sm_meta (obj s') \<noteq> sm_meta (obj s)" using assms(4,5) by (auto simp: machine_finalized_def)
  with machine_reconcileDelete_error [of r ms s] assms(3) have res: "res = Inr ()"
    by (cases res) (auto simp: wp_run)
  have rec: "fake_cloud.recorded ?t ?i s"
    using assms(6,7) by (auto simp: fake_cloud.recorded_def at_most_one_def)
  have main: "case ?b of
        Inl err \<Rightarrow> cloud s' = cloud s \<and>
          (\<not> apierrors_IsNotFound err \<longrightarrow> sm_meta (obj s') = sm_meta (obj s))
      | Inr _ \<Rightarrow> fake_cloud.server_deleted ?t ?i s res s'"
    using fake_cloud.machine_reconcileDelete_deleted [OF assms(1,2), of ms] assms(3)
    by (simp add: wp_run)
  show ?thesis
  proof (cases ?b)
    case (Inl err)
    with main meta res show ?thesis by auto
  next
    case (Inr cl)
    with main have del: "fake_cloud.server_deleted ?t ?i s res s'" by simp
    have "fake_srvs (cloud s') j = fake_srvs (cloud s) j" if "j \<noteq> i" for j
    proof (cases "j = ?i")
      case True
      with that assms(7) have "j = []" by simp
      with fake_cloud.view_id assms(2) del show ?thesis
        unfolding fake_cloud.server_deleted_def by (metis not_Some_eq surj_pair)
    next
      case False
      with that assms(6) del show ?thesis unfolding fake_cloud.server_deleted_def by blast
    qed
    with del res rec show ?thesis by (simp add: fake_cloud.server_deleted_def)
  qed
qed

definition sample_deleting :: "(fake, api, StackitMachine) rstate" where
  "sample_deleting =
     (sample_state (sample_StackitMachine
        \<lparr>sm_meta := (sample_meta ''m'')\<lparr>om_Finalizers := [MachineFinalizer],
                                       om_DeletionTimestamp := Some 1\<rparr>,
         sm_Status := (sm_Status sample_StackitMachine)\<lparr>smst_InstanceID := ''fake-1''\<rparr>\<rparr>))
     \<lparr>cloud := snd (run_state (fake_CreateServer sample_create_input) (fake_New []))\<rparr>"

lemma matching_fake_keys: "matching mapContains (fake_srvs c) tags \<subseteq> set (map fst (servers c))"
  by (force simp: matching_def fake_srvs_iff dest: map_of_SomeD)

theorem machine_finalizer_removed_witness:
  "matching mapContains (fake_srvs (cloud (snd (run_state (machine_reconcileDelete sample_Reconciler sample_scope)
      sample_deleting)))) (machine_Tags sample_scope (obj sample_deleting)) = {}"
proof -
  let ?run = "run_state (machine_reconcileDelete sample_Reconciler sample_scope) sample_deleting"
  have "fake_server_inv (fake_New [])"
    by (simp add: fake_server_inv_def fake_New_def no_failures_def)
  from CreateServer_cases [OF this prod.collapse [symmetric]]
  have inv: "fake_server_inv (cloud sample_deleting)" by (simp add: sample_deleting_def)
  have "map fst (servers (cloud sample_deleting)) = [''fake-1'']" by code_simp
  then have m: "matching mapContains (fake_srvs (cloud sample_deleting)) (machine_Tags sample_scope (obj sample_deleting))
      \<subseteq> {''fake-1''}"
    using matching_fake_keys [of "cloud sample_deleting"] by simp
  have "uses_client (r_CloudClientFactory sample_Reconciler) fake_Client"
    by (simp add: uses_client_def)
  moreover have "machine_finalized (r_lib sample_Reconciler) (obj sample_deleting)" by code_simp
  moreover have "\<not> machine_finalized (r_lib sample_Reconciler) (obj (snd ?run))" by code_simp
  moreover have "smst_InstanceID (sm_Status (obj sample_deleting)) = ''fake-1''" by code_simp
  moreover have "\<not> isl (fst (run_state (BuildCloudClient (r_Client sample_Reconciler)
      (r_CloudClientFactory sample_Reconciler) (ms_StackitCluster sample_scope)) (kube sample_deleting)))"
    by code_simp
  ultimately show ?thesis
    using machine_finalizer_removed [OF _ inv prod.collapse [symmetric] _ _ m] by (metis isl_def)
qed

end
