(* ===== verification/Cluster_Controller.thy ===== *)
theory Cluster_Controller
  imports Machine_Controller
begin

text \<open>
  The cluster controller: \<open>controller/stackitcluster_infrastructure.go\<close>,
  \<open>controller/stackitcluster_bastion.go\<close> and \<open>controller/stackitcluster_controller.go\<close>. The
  mutable \<open>StackitCluster\<close> is the object of the reconcile state, so a cluster scope is only the
  owning \<open>Cluster\<close>. \<open>reconcileNormal\<close> is cut into its phases: finalizer, credentials, zones,
  network, API server endpoint, bastion.
\<close>

section \<open>Failure domains and the bootstrap target\<close>

definition mkFailureDomain :: "string \<Rightarrow> string \<Rightarrow> FailureDomain" where
  "mkFailureDomain region name =
     \<lparr>fd_Name = name, fd_ControlPlane = Some True, fd_Attributes = [(''region'', region)]\<rparr>"

definition stackitFailureDomains :: "string \<Rightarrow> FailureDomain list" where
  "stackitFailureDomains region =
     [mkFailureDomain region (region @ ''-1''), mkFailureDomain region (region @ ''-2''),
      mkFailureDomain region (region @ ''-3'')]"

definition failureDomainsFromZones :: "string \<Rightarrow> string list \<Rightarrow> FailureDomain list" where
  "failureDomainsFromZones region zones =
     (let failureDomains =
        map (mkFailureDomain region) (filter (\<lambda>zone. \<not> HasSuffix zone ''-m'') zones)
      in if failureDomains = [] then stackitFailureDomains region
         else sort_key fd_Name failureDomains)"

fun bootstrapTargetLoop :: "string list \<Rightarrow> string" where
  "bootstrapTargetLoop [] = ''10.0.0.1''"
| "bootstrapTargetLoop (prefixValue # rest) =
     (case ParsePrefix prefixValue of
        Some (Addr4 a, bits) \<Rightarrow>
          (let address = (next4 ^^ 10) (Some (masked4 a bits)) in
           case address of
             Some w \<Rightarrow> if contains4 a bits (Some w) then string4 w else bootstrapTargetLoop rest
           | None \<Rightarrow> bootstrapTargetLoop rest)
      | _ \<Rightarrow> bootstrapTargetLoop rest)"

definition bootstrapTargetIP :: "Network option \<Rightarrow> string" where
  "bootstrapTargetIP network =
     (case network of
        None \<Rightarrow> ''10.0.0.1''
      | Some n \<Rightarrow> bootstrapTargetLoop (net_IPv4Prefixes n))"

section \<open>controller/stackitcluster_bastion.go\<close>

definition bastionDisabledReason :: string where
  "bastionDisabledReason = ''Skipped''"

definition invalidInput :: "string \<Rightarrow> go_error" where
  \<comment> \<open>\<open>fmt.Errorf("%w: ...", cloud.ErrInvalidInput)\<close>\<close>
  "invalidInput msg = mk_error [ErrInvalidInput] (''invalid input: '' @ msg)"

definition validateBastionSpec :: "StackitBastionSpec \<Rightarrow> go_error option" where
  "validateBastionSpec spec =
     (if bs_ImageID spec = [] then Some (invalidInput ''bastion.imageID is required'')
      else if bs_MachineType spec = [] then Some (invalidInput ''bastion.machineType is required'')
      else if bs_SSHKeyName spec = [] then Some (invalidInput ''bastion.sshKeyName is required'')
      else if bs_AllowedCIDRs spec = [] then Some (invalidInput ''bastion.allowedCIDRs is required'')
      else case find (\<lambda>cidr. ParsePrefix cidr = None) (bs_AllowedCIDRs spec) of
        Some cidr \<Rightarrow>
          Some (invalidInput (''bastion.allowedCIDRs contains invalid CIDR '' @ quote cidr))
      | None \<Rightarrow> None)"

definition hasBastionStatus :: "StackitBastionStatus \<Rightarrow> bool" where
  "hasBastionStatus status \<longleftrightarrow>
     bst_ServerID status \<noteq> [] \<or> bst_PublicIPID status \<noteq> [] \<or> bst_PublicIP status \<noteq> [] \<or>
     bst_SecurityGroupID status \<noteq> []"

definition bastionCloudInitHash :: "(string \<Rightarrow> 8 word list) \<Rightarrow> string \<Rightarrow> string" where
  "bastionCloudInitHash sha256 cloudInit =
     (if cloudInit = [] then [] else hex_encode (sha256 cloudInit))"

definition bastionNeedsRecreate :: "(string \<Rightarrow> 8 word list) \<Rightarrow> StackitCluster \<Rightarrow> string \<Rightarrow> bool" where
  "bastionNeedsRecreate sha256 sc cloudInit =
     (if \<not> hasBastionStatus (scst_Bastion (sc_Status sc)) then False
      else bst_CloudInitHash (scst_Bastion (sc_Status sc)) \<noteq> bastionCloudInitHash sha256 cloudInit)"

definition resolveBastionCloudInit :: "'k Kube \<Rightarrow> StackitCluster \<Rightarrow> ('k, string) call" where
  "resolveBastionCloudInit K sc =
     (case bs_CloudInitRef (scs_Bastion (sc_Spec sc)) of
        None \<Rightarrow> ok []
      | Some ref \<Rightarrow>
          let key = \<lparr>nn_Namespace = om_Namespace (sc_meta sc), nn_Name = cir_Name ref\<rparr> in
          if cir_Kind ref = ''ConfigMap'' then do {
            res \<leftarrow> kube_GetConfigMap K key;
            (case res of
               Inl err \<Rightarrow>
                 if apierrors_IsNotFound err
                 then fail_with (mk_error [] (''bastion.cloudInitRef ConfigMap '' @
                        show_NamespacedName key @ '' not found''))
                 else fail_with err
             | Inr configMap \<Rightarrow>
                 (case map_of (cm_Data configMap) (cir_Key ref) of
                    None \<Rightarrow> fail_with (mk_error [] (''bastion.cloudInitRef key '' @
                             quote (cir_Key ref) @ '' not found in ConfigMap '' @
                             show_NamespacedName key))
                  | Some value \<Rightarrow> ok value))
          }
          else if cir_Kind ref = ''Secret'' then do {
            res \<leftarrow> kube_GetSecret K key;
            (case res of
               Inl err \<Rightarrow>
                 if apierrors_IsNotFound err
                 then fail_with (mk_error [] (''bastion.cloudInitRef Secret '' @
                        show_NamespacedName key @ '' not found''))
                 else fail_with err
             | Inr secret \<Rightarrow>
                 (case map_of (sec_Data secret) (cir_Key ref) of
                    None \<Rightarrow> fail_with (mk_error [] (''bastion.cloudInitRef key '' @
                             quote (cir_Key ref) @ '' not found in Secret '' @
                             show_NamespacedName key))
                  | Some value \<Rightarrow> ok value))
          }
          else fail_with (mk_error [] ''bastion.cloudInitRef.kind must be ConfigMap or Secret''))"

definition bastion_of_status :: "StackitCluster \<Rightarrow> Bastion" where
  \<comment> \<open>the \<open>cloud.Bastion\<close> literal filled from the status\<close>
  "bastion_of_status sc =
     (let b = scst_Bastion (sc_Status sc) in
      \<lparr>bas_ServerID = bst_ServerID b, bas_ServerState = [], bas_ServerPowerStatus = [],
       bas_PublicIPID = bst_PublicIPID b, bas_PublicIP = bst_PublicIP b,
       bas_SecurityGroupID = bst_SecurityGroupID b\<rparr>)"

type_synonym ('c, 'k) cstate = "('c, 'k, StackitCluster) rstate"

text \<open>
  The result of \<open>reconcileBastion\<close> is \<open>(ctrl.Result, bool, error)\<close>: an error, or a result and
  whether the bastion is ready.
\<close>

definition cleanupBastion ::
  "'c Client \<Rightarrow> (go_error \<Rightarrow> bool) \<Rightarrow> BastionInput \<Rightarrow> Bastion \<Rightarrow> (('c, 'k) cstate, unit) call" where
  \<comment> \<open>\<open>DeleteNodeSSHAccess\<close>, then \<open>DeleteBastion\<close>; an error of either that is not tolerated
    ends the function\<close>
  "cleanupBastion cloudClient tolerated input status = do {
     sc \<leftarrow> getObj;
     let tags = NodeSSHAccessTags sc;
     res \<leftarrow> cloudCall (OpDeleteNodeSSHAccess tags) (DeleteNodeSSHAccess cloudClient tags);
     let failed = (case res of Inl err \<Rightarrow> if tolerated err then None else Some err | Inr _ \<Rightarrow> None);
     case failed of
       Some err \<Rightarrow> fail_with err
     | None \<Rightarrow> do {
         res \<leftarrow> cloudCall (OpDeleteBastion input status) (DeleteBastion cloudClient input status);
         case res of
           Inl err \<Rightarrow> if tolerated err then ok () else fail_with err
         | Inr _ \<Rightarrow> ok ()
       }
   }"

definition reconcileBastionDisabled ::
  "('c, 'k) Reconciler \<Rightarrow> 'c Client \<Rightarrow> (('c, 'k) cstate, Result \<times> bool) call" where
  "reconcileBastionDisabled r cloudClient = do {
     sc \<leftarrow> getObj;
     let condition = FindStatusCondition (r_lib r) (scst_Conditions (sc_Status sc))
           ClusterBastionReadyCondition;
     let pending = (case condition of
           None \<Rightarrow> True | Some c \<Rightarrow> cond_Reason c \<noteq> bastionDisabledReason);
     cleaned \<leftarrow> (if pending then do {
         res \<leftarrow> cleanupBastion cloudClient (\<lambda>_. False) (bastion_Input sc []) (bastion_of_status sc);
         case res of
           Inl err \<Rightarrow> fail_with err
         | Inr _ \<Rightarrow> do {
             _ \<leftarrow> modifyObj ClearBastionStatus;
             _ \<leftarrow> recordEvent ''BastionDeleted'' ''Deleted bastion'';
             ok ()
           }
       } else ok ());
     case cleaned of
       Inl err \<Rightarrow> fail_with err
     | Inr _ \<Rightarrow> do {
         _ \<leftarrow> modifyObj (cluster_SetConditions (r_lib r) ConditionTrue bastionDisabledReason
                ''bastion disabled'' [ClusterBastionReadyCondition]);
         ok (no_requeue, True)
       }
   }"

definition reconcileBastionState ::
  "('c, 'k) Reconciler \<Rightarrow> Bastion \<Rightarrow> (('c, 'k) cstate, Result \<times> bool) call" where
  "reconcileBastionState r bastion = do {
     let (ready, reason, message, warn) =
       serverStateCondition (bas_ServerState bastion) (bas_ServerPowerStatus bastion);
     if \<not> ready then do {
       sc \<leftarrow> getObj;
       let previousReason =
         (case FindStatusCondition (r_lib r) (scst_Conditions (sc_Status sc))
                 ClusterBastionReadyCondition of
            None \<Rightarrow> [] | Some previous \<Rightarrow> cond_Reason previous);
       _ \<leftarrow> modifyObj (cluster_SetNotReady (r_lib r) reason (''bastion '' @ message)
              [ClusterBastionReadyCondition, ClusterReadyCondition]);
       _ \<leftarrow> (if warn \<and> previousReason \<noteq> reason
             then recordWarn reason (''Bastion server '' @ bas_ServerID bastion @ '': '' @ message)
             else ret ());
       ok (requeue_after (15 * second), False)
     }
     else if bas_PublicIP bastion = [] then do {
       _ \<leftarrow> modifyObj (cluster_SetNotReady (r_lib r) ''Provisioning''
              ''waiting for bastion public IP address''
              [ClusterBastionReadyCondition, ClusterReadyCondition]);
       ok (requeue_after (10 * second), False)
     }
     else do {
       _ \<leftarrow> modifyObj (cluster_SetConditions (r_lib r) ConditionTrue ''Available'' []
              [ClusterBastionReadyCondition]);
       ok (no_requeue, True)
     }
   }"

definition reconcileBastionServer ::
  "('c, 'k) Reconciler \<Rightarrow> 'c Client \<Rightarrow> string \<Rightarrow> (('c, 'k) cstate, Result \<times> bool) call" where
  "reconcileBastionServer r cloudClient cloudInit = do {
     sc \<leftarrow> getObj;
     let input = bastion_Input sc cloudInit;
     if bastionNeedsRecreate (r_sha256 r) sc cloudInit then do {
       res \<leftarrow> cleanupBastion cloudClient IsNotFound input (bastion_of_status sc);
       case res of
         Inl err \<Rightarrow> fail_with err
       | Inr _ \<Rightarrow> do {
           _ \<leftarrow> modifyObj ClearBastionStatus;
           _ \<leftarrow> modifyObj (cluster_SetNotReady (r_lib r) ''Recreating''
                  ''recreating bastion because cloudInitRef content changed''
                  [ClusterBastionReadyCondition, ClusterReadyCondition]);
           _ \<leftarrow> recordEvent ''BastionRecreating''
                  ''Recreating bastion because cloudInitRef content changed'';
           ok (requeue_after retryableErrorRequeueAfter, False)
         }
     }
     else do {
       let hadBastionStatus = hasBastionStatus (scst_Bastion (sc_Status sc));
       res \<leftarrow> cloudCall (OpEnsureBastion input) (EnsureBastion cloudClient input);
       case res of
         Inl err \<Rightarrow> fail_with err
       | Inr bastion \<Rightarrow> do {
           _ \<leftarrow> modifyObj (SetBastionStatus bastion (bastionCloudInitHash (r_sha256 r) cloudInit));
           _ \<leftarrow> (if \<not> hadBastionStatus
                 then recordEvent ''BastionCreated'' (''Created bastion '' @ bas_ServerID bastion)
                 else ret ());
           reconcileBastionState r bastion
         }
     }
   }"

definition reconcileBastion ::
  "('c, 'k) Reconciler \<Rightarrow> 'c Client \<Rightarrow> (('c, 'k) cstate, Result \<times> bool) call" where
  "reconcileBastion r cloudClient = do {
     sc \<leftarrow> getObj;
     if \<not> bs_Enabled (scs_Bastion (sc_Spec sc)) then reconcileBastionDisabled r cloudClient
     else case validateBastionSpec (scs_Bastion (sc_Spec sc)) of
       Some err \<Rightarrow> do {
         _ \<leftarrow> recordWarn ''InvalidBastionSpec'' (''Invalid bastion spec: '' @ err_text err);
         _ \<leftarrow> modifyObj (cluster_SetNotReady (r_lib r) ''InvalidBastionSpec'' (err_text err)
                [ClusterBastionReadyCondition, ClusterReadyCondition]);
         ok (no_requeue, False)
       }
     | None \<Rightarrow> do {
         res \<leftarrow> kubeCall (resolveBastionCloudInit (r_Client r) sc);
         (case res of
            Inl err \<Rightarrow> do {
              _ \<leftarrow> recordWarn ''CloudInitRefError''
                     (''Failed to resolve bastion cloudInitRef: '' @ err_text err);
              _ \<leftarrow> modifyObj (cluster_SetNotReady (r_lib r) ''CloudInitRefError'' (err_text err)
                     [ClusterBastionReadyCondition, ClusterReadyCondition]);
              ok (no_requeue, False)
            }
          | Inr cloudInit \<Rightarrow> reconcileBastionServer r cloudClient cloudInit)
       }
   }"

section \<open>controller/stackitcluster_infrastructure.go\<close>

definition set_cluster_Ready :: "bool \<Rightarrow> StackitCluster \<Rightarrow> StackitCluster" where
  "set_cluster_Ready b = map_sc_Status (\<lambda>st. st\<lparr>scst_Ready := b\<rparr>)"

definition set_cluster_conditions :: "Condition list \<Rightarrow> StackitCluster \<Rightarrow> StackitCluster" where
  "set_cluster_conditions cs = map_sc_Status (\<lambda>st. st\<lparr>scst_Conditions := cs\<rparr>)"

definition clusterCloudFailure ::
  "('c, 'k) Reconciler \<Rightarrow> string \<Rightarrow> go_error \<Rightarrow> bool \<Rightarrow> string list \<Rightarrow> (('c, 'k) cstate, outcome) state" where
  \<comment> \<open>\<open>Status.Ready = false\<close> followed by the return of \<open>util.CloudFailureResult\<close>\<close>
  "clusterCloudFailure r reason err returnError conditionTypes = do {
     _ \<leftarrow> modifyObj (set_cluster_Ready False);
     sc \<leftarrow> getObj;
     let (conds, out) = CloudFailureResult (r_lib r) (scst_Conditions (sc_Status sc))
           (om_Generation (sc_meta sc)) reason err retryableErrorRequeueAfter returnError
           conditionTypes;
     _ \<leftarrow> modifyObj (set_cluster_conditions conds);
     ret out
   }"

definition set_cluster_Network :: "string \<Rightarrow> bool \<Rightarrow> StackitCluster \<Rightarrow> StackitCluster" where
  "set_cluster_Network i managed =
     map_sc_Status (\<lambda>st. st\<lparr>scst_Network := \<lparr>nst_ID = i, nst_Managed = managed\<rparr>\<rparr>)"

definition getUnmanagedNetwork ::
  "('c, 'k) Reconciler \<Rightarrow> 'c Client \<Rightarrow> (('c, 'k) cstate, Network option \<times> outcome) state" where
  "getUnmanagedNetwork r cloudClient = do {
     sc \<leftarrow> getObj;
     let networkID = scs_NetworkID (sc_Spec sc);
     res \<leftarrow> cloudCall (OpGetNetwork networkID) (GetNetwork cloudClient networkID);
     case res of
       Inl err \<Rightarrow> do {
         _ \<leftarrow> recordWarn ''FailedGetNetwork''
                (''Failed to get network '' @ networkID @ '' in region '' @
                 scs_Region (sc_Spec sc) @ '': '' @ err_text err);
         out \<leftarrow> clusterCloudFailure r ''NetworkNotFound'' err False
                [ClusterNetworkReadyCondition, ClusterReadyCondition];
         ret (None, out)
       }
     | Inr network \<Rightarrow> do {
         _ \<leftarrow> modifyObj (set_cluster_Network (net_ID network) False);
         ret (Some network, (no_requeue, None))
       }
   }"

definition createManagedNetwork ::
  "('c, 'k) Reconciler \<Rightarrow> 'c Client \<Rightarrow> (('c, 'k) cstate, Network option \<times> outcome) state" where
  \<comment> \<open>the part of \<open>ensureManagedNetwork\<close> for a network that is not there\<close>
  "createManagedNetwork r cloudClient = do {
     sc \<leftarrow> getObj;
     let networkInput = network_Input sc;
     res \<leftarrow> cloudCall (OpCreateNetwork networkInput) (CreateNetwork cloudClient networkInput);
     case res of
       Inl err \<Rightarrow> do {
         _ \<leftarrow> recordWarn ''FailedCreateNetwork''
                (''Failed to create managed network '' @ cni_Name networkInput @ '' in region '' @
                 scs_Region (sc_Spec sc) @ '': '' @ err_text err);
         out \<leftarrow> clusterCloudFailure r ''NetworkCreateError'' err False
                [ClusterNetworkReadyCondition, ClusterReadyCondition];
         ret (None, out)
       }
     | Inr network \<Rightarrow> do {
         _ \<leftarrow> recordEvent ''NetworkCreated'' (''Created managed network '' @ net_ID network);
         _ \<leftarrow> modifyObj (set_cluster_Network (net_ID network) True);
         ret (Some network, (no_requeue, None))
       }
   }"

definition ensureManagedNetwork ::
  "('c, 'k) Reconciler \<Rightarrow> 'c Client \<Rightarrow> (('c, 'k) cstate, Network option \<times> outcome) state" where
  "ensureManagedNetwork r cloudClient = do {
     sc \<leftarrow> getObj;
     let networkID = nst_ID (scst_Network (sc_Status sc));
     if networkID = [] then createManagedNetwork r cloudClient
     else do {
       res \<leftarrow> cloudCall (OpGetNetwork networkID) (GetNetwork cloudClient networkID);
       case res of
         Inl err \<Rightarrow>
           if IsNotFound err then createManagedNetwork r cloudClient
           else do {
             _ \<leftarrow> recordWarn ''FailedGetNetwork''
                    (''Failed to get managed network '' @ networkID @ '' in region '' @
                     scs_Region (sc_Spec sc) @ '': '' @ err_text err);
             out \<leftarrow> clusterCloudFailure r ''NetworkError'' err False
                    [ClusterNetworkReadyCondition, ClusterReadyCondition];
             ret (None, out)
           }
       | Inr network \<Rightarrow> do {
           _ \<leftarrow> modifyObj (set_cluster_Network (net_ID network) True);
           ret (Some network, (no_requeue, None))
         }
     }
   }"

definition ensureNetwork ::
  "('c, 'k) Reconciler \<Rightarrow> 'c Client \<Rightarrow> (('c, 'k) cstate, Network option \<times> outcome) state" where
  "ensureNetwork r cloudClient = do {
     sc \<leftarrow> getObj;
     if scs_NetworkID (sc_Spec sc) \<noteq> [] then getUnmanagedNetwork r cloudClient
     else ensureManagedNetwork r cloudClient
   }"

subsection \<open>The API server endpoint\<close>

text \<open>
  The phases below return \<open>Inl out\<close> where \<open>reconcileNormal\<close> returns \<open>out\<close> early, and
  \<open>Inr ()\<close> where it goes on.
\<close>

definition publishTargets ::
  "('c, 'k) Reconciler \<Rightarrow> 'c Client \<Rightarrow> LoadBalancerTargetInput list \<Rightarrow> LoadBalancer \<Rightarrow>
   (('c, 'k) cstate, outcome + unit) state" where
  "publishTargets r cloudClient targets loadBalancer =
     (if targets = [] then ret (Inr ())
      else do {
        res \<leftarrow> cloudCall (OpSetAPIServerLoadBalancerTargets (lb_ID loadBalancer) defaultAPIServerPort targets)
               (SetAPIServerLoadBalancerTargets cloudClient (lb_ID loadBalancer) defaultAPIServerPort targets);
        case res of
          Inl err \<Rightarrow> do {
            _ \<leftarrow> (if \<not> IsRetryable err
                  then recordWarn ''LoadBalancerTargetError''
                         (''Cannot update API server load balancer target pool: '' @ err_text err)
                  else ret ());
            _ \<leftarrow> modifyObj (cluster_SetConditions (r_lib r) ConditionFalse ''LoadBalancerTargetError''
                   (err_text err) [ClusterLoadBalancerReadyCondition]);
            ret (Inl (requeue_after retryableErrorRequeueAfter, None))
          }
        | Inr _ \<Rightarrow> ret (Inr ())
      })"

definition publishEndpoint ::
  "('c, 'k) Reconciler \<Rightarrow> 'c Client \<Rightarrow> LoadBalancerTargetInput list \<Rightarrow> LoadBalancer \<Rightarrow>
   (('c, 'k) cstate, outcome + unit) state" where
  "publishEndpoint r cloudClient targets loadBalancer = do {
     sc \<leftarrow> getObj;
     let isLBReady =
       (IsStatusConditionTrue (r_lib r) (scst_Conditions (sc_Status sc))
          ClusterLoadBalancerReadyCondition \<and>
        ep_Host (scst_APIServerEndpoint (sc_Status sc)) = lb_IP loadBalancer);
     _ \<leftarrow> modifyObj (SetAPIServerEndpoint
            \<lparr>ep_Host = lb_IP loadBalancer, ep_Port = defaultAPIServerPort\<rparr>);
     res \<leftarrow> publishTargets r cloudClient targets loadBalancer;
     case res of
       Inl out \<Rightarrow> ret (Inl out)
     | Inr _ \<Rightarrow>
         if isLBReady then ret (Inr ())
         else do {
           _ \<leftarrow> modifyObj (cluster_SetConditions (r_lib r) ConditionTrue ''Available'' []
                  [ClusterLoadBalancerReadyCondition]);
           _ \<leftarrow> recordEvent ''LoadBalancerReady''
                  (''API server load balancer is ready at '' @ lb_IP loadBalancer);
           ret (Inr ())
         }
   }"

definition recordLoadBalancer :: "LoadBalancer option \<Rightarrow> (('c, 'k) cstate, unit) state" where
  "recordLoadBalancer loadBalancer = do {
     sc \<leftarrow> getObj;
     let hadLoadBalancerID = (scst_APIServerLoadBalancerID (sc_Status sc) \<noteq> []);
     case loadBalancer of
       None \<Rightarrow> ret ()
     | Some lb \<Rightarrow> do {
         _ \<leftarrow> modifyObj (map_sc_Status (\<lambda>st. st\<lparr>scst_APIServerLoadBalancerID := lb_ID lb\<rparr>));
         if \<not> hadLoadBalancerID \<and> lb_ID lb \<noteq> []
         then recordEvent ''LoadBalancerCreated'' (''Created API server load balancer '' @ lb_ID lb)
         else ret ()
       }
   }"

definition reconcileLoadBalancer ::
  "('c, 'k) Reconciler \<Rightarrow> Cluster \<Rightarrow> 'c Client \<Rightarrow> Network \<Rightarrow> (('c, 'k) cstate, outcome + unit) state" where
  "reconcileLoadBalancer r cluster cloudClient network = do {
     mres \<leftarrow> kubeCall (kube_GetFilteredMachinesForCluster (r_Client r) cluster
               [ControlPlaneMachines (om_Name (cl_meta cluster)), ActiveMachines]);
     case mres of
       Inl err \<Rightarrow> do {
         _ \<leftarrow> modifyObj (cluster_SetConditions (r_lib r) ConditionFalse ''MachineListError''
                (err_text err) [ClusterLoadBalancerReadyCondition]);
         ret (Inl (no_requeue, Some (wrap_error ''list control plane machines'' err)))
       }
     | Inr machines \<Rightarrow> do {
         let targets = APIServerTargets (r_sha256 r) (map Some machines);
         let seed = (if targets = [] then [BootstrapTarget (bootstrapTargetIP (Some network))]
                     else targets);
         sc \<leftarrow> getObj;
         let input = APIServerInput sc seed;
         res \<leftarrow> cloudCall (OpEnsureAPIServerLoadBalancer input)
                (EnsureAPIServerLoadBalancer cloudClient input);
         (case res of
            Inl err \<Rightarrow> do {
              _ \<leftarrow> recordWarn ''FailedCreateLoadBalancer''
                     (''Failed to create API server load balancer: '' @ err_text err);
              out \<leftarrow> clusterCloudFailure r ''LoadBalancerError'' err False
                     [ClusterLoadBalancerReadyCondition, ClusterReadyCondition];
              ret (Inl out)
            }
          | Inr loadBalancer \<Rightarrow> do {
              _ \<leftarrow> recordLoadBalancer loadBalancer;
              (case loadBalancer of
                 Some lb \<Rightarrow>
                   if lb_IP lb = [] then do {
                     _ \<leftarrow> modifyObj (cluster_SetNotReady (r_lib r) ''Provisioning''
                            ''waiting for API server load balancer IP address''
                            [ClusterLoadBalancerReadyCondition, ClusterReadyCondition]);
                     ret (Inl (requeue_after (10 * second), None))
                   }
                   else publishEndpoint r cloudClient targets lb
               | None \<Rightarrow> do {
                   _ \<leftarrow> modifyObj (cluster_SetNotReady (r_lib r) ''Provisioning''
                          ''waiting for API server load balancer IP address''
                          [ClusterLoadBalancerReadyCondition, ClusterReadyCondition]);
                   ret (Inl (requeue_after (10 * second), None))
                 })
            })
       }
   }"

definition reconcileEndpoint ::
  "('c, 'k) Reconciler \<Rightarrow> Cluster \<Rightarrow> 'c Client \<Rightarrow> Network \<Rightarrow> (('c, 'k) cstate, outcome + unit) state" where
  "reconcileEndpoint r cluster cloudClient network = do {
     sc \<leftarrow> getObj;
     if scs_LoadBalancerEnabled (sc_Spec sc) then reconcileLoadBalancer r cluster cloudClient network
     else if ep_Host (scs_ControlPlaneEndpoint (sc_Spec sc)) \<noteq> [] then do {
       _ \<leftarrow> modifyObj (map_sc_Status (\<lambda>st. st\<lparr>scst_APIServerEndpoint :=
              scs_ControlPlaneEndpoint (sc_Spec sc)\<rparr>));
       _ \<leftarrow> modifyObj (cluster_SetConditions (r_lib r) ConditionTrue ''Skipped''
              ''external endpoint provided'' [ClusterLoadBalancerReadyCondition]);
       ret (Inr ())
     }
     else do {
       _ \<leftarrow> recordWarn ''EndpointMissing''
              ''apiServerLoadBalancer.enabled is false and controlPlaneEndpoint is empty'';
       _ \<leftarrow> modifyObj (cluster_SetNotReady (r_lib r) ''EndpointMissing''
              ''apiServerLoadBalancer.enabled is false and controlPlaneEndpoint is empty''
              [ClusterLoadBalancerReadyCondition, ClusterReadyCondition]);
       ret (Inl (no_requeue, None))
     }
   }"

subsection \<open>reconcileNormal\<close>

definition ensureClusterFinalizer :: "('c, 'k) Reconciler \<Rightarrow> (('c, 'k) cstate, unit) call" where
  "ensureClusterFinalizer r = do {
     sc \<leftarrow> getObj;
     if ContainsFinalizer (r_lib r) (om_Finalizers (sc_meta sc)) ClusterFinalizer then ok ()
     else do {
       _ \<leftarrow> modifyObj (\<lambda>sc. sc\<lparr>sc_meta := (sc_meta sc)\<lparr>om_Finalizers :=
              AddFinalizer (r_lib r) (om_Finalizers (sc_meta sc)) ClusterFinalizer\<rparr>\<rparr>);
       res \<leftarrow> patchCall (kube_PatchStackitCluster (r_Client r));
       case res of
         Inl err \<Rightarrow> fail_with (wrap_error ''persist finalizer'' err)
       | Inr _ \<Rightarrow> ok ()
     }
   }"

definition reconcileClusterBastion ::
  "('c, 'k) Reconciler \<Rightarrow> 'c Client \<Rightarrow> (('c, 'k) cstate, outcome) state" where
  "reconcileClusterBastion r cloudClient = do {
     res \<leftarrow> reconcileBastion r cloudClient;
     case res of
       Inl err \<Rightarrow> do {
         _ \<leftarrow> recordWarn ''FailedCreateBastion'' (''Failed to reconcile bastion: '' @ err_text err);
         clusterCloudFailure r ''BastionError'' err False
           [ClusterBastionReadyCondition, ClusterReadyCondition]
       }
     | Inr (result, ready) \<Rightarrow>
         if \<not> ready then ret (result, None)
         else do {
           _ \<leftarrow> modifyObj (cluster_SetReady (r_lib r));
           ret (no_requeue, None)
         }
   }"

definition reconcileClusterNetwork ::
  "('c, 'k) Reconciler \<Rightarrow> Cluster \<Rightarrow> 'c Client \<Rightarrow> (('c, 'k) cstate, outcome) state" where
  "reconcileClusterNetwork r cluster cloudClient = do {
     (network, result, err) \<leftarrow> ensureNetwork r cloudClient;
     case network of
       None \<Rightarrow> ret (result, err)
     | Some net \<Rightarrow>
         if err \<noteq> None \<or> \<not> Result_IsZero result then ret (result, err)
         else do {
           _ \<leftarrow> modifyObj (cluster_SetConditions (r_lib r) ConditionTrue ''Available'' []
                  [ClusterNetworkReadyCondition]);
           res \<leftarrow> reconcileEndpoint r cluster cloudClient net;
           (case res of
              Inl out \<Rightarrow> ret out
            | Inr _ \<Rightarrow> reconcileClusterBastion r cloudClient)
         }
   }"

definition reconcileClusterZones ::
  "('c, 'k) Reconciler \<Rightarrow> Cluster \<Rightarrow> 'c Client \<Rightarrow> (('c, 'k) cstate, outcome) state" where
  "reconcileClusterZones r cluster cloudClient = do {
     res \<leftarrow> cloudCall OpListAvailabilityZones (ListAvailabilityZones cloudClient);
     case res of
       Inl err \<Rightarrow> clusterCloudFailure r ''AvailabilityZonesError'' err True [ClusterReadyCondition]
     | Inr zones \<Rightarrow> do {
         _ \<leftarrow> modifyObj (\<lambda>sc. SetFailureDomains
                (failureDomainsFromZones (scs_Region (sc_Spec sc)) zones) sc);
         reconcileClusterNetwork r cluster cloudClient
       }
   }"

definition reconcileClusterCredentials ::
  "('c, 'k) Reconciler \<Rightarrow> Cluster \<Rightarrow> (('c, 'k) cstate, outcome) state" where
  "reconcileClusterCredentials r cluster = do {
     _ \<leftarrow> modifyObj (\<lambda>sc. SetFailureDomains (stackitFailureDomains (scs_Region (sc_Spec sc))) sc);
     sc \<leftarrow> getObj;
     res \<leftarrow> kubeCall (BuildCloudClient (r_Client r) (r_CloudClientFactory r) sc);
     case res of
       Inl err \<Rightarrow> do {
         _ \<leftarrow> recordWarn ''InvalidCredentials'' (''Failed to build cloud client: '' @ err_text err);
         _ \<leftarrow> modifyObj (set_cluster_Ready False);
         let (conds, out) = CredentialFailureResult (r_lib r) (scst_Conditions (sc_Status sc))
               (om_Generation (sc_meta sc)) err credentialsRetryRequeueAfter
               [ClusterCredentialsReadyCondition, ClusterReadyCondition];
         _ \<leftarrow> modifyObj (set_cluster_conditions conds);
         ret out
       }
     | Inr cloudClient \<Rightarrow> do {
         _ \<leftarrow> modifyObj (cluster_SetConditions (r_lib r) ConditionTrue ''Available'' []
                [ClusterCredentialsReadyCondition]);
         reconcileClusterZones r cluster cloudClient
       }
   }"

definition cluster_reconcileNormal ::
  "('c, 'k) Reconciler \<Rightarrow> Cluster \<Rightarrow> (('c, 'k) cstate, outcome) state" where
  "cluster_reconcileNormal r cluster = do {
     fin \<leftarrow> ensureClusterFinalizer r;
     case fin of
       Inl err \<Rightarrow> ret (no_requeue, Some err)
     | Inr _ \<Rightarrow> reconcileClusterCredentials r cluster
   }"

subsection \<open>reconcileDelete\<close>

definition removeClusterFinalizer :: "('c, 'k) Reconciler \<Rightarrow> (('c, 'k) cstate, unit) state" where
  "removeClusterFinalizer r =
     modifyObj (\<lambda>sc. sc\<lparr>sc_meta := (sc_meta sc)\<lparr>om_Finalizers :=
       RemoveFinalizer (r_lib r) (om_Finalizers (sc_meta sc)) ClusterFinalizer\<rparr>\<rparr>)"

definition deletedOrGone :: "go_error + unit \<Rightarrow> go_error option" where
  \<comment> \<open>\<open>err != nil && !cloud.IsNotFound(err)\<close>\<close>
  "deletedOrGone res = (case res of
     Inl err \<Rightarrow> if IsNotFound err then None else Some err
   | Inr _ \<Rightarrow> None)"

definition deleteClusterLoadBalancer ::
  "'c Client \<Rightarrow> (('c, 'k) cstate, unit) call" where
  "deleteClusterLoadBalancer cloudClient = do {
     sc \<leftarrow> getObj;
     res \<leftarrow> ResolveID cloudClient sc;
     case res of
       Inl err \<Rightarrow> do {
         _ \<leftarrow> recordWarn ''FailedResolveLoadBalancer''
                (''Failed to resolve API server load balancer: '' @ err_text err);
         fail_with err
       }
     | Inr loadBalancerID \<Rightarrow>
         if loadBalancerID = [] then ok ()
         else do {
           del \<leftarrow> cloudCall (OpDeleteAPIServerLoadBalancer loadBalancerID)
                  (DeleteAPIServerLoadBalancer cloudClient loadBalancerID);
           (case deletedOrGone del of
              Some err \<Rightarrow> do {
                _ \<leftarrow> recordWarn ''FailedDeleteLoadBalancer''
                       (''Failed to delete API server load balancer '' @ loadBalancerID @ '': '' @
                        err_text err);
                fail_with err
              }
            | None \<Rightarrow> do {
                _ \<leftarrow> modifyObj (map_sc_Status (\<lambda>st. st\<lparr>scst_APIServerLoadBalancerID := []\<rparr>));
                _ \<leftarrow> recordEvent ''LoadBalancerDeleted''
                       (''Deleted API server load balancer '' @ loadBalancerID);
                ok ()
              })
         }
   }"

definition deleteClusterBastion :: "'c Client \<Rightarrow> (('c, 'k) cstate, unit) call" where
  "deleteClusterBastion cloudClient = do {
     sc \<leftarrow> getObj;
     let tags = NodeSSHAccessTags sc;
     res \<leftarrow> cloudCall (OpDeleteNodeSSHAccess tags) (DeleteNodeSSHAccess cloudClient tags);
     case deletedOrGone res of
       Some err \<Rightarrow> do {
         _ \<leftarrow> recordWarn ''FailedDeleteNodeSSHAccess''
                (''Failed to delete bastion node SSH access: '' @ err_text err);
         fail_with err
       }
     | None \<Rightarrow> do {
         let input = bastion_Input sc [];
         let status = bastion_of_status sc;
         del \<leftarrow> cloudCall (OpDeleteBastion input status) (DeleteBastion cloudClient input status);
         (case deletedOrGone del of
            Some err \<Rightarrow> do {
              _ \<leftarrow> recordWarn ''FailedDeleteBastion'' (''Failed to delete bastion: '' @ err_text err);
              fail_with err
            }
          | None \<Rightarrow>
              if hasBastionStatus (scst_Bastion (sc_Status sc)) then do {
                _ \<leftarrow> modifyObj ClearBastionStatus;
                _ \<leftarrow> recordEvent ''BastionDeleted'' ''Deleted bastion'';
                ok ()
              }
              else ok ())
       }
   }"

definition deleteClusterNetwork ::
  "('c, 'k) Reconciler \<Rightarrow> 'c Client \<Rightarrow> (('c, 'k) cstate, outcome) state" where
  "deleteClusterNetwork r cloudClient = do {
     sc \<leftarrow> getObj;
     res \<leftarrow> ResolveManagedNetworkID cloudClient sc;
     case res of
       Inl err \<Rightarrow> do {
         _ \<leftarrow> recordWarn ''FailedResolveNetwork''
                (''Failed to resolve managed network: '' @ err_text err);
         ret (no_requeue, Some err)
       }
     | Inr managedNetworkID \<Rightarrow>
         if managedNetworkID = [] then do {
           _ \<leftarrow> removeClusterFinalizer r;
           ret (no_requeue, None)
         }
         else do {
           del \<leftarrow> cloudCall (OpDeleteNetwork managedNetworkID)
                  (DeleteNetwork cloudClient managedNetworkID);
           (case deletedOrGone del of
              Some err \<Rightarrow>
                if IsConflict err then do {
                  _ \<leftarrow> modifyObj (cluster_SetConditions (r_lib r) ConditionFalse ''NetworkInUse''
                         (err_text err) [ClusterNetworkReadyCondition]);
                  _ \<leftarrow> recordWarn ''NetworkInUse''
                         (''Managed network '' @ managedNetworkID @
                          '' still has active resources attached; retrying deletion: '' @ err_text err);
                  ret (requeue_after deleteRequeueAfter, None)
                }
                else do {
                  _ \<leftarrow> recordWarn ''FailedDeleteNetwork''
                         (''Failed to delete managed network '' @ managedNetworkID @ '': '' @
                          err_text err);
                  ret (no_requeue, Some err)
                }
            | None \<Rightarrow> do {
                _ \<leftarrow> recordEvent ''NetworkDeleted''
                       (''Deleted managed network '' @ managedNetworkID);
                _ \<leftarrow> modifyObj (map_sc_Status (\<lambda>st. st\<lparr>scst_Network := empty_NetworkStatus\<rparr>));
                _ \<leftarrow> removeClusterFinalizer r;
                ret (no_requeue, None)
              })
         }
   }"

definition cleanupCluster ::
  "('c, 'k) Reconciler \<Rightarrow> 'c Client \<Rightarrow> (('c, 'k) cstate, outcome) state" where
  "cleanupCluster r cloudClient = do {
     lb \<leftarrow> deleteClusterLoadBalancer cloudClient;
     case lb of
       Inl err \<Rightarrow> ret (no_requeue, Some err)
     | Inr _ \<Rightarrow> do {
         bastion \<leftarrow> deleteClusterBastion cloudClient;
         (case bastion of
            Inl err \<Rightarrow> ret (no_requeue, Some err)
          | Inr _ \<Rightarrow> deleteClusterNetwork r cloudClient)
       }
   }"

definition cluster_reconcileDelete ::
  "('c, 'k) Reconciler \<Rightarrow> Cluster \<Rightarrow> (('c, 'k) cstate, outcome) state" where
  "cluster_reconcileDelete r cluster = do {
     mres \<leftarrow> kubeCall (kube_GetFilteredMachinesForCluster (r_Client r) cluster []);
     case mres of
       Inl err \<Rightarrow> do {
         _ \<leftarrow> recordWarn ''FailedListMachines''
                (''Failed to list Machines for cluster '' @ om_Name (cl_meta cluster) @ '': '' @
                 err_text err);
         ret (no_requeue,
              Some (wrap_error (''list Machines for cluster '' @ om_Name (cl_meta cluster)) err))
       }
     | Inr machines \<Rightarrow>
         if machines \<noteq> [] then ret (requeue_after deleteRequeueAfter, None)
         else do {
           sc \<leftarrow> getObj;
           res \<leftarrow> kubeCall (BuildCloudClient (r_Client r) (r_CloudClientFactory r) sc);
           (case res of
              Inl err \<Rightarrow>
                if apierrors_IsNotFound err then do {
                  _ \<leftarrow> recordWarn ''CleanupSkipped''
                         (''Credentials Secret is gone; finalizing without cloud cleanup. '' @
                          ''Any remaining STACKIT resources for this cluster must be removed manually: '' @
                          err_text err);
                  _ \<leftarrow> removeClusterFinalizer r;
                  ret (no_requeue, None)
                }
                else do {
                  _ \<leftarrow> recordWarn ''InvalidCredentials''
                         (''Failed to build cloud client for deletion: '' @ err_text err);
                  _ \<leftarrow> modifyObj (cluster_SetConditions (r_lib r) ConditionFalse ''CredentialsInvalid''
                         (err_text err) [ClusterCredentialsReadyCondition]);
                  ret (no_requeue, Some err)
                }
            | Inr cloudClient \<Rightarrow> cleanupCluster r cloudClient)
         }
   }"

section \<open>controller/stackitcluster_controller.go\<close>

definition cluster_runPhases ::
  "('c, 'k) Reconciler \<Rightarrow> Cluster \<Rightarrow> (('c, 'k) cstate, outcome) state" where
  \<comment> \<open>the body of \<open>Reconcile\<close> under the deferred patch\<close>
  "cluster_runPhases r cluster = do {
     sc \<leftarrow> getObj;
     let (paused, message) = ReconciliationPaused (r_lib r) (Some cluster) (sc_meta sc);
     _ \<leftarrow> modifyObj (map_sc_Status (\<lambda>st. st\<lparr>scst_Conditions :=
            SetPausedCondition (r_lib r) (scst_Conditions st) (om_Generation (sc_meta sc)) paused
              message\<rparr>));
     if paused then ret (no_requeue, None)
     else if om_DeletionTimestamp (sc_meta sc) \<noteq> None then cluster_reconcileDelete r cluster
     else cluster_reconcileNormal r cluster
   }"

definition cluster_reconcileScope ::
  "('c, 'k) Reconciler \<Rightarrow> Cluster \<Rightarrow> (('c, 'k) cstate, outcome) state" where
  "cluster_reconcileScope r cluster = do {
     (result, err) \<leftarrow> cluster_runPhases r cluster;
     patched \<leftarrow> patchCall (kube_PatchStackitCluster (r_Client r));
     (case patched of
        Inl patchErr \<Rightarrow> ret (result, if err = None then Some patchErr else err)
      | Inr _ \<Rightarrow> ret (result, err))
   }"

definition NewClusterScope :: "'k Kube \<Rightarrow> Cluster \<Rightarrow> StackitCluster \<Rightarrow> ('k, Cluster) call" where
  \<comment> \<open>the patch helper of the scope is the snapshot that the Kubernetes client takes\<close>
  "NewClusterScope K cluster stackitCluster = do {
     res \<leftarrow> kube_NewHelperStackitCluster K stackitCluster;
     case res of
       Inl err \<Rightarrow> fail_with err
     | Inr _ \<Rightarrow> ok cluster
   }"

definition cluster_lookupScope ::
  "('c, 'k) Reconciler \<Rightarrow> StackitCluster \<Rightarrow> ('k, Cluster option) call" where
  "cluster_lookupScope r sc = do {
     cres \<leftarrow> kube_GetOwnerCluster (r_Client r) (sc_meta sc);
     case cres of
       Inl err \<Rightarrow> fail_with (wrap_error ''get owner cluster'' err)
     | Inr None \<Rightarrow> ok None
     | Inr (Some cluster) \<Rightarrow> do {
         hres \<leftarrow> NewClusterScope (r_Client r) cluster sc;
         (case hres of
            Inl err \<Rightarrow> fail_with (wrap_error ''create cluster scope'' err)
          | Inr scope \<Rightarrow> ok (Some scope))
       }
   }"

definition cluster_Reconcile ::
  "('c, 'k) Reconciler \<Rightarrow> NamespacedName \<Rightarrow> (('c, 'k) cstate, outcome) state" where
  "cluster_Reconcile r req = do {
     res \<leftarrow> kubeCall (kube_GetStackitCluster (r_Client r) req);
     case res of
       Inl err \<Rightarrow>
         ret (if apierrors_IsNotFound err then (no_requeue, None) else (no_requeue, Some err))
     | Inr sc \<Rightarrow> do {
         _ \<leftarrow> modifyObj (\<lambda>_. sc);
         scope \<leftarrow> kubeCall (cluster_lookupScope r sc);
         (case scope of
            Inl err \<Rightarrow> ret (no_requeue, Some err)
          | Inr None \<Rightarrow> ret (no_requeue, None)
          | Inr (Some cluster) \<Rightarrow> cluster_reconcileScope r cluster)
       }
   }"

end
