(* ===== verification/Fake_Cloud.thy ===== *)
theory Fake_Cloud
  imports Fake_Servers
begin

text \<open>
  The in-memory client as a whole: its invariant, that every sequence of calls keeps it, and the
  idempotence that the documentation of \<open>cloud.Client\<close> asks of an implementation.
\<close>

section \<open>Keyed maps\<close>

definition keyed :: "('v \<Rightarrow> string) \<Rightarrow> 'v gomap \<Rightarrow> bool" where
  \<comment> \<open>each entry is stored under its own ID\<close>
  "keyed idf m \<longleftrightarrow> distinct (map fst m) \<and> list_all (\<lambda>(i, e). idf e = i) m"

lemma keyed_Nil [simp]: "keyed idf []"
  by (simp add: keyed_def)

lemma keyed_update: "keyed idf m \<Longrightarrow> idf e = i \<Longrightarrow> keyed idf (AList.update i e m)"
  by (auto simp: keyed_def list_all_iff distinct_update dest!: set_AList_update)

lemma keyed_filter: "keyed idf m \<Longrightarrow> keyed idf (filter P m)"
  by (auto simp: keyed_def list_all_iff distinct_map_filter)

lemma keyed_delete: "keyed idf m \<Longrightarrow> keyed idf (AList.delete i m)"
  by (simp add: AList.delete_eq keyed_filter)

lemma keyed_delete_nonempty: "keyed idf m \<Longrightarrow> keyed idf (delete_nonempty i m)"
  by (simp add: delete_nonempty_def keyed_delete)

lemma keyed_map:
  "keyed idf m \<Longrightarrow> (\<And>e. idf (f e) = idf e) \<Longrightarrow> keyed idf (map (\<lambda>(i, e). (i, f e)) m)"
  by (auto simp: keyed_def list_all_iff comp_def split_def)

lemma keyed_map_entry:
  assumes "keyed idf m" and "\<And>e. idf (f e) = idf e"
  shows "keyed idf (AList.map_entry i f m)"
proof -
  have "AList.map_entry i f m = map (\<lambda>(j, e). (j, if j = i then f e else e)) m"
    if "distinct (map fst m)" for m
    using that by (induction m) (force intro!: map_idI [symmetric])+
  moreover have "keyed idf (map (\<lambda>(j, e). (j, if j = i then f e else e)) m)"
    using assms by (auto simp: keyed_def list_all_iff comp_def split_def)
  ultimately show ?thesis using assms(1) by (simp add: keyed_def)
qed

lemma keyed_mem: "keyed idf m \<Longrightarrow> map_of m i = Some e \<Longrightarrow> idf e = i"
  by (auto simp: keyed_def list_all_iff dest!: map_of_SomeD)

lemmas keyed_intros = keyed_update keyed_filter keyed_delete keyed_delete_nonempty keyed_map
  keyed_map_entry

section \<open>The invariant\<close>

definition fake_wf :: "fake \<Rightarrow> bool" where
  "fake_wf c \<longleftrightarrow>
     keyed (\<lambda>e. srv_ID (se_server e)) (servers c) \<and>
     keyed (\<lambda>e. lb_ID (le_lb e)) (loadBalancers c) \<and>
     keyed (\<lambda>e. pip_ID (pe_publicIP e)) (publicIPs c) \<and>
     keyed (\<lambda>e. sg_ID (sge_securityGroup e)) (securityGroups c) \<and>
     keyed (\<lambda>e. net_ID (ne_network e)) (networks c)"

definition keeps :: "('c \<Rightarrow> bool) \<Rightarrow> ('c, 'a) state \<Rightarrow> bool" where
  "keeps I m \<longleftrightarrow> (\<forall>c. I c \<longrightarrow> I (snd (run_state m c)))"

lemma keeps_consume:
  assumes "\<And>c. fake_wf c \<Longrightarrow> fake_wf (snd (f c))"
  shows "keeps fake_wf (consume sel upd (State f))"
  using assms by (auto simp: keeps_def run_consume fake_wf_def split: option.splits)

lemma fake_New_wf: "fake_wf (fake_New nets)"
proof -
  have "keyed (\<lambda>e. net_ID (ne_network e))
      (foldl (\<lambda>m n. AList.update (net_ID n) \<lparr>ne_network = n, ne_tags = []\<rparr> m) [] nets)"
    by (induction nets rule: rev_induct) (auto intro: keyed_update)
  then show ?thesis by (simp add: fake_wf_def fake_New_def)
qed

lemma lookups_keep_wf:
  "keeps fake_wf (fake_GetServer i)" "keeps fake_wf (fake_FindServerByTags t)"
  "keeps fake_wf (fake_GetNetwork i)" "keeps fake_wf fake_ListAvailabilityZones"
  unfolding fake_GetServer_def fake_FindServerByTags_def fake_GetNetwork_def
    fake_ListAvailabilityZones_def
  by (rule keeps_consume, auto split: option.splits)+

lemma listings_keep_wf:
  "keeps fake_wf (fake_ListServersByTags t)" "keeps fake_wf (fake_FindNetworkByTags t)"
  "keeps fake_wf (fake_ListNetworksByTags t)" "keeps fake_wf (fake_ListPublicIPsByTags t)"
  "keeps fake_wf (fake_ListSecurityGroupsByTags t)"
  "keeps fake_wf (fake_ListAPIServerLoadBalancersByTags t)"
  by (simp_all add: keeps_def fake_ListServersByTags_def fake_FindNetworkByTags_def
      fake_ListNetworksByTags_def fake_ListPublicIPsByTags_def fake_ListSecurityGroupsByTags_def
      fake_ListAPIServerLoadBalancersByTags_def)

lemma servers_keep_wf:
  "keeps fake_wf (fake_CreateServer inp)" "keeps fake_wf (fake_DeleteServer i)"
  unfolding fake_CreateServer_def fake_DeleteServer_def
  by (rule keeps_consume, auto simp: fake_wf_def Let_def newServerEntry_def split: option.splits
      intro!: keyed_intros)+

lemma networks_keep_wf:
  "keeps fake_wf (fake_CreateNetwork ninp)" "keeps fake_wf (fake_DeleteNetwork i)"
  unfolding fake_CreateNetwork_def fake_DeleteNetwork_def
  by (rule keeps_consume, auto simp: fake_wf_def Let_def split: option.splits list.splits
      intro!: keyed_intros)+

lemma bastion_keep_wf:
  "keeps fake_wf (fake_EnsureBastion binp)" "keeps fake_wf (fake_DeleteBastion binp st)"
  unfolding fake_EnsureBastion_def fake_DeleteBastion_def
  by (rule keeps_consume, auto simp: fake_wf_def Let_def split: option.splits
      intro!: keyed_intros)+

lemma node_ssh_keep_wf:
  "keeps fake_wf (fake_EnsureNodeSSHAccess sinp)" "keeps fake_wf (fake_DeleteNodeSSHAccess t)"
  unfolding fake_EnsureNodeSSHAccess_def fake_DeleteNodeSSHAccess_def
  by (rule keeps_consume, auto simp: fake_wf_def Let_def split: option.splits
      intro!: keyed_intros dest: keyed_mem)+

lemma load_balancers_keep_wf:
  "keeps fake_wf (fake_EnsureAPIServerLoadBalancer linp)"
  "keeps fake_wf (fake_SetAPIServerLoadBalancerTargets i p ts)"
  "keeps fake_wf (fake_DeleteAPIServerLoadBalancer i)"
  unfolding fake_EnsureAPIServerLoadBalancer_def fake_SetAPIServerLoadBalancerTargets_def
    fake_DeleteAPIServerLoadBalancer_def
  by (rule keeps_consume, auto simp: fake_wf_def Let_def split: option.splits
      intro!: keyed_intros dest: keyed_mem)+

section \<open>The test helpers\<close>

definition ServerCount :: "fake \<Rightarrow> nat" where "ServerCount c = length (servers c)"

definition LoadBalancerCount :: "fake \<Rightarrow> nat" where "LoadBalancerCount c = length (loadBalancers c)"

definition PublicIPCount :: "fake \<Rightarrow> nat" where "PublicIPCount c = length (publicIPs c)"

definition SecurityGroupCount :: "fake \<Rightarrow> nat" where "SecurityGroupCount c = length (securityGroups c)"

definition ServerHasSecurityGroup :: "fake \<Rightarrow> string \<Rightarrow> string \<Rightarrow> bool" where
  "ServerHasSecurityGroup c serverID securityGroupID = (case map_of (servers c) serverID of
     None \<Rightarrow> False | Some entry \<Rightarrow> List.member (se_securityGroups entry) securityGroupID)"

definition SetServerState :: "string \<Rightarrow> string \<Rightarrow> string \<Rightarrow> fake \<Rightarrow> fake" where
  "SetServerState serverID st powerStatus c = c\<lparr>servers := AList.map_entry serverID
     (\<lambda>entry. entry\<lparr>se_server := (se_server entry)\<lparr>srv_State := st, srv_PowerStatus := powerStatus\<rparr>\<rparr>)
     (servers c)\<rparr>"

definition ServerUserData :: "fake \<Rightarrow> string \<Rightarrow> string" where
  "ServerUserData c serverID = (case map_of (servers c) serverID of
     None \<Rightarrow> [] | Some entry \<Rightarrow> se_userData entry)"

definition SecurityGroupRemoteSources :: "fake \<Rightarrow> string \<Rightarrow> string list" where
  "SecurityGroupRemoteSources c securityGroupID = (case map_of (securityGroups c) securityGroupID of
     None \<Rightarrow> [] | Some entry \<Rightarrow> sge_remoteSecurityGroups entry)"

definition LoadBalancerTargetCount :: "fake \<Rightarrow> string \<Rightarrow> nat" where
  "LoadBalancerTargetCount c i = (case map_of (loadBalancers c) i of
     None \<Rightarrow> 0 | Some entry \<Rightarrow> length (le_targets entry))"

definition LoadBalancerTargetIPs :: "fake \<Rightarrow> string \<Rightarrow> string gomap" where
  "LoadBalancerTargetIPs c i = (case map_of (loadBalancers c) i of
     None \<Rightarrow> [] | Some entry \<Rightarrow> le_targets entry)"

definition SetLoadBalancerIP :: "string \<Rightarrow> string \<Rightarrow> fake \<Rightarrow> fake" where
  "SetLoadBalancerIP i ip c = c\<lparr>loadBalancers := AList.map_entry i
     (\<lambda>entry. entry\<lparr>le_lb := (le_lb entry)\<lparr>lb_IP := ip\<rparr>\<rparr>) (loadBalancers c)\<rparr>"

section \<open>Reachable clouds\<close>

inductive fake_reachable :: "fake \<Rightarrow> bool" where
  fresh: "fake_reachable (fake_New nets)"
| inject: "fake_reachable c \<Longrightarrow> fake_reachable (c\<lparr>failures := f\<rparr>)"
| zones: "fake_reachable c \<Longrightarrow> fake_reachable (c\<lparr>AvailabilityZones := zs\<rparr>)"
| set_state: "fake_reachable c \<Longrightarrow> fake_reachable (SetServerState i st ps c)"
| set_ip: "fake_reachable c \<Longrightarrow> fake_reachable (SetLoadBalancerIP i ip c)"
| get_server: "fake_reachable c \<Longrightarrow> fake_reachable (snd (run_state (fake_GetServer i) c))"
| find_server: "fake_reachable c \<Longrightarrow> fake_reachable (snd (run_state (fake_FindServerByTags t) c))"
| list_servers: "fake_reachable c \<Longrightarrow> fake_reachable (snd (run_state (fake_ListServersByTags t) c))"
| create_server: "fake_reachable c \<Longrightarrow> fake_reachable (snd (run_state (fake_CreateServer inp) c))"
| delete_server: "fake_reachable c \<Longrightarrow> fake_reachable (snd (run_state (fake_DeleteServer i) c))"
| get_network: "fake_reachable c \<Longrightarrow> fake_reachable (snd (run_state (fake_GetNetwork i) c))"
| find_network: "fake_reachable c \<Longrightarrow> fake_reachable (snd (run_state (fake_FindNetworkByTags t) c))"
| list_networks: "fake_reachable c \<Longrightarrow> fake_reachable (snd (run_state (fake_ListNetworksByTags t) c))"
| create_network: "fake_reachable c \<Longrightarrow> fake_reachable (snd (run_state (fake_CreateNetwork ninp) c))"
| delete_network: "fake_reachable c \<Longrightarrow> fake_reachable (snd (run_state (fake_DeleteNetwork i) c))"
| ensure_bastion: "fake_reachable c \<Longrightarrow> fake_reachable (snd (run_state (fake_EnsureBastion binp) c))"
| delete_bastion: "fake_reachable c \<Longrightarrow> fake_reachable (snd (run_state (fake_DeleteBastion binp bst) c))"
| ensure_ssh: "fake_reachable c \<Longrightarrow> fake_reachable (snd (run_state (fake_EnsureNodeSSHAccess sinp) c))"
| delete_ssh: "fake_reachable c \<Longrightarrow> fake_reachable (snd (run_state (fake_DeleteNodeSSHAccess t) c))"
| list_ips: "fake_reachable c \<Longrightarrow> fake_reachable (snd (run_state (fake_ListPublicIPsByTags t) c))"
| list_groups: "fake_reachable c \<Longrightarrow> fake_reachable (snd (run_state (fake_ListSecurityGroupsByTags t) c))"
| ensure_lb: "fake_reachable c \<Longrightarrow> fake_reachable (snd (run_state (fake_EnsureAPIServerLoadBalancer linp) c))"
| list_lbs: "fake_reachable c \<Longrightarrow> fake_reachable (snd (run_state (fake_ListAPIServerLoadBalancersByTags t) c))"
| set_targets: "fake_reachable c \<Longrightarrow>
    fake_reachable (snd (run_state (fake_SetAPIServerLoadBalancerTargets i p ts) c))"
| delete_lb: "fake_reachable c \<Longrightarrow> fake_reachable (snd (run_state (fake_DeleteAPIServerLoadBalancer i) c))"
| list_zones: "fake_reachable c \<Longrightarrow> fake_reachable (snd (run_state fake_ListAvailabilityZones c))"

lemmas operations_keep_wf = lookups_keep_wf listings_keep_wf servers_keep_wf networks_keep_wf
  bastion_keep_wf node_ssh_keep_wf load_balancers_keep_wf

lemma helpers_keep_wf:
  "fake_wf c \<Longrightarrow> fake_wf (c\<lparr>failures := f\<rparr>)" "fake_wf c \<Longrightarrow> fake_wf (c\<lparr>AvailabilityZones := zs\<rparr>)"
  "fake_wf c \<Longrightarrow> fake_wf (SetServerState i st ps c)" "fake_wf c \<Longrightarrow> fake_wf (SetLoadBalancerIP i ip c)"
  by (auto simp: fake_wf_def SetServerState_def SetLoadBalancerIP_def intro!: keyed_map_entry)

lemma keepsD: "keeps I m \<Longrightarrow> I c \<Longrightarrow> I (snd (run_state m c))"
  by (simp add: keeps_def)

text \<open>
  C31: the in-memory cloud is consistent. In every state that any sequence of calls of its
  operations and test helpers and any injected failures can reach, each server, load balancer,
  public IP, security group and network is stored once and under its own ID.
\<close>

theorem fake_reachable_wf: "fake_reachable c \<Longrightarrow> fake_wf c"
  by (induction rule: fake_reachable.induct)
    (simp_all add: fake_New_wf helpers_keep_wf
      operations_keep_wf [THEN keepsD])

theorem fake_reachable_wf_witness:
  "fake_wf (snd (run_state (fake_EnsureBastion empty_BastionInput)
     (snd (run_state fake_ListAvailabilityZones (fake_New [])))))"
  by (rule fake_reachable_wf)
    (rule fake_reachable.ensure_bastion, rule fake_reachable.list_zones, rule fake_reachable.fresh)

section \<open>Idempotence\<close>

lemma find_update_new:
  assumes "find P m = None" and "P (i, e)"
  shows "find P (AList.update i e m) = Some (i, e)"
  using assms by (induction m) (auto split: if_splits)

lemma filter_update_new:
  assumes "filter P m = []" and "P (i, e)"
  shows "filter P (AList.update i e m) = [(i, e)]"
  using assms by (induction m) (auto split: if_splits)

lemma consume_success:
  assumes "run_state (consume sel upd (State f)) c = (Inr a, c')" and "\<And>c a c'. f c = (Inr a, c') \<Longrightarrow> failures c' = failures c"
    and "f c = (Inr a, c') \<Longrightarrow> f c' = (b, c')"
  shows "run_state (consume sel upd (State f)) c' = (b, c')"
  using assms(1,3) assms(2) [of c a c'] by (auto simp: run_consume split: option.splits)

lemma CreateServer_twice:
  assumes "csi_Tags inp \<noteq> []" and "distinct (map fst (csi_Tags inp))"
    and "run_state (fake_CreateServer inp) c = (Inr sv, c')"
  shows "run_state (fake_CreateServer inp) c' = (Inr sv, c')"
  using assms(3) unfolding fake_CreateServer_def
  by (rule consume_success) (use assms(1) mapContains_refl [OF assms(2)] in
    \<open>auto simp: Let_def find_update_new newServerEntry_def split: option.splits\<close>)

lemma EnsureLB_twice:
  assumes "lbi_Tags inp \<noteq> []" and "distinct (map fst (lbi_Tags inp))"
    and "run_state (fake_EnsureAPIServerLoadBalancer inp) c = (Inr lb, c')"
  shows "run_state (fake_EnsureAPIServerLoadBalancer inp) c' = (Inr lb, c')"
  using assms(3) unfolding fake_EnsureAPIServerLoadBalancer_def
  by (rule consume_success) (use assms(1) mapContains_refl [OF assms(2)] in
    \<open>auto simp: Let_def find_update_new split: option.splits\<close>)

lemma CreateNetwork_twice:
  assumes "cni_Tags inp \<noteq> []" and "distinct (map fst (cni_Tags inp))"
    and "run_state (fake_CreateNetwork inp) c = (Inr net, c')"
  shows "run_state (fake_CreateNetwork inp) c' = (Inr net, c')"
  using assms(3) unfolding fake_CreateNetwork_def
  by (rule consume_success) (use assms(1) mapContains_refl [OF assms(2)] in
    \<open>auto simp: Let_def networksByTags_def filter_update_new
      split: option.splits list.splits if_splits\<close>)

lemma EnsureBastion_twice:
  assumes "bi_Tags inp \<noteq> []" and "distinct (map fst (bi_Tags inp))"
    and "run_state (fake_EnsureBastion inp) c = (Inr b, c')"
  shows "\<exists>b'. run_state (fake_EnsureBastion inp) c' = (Inr b', c') \<and> bas_ServerID b' = bas_ServerID b"
  using assms mapContains_refl [OF assms(2)]
  by (auto simp: fake_EnsureBastion_def run_consume Let_def find_update_new split: option.splits)

text \<open>
  Creating twice creates once. A call of \<open>CreateServer\<close>, \<open>CreateNetwork\<close> or
  \<open>EnsureAPIServerLoadBalancer\<close> that succeeded and is repeated with the same input returns the same
  resource and leaves the cloud as it is; a repeated \<open>EnsureBastion\<close> returns the same server and
  leaves the cloud as it is.
\<close>

theorem fake_create_idempotent:
  assumes "tags \<noteq> []" and "distinct (map fst tags)"
  shows "(csi_Tags inp = tags \<longrightarrow> run_state (fake_CreateServer inp) c = (Inr sv, c') \<longrightarrow>
           run_state (fake_CreateServer inp) c' = (Inr sv, c')) \<and>
    (cni_Tags ninp = tags \<longrightarrow> run_state (fake_CreateNetwork ninp) c = (Inr net, c') \<longrightarrow>
           run_state (fake_CreateNetwork ninp) c' = (Inr net, c')) \<and>
    (lbi_Tags linp = tags \<longrightarrow> run_state (fake_EnsureAPIServerLoadBalancer linp) c = (Inr lb, c') \<longrightarrow>
           run_state (fake_EnsureAPIServerLoadBalancer linp) c' = (Inr lb, c')) \<and>
    (bi_Tags binp = tags \<longrightarrow> run_state (fake_EnsureBastion binp) c = (Inr b, c') \<longrightarrow>
           (\<exists>b'. run_state (fake_EnsureBastion binp) c' = (Inr b', c') \<and> bas_ServerID b' = bas_ServerID b))"
  using assms CreateServer_twice CreateNetwork_twice EnsureLB_twice EnsureBastion_twice
  by blast

definition sample_network :: CreateNetworkInput where
  "sample_network = \<lparr>cni_Name = ''n'', cni_IPv4Prefix = ''10.0.0.0/24'', cni_Tags = [(''k'', ''v'')]\<rparr>"

theorem fake_create_idempotent_witness:
  "length (networks (snd (run_state (fake_CreateNetwork sample_network)
      (snd (run_state (fake_CreateNetwork sample_network) (fake_New [])))))) = 1"
proof -
  let ?one = "run_state (fake_CreateNetwork sample_network) (fake_New [])"
  have "fst ?one = Inr \<lparr>net_ID = ''fake-1'', net_Name = ''n'', net_IPv4Prefixes = [''10.0.0.0/24'']\<rparr>"
    and one: "length (networks (snd ?one)) = 1" by code_simp+
  then obtain n where "?one = (Inr n, snd ?one)" by (metis prod.collapse)
  then have "run_state (fake_CreateNetwork sample_network) (snd ?one) = (Inr n, snd ?one)"
    using fake_create_idempotent [THEN conjunct2, THEN conjunct1, of "[(''k'', ''v'')]" sample_network]
    by (simp add: sample_network_def)
  with one show ?thesis by simp
qed

end
