(* ===== verification/Frames.thy ===== *)
theory Frames
  imports Machine_Cloud Cluster_Controller Fake_Cloud
begin

text \<open>
  What a whole pass of either controller leaves unchanged in the cloud. \<open>frame K I m\<close> says that the
  computation \<open>m\<close> keeps the fact \<open>K\<close> about the object and the invariant \<open>I\<close> of the cloud; its rules
  follow the structure of the program. The locales \<open>machine_frame\<close> and \<open>cluster_frame\<close> list the
  cloud operations that a machine pass and a cluster pass call, each with the inputs that the pass
  builds: an invariant that these operations keep is kept by every pass.
\<close>

section \<open>Frames\<close>

named_theorems frame_intros

definition frame :: "('o \<Rightarrow> bool) \<Rightarrow> ('c \<Rightarrow> bool) \<Rightarrow> (('c, 'k, 'o) rstate, 'a) state \<Rightarrow> bool" where
  "frame K I m \<longleftrightarrow>
     (\<forall>s. K (obj s) \<longrightarrow> I (cloud s) \<longrightarrow> wp m (\<lambda>_ s'. K (obj s') \<and> I (cloud s')) s)"

lemma frameD:
  assumes "frame K I m" and "run_state m s = (a, s')" and "K (obj s)" and "I (cloud s)"
  shows "K (obj s') \<and> I (cloud s')"
  using assms by (force simp: frame_def wp_def)

lemma frame_return [frame_intros]: "frame K I (State_Monad.return a)"
  by (simp add: frame_def wp_simps)

lemma frame_ok [frame_intros]: "frame K I (ok a)" "frame K I (fail_with err)"
  by (simp_all add: frame_def wp_simps)

lemma frame_bind [frame_intros]:
  assumes "frame K I m" and "\<And>a. frame K I (f a)"
  shows "frame K I (State_Monad.bind m f)"
  using assms unfolding frame_def wp_bind by (blast intro: wp_mono)

lemma frame_obj:
  assumes "\<And>x. K x \<Longrightarrow> frame K I (f x)"
  shows "frame K I (State_Monad.bind getObj f)"
  using assms by (simp add: frame_def wp_simps)

lemma frame_client:
  assumes "uses_client fac C" and "\<And>err. frame K I (g err)" and "frame K I (h C)"
  shows "frame K I (State_Monad.bind (kubeCall (BuildCloudClient k fac sc))
    (\<lambda>res. case res of Inl err \<Rightarrow> g err | Inr cl \<Rightarrow> h cl))"
  using assms(2,3)
  by (auto simp: frame_def wp_simps dest: BuildCloudClient_uses [OF assms(1)]
      split: prod.splits sum.splits)

lemma frame_if [frame_intros]:
  "(b \<Longrightarrow> frame K I m) \<Longrightarrow> (\<not> b \<Longrightarrow> frame K I n) \<Longrightarrow> frame K I (if b then m else n)"
  by simp

lemma frame_case_sum [frame_intros]:
  "(\<And>a. x = Inl a \<Longrightarrow> frame K I (f a)) \<Longrightarrow> (\<And>b. x = Inr b \<Longrightarrow> frame K I (g b)) \<Longrightarrow>
   frame K I (case x of Inl a \<Rightarrow> f a | Inr b \<Rightarrow> g b)"
  by (cases x) simp_all

lemma frame_case_option [frame_intros]:
  "(x = None \<Longrightarrow> frame K I m) \<Longrightarrow> (\<And>a. x = Some a \<Longrightarrow> frame K I (f a)) \<Longrightarrow>
   frame K I (case x of None \<Rightarrow> m | Some a \<Rightarrow> f a)"
  by (cases x) simp_all

lemma frame_case_list [frame_intros]:
  "frame K I m \<Longrightarrow> (\<And>a as. frame K I (f a as)) \<Longrightarrow>
   frame K I (case x of [] \<Rightarrow> m | a # as \<Rightarrow> f a as)"
  by (cases x) simp_all

lemma frame_case_prod [frame_intros]:
  "(\<And>a b. x = (a, b) \<Longrightarrow> frame K I (f a b)) \<Longrightarrow> frame K I (case x of (a, b) \<Rightarrow> f a b)"
  by (cases x) simp

lemma frame_let [frame_intros]: "frame K I (f x) \<Longrightarrow> frame K I (Let x f)"
  by (simp add: Let_def)

lemma frame_kubeCall [frame_intros]: "frame K I (kubeCall m)" "frame K I (kubeState n)"
  by (auto simp: frame_def wp_simps split: prod.splits)

lemma frame_patchCall [frame_intros]: "frame K I (patchCall p)"
  by (auto simp: frame_def wp_simps split: prod.splits)

lemma frame_record [frame_intros]: "frame K I (recordEvent r m)" "frame K I (recordWarn r m)"
  by (simp_all add: frame_def wp_simps)

lemma frame_modifyObj:
  "(\<And>x. K x \<Longrightarrow> K (f x)) \<Longrightarrow> frame K I (modifyObj f)"
  by (simp add: frame_def wp_simps)

lemma frame_cloudCall: "keeps I m \<Longrightarrow> frame K I (cloudCall op m)"
  by (auto simp: frame_def wp_simps keeps_def split: prod.splits dest: sym)

section \<open>A pass of the machine controller\<close>

locale machine_frame =
  fixes C :: "'c Client"
    and I :: "'c \<Rightarrow> bool"
    and K :: "MachineScope \<Rightarrow> StackitMachine \<Rightarrow> bool"
  assumes K_cong: "K ms sm \<Longrightarrow>
       sms_AdditionalLabels (sm_Spec sm') = sms_AdditionalLabels (sm_Spec sm) \<Longrightarrow> K ms sm'"
    and m_get: "keeps I (GetServer C i)"
    and m_find: "keeps I (FindServerByTags C tags)"
    and m_create: "K ms sm \<Longrightarrow> keeps I (CreateServer C (createServerInput ms sm net ud))"
    and m_delete: "keeps I (DeleteServer C i)"
    and m_ssh: "keeps I (EnsureNodeSSHAccess C sin)"
begin

lemmas m_calls = m_get [THEN frame_cloudCall] m_find [THEN frame_cloudCall]
  m_delete [THEN frame_cloudCall] m_ssh [THEN frame_cloudCall]

lemma m_modify: "(\<And>sm. sms_AdditionalLabels (sm_Spec (f sm)) = sms_AdditionalLabels (sm_Spec sm)) \<Longrightarrow>
     frame (K ms) I (modifyObj f)"
  by (rule frame_modifyObj) (erule K_cong, simp)

lemma machineCloudFailure_frame: "frame (K ms) I (machineCloudFailure r rs err ts)"
  unfolding machineCloudFailure_def
  by (intro m_modify frame_obj frame_intros) (simp_all add: machine_scope_defs)

lemma ensureServer_frame: "frame (K ms) I (ensureServer C ms ud)"
  unfolding ensureServer_def findServerOrCreate_def createMissingServer_def
  by (intro m_modify frame_obj frame_intros m_calls frame_cloudCall [OF m_create])

lemma reconcileMachineInstance_frame: "frame (K ms) I (reconcileMachineInstance r C ms ud)"
  unfolding reconcileMachineInstance_def reconcileMachineState_def reconcileMachineAccess_def
    reconcileBastionNodeSSHAccess_def
  by (intro m_modify frame_obj frame_intros m_calls ensureServer_frame machineCloudFailure_frame)
    (simp_all add: machine_scope_defs)

lemma machine_reconcileNormal_frame:
  assumes "uses_client (r_CloudClientFactory r) C"
  shows "frame (K ms) I (machine_reconcileNormal r ms)"
  unfolding machine_reconcileNormal_def ensureMachineFinalizer_def reconcileMachineGuards_def
    reconcileMachineBootstrap_def reconcileMachineCredentials_def
  by (intro m_modify frame_client [OF assms] frame_obj frame_intros reconcileMachineInstance_frame)
    (simp_all add: machine_scope_defs)

lemma machine_reconcileDelete_frame:
  assumes "uses_client (r_CloudClientFactory r) C"
  shows "frame (K ms) I (machine_reconcileDelete r ms)"
  unfolding machine_reconcileDelete_def deleteMachineServer_def resolveServerForDeletion_def
    deleteServerByID_def removeMachineFinalizer_def
  by (intro m_modify frame_client [OF assms] frame_obj frame_intros m_calls)
    (simp_all add: machine_scope_defs)

lemma machine_pass_frame:
  assumes "uses_client (r_CloudClientFactory r) C"
  shows "frame (K ms) I (machine_reconcileScope r ms)"
  unfolding machine_reconcileScope_def machine_runPhases_def
  by (intro m_modify frame_obj frame_intros machine_reconcileNormal_frame machine_reconcileDelete_frame assms)
    simp_all

end

section \<open>A pass of the cluster controller\<close>

definition cluster_key :: "StackitCluster \<Rightarrow> string \<times> string \<times> string gomap" where
  \<comment> \<open>what the tags of the cluster's resources depend on\<close>
  "cluster_key sc =
     (om_Name (sc_meta sc), om_Namespace (sc_meta sc), scs_AdditionalLabels (sc_Spec sc))"

locale cluster_frame =
  fixes C :: "'c Client"
    and I :: "'c \<Rightarrow> bool"
    and K :: "StackitCluster \<Rightarrow> bool"
  assumes K_key: "K sc \<Longrightarrow> cluster_key sc' = cluster_key sc \<Longrightarrow> K sc'"
    and c_zones: "keeps I (ListAvailabilityZones C)"
    and c_getnet: "keeps I (GetNetwork C i)"
    and c_findnet: "keeps I (FindNetworkByTags C tags)"
    and c_createnet: "K sc \<Longrightarrow> keeps I (CreateNetwork C (network_Input sc))"
    and c_delnet: "keeps I (DeleteNetwork C i)"
    and c_bastion: "K sc \<Longrightarrow> keeps I (EnsureBastion C (bastion_Input sc ci))"
    and c_delbastion: "K sc \<Longrightarrow> keeps I (DeleteBastion C (bastion_Input sc ci) st)"
    and c_delssh: "K sc \<Longrightarrow> keeps I (DeleteNodeSSHAccess C (NodeSSHAccessTags sc))"
    and c_lb: "K sc \<Longrightarrow> keeps I (EnsureAPIServerLoadBalancer C (APIServerInput sc ts))"
    and c_listlb: "keeps I (ListAPIServerLoadBalancersByTags C tags)"
    and c_targets: "keeps I (SetAPIServerLoadBalancerTargets C i port ts)"
    and c_dellb: "keeps I (DeleteAPIServerLoadBalancer C i)"
begin

lemmas c_calls = c_zones [THEN frame_cloudCall] c_getnet [THEN frame_cloudCall]
  c_findnet [THEN frame_cloudCall] c_createnet [THEN frame_cloudCall]
  c_delnet [THEN frame_cloudCall] c_bastion [THEN frame_cloudCall]
  c_delbastion [THEN frame_cloudCall] c_delssh [THEN frame_cloudCall]
  c_lb [THEN frame_cloudCall] c_listlb [THEN frame_cloudCall]
  c_targets [THEN frame_cloudCall] c_dellb [THEN frame_cloudCall]

lemmas key_simps = cluster_key_def cluster_scope_defs set_cluster_Ready_def
  set_cluster_conditions_def set_cluster_Network_def

lemma c_modify: "(\<And>sc. cluster_key (f sc) = cluster_key sc) \<Longrightarrow> frame K I (modifyObj f)"
  by (rule frame_modifyObj) (erule K_key, simp)

lemma clusterCloudFailure_frame: "frame K I (clusterCloudFailure r rs err b ts)"
  unfolding clusterCloudFailure_def
  by (intro c_modify frame_obj frame_intros) (simp_all add: key_simps)

lemma ensureNetwork_frame: "frame K I (ensureNetwork r C)"
  unfolding ensureNetwork_def getUnmanagedNetwork_def ensureManagedNetwork_def
    createManagedNetwork_def
  by (intro c_modify frame_obj frame_intros c_calls clusterCloudFailure_frame)
    (simp_all add: key_simps)

lemma reconcileEndpoint_frame: "frame K I (reconcileEndpoint r cl C net)"
  unfolding reconcileEndpoint_def reconcileLoadBalancer_def recordLoadBalancer_def
    publishEndpoint_def publishTargets_def
  by (intro c_modify frame_obj frame_intros c_calls clusterCloudFailure_frame)
    (simp_all add: key_simps)

lemma cleanupBastion_frame:
  assumes "K sc"
  shows "frame K I (cleanupBastion C tol (bastion_Input sc ci) st)"
  unfolding cleanupBastion_def
  by (intro c_modify frame_obj frame_intros c_calls assms)

lemma reconcileClusterBastion_frame: "frame K I (reconcileClusterBastion r C)"
  unfolding reconcileClusterBastion_def reconcileBastion_def reconcileBastionServer_def
    reconcileBastionState_def reconcileBastionDisabled_def
  by (intro c_modify frame_obj frame_intros cleanupBastion_frame c_calls clusterCloudFailure_frame)
    (simp_all add: key_simps)

lemma cluster_reconcileNormal_frame:
  assumes "uses_client (r_CloudClientFactory r) C"
  shows "frame K I (cluster_reconcileNormal r cl)"
  unfolding cluster_reconcileNormal_def ensureClusterFinalizer_def reconcileClusterCredentials_def
    reconcileClusterZones_def reconcileClusterNetwork_def
  by (intro c_modify frame_client [OF assms] frame_obj frame_intros c_calls clusterCloudFailure_frame
      ensureNetwork_frame reconcileEndpoint_frame reconcileClusterBastion_frame)
    (simp_all add: key_simps)

lemma cluster_reconcileDelete_frame:
  assumes "uses_client (r_CloudClientFactory r) C"
  shows "frame K I (cluster_reconcileDelete r cl)"
  unfolding cluster_reconcileDelete_def cleanupCluster_def deleteClusterLoadBalancer_def
    deleteClusterBastion_def deleteClusterNetwork_def removeClusterFinalizer_def
    ResolveID_def ResolveManagedNetworkID_def
  by (intro c_modify frame_client [OF assms] frame_obj frame_intros c_calls)
    (simp_all add: key_simps)

lemma cluster_pass_frame:
  assumes "uses_client (r_CloudClientFactory r) C"
  shows "frame K I (cluster_reconcileScope r cl)"
  unfolding cluster_reconcileScope_def cluster_runPhases_def
  by (intro c_modify frame_obj frame_intros cluster_reconcileNormal_frame cluster_reconcileDelete_frame assms)
    (simp_all add: key_simps)

end

end
