(* ===== verification/System.thy ===== *)
theory System
  imports Frames
begin

text \<open>
  Both controllers together on the in-memory cloud. A run of the system is any interleaving of
  passes over any machines and any clusters; each pass starts from an arbitrary version of its
  object and of the Kubernetes API, and only the cloud carries over. Over every run the cloud stays
  consistent and no resource is duplicated.
\<close>

section \<open>Resources by tags\<close>

definition tagged :: "('v \<Rightarrow> string gomap) \<Rightarrow> 'v gomap \<Rightarrow> string gomap \<Rightarrow> string set" where
  \<comment> \<open>the IDs of the entries whose tags match a selector\<close>
  "tagged tf m T = {i. \<exists>e. map_of m i = Some e \<and> mapContains (tf e) T}"

definition own_or_other :: "string gomap \<Rightarrow> string gomap \<Rightarrow> bool" where
  "own_or_other t T \<longleftrightarrow> t = T \<or> \<not> mapContains t T"

lemma tagged_update_same:
  "map_of m i = Some e' \<Longrightarrow> tf e = tf e' \<Longrightarrow> tagged tf (AList.update i e m) T = tagged tf m T"
  by (auto simp: tagged_def update_conv)

lemma tagged_delete: "tagged tf (AList.delete i m) T = tagged tf m T - {i}"
  by (auto simp: tagged_def delete_conv)

lemma tagged_delete_nonempty: "tagged tf (delete_nonempty i m) T \<subseteq> tagged tf m T"
  by (simp add: delete_nonempty_def tagged_delete)

lemma tagged_filter:
  assumes "distinct (map fst m)"
  shows "tagged tf (filter (\<lambda>(i, e). P e) m) T = {i \<in> tagged tf m T. \<forall>e. map_of m i = Some e \<longrightarrow> P e}"
proof -
  have "map_of (filter (\<lambda>(i, e). P e) m) i =
      (case map_of m i of None \<Rightarrow> None | Some e \<Rightarrow> if P e then Some e else None)" for i
    using assms by (induction m) (auto split: option.splits dest: map_of_SomeD intro: rev_image_eqI)
  then show ?thesis by (auto simp: tagged_def split: option.splits if_splits)
qed

lemma tagged_map: "(\<And>e. tf (f e) = tf e) \<Longrightarrow> tagged tf (map (\<lambda>(i, e). (i, f e)) m) T = tagged tf m T"
  by (auto simp: tagged_def map_of_map)

lemma tagged_add:
  assumes "at_most_one (tagged tf m T)" and "own_or_other (tf e) T"
    and "list_all (\<lambda>(i, e'). \<not> mapContains (tf e') (tf e)) m"
  shows "at_most_one (tagged tf (AList.update i e m) T)"
proof (cases "mapContains (tf e) T")
  case True
  with assms(2) have "tf e = T" by (simp add: own_or_other_def)
  with assms(3) have "tagged tf m T = {}" by (auto simp: tagged_def list_all_iff dest: map_of_SomeD)
  then have "tagged tf (AList.update i e m) T \<subseteq> {i}" by (auto simp: tagged_def update_conv)
  then show ?thesis by (auto simp: at_most_one_def)
next
  case False
  then have "tagged tf (AList.update i e m) T \<subseteq> tagged tf m T"
    by (auto simp: tagged_def update_conv split: if_splits)
  with assms(1) show ?thesis by (rule at_most_one_subset)
qed

lemma at_most_one_Diff: "at_most_one A \<Longrightarrow> at_most_one (A - B)"
  by (auto simp: at_most_one_def)

section \<open>No duplicates\<close>

definition system_unique :: "string gomap \<Rightarrow> string gomap \<Rightarrow> fake \<Rightarrow> bool" where
  \<comment> \<open>at most one network and one load balancer match \<open>T\<close>, at most one server matches \<open>S\<close>\<close>
  "system_unique T S c \<longleftrightarrow> fake_wf c \<and>
     at_most_one (tagged ne_tags (networks c) T) \<and>
     at_most_one (tagged le_tags (loadBalancers c) T) \<and>
     at_most_one (tagged se_tags (servers c) S)"

definition machine_known :: "string gomap \<Rightarrow> MachineScope \<Rightarrow> StackitMachine \<Rightarrow> bool" where
  "machine_known S ms sm \<longleftrightarrow> own_or_other (machine_Tags ms sm) S"

definition bastion_tags :: "StackitCluster \<Rightarrow> string gomap" where
  \<comment> \<open>the tags in the input of the bastion\<close>
  "bastion_tags sc = AList.update LabelResourceRole ResourceRoleBastion (cluster_tags_of sc)"

definition cluster_known :: "string gomap \<Rightarrow> string gomap \<Rightarrow> StackitCluster \<Rightarrow> bool" where
  "cluster_known T S sc \<longleftrightarrow>
     own_or_other (cluster_tags_of sc) T \<and> own_or_other (bastion_tags sc) S"

lemma keeps_unique:
  assumes "keeps fake_wf m"
    and "\<And>c. system_unique T S c \<Longrightarrow>
      at_most_one (tagged ne_tags (networks (snd (run_state m c))) T) \<and>
      at_most_one (tagged le_tags (loadBalancers (snd (run_state m c))) T) \<and>
      at_most_one (tagged se_tags (servers (snd (run_state m c))) S)"
  shows "keeps (system_unique T S) m"
  using assms by (auto simp: keeps_def system_unique_def)

lemma keeps_unique_quiet:
  assumes "keeps fake_wf m"
    and "\<And>c. networks (snd (run_state m c)) = networks c \<and>
      loadBalancers (snd (run_state m c)) = loadBalancers c \<and> servers (snd (run_state m c)) = servers c"
  shows "keeps (system_unique T S) m"
  by (rule keeps_unique [OF assms(1)]) (use assms(2) in \<open>simp add: system_unique_def\<close>)

lemma lookups_keep_unique:
  "keeps (system_unique T S) (fake_GetServer i)" "keeps (system_unique T S) (fake_FindServerByTags t)"
  "keeps (system_unique T S) (fake_GetNetwork i)" "keeps (system_unique T S) (fake_FindNetworkByTags t)"
  "keeps (system_unique T S) (fake_ListAPIServerLoadBalancersByTags t)"
  "keeps (system_unique T S) fake_ListAvailabilityZones"
  by (rule keeps_unique_quiet, rule operations_keep_wf,
    simp add: run_consume fake_GetServer_def fake_FindServerByTags_def fake_GetNetwork_def
      fake_FindNetworkByTags_def fake_ListAPIServerLoadBalancersByTags_def
      fake_ListAvailabilityZones_def split: option.splits)+

lemma CreateServer_keeps_unique:
  assumes "own_or_other (csi_Tags inp) S" and "csi_Tags inp \<noteq> []"
  shows "keeps (system_unique T S) (fake_CreateServer inp)"
  by (rule keeps_unique, rule servers_keep_wf)
    (use assms in \<open>auto simp: fake_CreateServer_def run_consume system_unique_def Let_def
      newServerEntry_def find_None_iff list_all_iff split: option.splits intro!: tagged_add\<close>)

lemma CreateNetwork_keeps_unique:
  assumes "own_or_other (cni_Tags inp) T" and "cni_Tags inp \<noteq> []"
  shows "keeps (system_unique T S) (fake_CreateNetwork inp)"
  by (rule keeps_unique, rule networks_keep_wf)
    (use assms in \<open>auto simp: fake_CreateNetwork_def run_consume system_unique_def Let_def
      networksByTags_def filter_empty_conv list_all_iff split: option.splits list.splits
      intro!: tagged_add\<close>)

lemma EnsureLB_keeps_unique:
  assumes "own_or_other (lbi_Tags inp) T" and "lbi_Tags inp \<noteq> []"
  shows "keeps (system_unique T S) (fake_EnsureAPIServerLoadBalancer inp)"
  by (rule keeps_unique, rule load_balancers_keep_wf)
    (use assms in \<open>auto simp: fake_EnsureAPIServerLoadBalancer_def run_consume system_unique_def
      Let_def find_None_iff list_all_iff split: option.splits intro!: tagged_add\<close>)

lemma EnsureBastion_keeps_unique:
  assumes "own_or_other (bi_Tags inp) S" and "bi_Tags inp \<noteq> []"
  shows "keeps (system_unique T S) (fake_EnsureBastion inp)"
  by (rule keeps_unique, rule bastion_keep_wf)
    (use assms in \<open>auto simp: fake_EnsureBastion_def run_consume system_unique_def Let_def
      find_None_iff list_all_iff split: option.splits intro!: tagged_add\<close>)

lemma deletes_keep_unique:
  "keeps (system_unique T S) (fake_DeleteServer i)" "keeps (system_unique T S) (fake_DeleteNetwork i)"
  "keeps (system_unique T S) (fake_DeleteAPIServerLoadBalancer i)"
  by (rule keeps_unique, rule operations_keep_wf,
    simp add: fake_DeleteServer_def fake_DeleteNetwork_def fake_DeleteAPIServerLoadBalancer_def
      run_consume system_unique_def tagged_delete at_most_one_Diff split: option.splits)+

lemma DeleteBastion_keeps_unique: "keeps (system_unique T S) (fake_DeleteBastion inp st)"
proof (rule keeps_unique, rule bastion_keep_wf)
  fix c assume u: "system_unique T S c"
  then have "distinct (map fst (delete_nonempty (bas_ServerID st) (servers c)))"
    unfolding system_unique_def fake_wf_def by (metis keyed_def keyed_delete_nonempty)
  with tagged_filter tagged_delete_nonempty
  have "tagged se_tags (filter (\<lambda>(i, e). \<not> mapContains (se_tags e) (bi_Tags inp))
      (delete_nonempty (bas_ServerID st) (servers c))) S \<subseteq> tagged se_tags (servers c) S"
    by fastforce
  from at_most_one_subset [OF _ this] u
  show "at_most_one (tagged ne_tags (networks (snd (run_state (fake_DeleteBastion inp st) c))) T) \<and>
      at_most_one (tagged le_tags (loadBalancers (snd (run_state (fake_DeleteBastion inp st) c))) T) \<and>
      at_most_one (tagged se_tags (servers (snd (run_state (fake_DeleteBastion inp st) c))) S)"
    by (simp add: fake_DeleteBastion_def run_consume system_unique_def
        split: option.splits)
qed

lemma updates_keep_unique:
  "keeps (system_unique T S) (fake_EnsureNodeSSHAccess sinp)"
  "keeps (system_unique T S) (fake_DeleteNodeSSHAccess t)"
  "keeps (system_unique T S) (fake_SetAPIServerLoadBalancerTargets i p ts)"
  by (rule keeps_unique, rule operations_keep_wf,
    (auto simp: fake_EnsureNodeSSHAccess_def fake_DeleteNodeSSHAccess_def
      fake_SetAPIServerLoadBalancerTargets_def run_consume system_unique_def Let_def
      tagged_update_same tagged_map split: option.splits) [1])+

lemma bastion_Input_tags [simp]: "bi_Tags (bastion_Input sc ci) = bastion_tags sc"
  by (simp add: bastion_Input_def bastion_tags_def Let_def)

lemma cluster_inputs_neq_Nil [simp]: "cluster_tags_of sc \<noteq> []" "bastion_tags sc \<noteq> []"
  by (simp_all add: cluster_tags_of_def bastion_tags_def)

lemmas keep_unique = lookups_keep_unique deletes_keep_unique updates_keep_unique
  DeleteBastion_keeps_unique CreateServer_keeps_unique CreateNetwork_keeps_unique
  EnsureLB_keeps_unique EnsureBastion_keeps_unique

interpretation machine_unique: machine_frame fake_Client "system_unique T S" "machine_known S" for T S
  by unfold_locales
    (simp_all add: machine_known_def machine_Tags_def createServerInput_def keep_unique)

interpretation cluster_unique: cluster_frame fake_Client "system_unique T S" "cluster_known T S" for T S
proof unfold_locales
  show "cluster_known T S sc' \<Longrightarrow> cluster_key sc = cluster_key sc' \<Longrightarrow> cluster_known T S sc" for sc sc'
    by (simp add: cluster_known_def cluster_key_def cluster_tags_of_def bastion_tags_def)
qed (simp_all add: cluster_known_def network_Input_def NetworkTags_def
       APIServerInput_def APIServerTags_def keep_unique)

section \<open>Runs of the system\<close>

inductive system_run ::
  "('c, 'k) Reconciler \<Rightarrow> (MachineScope \<Rightarrow> StackitMachine \<Rightarrow> bool) \<Rightarrow> (StackitCluster \<Rightarrow> bool) \<Rightarrow>
   'c \<Rightarrow> 'c \<Rightarrow> bool"
  for r :: "('c, 'k) Reconciler" and ok_machine ok_cluster where
  start: "system_run r ok_machine ok_cluster c c"
| machine_pass: "system_run r ok_machine ok_cluster c (cloud s) \<Longrightarrow> ok_machine ms (obj s) \<Longrightarrow>
    run_state (machine_reconcileScope r ms) s = (out, s') \<Longrightarrow>
    system_run r ok_machine ok_cluster c (cloud s')"
| cluster_pass: "system_run r ok_machine ok_cluster c (cloud s) \<Longrightarrow> ok_cluster (obj s) \<Longrightarrow>
    run_state (cluster_reconcileScope r cl) s = (out, s') \<Longrightarrow>
    system_run r ok_machine ok_cluster c (cloud s')"

lemma system_run_keeps:
  assumes "system_run r okm okc c c'" and "I c"
    and "\<And>ms. frame (K ms) I (machine_reconcileScope r ms)" and "\<And>ms sm. okm ms sm \<Longrightarrow> K ms sm"
    and "\<And>cl. frame J I (cluster_reconcileScope r cl)" and "\<And>sc. okc sc \<Longrightarrow> J sc"
  shows "I c'"
  using assms(1,2)
proof (induction rule: system_run.induct)
  case (machine_pass c s ms out s')
  with frameD [OF assms(3), of ms s] assms(4) show ?case by blast
next
  case (cluster_pass c s cl out s')
  with frameD [OF assms(5), of cl s] assms(6) show ?case by blast
qed

text \<open>What the runs assume of the objects: the labels of the one cluster and of the one machine that
  are watched stay what they are, and no user label pretends to be one of the provider's.\<close>

definition machine_labels_ok :: "string \<Rightarrow> string gomap \<Rightarrow> MachineScope \<Rightarrow> StackitMachine \<Rightarrow> bool" where
  "machine_labels_ok uid M ms sm \<longleftrightarrow>
     fixed_labels uid M ms sm \<and>
     lookup_or [] (sms_AdditionalLabels (sm_Spec sm)) LabelResourceRole \<noteq> ResourceRoleBastion"

definition cluster_labels_ok :: "string \<Rightarrow> string \<Rightarrow> string gomap \<Rightarrow> string \<Rightarrow> StackitCluster \<Rightarrow> bool" where
  "cluster_labels_ok n ns ls uid sc \<longleftrightarrow>
     (om_Name (sc_meta sc) = n \<and> om_Namespace (sc_meta sc) = ns \<longrightarrow> scs_AdditionalLabels (sc_Spec sc) = ls) \<and>
     lookup_or [] (scs_AdditionalLabels (sc_Spec sc)) LabelMachineUID \<noteq> uid"

lemma distinct_bastion: "distinct (map fst (AList.update LabelResourceRole v (ClusterTags n ns ls)))"
  by (intro distinct_update distinct_ClusterTags)

lemma label_neqs:
  "LabelClusterName \<noteq> LabelResourceRole" "LabelClusterNamespace \<noteq> LabelResourceRole"
  "LabelMachineUID \<noteq> LabelResourceRole"
  by (simp_all add: label_defs)

lemma lookup_ClusterTags:
  "lookup_or [] (ClusterTags n ns ls) LabelClusterName = n"
  "lookup_or [] (ClusterTags n ns ls) LabelClusterNamespace = ns"
  "lookup_or [] (ClusterTags n ns ls) LabelMachineUID = lookup_or [] ls LabelMachineUID"
  by (simp_all add: lookup_or_def map_of_ClusterTags label_defs)

lemma mapContains_ClusterTagsD:
  assumes "mapContains (ClusterTags n ns ls) (ClusterTags n' ns' ls')"
  shows "n = n' \<and> ns = ns'"
  using mapContains_lookup [OF distinct_ClusterTags assms, of LabelClusterName n']
    mapContains_lookup [OF distinct_ClusterTags assms, of LabelClusterNamespace ns']
  by (simp add: map_of_ClusterTags lookup_or_def label_defs)

lemma mapContains_bastionD:
  assumes "mapContains t (AList.update LabelResourceRole v (ClusterTags n ns ls))"
  shows "lookup_or [] t LabelResourceRole = v \<and> lookup_or [] t LabelClusterName = n \<and>
    lookup_or [] t LabelClusterNamespace = ns"
  using mapContains_lookup [OF distinct_bastion assms, of LabelResourceRole v]
    mapContains_lookup [OF distinct_bastion assms, of LabelClusterName n]
    mapContains_lookup [OF distinct_bastion assms, of LabelClusterNamespace ns]
  by (simp add: update_conv map_of_ClusterTags label_defs)

lemma mapContains_uidD:
  "mapContains t (MachineTags cl ns m uid ls) \<Longrightarrow> lookup_or [] t LabelMachineUID = uid"
  using mapContains_lookup [OF distinct_MachineTags, of t cl ns m uid ls LabelMachineUID uid]
  by (simp add: map_of_MachineTags label_defs)

lemma cluster_labels_known:
  assumes "cluster_labels_ok n ns ls uid sc"
  shows "cluster_known (ClusterTags n ns ls)
      (AList.update LabelResourceRole ResourceRoleBastion (ClusterTags n ns ls)) sc"
    and "cluster_known (ClusterTags n ns ls) (MachineTags cl mns m uid mls) sc"
proof -
  have T: "own_or_other (cluster_tags_of sc) (ClusterTags n ns ls)"
    using assms by (auto simp: own_or_other_def cluster_tags_of_def cluster_labels_ok_def
        dest: mapContains_ClusterTagsD)
  moreover have "own_or_other (bastion_tags sc)
      (AList.update LabelResourceRole ResourceRoleBastion (ClusterTags n ns ls))"
    using assms by (auto simp: own_or_other_def bastion_tags_def cluster_tags_of_def
        cluster_labels_ok_def lookup_ClusterTags label_neqs dest!: mapContains_bastionD)
  moreover have "own_or_other (bastion_tags sc) (MachineTags cl mns m uid mls)"
    using assms by (auto simp: own_or_other_def bastion_tags_def cluster_tags_of_def
        cluster_labels_ok_def lookup_ClusterTags label_neqs dest!: mapContains_uidD)
  ultimately show "cluster_known (ClusterTags n ns ls)
      (AList.update LabelResourceRole ResourceRoleBastion (ClusterTags n ns ls)) sc"
    "cluster_known (ClusterTags n ns ls) (MachineTags cl mns m uid mls) sc"
    by (simp_all add: cluster_known_def)
qed

lemma machine_labels_known:
  assumes "machine_labels_ok uid (MachineTags cl mns m uid mls) ms sm"
  shows "machine_known (AList.update LabelResourceRole ResourceRoleBastion (ClusterTags n ns ls)) ms sm"
    and "machine_known (MachineTags cl mns m uid mls) ms sm"
proof -
  have "lookup_or [] (machine_Tags ms sm) LabelResourceRole \<noteq> ResourceRoleBastion"
    using assms by (simp add: machine_labels_ok_def machine_Tags_def lookup_or_def map_of_MachineTags label_defs)
  then show "machine_known (AList.update LabelResourceRole ResourceRoleBastion (ClusterTags n ns ls)) ms sm"
    by (auto simp: machine_known_def own_or_other_def dest: mapContains_bastionD)
  from assms show "machine_known (MachineTags cl mns m uid mls) ms sm"
    unfolding machine_labels_ok_def machine_known_def own_or_other_def machine_Tags_def
    by (metis fixed_labels_def machine_Tags_def mapContains_MachineTagsD)
qed

text \<open>
  The two controllers together never duplicate a resource. Take any interleaving of passes over
  any clusters and machines on the in-memory cloud, each on an arbitrary, possibly stale version of
  its objects and with any injected failures. If a cluster starts with at most one network, one
  load balancer and one bastion server, and a machine with at most one server, then this is so after
  every run, as long as the labels of this cluster and of this machine stay as they are, no machine
  is labelled as a bastion and no cluster with the UID of the machine. The cloud stays consistent.
\<close>

theorem system_never_duplicated:
  assumes "uses_client (r_CloudClientFactory r) fake_Client"
    and "system_run r (machine_labels_ok uid (MachineTags cl mns m uid mls))
           (cluster_labels_ok n ns ls uid) c c'"
    and "system_unique (ClusterTags n ns ls)
           (AList.update LabelResourceRole ResourceRoleBastion (ClusterTags n ns ls)) c"
    and "system_unique (ClusterTags n ns ls) (MachineTags cl mns m uid mls) c"
  shows "system_unique (ClusterTags n ns ls)
           (AList.update LabelResourceRole ResourceRoleBastion (ClusterTags n ns ls)) c' \<and>
         system_unique (ClusterTags n ns ls) (MachineTags cl mns m uid mls) c'"
proof
  note frames = machine_unique.machine_pass_frame [OF assms(1)]
    cluster_unique.cluster_pass_frame [OF assms(1)]
  show "system_unique (ClusterTags n ns ls)
      (AList.update LabelResourceRole ResourceRoleBastion (ClusterTags n ns ls)) c'"
    by (rule system_run_keeps [OF assms(2,3) frames(1) _ frames(2)])
      (fact machine_labels_known cluster_labels_known)+
  show "system_unique (ClusterTags n ns ls) (MachineTags cl mns m uid mls) c'"
    by (rule system_run_keeps [OF assms(2,4) frames(1) _ frames(2)])
      (fact machine_labels_known cluster_labels_known)+
qed

lemma fake_New_unique: "system_unique T S (fake_New [])"
  by (simp add: system_unique_def fake_New_wf) (simp add: fake_New_def tagged_def)

definition sample_cluster_run :: "outcome \<times> (fake, api, StackitCluster) rstate" where
  "sample_cluster_run =
     run_state (cluster_reconcileScope sample_Reconciler sample_Cluster) (sample_state sample_StackitCluster)"

definition sample_machine_run :: "StackitMachine \<Rightarrow> fake \<Rightarrow> outcome \<times> (fake, api, StackitMachine) rstate" where
  "sample_machine_run sm c =
     run_state (machine_reconcileScope sample_Reconciler sample_scope) ((sample_state sm)\<lparr>cloud := c\<rparr>)"

theorem system_never_duplicated_witness:
  "at_most_one (tagged ne_tags
     (networks (cloud (snd (sample_machine_run sample_StackitMachine (cloud (snd sample_cluster_run))))))
     (ClusterTags ''c'' ''ns'' []))"
proof -
  let ?T = "ClusterTags ''c'' ''ns'' []" and ?M = "MachineTags ''c'' ''ns'' ''m'' ''uid-m'' []"
  let ?run = "system_run sample_Reconciler (machine_labels_ok ''uid-m'' ?M)
    (cluster_labels_ok ''c'' ''ns'' [] ''uid-m'') (fake_New [])"
  have "cluster_labels_ok ''c'' ''ns'' [] ''uid-m'' sample_StackitCluster"
    and ml: "machine_labels_ok ''uid-m'' ?M sample_scope sample_StackitMachine" by code_simp+
  then have "?run (cloud (snd sample_cluster_run))"
    unfolding sample_cluster_run_def
    by (intro system_run.cluster_pass [OF _ _ prod.collapse [symmetric]])
      (simp_all add: system_run.start)
  then have "?run (cloud (snd (sample_machine_run sample_StackitMachine (cloud (snd sample_cluster_run)))))"
    unfolding sample_machine_run_def using ml
    by (intro system_run.machine_pass [OF _ _ prod.collapse [symmetric]]) simp_all
  moreover have "uses_client (r_CloudClientFactory sample_Reconciler) fake_Client"
    by (simp add: uses_client_def)
  ultimately show ?thesis
    using fake_New_unique system_never_duplicated [of sample_Reconciler "''uid-m''" "''c''" "''ns''" "''m''" "[]" "''c''" "''ns''" "[]"]
    by (metis system_unique_def)
qed

section \<open>A machine labelled as a bastion\<close>

lemma labelled_bastion_matches:
  assumes "om_Name (cl_meta (ms_Cluster ms)) = om_Name (sc_meta sc)"
    and "om_Namespace (cl_meta (ms_Cluster ms)) = om_Namespace (sc_meta sc)"
    and "scs_AdditionalLabels (sc_Spec sc) = []"
    and "map_of (sms_AdditionalLabels (sm_Spec sm)) LabelResourceRole = Some ResourceRoleBastion"
    and "mapContains t (machine_Tags ms sm)"
  shows "mapContains t (bastion_tags sc)"
proof (rule mapContains_trans)
  have "map_of (bastion_tags sc) k = Some v \<Longrightarrow> map_of (machine_Tags ms sm) k = Some v" for k v
    using assms by (auto simp: bastion_tags_def cluster_tags_of_def machine_Tags_def update_conv
        map_of_ClusterTags map_of_MachineTags label_defs split: if_splits)
  then show "mapContains (machine_Tags ms sm) (bastion_tags sc)"
    and "map_of (bastion_tags sc) k = Some v \<Longrightarrow> map_of (machine_Tags ms sm) k \<noteq> None" for k v
    using distinct_bastion by (auto simp: mapContains_iff bastion_tags_def cluster_tags_of_def lookup_or_def)
qed (use assms(5) distinct_MachineTags distinct_bastion in
  \<open>simp_all add: machine_Tags_def bastion_tags_def cluster_tags_of_def\<close>)


definition sample_labelled_machine :: StackitMachine where
  "sample_labelled_machine = sample_StackitMachine\<lparr>sm_Spec := (sm_Spec sample_StackitMachine)
     \<lparr>sms_AdditionalLabels := [(LabelResourceRole, ResourceRoleBastion)]\<rparr>\<rparr>"

definition sample_labelled_cloud :: fake where
  "sample_labelled_cloud = (fake_New [])\<lparr>nextID := 1, servers := [(''fake-1'', newServerEntry ''fake-1''
     (createServerInput sample_scope sample_labelled_machine ''net-1'' ''#cloud-config''))]\<rparr>"


end
