(* ===== verification/Cluster_Safety.thy ===== *)
theory Cluster_Safety
  imports Cluster_Controller Sample_API
begin

text \<open>
  What a pass of the cluster controller may do, whatever the cloud client and the Kubernetes client
  answer: the order of the finalizer and of cloud calls, that a network of the user is neither
  created nor deleted, that the target pool is never emptied, that deletion waits for the machines
  and goes through its steps in order, and that a paused cluster is left alone.
\<close>

section \<open>Traces of the phases\<close>

fun cluster_effect :: "bool \<Rightarrow> StackitCluster effect \<Rightarrow> bool" where
  \<comment> \<open>the effects of \<open>reconcileNormal\<close>, given whether the user brought a network\<close>
  "cluster_effect byo (Patch _ _) = False"
| "cluster_effect byo (Event _ _ _) = True"
| "cluster_effect byo (Cloud OpListAvailabilityZones) = True"
| "cluster_effect byo (Cloud (OpGetNetwork _)) = True"
| "cluster_effect byo (Cloud (OpCreateNetwork _)) = (\<not> byo)"
| "cluster_effect byo (Cloud (OpEnsureAPIServerLoadBalancer _)) = True"
| "cluster_effect byo (Cloud (OpSetAPIServerLoadBalancerTargets _ port ts)) =
     (port = defaultAPIServerPort \<and> ts \<noteq> [])"
| "cluster_effect byo (Cloud (OpEnsureBastion _)) = True"
| "cluster_effect byo (Cloud (OpDeleteBastion _ _)) = True"
| "cluster_effect byo (Cloud (OpDeleteNodeSSHAccess _)) = True"
| "cluster_effect byo (Cloud _) = False"

definition byo_network :: "StackitCluster \<Rightarrow> bool" where
  "byo_network sc \<longleftrightarrow> scs_NetworkID (sc_Spec sc) \<noteq> []"

lemmas bastion_defs =
  reconcileBastion_def reconcileBastionServer_def reconcileBastionState_def
  reconcileBastionDisabled_def cleanupBastion_def

lemma clusterCloudFailure_trace: "emits P (clusterCloudFailure r rs err b ts)"
  unfolding clusterCloudFailure_def by (intro emits_intros)

lemma reconcileClusterBastion_trace: "emits (cluster_effect byo) (reconcileClusterBastion r C)"
  unfolding reconcileClusterBastion_def bastion_defs
  by (intro emits_intros clusterCloudFailure_trace) simp_all

lemma reconcileEndpoint_trace: "emits (cluster_effect byo) (reconcileEndpoint r cl C net)"
  unfolding reconcileEndpoint_def reconcileLoadBalancer_def recordLoadBalancer_def
    publishEndpoint_def publishTargets_def
  by (intro emits_intros clusterCloudFailure_trace) simp_all

lemma ensureNetwork_trace:
  "wp (ensureNetwork r C) (\<lambda>_ s'. extends (cluster_effect (byo_network (obj s))) s s') s"
  unfolding ensureNetwork_def getUnmanagedNetwork_def ensureManagedNetwork_def
    createManagedNetwork_def clusterCloudFailure_def byo_network_def
  by (simp add: wp_simps Let_def split: prod.split sum.split)

lemma reconcileClusterNetwork_trace:
  "wp (reconcileClusterNetwork r cl C) (\<lambda>_ s'. extends (cluster_effect (byo_network (obj s))) s s') s"
  unfolding reconcileClusterNetwork_def
  by (rule wp_extends_bind [OF ensureNetwork_trace])
    (intro emits_intros reconcileEndpoint_trace reconcileClusterBastion_trace)

lemma reconcileClusterCredentials_trace:
  "wp (reconcileClusterCredentials r cl) (\<lambda>_ s'. extends (cluster_effect (byo_network (obj s))) s s') s"
proof -
  have net: "wp (reconcileClusterNetwork r cl C) (\<lambda>_ s'. extends (cluster_effect (byo_network (obj s))) s s') s1"
    if "scs_NetworkID (sc_Spec (obj s1)) = scs_NetworkID (sc_Spec (obj s))"
      "extends (cluster_effect (byo_network (obj s))) s s1" for C s1
    using that by (intro wp_mono [OF reconcileClusterNetwork_trace])
      (auto simp: byo_network_def intro: extends_trans)
  have fail: "wp (clusterCloudFailure r rs err b ts) (\<lambda>_ s'. extends (cluster_effect (byo_network (obj s))) s s') s1"
    if "extends (cluster_effect (byo_network (obj s))) s s1" for rs err b ts s1
    by (rule wp_mono [OF emits_extends [OF clusterCloudFailure_trace]]) (rule extends_trans [OF that])
  show ?thesis
    unfolding reconcileClusterCredentials_def reconcileClusterZones_def
    by (auto simp: wp_simps CredentialFailureResult_def cluster_scope_defs
        intro!: net fail split: prod.split sum.split)
qed

section \<open>The finalizer\<close>

definition cluster_finalized :: "lib \<Rightarrow> StackitCluster \<Rightarrow> bool" where
  "cluster_finalized L sc = ContainsFinalizer L (om_Finalizers (sc_meta sc)) ClusterFinalizer"

definition add_cluster_finalizer :: "lib \<Rightarrow> StackitCluster \<Rightarrow> StackitCluster" where
  "add_cluster_finalizer L sc =
     sc\<lparr>sc_meta := (sc_meta sc)\<lparr>om_Finalizers :=
       AddFinalizer L (om_Finalizers (sc_meta sc)) ClusterFinalizer\<rparr>\<rparr>"

lemma add_cluster_finalizer_sel [simp]:
  "sc_Spec (add_cluster_finalizer L sc) = sc_Spec sc"
  "sc_Status (add_cluster_finalizer L sc) = sc_Status sc"
  "byo_network (add_cluster_finalizer L sc) = byo_network sc"
  by (simp_all add: add_cluster_finalizer_def byo_network_def)

lemma finalized_add_cluster_finalizer:
  "k8s_lib L \<Longrightarrow> cluster_finalized L (add_cluster_finalizer L sc)"
  by (simp add: cluster_finalized_def add_cluster_finalizer_def k8s_lib.contains_add)

lemma wp_ensureClusterFinalizer:
  "wp (ensureClusterFinalizer r) Q s =
     (if cluster_finalized (r_lib r) (obj s) then Q (Inr ()) s
      else let sc = add_cluster_finalizer (r_lib r) (obj s) in
        case run_state (kube_PatchStackitCluster (r_Client r) sc) (kube s) of
          (Inl err, k') \<Rightarrow> Q (Inl (wrap_error ''persist finalizer'' err))
             (s\<lparr>obj := sc, kube := k', effects := effects s @ [Patch sc False]\<rparr>)
        | (Inr u, k') \<Rightarrow> Q (Inr ())
             (s\<lparr>obj := sc, kube := k', effects := effects s @ [Patch sc True]\<rparr>))"
  by (simp add: ensureClusterFinalizer_def wp_simps cluster_finalized_def Let_def
      add_cluster_finalizer_def split: prod.splits sum.splits)

definition cluster_normal_trace ::
  "lib \<Rightarrow> StackitCluster \<Rightarrow> StackitCluster effect list \<Rightarrow> bool" where
  "cluster_normal_trace L sc es \<longleftrightarrow>
     (if cluster_finalized L sc then list_all (cluster_effect (byo_network sc)) es
      else es = [Patch (add_cluster_finalizer L sc) False] \<or>
        (\<exists>es'. es = Patch (add_cluster_finalizer L sc) True # es' \<and>
               list_all (cluster_effect (byo_network sc)) es'))"

lemma cluster_reconcileNormal_trace:
  "wp (cluster_reconcileNormal r cl)
     (\<lambda>_ s'. \<exists>es. effects s' = effects s @ es \<and> cluster_normal_trace (r_lib r) (obj s) es) s"
proof -
  have creds: "wp (reconcileClusterCredentials r cl)
      (\<lambda>_ s'. \<exists>es. effects s' = effects s1 @ es \<and> list_all (cluster_effect (byo_network (obj s))) es) s1"
    if "byo_network (obj s1) = byo_network (obj s)" for s1 :: "('a, 'b, StackitCluster) rstate"
    using reconcileClusterCredentials_trace [of r cl s1] that by (simp add: extends_def)
  show ?thesis
    unfolding cluster_reconcileNormal_def wp_bind wp_ensureClusterFinalizer
    by (auto simp: wp_simps Let_def cluster_normal_trace_def creds
        intro!: wp_mono [OF creds] split: prod.splits sum.splits)
qed

section \<open>Deletion\<close>

fun delete_rank :: "cloud_op \<Rightarrow> nat option" where
  \<comment> \<open>the order of the cloud calls of \<open>reconcileDelete\<close>\<close>
  "delete_rank (OpListAPIServerLoadBalancersByTags _) = Some 0"
| "delete_rank (OpDeleteAPIServerLoadBalancer _) = Some 1"
| "delete_rank (OpDeleteNodeSSHAccess _) = Some 2"
| "delete_rank (OpDeleteBastion _ _) = Some 3"
| "delete_rank (OpFindNetworkByTags _) = Some 4"
| "delete_rank (OpDeleteNetwork _) = Some 5"
| "delete_rank _ = None"

fun effect_ranks :: "StackitCluster effect list \<Rightarrow> nat option list" where
  "effect_ranks [] = []"
| "effect_ranks (Cloud op # es) = delete_rank op # effect_ranks es"
| "effect_ranks (_ # es) = effect_ranks es"

lemma effect_ranks_append [simp]: "effect_ranks (es @ es') = effect_ranks es @ effect_ranks es'"
  by (induction es rule: effect_ranks.induct) auto

text \<open>The possible sequences of calls, as lists of ranks.\<close>

definition lb_ranks :: "nat option list list" where
  "lb_ranks = [[], [Some 0], [Some 1], [Some 0, Some 1]]"

definition network_ranks :: "nat option list list" where
  "network_ranks = [[], [Some 4], [Some 5], [Some 4, Some 5]]"

fun no_patch_no_delete_network :: "bool \<Rightarrow> StackitCluster effect \<Rightarrow> bool" where
  "no_patch_no_delete_network byo (Patch _ _) = False"
| "no_patch_no_delete_network byo (Cloud (OpDeleteNetwork _)) = (\<not> byo)"
| "no_patch_no_delete_network byo (Cloud op) = (\<not> creates op)"
| "no_patch_no_delete_network byo _ = True"

lemma deleteClusterLoadBalancer_trace:
  "wp (deleteClusterLoadBalancer C) (\<lambda>res s'. sc_Spec (obj s') = sc_Spec (obj s) \<and>
     sc_meta (obj s') = sc_meta (obj s) \<and>
     (\<exists>es. effects s' = effects s @ es \<and> effect_ranks es \<in> set lb_ranks \<and>
        list_all (no_patch_no_delete_network b) es)) s"
  unfolding deleteClusterLoadBalancer_def ResolveID_def
  by (auto simp: wp_simps lb_ranks_def split: prod.split sum.split list.split option.split)

lemma deleteClusterBastion_trace:
  "wp (deleteClusterBastion C) (\<lambda>res s'. sc_Spec (obj s') = sc_Spec (obj s) \<and>
     sc_meta (obj s') = sc_meta (obj s) \<and>
     (\<exists>es. effects s' = effects s @ es \<and> effect_ranks es \<in> {[Some 2], [Some 2, Some 3]} \<and>
        (res = Inr () \<longrightarrow> effect_ranks es = [Some 2, Some 3]) \<and>
        list_all (no_patch_no_delete_network b) es)) s"
  unfolding deleteClusterBastion_def
  by (auto simp: wp_simps Let_def ClearBastionStatus_def split: prod.split sum.split option.split)

lemma deleteClusterNetwork_trace:
  "wp (deleteClusterNetwork r C) (\<lambda>res s'.
     (\<exists>es. effects s' = effects s @ es \<and> effect_ranks es \<in> set network_ranks \<and>
        list_all (no_patch_no_delete_network (byo_network (obj s))) es)) s"
  unfolding deleteClusterNetwork_def ResolveManagedNetworkID_def removeClusterFinalizer_def
  by (auto simp: wp_simps network_ranks_def byo_network_def split: prod.split sum.split option.split)

definition delete_ranks :: "nat option list \<Rightarrow> bool" where
  \<comment> \<open>load balancer, then SSH access and bastion, then network; a failure ends the sequence\<close>
  "delete_ranks rs \<longleftrightarrow> (\<exists>l \<in> set lb_ranks. \<exists>m n. rs = l @ m @ n \<and>
     (m \<in> {[], [Some 2]} \<and> n = [] \<or> m = [Some 2, Some 3] \<and> n \<in> set network_ranks))"

definition cluster_delete_trace :: "bool \<Rightarrow> StackitCluster effect list \<Rightarrow> bool" where
  "cluster_delete_trace byo es \<longleftrightarrow>
     delete_ranks (effect_ranks es) \<and> list_all (no_patch_no_delete_network byo) es"

lemma delete_ranks_Nil [simp]: "delete_ranks []"
  by (simp add: delete_ranks_def lb_ranks_def)

lemma delete_ranks_lb: "l \<in> set lb_ranks \<Longrightarrow> delete_ranks l"
  unfolding delete_ranks_def by force

lemma delete_ranks_bastion:
  "l \<in> set lb_ranks \<Longrightarrow> m \<in> {[Some 2], [Some 2, Some 3]} \<Longrightarrow> delete_ranks (l @ m)"
  unfolding delete_ranks_def
  by (rule bexI [of _ l], rule exI [of _ m], rule exI [of _ "[]"]) (auto simp: network_ranks_def)

lemma delete_ranks_network:
  "l \<in> set lb_ranks \<Longrightarrow> n \<in> set network_ranks \<Longrightarrow> delete_ranks (l @ [Some 2, Some 3] @ n)"
  unfolding delete_ranks_def by blast

lemma delete_ranks_ordered:
  assumes "delete_ranks rs"
  shows "sorted_wrt (<) (map the rs) \<and> None \<notin> set rs \<and>
    (Some 5 \<in> set rs \<longrightarrow> {Some 2, Some 3} \<subseteq> set rs)"
proof -
  from assms obtain l m n where "rs = l @ m @ n" "l \<in> set lb_ranks"
    "m \<in> {[], [Some 2]} \<and> n = [] \<or> m = [Some 2, Some 3] \<and> n \<in> set network_ranks"
    by (auto simp: delete_ranks_def)
  then show ?thesis by (auto simp: lb_ranks_def network_ranks_def)
qed

lemma cleanupCluster_trace:
  fixes s :: "('c, 'k) cstate"
  shows "wp (cleanupCluster r C) (\<lambda>_ s'. \<exists>es. effects s' = effects s @ es \<and>
     cluster_delete_trace (byo_network (obj s)) es) s"
  unfolding cleanupCluster_def wp_bind
proof (rule wp_mono [OF deleteClusterLoadBalancer_trace [where b = "byo_network (obj s)"]])
  fix res :: "go_error + unit" and s1 :: "('c, 'k) cstate"
  let ?b = "byo_network (obj s)"
  assume "sc_Spec (obj s1) = sc_Spec (obj s) \<and> sc_meta (obj s1) = sc_meta (obj s) \<and>
     (\<exists>es. effects s1 = effects s @ es \<and> effect_ranks es \<in> set lb_ranks \<and>
        list_all (no_patch_no_delete_network ?b) es)"
  then obtain es1 where s1: "sc_Spec (obj s1) = sc_Spec (obj s)" "effects s1 = effects s @ es1"
    "effect_ranks es1 \<in> set lb_ranks" "list_all (no_patch_no_delete_network ?b) es1" by blast
  have "wp (deleteClusterBastion C) (\<lambda>res2. wp (case res2 of
       Inl err \<Rightarrow> ret (no_requeue, Some err) | Inr _ \<Rightarrow> deleteClusterNetwork r C)
     (\<lambda>_ s'. \<exists>es. effects s' = effects s @ es \<and> cluster_delete_trace ?b es)) s1"
  proof (rule wp_mono [OF deleteClusterBastion_trace [where b = ?b]], elim conjE exE)
    fix res2 :: "go_error + unit" and s2 :: "('c, 'k) cstate" and es2
    assume s2: "sc_Spec (obj s2) = sc_Spec (obj s1)" "effects s2 = effects s1 @ es2"
      "effect_ranks es2 \<in> {[Some 2], [Some 2, Some 3]}"
      "res2 = Inr () \<longrightarrow> effect_ranks es2 = [Some 2, Some 3]"
      "list_all (no_patch_no_delete_network ?b) es2"
    show "wp (case res2 of Inl err \<Rightarrow> ret (no_requeue, Some err) | Inr _ \<Rightarrow> deleteClusterNetwork r C)
        (\<lambda>_ s'. \<exists>es. effects s' = effects s @ es \<and> cluster_delete_trace ?b es) s2"
    proof (cases res2)
      case (Inl err)
      with s1 s2 delete_ranks_bastion [OF s1(3) s2(3)] show ?thesis
        by (simp add: wp_simps cluster_delete_trace_def)
    next
      case (Inr u)
      have "byo_network (obj s2) = ?b" using s1(1) s2(1) by (simp add: byo_network_def)
      with Inr s1 s2 show ?thesis
        by (auto simp: cluster_delete_trace_def dest!: delete_ranks_network [OF s1(3)]
            intro!: wp_mono [OF deleteClusterNetwork_trace])
    qed
  qed
  with s1 show "wp (case res of Inl err \<Rightarrow> ret (no_requeue, Some err)
     | Inr _ \<Rightarrow> deleteClusterBastion C \<bind> case_sum (\<lambda>err. ret (no_requeue, Some err))
         (\<lambda>_. deleteClusterNetwork r C))
     (\<lambda>_ s'. \<exists>es. effects s' = effects s @ es \<and> cluster_delete_trace ?b es) s1"
    by (auto simp: wp_simps cluster_delete_trace_def delete_ranks_lb split: sum.split)
qed

lemma cluster_reconcileDelete_trace:
  "wp (cluster_reconcileDelete r cl) (\<lambda>_ s'. \<exists>es. effects s' = effects s @ es \<and>
     cluster_delete_trace (byo_network (obj s)) es) s"
proof -
  have "wp (cleanupCluster r C) (\<lambda>_ s'. \<exists>es. effects s' = effects s @ es \<and>
     cluster_delete_trace (byo_network (obj s)) es) (s\<lparr>kube := k\<rparr>)" for C k
    using cleanupCluster_trace [of r C "s\<lparr>kube := k\<rparr>"] by simp
  then show ?thesis
    unfolding cluster_reconcileDelete_def
    by (auto simp: wp_simps cluster_delete_trace_def removeClusterFinalizer_def
        split: prod.split sum.split)
qed

section \<open>The whole pass\<close>

definition cluster_unpaused :: "lib \<Rightarrow> StackitCluster \<Rightarrow> StackitCluster" where
  "cluster_unpaused L sc = map_sc_Status (\<lambda>st. st\<lparr>scst_Conditions :=
     SetPausedCondition L (scst_Conditions st) (om_Generation (sc_meta sc)) False []\<rparr>) sc"

lemma cluster_unpaused_sel [simp]:
  "sc_meta (cluster_unpaused L sc) = sc_meta sc" "sc_Spec (cluster_unpaused L sc) = sc_Spec sc"
  "cluster_finalized L (cluster_unpaused L sc) = cluster_finalized L sc"
  "byo_network (cluster_unpaused L sc) = byo_network sc"
  by (simp_all add: cluster_unpaused_def cluster_finalized_def byo_network_def)

definition cluster_paused :: "lib \<Rightarrow> Cluster \<Rightarrow> StackitCluster \<Rightarrow> bool" where
  "cluster_paused L cl sc \<longleftrightarrow> fst (ReconciliationPaused L (Some cl) (sc_meta sc))"

definition cluster_pass_trace ::
  "lib \<Rightarrow> Cluster \<Rightarrow> StackitCluster \<Rightarrow> StackitCluster effect list \<Rightarrow> bool" where
  "cluster_pass_trace L cl sc es \<longleftrightarrow>
     (if cluster_paused L cl sc then es = []
      else if om_DeletionTimestamp (sc_meta sc) \<noteq> None
      then cluster_delete_trace (byo_network sc) es
      else cluster_normal_trace L (cluster_unpaused L sc) es)"

lemma wp_cluster_runPhases:
  "wp (cluster_runPhases r cl) Q s =
     (if cluster_paused (r_lib r) cl (obj s)
      then Q (no_requeue, None) (s\<lparr>obj := map_sc_Status (\<lambda>st. st\<lparr>scst_Conditions :=
             SetPausedCondition (r_lib r) (scst_Conditions st) (om_Generation (sc_meta (obj s))) True
               (snd (ReconciliationPaused (r_lib r) (Some cl) (sc_meta (obj s))))\<rparr>) (obj s)\<rparr>)
      else let s1 = s\<lparr>obj := cluster_unpaused (r_lib r) (obj s)\<rparr> in
        if om_DeletionTimestamp (sc_meta (obj s)) \<noteq> None
        then wp (cluster_reconcileDelete r cl) Q s1
        else wp (cluster_reconcileNormal r cl) Q s1)"
proof -
  have unpaused: "map_sc_Status (\<lambda>st. st\<lparr>scst_Conditions :=
       SetPausedCondition (r_lib r) (scst_Conditions st) (om_Generation (sc_meta sc)) False msg\<rparr>) sc
     = cluster_unpaused (r_lib r) sc" for sc msg
    by (simp add: cluster_unpaused_def SetPausedCondition_def)
  show ?thesis
    unfolding cluster_runPhases_def cluster_paused_def
    by (cases "ReconciliationPaused (r_lib r) (Some cl) (sc_meta (obj s))")
      (simp add: wp_simps Let_def unpaused)
qed

lemma cluster_runPhases_trace:
  "wp (cluster_runPhases r cl)
     (\<lambda>_ s'. \<exists>es. effects s' = effects s @ es \<and> cluster_pass_trace (r_lib r) cl (obj s) es) s"
  using cluster_reconcileDelete_trace [of r cl "s\<lparr>obj := cluster_unpaused (r_lib r) (obj s)\<rparr>"]
    cluster_reconcileNormal_trace [of r cl "s\<lparr>obj := cluster_unpaused (r_lib r) (obj s)\<rparr>"]
  unfolding wp_cluster_runPhases by (simp add: cluster_pass_trace_def Let_def)

lemma cluster_reconcileScope_trace:
  "wp (cluster_reconcileScope r cl)
     (\<lambda>_ s'. \<exists>es b. effects s' = effects s @ es @ [Patch (obj s') b] \<and>
        cluster_pass_trace (r_lib r) cl (obj s) es) s"
  unfolding cluster_reconcileScope_def wp_bind
  by (rule wp_mono [OF cluster_runPhases_trace]) (auto simp: wp_simps split: prod.splits sum.splits)

lemma cluster_Reconcile_cases:
  assumes "run_state (cluster_Reconcile r req) s = (out, s')"
  obtains (none) "effects s' = effects s"
  | (pass) sc cl k' where
      "fst (run_state (kube_GetStackitCluster (r_Client r) req) (kube s)) = Inr sc"
      "run_state (cluster_reconcileScope r cl) (s\<lparr>obj := sc, kube := k'\<rparr>) = (out, s')"
proof -
  let ?Q = "\<lambda>out s'. effects s' = effects s \<or> (\<exists>sc cl k'.
      fst (run_state (kube_GetStackitCluster (r_Client r) req) (kube s)) = Inr sc \<and>
      run_state (cluster_reconcileScope r cl) (s\<lparr>obj := sc, kube := k'\<rparr>) = (out, s'))"
  have "wp (cluster_Reconcile r req) ?Q s"
    unfolding cluster_Reconcile_def
    by (auto simp: wp_simps wp_def [of "cluster_reconcileScope r cl" for cl]
        split: prod.splits sum.splits option.splits)
  with assms show thesis using none pass by (auto simp: wp_run)
qed

lemma cluster_effect_not_patch: "cluster_effect byo e \<Longrightarrow> \<not> is_patch e"
  by (cases e) auto

lemma guarded_cluster_pass:
  assumes "k8s_lib L" and "cluster_pass_trace L cl sc es"
  shows "guarded (cluster_finalized L) (cluster_finalized L sc) es"
proof -
  have normal: "guarded fin True es'" if "list_all (cluster_effect byo) es'" for fin byo es'
    by (rule guarded_no_patch)
      (use that in \<open>auto simp: list_all_iff dest: cluster_effect_not_patch\<close>)
  have del: "guarded fin b es'" if "list_all (no_patch_no_delete_network byo) es'" for fin b byo es'
  proof (rule guarded_no_create)
    have "no_patch_no_delete_network byo e \<Longrightarrow> \<forall>op. e = Cloud op \<longrightarrow> \<not> creates op" for e
      by (cases "(byo, e)" rule: no_patch_no_delete_network.cases) auto
    with that show "list_all (\<lambda>e. \<forall>op. e = Cloud op \<longrightarrow> \<not> creates op) es'"
      by (rule list.pred_mono_strong)
  qed
  from assms finalized_add_cluster_finalizer [OF assms(1), of "cluster_unpaused L sc"]
  show ?thesis
    by (auto simp: cluster_pass_trace_def cluster_normal_trace_def cluster_delete_trace_def
        intro: normal del split: if_splits)
qed

text \<open>
  C8: no cloud resource without a finalizer. In every pass of the cluster controller, each cloud
  call that may create a network, a load balancer or a bastion happens while the cluster as stored
  by the API server carries the provider's finalizer.
\<close>

theorem cluster_finalizer_before_create:
  assumes "k8s_lib (r_lib r)"
    and "run_state (cluster_Reconcile r req) s = (out, s')" and "effects s = []"
    and "fst (run_state (kube_GetStackitCluster (r_Client r) req) (kube s)) = Inr sc"
  shows "guarded (cluster_finalized (r_lib r)) (cluster_finalized (r_lib r) sc) (effects s')"
  using assms(2)
proof (cases rule: cluster_Reconcile_cases)
  case none
  then show ?thesis using assms(3) by simp
next
  case (pass sc' cl k')
  then have "sc' = sc" using assms(4) by simp
  with pass(2) cluster_reconcileScope_trace [of r cl "s\<lparr>obj := sc, kube := k'\<rparr>"] assms(3)
  obtain es b where "effects s' = es @ [Patch (obj s') b]" "cluster_pass_trace (r_lib r) cl sc es"
    by (auto simp: wp_run)
  with guarded_cluster_pass [OF assms(1)] show ?thesis by simp
qed

theorem cluster_finalizer_before_create_witness:
  "guarded (cluster_finalized (std_lib 0)) False
     (effects (snd (run_state (cluster_Reconcile sample_Reconciler
        \<lparr>nn_Namespace = ''ns'', nn_Name = ''c''\<rparr>) (sample_state sample_StackitCluster))))"
proof -
  let ?req = "\<lparr>nn_Namespace = ''ns'', nn_Name = ''c''\<rparr>" and ?s = "sample_state sample_StackitCluster"
  have "fst (run_state (kube_GetStackitCluster sample_Kube ?req) (kube ?s)) = Inr sample_StackitCluster"
    by (simp add: sample_Kube_def sample_api_def sample_StackitCluster_def sample_meta_def named_def
        api_get_def)
  with cluster_finalizer_before_create [of sample_Reconciler ?req ?s, OF _ prod.collapse [symmetric]]
  have "guarded (cluster_finalized (std_lib 0)) (cluster_finalized (std_lib 0) sample_StackitCluster)
     (effects (snd (run_state (cluster_Reconcile sample_Reconciler ?req) ?s)))" by simp
  moreover have "cluster_finalized (std_lib 0) sample_StackitCluster = False" by code_simp
  ultimately show ?thesis by simp
qed

fun touches_network :: "'o effect \<Rightarrow> bool" where
  "touches_network (Cloud (OpCreateNetwork _)) = True"
| "touches_network (Cloud (OpDeleteNetwork _)) = True"
| "touches_network _ = False"

lemma cluster_pass_byo:
  assumes "cluster_pass_trace L cl sc es" and "byo_network sc"
  shows "\<not> list_ex touches_network es"
proof -
  have "cluster_effect True e \<Longrightarrow> \<not> touches_network e" for e
    by (cases e rule: touches_network.cases) auto
  moreover have "no_patch_no_delete_network True e \<Longrightarrow> \<not> touches_network e" for e
    by (cases e rule: touches_network.cases) auto
  ultimately show ?thesis
    using assms
    by (auto simp: cluster_pass_trace_def cluster_normal_trace_def cluster_delete_trace_def
        list_all_iff list_ex_iff split: if_splits)
qed

text \<open>
  C11: a network that the user brought is never created or deleted. If the spec of the cluster names
  a network, no pass of the cluster controller, normal or deleting, calls \<open>CreateNetwork\<close> or
  \<open>DeleteNetwork\<close>.
\<close>

theorem cluster_byo_network_untouched:
  assumes "run_state (cluster_reconcileScope r cl) s = (out, s')" and "effects s = []"
    and "scs_NetworkID (sc_Spec (obj s)) \<noteq> []"
  shows "\<not> list_ex touches_network (effects s')"
proof -
  from cluster_reconcileScope_trace [of r cl s] assms(1,2)
  obtain es b where "effects s' = es @ [Patch (obj s') b]" "cluster_pass_trace (r_lib r) cl (obj s) es"
    by (auto simp: wp_run)
  with cluster_pass_byo assms(3) show ?thesis by (fastforce simp: byo_network_def)
qed

definition sample_byo :: StackitCluster where
  "sample_byo = sample_StackitCluster\<lparr>sc_Spec := (sc_Spec sample_StackitCluster)
     \<lparr>scs_NetworkID := ''net-9''\<rparr>\<rparr>"

theorem cluster_byo_network_untouched_witness:
  "\<not> list_ex touches_network (effects (snd (run_state
      (cluster_reconcileScope sample_Reconciler sample_Cluster) (sample_state sample_byo))))"
  by (rule cluster_byo_network_untouched [OF prod.collapse [symmetric]])
    (simp_all add: sample_byo_def)



text \<open>
  C13: deletion waits for the machines. As long as the API server lists a machine of the cluster, a
  deleting pass calls nothing in the cloud, records nothing, leaves the object (and so its
  finalizer) as it is and comes back after five seconds.
\<close>

theorem cluster_delete_waits:
  assumes "run_state (kube_GetFilteredMachinesForCluster (r_Client r) cl []) (kube s) = (Inr ms, k')"
    and "ms \<noteq> []"
  shows "run_state (cluster_reconcileDelete r cl) s =
    ((requeue_after (5 * second), None), s\<lparr>kube := k'\<rparr>)"
  using assms by (simp add: cluster_reconcileDelete_def kubeCall_def deleteRequeueAfter_def)

definition busy_Kube :: "api Kube" where
  \<comment> \<open>the sample API server with one machine listed for every cluster\<close>
  "busy_Kube = sample_Kube\<lparr>kube_GetFilteredMachinesForCluster := (\<lambda>c fs. ok [sample_Machine])\<rparr>"

theorem cluster_delete_waits_witness:
  "run_state (cluster_reconcileDelete (sample_Reconciler\<lparr>r_Client := busy_Kube\<rparr>) sample_Cluster)
     (sample_state sample_StackitCluster) =
   ((requeue_after (5 * second), None), sample_state sample_StackitCluster)"
proof -
  have "run_state (kube_GetFilteredMachinesForCluster (r_Client (sample_Reconciler\<lparr>r_Client := busy_Kube\<rparr>))
      sample_Cluster []) (kube (sample_state sample_StackitCluster)) = (Inr [sample_Machine], sample_api)"
    by (simp add: busy_Kube_def)
  from cluster_delete_waits [OF this] show ?thesis by (simp add: sample_state_def)
qed

lemma cluster_pass_targets:
  assumes "cluster_pass_trace L cl sc es"
    and "Cloud (OpSetAPIServerLoadBalancerTargets i port ts) \<in> set es"
  shows "port = defaultAPIServerPort \<and> ts \<noteq> []"
proof -
  have "None \<in> set (effect_ranks es)"
    using assms(2) by (induction es rule: effect_ranks.induct) auto
  then have "\<not> delete_ranks (effect_ranks es)" using delete_ranks_ordered by blast
  with assms have "cluster_normal_trace L (cluster_unpaused L sc) es"
    by (auto simp: cluster_pass_trace_def cluster_delete_trace_def split: if_splits)
  with assms(2) have "cluster_effect (byo_network sc) (Cloud (OpSetAPIServerLoadBalancerTargets i port ts))"
    by (auto simp: cluster_normal_trace_def list_all_iff simp del: cluster_effect.simps
        split: if_splits)
  then show ?thesis by simp
qed

text \<open>
  C20: the target pool of the API server is never emptied. Every call that replaces the targets of
  the load balancer, in whatever pass, passes at least one target, and the port 6443; the pool keeps
  its members while the control plane machines of a cluster are being deleted.
\<close>

theorem cluster_targets_never_emptied:
  assumes "run_state (cluster_reconcileScope r cl) s = (out, s')" and "effects s = []"
    and "Cloud (OpSetAPIServerLoadBalancerTargets i port ts) \<in> set (effects s')"
  shows "port = 6443 \<and> ts \<noteq> []"
proof -
  from cluster_reconcileScope_trace [of r cl s] assms(1,2)
  obtain es b where "effects s' = es @ [Patch (obj s') b]" "cluster_pass_trace (r_lib r) cl (obj s) es"
    by (auto simp: wp_run)
  with cluster_pass_targets assms(3) show ?thesis by (fastforce simp: defaultAPIServerPort_def)
qed

definition sample_control_plane :: Machine where
  "sample_control_plane = sample_Machine\<lparr>mc_Addresses :=
     [\<lparr>ma_Type = ''InternalIP'', ma_Address = ''10.0.0.7''\<rparr>]\<rparr>"

definition control_plane_Reconciler :: "(fake, api) Reconciler" where
  "control_plane_Reconciler = sample_Reconciler\<lparr>r_Client := sample_Kube
     \<lparr>kube_GetFilteredMachinesForCluster := (\<lambda>c fs. ok [sample_control_plane])\<rparr>\<rparr>"

fun sets_targets :: "'o effect \<Rightarrow> (string \<times> int \<times> LoadBalancerTargetInput list) option" where
  "sets_targets (Cloud (OpSetAPIServerLoadBalancerTargets i port ts)) = Some (i, port, ts)"
| "sets_targets _ = None"

lemma sets_targets_mem:
  assumes "List.map_filter sets_targets es = [(i, port, ts)]"
  shows "Cloud (OpSetAPIServerLoadBalancerTargets i port ts) \<in> set es"
proof -
  from assms have "(i, port, ts) \<in> set (List.map_filter sets_targets es)" by simp
  then obtain e where "e \<in> set es" "sets_targets e = Some (i, port, ts)"
    by (auto simp: List.map_filter_def)
  then show ?thesis by (cases e rule: sets_targets.cases) auto
qed

definition sample_fresh_cluster :: StackitCluster where
  \<comment> \<open>the sample cluster before its first pass\<close>
  "sample_fresh_cluster = map_sc_Status (\<lambda>st. st\<lparr>scst_Ready := False, scst_Provisioned := False,
     scst_Network := empty_NetworkStatus\<rparr>) sample_StackitCluster"

theorem cluster_targets_never_emptied_witness:
  "Cloud (OpSetAPIServerLoadBalancerTargets ''fake-2'' 6443 [\<lparr>lti_Name = ''m'', lti_IP = ''10.0.0.7''\<rparr>])
     \<in> set (effects (snd (run_state (cluster_reconcileScope control_plane_Reconciler sample_Cluster)
             (sample_state sample_fresh_cluster)))) \<and>
   [\<lparr>lti_Name = ''m'', lti_IP = ''10.0.0.7''\<rparr>] \<noteq> []"
proof -
  let ?run = "run_state (cluster_reconcileScope control_plane_Reconciler sample_Cluster)
      (sample_state sample_fresh_cluster)"
  have "List.map_filter sets_targets (effects (snd ?run)) =
      [(''fake-2'', 6443, [\<lparr>lti_Name = ''m'', lti_IP = ''10.0.0.7''\<rparr>])]"
    by code_simp
  then have m: "Cloud (OpSetAPIServerLoadBalancerTargets ''fake-2'' 6443
      [\<lparr>lti_Name = ''m'', lti_IP = ''10.0.0.7''\<rparr>]) \<in> set (effects (snd ?run))"
    by (rule sets_targets_mem)
  from cluster_targets_never_emptied [OF prod.collapse [symmetric] _ m] m show ?thesis by simp
qed

end
