(* ===== verification/Cluster_Deletion.thy ===== *)
theory Cluster_Deletion
  imports System Cluster_Safety
begin

text \<open>
  Deleting a cluster on the in-memory cloud: when the finalizer goes, nothing that the cluster
  controller created for the cluster is left.
\<close>

section \<open>What is left of a cluster\<close>

definition cluster_gone :: "StackitCluster \<Rightarrow> fake \<Rightarrow> bool" where
  \<comment> \<open>no load balancer, bastion server, public IP, security group or managed network has the tags of the
    cluster; a network of the user is not the cluster's\<close>
  "cluster_gone sc c \<longleftrightarrow>
     tagged le_tags (loadBalancers c) (APIServerTags sc) = {} \<and>
     tagged se_tags (servers c) (bastion_tags sc) = {} \<and>
     tagged pe_tags (publicIPs c) (bastion_tags sc) = {} \<and>
     tagged sge_tags (securityGroups c) (bastion_tags sc) = {} \<and>
     tagged sge_tags (securityGroups c) (NodeSSHAccessTags sc) = {} \<and>
     (scs_NetworkID (sc_Spec sc) = [] \<longrightarrow> tagged ne_tags (networks c) (NetworkTags sc) = {})"

definition recorded_ids :: "StackitCluster \<Rightarrow> fake \<Rightarrow> bool" where
  \<comment> \<open>an ID in the status names the one resource of the cluster; no resource has an empty ID\<close>
  "recorded_ids sc c \<longleftrightarrow>
     [] \<notin> tagged le_tags (loadBalancers c) (APIServerTags sc) \<and>
     [] \<notin> tagged ne_tags (networks c) (NetworkTags sc) \<and>
     (scst_APIServerLoadBalancerID (sc_Status sc) \<noteq> [] \<longrightarrow>
        tagged le_tags (loadBalancers c) (APIServerTags sc) \<subseteq> {scst_APIServerLoadBalancerID (sc_Status sc)}) \<and>
     (nst_ID (scst_Network (sc_Status sc)) \<noteq> [] \<longrightarrow>
        tagged ne_tags (networks c) (NetworkTags sc) \<subseteq> {nst_ID (scst_Network (sc_Status sc))})"

definition honest_deletes :: "fake_failures \<Rightarrow> bool" where
  \<comment> \<open>an injected failure of a delete does not pretend that the resource is missing\<close>
  "honest_deletes f \<longleftrightarrow> honest (FailNextDeleteLB f) \<and> honest (FailNextDeleteNodeSSH f) \<and>
     honest (FailNextDeleteBastion f) \<and> honest (FailNextDeleteNetwork f)"

lemma tagged_filter_own:
  "tagged tf (filter (\<lambda>(i, e). \<not> mapContains (tf e) T) m) T = {}"
  "tagged tf (filter P (delete_nonempty i (filter (\<lambda>(i, e). \<not> mapContains (tf e) T) m))) T = {}"
  by (auto simp: tagged_def delete_nonempty_def AList.delete_eq dest!: map_of_SomeD)

lemma tagged_keys:
  assumes "distinct (map fst m)"
  shows "tagged tf m T = fst ` set (filter (\<lambda>(i, e). mapContains (tf e) T) m)"
  using assms by (force simp: tagged_def dest: map_of_SomeD)

lemma tagged_single:
  assumes "keyed idf m" and "map g (filter (\<lambda>(i, e). mapContains (tf e) T) m) = [x]"
    and "\<And>i e. idx (g (i, e)) = idf e"
  shows "tagged tf m T = {idx x}"
proof -
  from assms(2) obtain i e where f: "filter (\<lambda>(i, e). mapContains (tf e) T) m = [(i, e)]" "x = g (i, e)"
    by auto
  then have "(i, e) \<in> set (filter (\<lambda>(i, e). mapContains (tf e) T) m)" by simp
  then have "(i, e) \<in> set m" by simp
  with assms(1,3) f have "idx x = i" by (auto simp: keyed_def list_all_iff)
  with f assms(1) show ?thesis by (simp add: tagged_keys keyed_def)
qed

lemma tagged_none:
  "filter (\<lambda>(i, e). mapContains (tf e) T) m = [] \<Longrightarrow> tagged tf m T = {}"
  by (auto simp: tagged_def filter_empty_conv dest: map_of_SomeD)

lemma tagged_absent: "tagged tf m T \<subseteq> {i} - A \<Longrightarrow> map_of m i = None \<Longrightarrow> tagged tf m T = {}"
  by (auto simp: tagged_def)

section \<open>The steps\<close>

definition same_cluster :: "StackitCluster \<Rightarrow> StackitCluster \<Rightarrow> bool" where
  "same_cluster sc sc' \<longleftrightarrow> sc_meta sc' = sc_meta sc \<and> sc_Spec sc' = sc_Spec sc \<and>
     scst_Network (sc_Status sc') = scst_Network (sc_Status sc)"

lemma ResolveID_done:
  assumes "fake_wf (cloud s)" and "recorded_ids sc (cloud s)"
  shows "wp (ResolveID fake_Client sc) (\<lambda>res s'. cloud s' = cloud s \<and> obj s' = obj s \<and>
     (\<forall>i. res = Inr i \<longrightarrow> tagged le_tags (loadBalancers (cloud s)) (APIServerTags sc) \<subseteq> {i} - {[]})) s"
proof -
  let ?m = "loadBalancers (cloud s)" and ?T = "APIServerTags sc"
  have k: "keyed (\<lambda>e. lb_ID (le_lb e)) ?m" using assms(1) by (simp add: fake_wf_def)
  have "?T \<noteq> []" by (simp add: APIServerTags_def)
  with assms(2) tagged_none [of le_tags ?T ?m]
    tagged_single [OF k, of "\<lambda>(i, e). le_lb e" le_tags ?T _ lb_ID]
  show ?thesis
    unfolding ResolveID_def recorded_ids_def
    by (auto simp: wp_simps fake_ListAPIServerLoadBalancersByTags_def split: list.splits)
qed

lemma deleteClusterLoadBalancer_done:
  assumes "fake_wf (cloud s)" and "honest_deletes (failures (cloud s))" and "recorded_ids (obj s) (cloud s)"
  shows "wp (deleteClusterLoadBalancer fake_Client) (\<lambda>res s'. same_cluster (obj s) (obj s') \<and>
     servers (cloud s') = servers (cloud s) \<and> publicIPs (cloud s') = publicIPs (cloud s) \<and>
     securityGroups (cloud s') = securityGroups (cloud s) \<and> networks (cloud s') = networks (cloud s) \<and>
     honest_deletes (failures (cloud s')) \<and>
     (res = Inr () \<longrightarrow> tagged le_tags (loadBalancers (cloud s')) (APIServerTags (obj s)) = {})) s"
  unfolding deleteClusterLoadBalancer_def wp_bind wp_getObj
  by (rule wp_mono [OF ResolveID_done [OF assms(1,3)]])
    (use assms(2) in \<open>auto simp: wp_simps same_cluster_def fake_DeleteAPIServerLoadBalancer_def
      run_consume deletedOrGone_def honest_deletes_def tagged_delete split: sum.split option.splits\<close>)

lemma deleteClusterBastion_done:
  assumes "honest_deletes (failures (cloud s))"
  shows "wp (deleteClusterBastion fake_Client) (\<lambda>res s'. same_cluster (obj s) (obj s') \<and>
     loadBalancers (cloud s') = loadBalancers (cloud s) \<and> networks (cloud s') = networks (cloud s) \<and>
     honest_deletes (failures (cloud s')) \<and>
     (res = Inr () \<longrightarrow>
        tagged se_tags (servers (cloud s')) (bastion_tags (obj s)) = {} \<and>
        tagged pe_tags (publicIPs (cloud s')) (bastion_tags (obj s)) = {} \<and>
        tagged sge_tags (securityGroups (cloud s')) (bastion_tags (obj s)) = {} \<and>
        tagged sge_tags (securityGroups (cloud s')) (NodeSSHAccessTags (obj s)) = {})) s"
  unfolding deleteClusterBastion_def using assms
  by (auto simp: wp_simps same_cluster_def fake_DeleteNodeSSHAccess_def fake_DeleteBastion_def
      run_consume deletedOrGone_def honest_deletes_def tagged_filter_own ClearBastionStatus_def
      split: sum.split option.splits)

lemma ResolveManagedNetworkID_done:
  assumes "keyed (\<lambda>e. net_ID (ne_network e)) (networks (cloud s))" and "scs_NetworkID (sc_Spec sc) = []"
    and "[] \<notin> tagged ne_tags (networks (cloud s)) (NetworkTags sc)"
    and "nst_ID (scst_Network (sc_Status sc)) \<noteq> [] \<Longrightarrow>
      tagged ne_tags (networks (cloud s)) (NetworkTags sc) \<subseteq> {nst_ID (scst_Network (sc_Status sc))}"
  shows "wp (ResolveManagedNetworkID fake_Client sc) (\<lambda>res s'. cloud s' = cloud s \<and> obj s' = obj s \<and>
     (\<forall>i. res = Inr i \<longrightarrow> tagged ne_tags (networks (cloud s)) (NetworkTags sc) \<subseteq> {i} - {[]})) s"
proof -
  let ?m = "networks (cloud s)" and ?T = "NetworkTags sc"
  show ?thesis
    unfolding ResolveManagedNetworkID_def using assms(2-4) tagged_none [of ne_tags ?T ?m]
      tagged_single [OF assms(1), of "\<lambda>(i, e). ne_network e" ne_tags ?T _ net_ID]
    by (auto simp: wp_simps fake_FindNetworkByTags_def networksByTags_def IsNotFound_def split: list.splits)
qed

lemma deleteClusterNetwork_done:
  assumes "keyed (\<lambda>e. net_ID (ne_network e)) (networks (cloud s))"
    and "honest_deletes (failures (cloud s))"
    and "[] \<notin> tagged ne_tags (networks (cloud s)) (NetworkTags (obj s))"
    and "nst_ID (scst_Network (sc_Status (obj s))) \<noteq> [] \<Longrightarrow>
      tagged ne_tags (networks (cloud s)) (NetworkTags (obj s)) \<subseteq> {nst_ID (scst_Network (sc_Status (obj s)))}"
  shows "wp (deleteClusterNetwork r fake_Client) (\<lambda>_ s'.
     loadBalancers (cloud s') = loadBalancers (cloud s) \<and> servers (cloud s') = servers (cloud s) \<and>
     publicIPs (cloud s') = publicIPs (cloud s) \<and> securityGroups (cloud s') = securityGroups (cloud s) \<and>
     (sc_meta (obj s') = sc_meta (obj s) \<or>
      (scs_NetworkID (sc_Spec (obj s)) = [] \<longrightarrow>
         tagged ne_tags (networks (cloud s')) (NetworkTags (obj s)) = {}))) s"
proof (cases "scs_NetworkID (sc_Spec (obj s)) = []")
  case True
  show ?thesis
    unfolding deleteClusterNetwork_def wp_bind wp_getObj
    by (rule wp_mono [OF ResolveManagedNetworkID_done [OF assms(1) True assms(3,4)]])
      (use assms(2) in \<open>auto simp: wp_simps fake_DeleteNetwork_def run_consume deletedOrGone_def
        honest_deletes_def tagged_delete cluster_scope_defs removeClusterFinalizer_def
        dest!: tagged_absent split: sum.split option.splits\<close>)
next
  case False
  then show ?thesis
    by (simp add: deleteClusterNetwork_def ResolveManagedNetworkID_def wp_simps removeClusterFinalizer_def)
qed

lemma same_cluster_tags:
  assumes "same_cluster sc sc'"
  shows "NetworkTags sc' = NetworkTags sc" "bastion_tags sc' = bastion_tags sc"
    "NodeSSHAccessTags sc' = NodeSSHAccessTags sc"
  using assms by (simp_all add: same_cluster_def NetworkTags_def bastion_tags_def NodeSSHAccessTags_def
      cluster_tags_of_def)

lemma cleanupCluster_done:
  assumes "fake_wf (cloud s)" and "honest_deletes (failures (cloud s))" and "recorded_ids (obj s) (cloud s)"
  shows "wp (cleanupCluster r fake_Client)
     (\<lambda>_ s'. sc_meta (obj s') = sc_meta (obj s) \<or> cluster_gone (obj s) (cloud s')) s"
proof -
  let ?Q = "\<lambda>_ s'. sc_meta (obj s') = sc_meta (obj s) \<or> cluster_gone (obj s) (cloud s')"
  have net: "wp (deleteClusterNetwork r fake_Client) ?Q s2"
    if "same_cluster (obj s) (obj s2)" "honest_deletes (failures (cloud s2))"
      "networks (cloud s2) = networks (cloud s)"
      "tagged le_tags (loadBalancers (cloud s2)) (APIServerTags (obj s)) = {}"
      "tagged se_tags (servers (cloud s2)) (bastion_tags (obj s)) = {}"
      "tagged pe_tags (publicIPs (cloud s2)) (bastion_tags (obj s)) = {}"
      "tagged sge_tags (securityGroups (cloud s2)) (bastion_tags (obj s)) = {}"
      "tagged sge_tags (securityGroups (cloud s2)) (NodeSSHAccessTags (obj s)) = {}" for s2
    using that assms(1,3) same_cluster_tags [OF that(1)]
    by (intro wp_mono [OF deleteClusterNetwork_done])
      (auto simp: fake_wf_def recorded_ids_def same_cluster_def cluster_gone_def)
  have bastion: "wp (deleteClusterBastion fake_Client) (\<lambda>res. wp (case res of
        Inl err \<Rightarrow> State_Monad.return (no_requeue, Some err) | Inr _ \<Rightarrow> deleteClusterNetwork r fake_Client) ?Q) s1"
    if "same_cluster (obj s) (obj s1)" "honest_deletes (failures (cloud s1))"
      "networks (cloud s1) = networks (cloud s)"
      "tagged le_tags (loadBalancers (cloud s1)) (APIServerTags (obj s)) = {}" for s1
    using that same_cluster_tags [OF that(1)]
    by (intro wp_mono [OF deleteClusterBastion_done])
      (auto simp: wp_simps same_cluster_def intro!: net split: sum.split)
  show ?thesis
    unfolding cleanupCluster_def wp_bind
    by (rule wp_mono [OF deleteClusterLoadBalancer_done [OF assms]])
      (auto simp: wp_simps same_cluster_def intro!: bastion split: sum.split)
qed


definition sample_deleted_cluster :: StackitCluster where
  "sample_deleted_cluster = sample_StackitCluster
     \<lparr>sc_meta := (sample_meta ''c'')\<lparr>om_Finalizers := [ClusterFinalizer], om_DeletionTimestamp := Some 1\<rparr>,
      sc_Status := (sc_Status sample_StackitCluster)\<lparr>scst_Network := empty_NetworkStatus\<rparr>\<rparr>"

definition sample_cluster_deleting :: "(fake, api, StackitCluster) rstate" where
  "sample_cluster_deleting = (sample_state sample_deleted_cluster)
     \<lparr>cloud := snd (run_state (fake_CreateNetwork (network_Input sample_deleted_cluster)) (fake_New []))\<rparr>"

lemma tagged_keys_subset: "tagged tf m T \<subseteq> set (map fst m)"
  by (force simp: tagged_def dest: map_of_SomeD)


end
