(* ===== verification/Deletion_Progress.thy ===== *)
theory Deletion_Progress
  imports Cluster_Deletion
begin

text \<open>
  Deleting a cluster comes to an end: each pass over a cluster without machines removes the finalizer
  or uses up one of the injected failures of the in-memory cloud.
\<close>

section \<open>Passes that use up obstacles\<close>

text \<open>
  A pass that either finishes or leaves fewer obstacles, as long as an invariant holds, finishes
  after at most one pass more than there are obstacles.
\<close>

locale draining =
  fixes pass :: "'s \<Rightarrow> 's"
    and inv :: "'s \<Rightarrow> bool"
    and finished :: "'s \<Rightarrow> bool"
    and obstacles :: "'s \<Rightarrow> nat"
  assumes drain: "inv s \<Longrightarrow> finished (pass s) \<or> inv (pass s) \<and> obstacles (pass s) < obstacles s"
begin

lemma finishes_with:
  assumes "\<And>s. inv s \<Longrightarrow> J s \<Longrightarrow> J (pass s)" and "inv s" and "J s"
  shows "\<exists>n \<le> Suc (obstacles s). finished ((pass ^^ n) s) \<and> J ((pass ^^ n) s)"
  using assms(2,3)
proof (induction "obstacles s" arbitrary: s rule: less_induct)
  case less
  show ?case
  proof (cases "finished (pass s)")
    case True
    with less.prems assms(1) show ?thesis by (intro exI [of _ 1]) simp
  next
    case False
    with drain [OF less.prems(1)] have step: "inv (pass s)" "obstacles (pass s) < obstacles s" by auto
    from less.hyps [OF step(2,1) assms(1) [OF less.prems]] obtain n where
      "n \<le> Suc (obstacles (pass s))" "finished ((pass ^^ n) (pass s))" "J ((pass ^^ n) (pass s))" by blast
    with step(2) show ?thesis
      by (intro exI [of _ "Suc n"]) (simp add: funpow_Suc_right del: funpow.simps)
  qed
qed

lemma finishes: "inv s \<Longrightarrow> \<exists>n \<le> Suc (obstacles s). finished ((pass ^^ n) s)"
  using finishes_with [of "\<lambda>_. True"] by blast

end

section \<open>The measure\<close>

definition armed :: "go_error option \<Rightarrow> nat" where
  "armed f = (case f of None \<Rightarrow> 0 | Some _ \<Rightarrow> 1)"

lemma armed_simps [simp]: "armed None = 0" "armed (Some err) = 1"
  by (simp_all add: armed_def)

definition pending :: "fake \<Rightarrow> nat" where
  \<comment> \<open>the failures of deletes that are still to come\<close>
  "pending c = armed (FailNextDeleteLB (failures c)) + armed (FailNextDeleteNodeSSH (failures c)) +
     armed (FailNextDeleteBastion (failures c)) + armed (FailNextDeleteNetwork (failures c))"

definition advances :: "(fake, 'k) cstate \<Rightarrow> go_error + 'a \<Rightarrow> (fake, 'k) cstate \<Rightarrow> bool" where
  \<comment> \<open>the step succeeds, or a pending failure is gone\<close>
  "advances s res s' \<longleftrightarrow> kube s' = kube s \<and> sc_meta (obj s') = sc_meta (obj s) \<and> sc_Spec (obj s') = sc_Spec (obj s) \<and>
     pending (cloud s') \<le> pending (cloud s) \<and>
     (\<forall>err. res = Inl err \<longrightarrow> pending (cloud s') < pending (cloud s))"

definition settled :: "lib \<Rightarrow> (fake, 'k) cstate \<Rightarrow> (fake, 'k) cstate \<Rightarrow> bool" where
  \<comment> \<open>the pass has removed the finalizer, or used up a failure and left metadata and spec alone\<close>
  "settled L s s' \<longleftrightarrow> \<not> cluster_finalized L (obj s') \<or>
     sc_meta (obj s') = sc_meta (obj s) \<and> sc_Spec (obj s') = sc_Spec (obj s) \<and>
     pending (cloud s') < pending (cloud s)"

lemma tagged_at_most_one:
  assumes "distinct (map fst m)" and "at_most_one (tagged tf m T)"
  obtains "filter (\<lambda>(i, e). mapContains (tf e) T) m = []"
    | i e where "filter (\<lambda>(i, e). mapContains (tf e) T) m = [(i, e)]"
proof -
  let ?f = "filter (\<lambda>(i, e). mapContains (tf e) T) m"
  have "distinct (map fst ?f)" using assms(1) by (rule distinct_map_filter)
  moreover have "at_most_one (fst ` set ?f)" using assms by (simp add: tagged_keys)
  ultimately show ?thesis using that
    by (cases ?f rule: remdups_adj.cases) (auto simp: at_most_one_def)
qed

lemma ResolveID_found:
  assumes "distinct (map fst (loadBalancers (cloud s)))"
    and "at_most_one (tagged le_tags (loadBalancers (cloud s)) (APIServerTags sc))"
  shows "wp (ResolveID fake_Client sc) (\<lambda>res s'. cloud s' = cloud s \<and> kube s' = kube s \<and>
     obj s' = obj s \<and> \<not> isl res) s"
  by (rule tagged_at_most_one [OF assms])
    (simp_all add: ResolveID_def wp_simps fake_ListAPIServerLoadBalancersByTags_def APIServerTags_def)

lemma deleteClusterLoadBalancer_advances:
  assumes "distinct (map fst (loadBalancers (cloud s)))"
    and "at_most_one (tagged le_tags (loadBalancers (cloud s)) (APIServerTags (obj s)))"
  shows "wp (deleteClusterLoadBalancer fake_Client) (\<lambda>res s'. advances s res s' \<and>
     networks (cloud s') = networks (cloud s)) s"
  unfolding deleteClusterLoadBalancer_def wp_bind wp_getObj
  by (rule wp_mono [OF ResolveID_found [OF assms]], cases "FailNextDeleteLB (failures (cloud s))")
    (auto simp: wp_simps fake_DeleteAPIServerLoadBalancer_def run_consume deletedOrGone_def
      advances_def pending_def split: sum.split)

lemma deleteClusterBastion_advances:
  "wp (deleteClusterBastion fake_Client) (\<lambda>res s'. advances s res s' \<and> networks (cloud s') = networks (cloud s)) s"
  by (cases "FailNextDeleteNodeSSH (failures (cloud s))"; cases "FailNextDeleteBastion (failures (cloud s))")
    (simp_all add: deleteClusterBastion_def wp_simps fake_DeleteNodeSSHAccess_def fake_DeleteBastion_def Let_def
      run_consume deletedOrGone_def advances_def pending_def ClearBastionStatus_def)

lemma ResolveManagedNetworkID_found:
  assumes "distinct (map fst (networks (cloud s)))"
    and "at_most_one (tagged ne_tags (networks (cloud s)) (NetworkTags sc))"
  shows "wp (ResolveManagedNetworkID fake_Client sc) (\<lambda>res s'. cloud s' = cloud s \<and> kube s' = kube s \<and>
     obj s' = obj s \<and> \<not> isl res) s"
  by (rule tagged_at_most_one [OF assms])
    (simp_all add: ResolveManagedNetworkID_def wp_simps fake_FindNetworkByTags_def networksByTags_def IsNotFound_def)

lemma deleteClusterNetwork_settled:
  assumes "k8s_lib (r_lib r)" and "distinct (map fst (networks (cloud s)))"
    and "at_most_one (tagged ne_tags (networks (cloud s)) (NetworkTags (obj s)))"
  shows "wp (deleteClusterNetwork r fake_Client) (\<lambda>_ s'. kube s' = kube s \<and> settled (r_lib r) s s') s"
proof -
  have fin: "\<not> cluster_finalized (r_lib r) (sc\<lparr>sc_meta := (sc_meta sc')\<lparr>om_Finalizers :=
       RemoveFinalizer (r_lib r) fs ClusterFinalizer\<rparr>\<rparr>)" for sc sc' fs
    by (simp add: cluster_finalized_def k8s_lib.contains_remove [OF assms(1)])
  show ?thesis
    unfolding deleteClusterNetwork_def wp_bind wp_getObj
    by (rule wp_mono [OF ResolveManagedNetworkID_found [OF assms(2,3)]],
        cases "FailNextDeleteNetwork (failures (cloud s))")
      (auto simp: wp_simps fake_DeleteNetwork_def run_consume deletedOrGone_def settled_def pending_def fin
        cluster_SetConditions_def removeClusterFinalizer_def IsNotFound_def split: sum.split option.split)
qed

section \<open>A pass\<close>

lemma advances_trans: "advances s (Inr u) s1 \<Longrightarrow> advances s1 res s2 \<Longrightarrow> advances s res s2"
  by (auto simp: advances_def)

lemma advances_settled:
  "advances s res s' \<Longrightarrow> kube s' = kube s" "advances s res s' \<Longrightarrow> isl res \<Longrightarrow> settled L s s'"
  by (auto simp: advances_def settled_def isl_def)

lemma cleanupCluster_settled:
  assumes "k8s_lib (r_lib r)" and "system_unique (cluster_tags_of (obj s)) S (cloud s)"
  shows "wp (cleanupCluster r fake_Client) (\<lambda>_ s'. kube s' = kube s \<and> settled (r_lib r) s s') s"
proof -
  have u: "distinct (map fst (loadBalancers (cloud s)))" "distinct (map fst (networks (cloud s)))"
      "at_most_one (tagged le_tags (loadBalancers (cloud s)) (APIServerTags (obj s)))"
      "at_most_one (tagged ne_tags (networks (cloud s)) (NetworkTags (obj s)))"
    using assms(2) by (auto simp: system_unique_def fake_wf_def keyed_def APIServerTags_def NetworkTags_def)
  have net: "wp (deleteClusterNetwork r fake_Client) (\<lambda>_ s'. kube s' = kube s \<and> settled (r_lib r) s s') s2"
    if "advances s (Inr ()) s2" "networks (cloud s2) = networks (cloud s)" for s2
  proof -
    have "NetworkTags (obj s2) = NetworkTags (obj s)"
      using that by (simp add: advances_def NetworkTags_def cluster_tags_of_def)
    with that u show ?thesis
      by (intro wp_mono [OF deleteClusterNetwork_settled [OF assms(1)]])
        (auto simp: settled_def advances_def)
  qed
  have bastion: "wp (deleteClusterBastion fake_Client) (\<lambda>res. wp (case res of
        Inl err \<Rightarrow> State_Monad.return (no_requeue, Some err) | Inr _ \<Rightarrow> deleteClusterNetwork r fake_Client)
        (\<lambda>_ s'. kube s' = kube s \<and> settled (r_lib r) s s')) s1"
    if "advances s (Inr ()) s1" "networks (cloud s1) = networks (cloud s)" for s1
    by (rule wp_mono [OF deleteClusterBastion_advances])
      (use that(2) in \<open>auto simp: wp_simps dest!: advances_trans [OF that(1)]
        intro: net advances_settled split: sum.split\<close>)
  show ?thesis
    unfolding cleanupCluster_def wp_bind
    by (rule wp_mono [OF deleteClusterLoadBalancer_advances [OF u(1,3)]])
      (auto simp: wp_simps intro: bastion advances_settled split: sum.split)
qed

definition api_answers ::
  "('k \<Rightarrow> bool) \<Rightarrow> ('c, 'k) Reconciler \<Rightarrow> Cluster \<Rightarrow> StackitCluster \<Rightarrow> bool" where
  \<comment> \<open>in the states \<open>A\<close> of the API server, which the two reads do not leave, no machine is listed and
    the credentials are there\<close>
  "api_answers A r cl sc \<longleftrightarrow>
     (\<forall>k res k'. A k \<longrightarrow> run_state (kube_GetFilteredMachinesForCluster (r_Client r) cl []) k = (res, k') \<longrightarrow>
        res = Inr [] \<and> A k') \<and>
     (\<forall>k sc' res k'. A k \<longrightarrow> sc_meta sc' = sc_meta sc \<longrightarrow> sc_Spec sc' = sc_Spec sc \<longrightarrow>
        run_state (BuildCloudClient (r_Client r) (r_CloudClientFactory r) sc') k = (res, k') \<longrightarrow>
        \<not> isl res \<and> A k')"

lemma cluster_reconcileDelete_settled:
  assumes "k8s_lib (r_lib r)" and "uses_client (r_CloudClientFactory r) fake_Client"
    and "api_answers A r cl (obj s)" and "A (kube s)"
    and "system_unique (cluster_tags_of (obj s)) S (cloud s)"
  shows "wp (cluster_reconcileDelete r cl) (\<lambda>_ s'. A (kube s') \<and> settled (r_lib r) s s') s"
proof -
  obtain res k1 where m: "run_state (kube_GetFilteredMachinesForCluster (r_Client r) cl []) (kube s) = (res, k1)"
    by fastforce
  with assms(3,4) have k1: "res = Inr []" "A k1" unfolding api_answers_def by blast+
  obtain b k2 where b: "run_state (BuildCloudClient (r_Client r) (r_CloudClientFactory r) (obj s)) k1 = (b, k2)"
    by fastforce
  with assms(3) k1(2) have "\<not> isl b" "A k2" unfolding api_answers_def by blast+
  with b BuildCloudClient_uses [OF assms(2)] have k2: "b = Inr fake_Client" by (cases b) auto
  have "wp (cleanupCluster r fake_Client) (\<lambda>_ s'. A (kube s') \<and> settled (r_lib r) s s') (s\<lparr>kube := k2\<rparr>)"
    by (rule wp_mono [OF cleanupCluster_settled [OF assms(1)]])
      (use assms(5) \<open>A k2\<close> in \<open>auto simp: settled_def\<close>)
  with m k1(1) b k2 show ?thesis by (simp add: cluster_reconcileDelete_def wp_simps)
qed

section \<open>Termination\<close>

definition delete_pass :: "('c, 'k) Reconciler \<Rightarrow> Cluster \<Rightarrow> ('c, 'k) cstate \<Rightarrow> ('c, 'k) cstate" where
  "delete_pass r cl s = snd (run_state (cluster_reconcileDelete r cl) s)"

definition deletable :: "('k \<Rightarrow> bool) \<Rightarrow> (fake, 'k) Reconciler \<Rightarrow> Cluster \<Rightarrow> (fake, 'k) cstate \<Rightarrow> bool" where
  \<comment> \<open>the last machine is gone, the credentials are there, and the cloud has no duplicates\<close>
  "deletable A r cl s \<longleftrightarrow> k8s_lib (r_lib r) \<and> uses_client (r_CloudClientFactory r) fake_Client \<and>
     api_answers A r cl (obj s) \<and> A (kube s) \<and>
     system_unique (cluster_tags_of (obj s)) (bastion_tags (obj s)) (cloud s)"

lemma delete_pass_unique:
  assumes "deletable A r cl s"
  shows "system_unique (cluster_tags_of (obj s)) (bastion_tags (obj s)) (cloud (delete_pass r cl s))"
proof -
  let ?T = "cluster_tags_of (obj s)" and ?B = "bastion_tags (obj s)"
  have run: "run_state (cluster_reconcileDelete r cl) s =
      (fst (run_state (cluster_reconcileDelete r cl) s), delete_pass r cl s)" by (simp add: delete_pass_def)
  have "cluster_known ?T ?B (obj s)" by (simp add: cluster_known_def own_or_other_def)
  with assms frameD [OF cluster_unique.cluster_reconcileDelete_frame run] show ?thesis
    unfolding deletable_def by blast
qed

interpretation cluster_draining: draining "delete_pass r cl" "deletable A r cl"
  "\<lambda>s. \<not> cluster_finalized (r_lib r) (obj s)" "\<lambda>s. pending (cloud s)" for A r cl
proof
  fix s assume s: "deletable A r cl s"
  let ?s = "delete_pass r cl s"
  have "run_state (cluster_reconcileDelete r cl) s =
      (fst (run_state (cluster_reconcileDelete r cl) s), ?s)" by (simp add: delete_pass_def)
  with s cluster_reconcileDelete_settled [of r A cl s "bastion_tags (obj s)"]
  have A: "A (kube ?s)" and "settled (r_lib r) s ?s"
    by (simp_all add: deletable_def wp_run)
  then consider "\<not> cluster_finalized (r_lib r) (obj ?s)"
    | (less) "sc_meta (obj ?s) = sc_meta (obj s)" "sc_Spec (obj ?s) = sc_Spec (obj s)"
        "pending (cloud ?s) < pending (cloud s)"
    unfolding settled_def by blast
  then show "\<not> cluster_finalized (r_lib r) (obj ?s) \<or>
      deletable A r cl ?s \<and> pending (cloud ?s) < pending (cloud s)"
  proof cases
    case less
    then have "cluster_tags_of (obj ?s) = cluster_tags_of (obj s)" "bastion_tags (obj ?s) = bastion_tags (obj s)"
      by (simp_all add: cluster_tags_of_def bastion_tags_def)
    moreover have "api_answers A r cl (obj ?s)"
      using s unfolding deletable_def api_answers_def less(1,2) by blast
    ultimately show ?thesis using s A less(3) delete_pass_unique [OF s] by (simp add: deletable_def)
  qed simp
qed

lemma BuildCloudClient_cong:
  "sc_meta sc' = sc_meta sc \<Longrightarrow> sc_Spec sc' = sc_Spec sc \<Longrightarrow>
   BuildCloudClient K f sc' = BuildCloudClient K f sc"
  by (cases f) (simp_all add: BuildCloudClient_def CredentialsSecretKey_def Let_def)


end
