(* ===== verification/Cluster_Ready.thy ===== *)
theory Cluster_Ready
  imports Cluster_Safety Machine_Ready "HOL-Library.Multiset"
begin

text \<open>
  What the status of a cluster says after a pass: when the condition \<open>Ready\<close> is true; the
  published failure domains; the placeholder target of a load balancer; and the life cycle of the
  bastion.
\<close>

section \<open>Conditions\<close>

definition cluster_true :: "lib \<Rightarrow> StackitCluster \<Rightarrow> string \<Rightarrow> bool" where
  "cluster_true L sc t = IsStatusConditionTrue L (scst_Conditions (sc_Status sc)) t"

lemma cluster_SetConditions_sel [simp]:
  "sc_Spec (cluster_SetConditions L st rs msg ts sc) = sc_Spec sc"
  "sc_meta (cluster_SetConditions L st rs msg ts sc) = sc_meta sc"
  "scst_Network (sc_Status (cluster_SetConditions L st rs msg ts sc)) = scst_Network (sc_Status sc)"
  "scst_Ready (sc_Status (cluster_SetConditions L st rs msg ts sc)) = scst_Ready (sc_Status sc)"
  "scst_Provisioned (sc_Status (cluster_SetConditions L st rs msg ts sc)) = scst_Provisioned (sc_Status sc)"
  "scst_APIServerEndpoint (sc_Status (cluster_SetConditions L st rs msg ts sc)) =
     scst_APIServerEndpoint (sc_Status sc)"
  "scst_Bastion (sc_Status (cluster_SetConditions L st rs msg ts sc)) = scst_Bastion (sc_Status sc)"
  "scst_FailureDomains (sc_Status (cluster_SetConditions L st rs msg ts sc)) =
     scst_FailureDomains (sc_Status sc)"
  by (simp_all add: cluster_SetConditions_def)

lemma cluster_true_SetConditions:
  assumes "k8s_lib L"
  shows "cluster_true L (cluster_SetConditions L st rs msg ts sc) t \<longleftrightarrow>
     (if t \<in> set ts then st = ConditionTrue else cluster_true L sc t)"
  by (simp add: cluster_true_def cluster_SetConditions_def k8s_lib.is_true_SetConditions [OF assms])

lemma cluster_true_map_status [simp]:
  "cluster_true L (map_sc_Status (\<lambda>st. st\<lparr>scst_Ready := b st\<rparr>) sc) t = cluster_true L sc t"
  "cluster_true L (map_sc_Status (\<lambda>st. st\<lparr>scst_Ready := b st, scst_Provisioned := p st\<rparr>) sc) t =
     cluster_true L sc t"
  "cluster_true L (map_sc_Status (\<lambda>st. st\<lparr>scst_Network := n st\<rparr>) sc) t = cluster_true L sc t"
  "cluster_true L (map_sc_Status (\<lambda>st. st\<lparr>scst_APIServerEndpoint := e st\<rparr>) sc) t = cluster_true L sc t"
  "cluster_true L (map_sc_Status (\<lambda>st. st\<lparr>scst_APIServerLoadBalancerID := i st\<rparr>) sc) t = cluster_true L sc t"
  "cluster_true L (map_sc_Status (\<lambda>st. st\<lparr>scst_Bastion := bs st\<rparr>) sc) t = cluster_true L sc t"
  "cluster_true L (map_sc_Status (\<lambda>st. st\<lparr>scst_FailureDomains := fs st\<rparr>) sc) t = cluster_true L sc t"
  "cluster_true L (sc\<lparr>sc_Spec := sp\<rparr>) t = cluster_true L sc t"
  by (simp_all add: cluster_true_def)

lemma clusterCloudFailure_not_true:
  assumes "k8s_lib (r_lib r)" and "t \<in> set ts"
  shows "wp (clusterCloudFailure r rs err b ts) (\<lambda>out s'. \<not> cluster_true (r_lib r) (obj s') t) s"
  using assms(2)
  by (simp add: clusterCloudFailure_def CloudFailureResult_def wp_simps cluster_true_def
      set_cluster_conditions_def set_cluster_Ready_def k8s_lib.is_true_SetConditions [OF assms(1)])

section \<open>Ready\<close>

definition base_ok :: "lib \<Rightarrow> StackitCluster \<Rightarrow> bool" where
  "base_ok L sc \<longleftrightarrow> cluster_true L sc ClusterCredentialsReadyCondition \<and>
     cluster_true L sc ClusterNetworkReadyCondition \<and> scst_FailureDomains (sc_Status sc) \<noteq> []"

definition endpoint_ok :: "lib \<Rightarrow> StackitCluster \<Rightarrow> bool" where
  "endpoint_ok L sc \<longleftrightarrow> base_ok L sc \<and> cluster_true L sc ClusterLoadBalancerReadyCondition \<and>
     scst_APIServerEndpoint (sc_Status sc) = scs_ControlPlaneEndpoint (sc_Spec sc) \<and>
     ep_Host (scst_APIServerEndpoint (sc_Status sc)) \<noteq> []"

definition bastion_ok :: "lib \<Rightarrow> StackitCluster \<Rightarrow> bool" where
  "bastion_ok L sc \<longleftrightarrow> endpoint_ok L sc \<and> cluster_true L sc ClusterBastionReadyCondition \<and>
     (bs_Enabled (scs_Bastion (sc_Spec sc)) \<longrightarrow> bst_PublicIP (scst_Bastion (sc_Status sc)) \<noteq> [])"

definition cluster_ready_ok :: "lib \<Rightarrow> StackitCluster \<Rightarrow> bool" where
  "cluster_ready_ok L sc \<longleftrightarrow>
     bastion_ok L sc \<and> scst_Ready (sc_Status sc) \<and> scst_Provisioned (sc_Status sc)"

definition sound_return :: "lib \<Rightarrow> outcome \<Rightarrow> ('c, 'k) cstate \<Rightarrow> bool" where
  "sound_return L out s' \<longleftrightarrow>
     (out = (no_requeue, None) \<and> cluster_true L (obj s') ClusterReadyCondition \<longrightarrow>
        cluster_ready_ok L (obj s'))"

definition sound_phase :: "(StackitCluster \<Rightarrow> bool) \<Rightarrow> lib \<Rightarrow> outcome + 'a \<Rightarrow> ('c, 'k) cstate \<Rightarrow> bool" where
  "sound_phase P L res s' \<longleftrightarrow>
     (case res of Inl out \<Rightarrow> sound_return L out s' | Inr _ \<Rightarrow> P (obj s'))"

lemma not_ready_sound:
  "\<not> cluster_true L (obj s') ClusterReadyCondition \<Longrightarrow> sound_return L out s'"
  by (simp add: sound_return_def)

lemma requeue_sound: "out \<noteq> (no_requeue, None) \<Longrightarrow> sound_return L out s'"
  by (simp add: sound_return_def)

lemma requeue_after_neq: "d \<noteq> 0 \<Longrightarrow> requeue_after d \<noteq> no_requeue"
  by (simp add: requeue_after_def no_requeue_def)

lemma clusterCloudFailure_sound:
  assumes "k8s_lib (r_lib r)" and "ClusterReadyCondition \<in> set ts"
  shows "wp (clusterCloudFailure r rs err b ts) (sound_return (r_lib r)) s"
  by (rule wp_mono [OF clusterCloudFailure_not_true [OF assms]]) (rule not_ready_sound)

lemma publishEndpoint_sound:
  assumes "k8s_lib (r_lib r)" and "base_ok (r_lib r) (obj s)" and "lb_IP lb \<noteq> []"
  shows "wp (publishEndpoint r C targets lb) (sound_phase (endpoint_ok (r_lib r)) (r_lib r)) s"
  using assms(2,3)
  unfolding publishEndpoint_def publishTargets_def
  by (auto simp: wp_simps sound_phase_def endpoint_ok_def base_ok_def SetAPIServerEndpoint_def
      cluster_true_SetConditions [OF assms(1)] condition_names cluster_true_def [symmetric]
      requeue_after_neq retryableErrorRequeueAfter_def second_def
      intro!: requeue_sound split: prod.split sum.split)

lemma cluster_true_SetNotReady:
  assumes "k8s_lib L"
  shows "cluster_true L (cluster_SetNotReady L rs msg ts sc) t \<longleftrightarrow> t \<notin> set ts \<and> cluster_true L sc t"
  by (simp add: cluster_SetNotReady_def cluster_true_SetConditions [OF assms])

lemma wp_recordLoadBalancer_keeps:
  assumes "base_ok L (obj s)"
  shows "wp (recordLoadBalancer lb) (\<lambda>_ s'. base_ok L (obj s')) s"
  using assms by (auto simp: recordLoadBalancer_def wp_simps Let_def base_ok_def split: option.split)

lemma reconcileLoadBalancer_sound:
  assumes "k8s_lib (r_lib r)" and "base_ok (r_lib r) (obj s)"
  shows "wp (reconcileLoadBalancer r cl C net) (sound_phase (endpoint_ok (r_lib r)) (r_lib r)) s"
proof -
  have lb: "wp (recordLoadBalancer lb) (\<lambda>u. wp (case lb of
       Some l \<Rightarrow> if lb_IP l = [] then modifyObj (cluster_SetNotReady (r_lib r) rs msg
           [ClusterLoadBalancerReadyCondition, ClusterReadyCondition]) \<bind> (\<lambda>u. ret (Inl out))
         else publishEndpoint r C targets l
     | None \<Rightarrow> modifyObj (cluster_SetNotReady (r_lib r) rs msg
           [ClusterLoadBalancerReadyCondition, ClusterReadyCondition]) \<bind> (\<lambda>u. ret (Inl out)))
     (sound_phase (endpoint_ok (r_lib r)) (r_lib r))) s1"
    if "base_ok (r_lib r) (obj s1)" for lb rs msg out targets s1
    by (rule wp_mono [OF wp_recordLoadBalancer_keeps [OF that]])
      (auto simp: wp_simps sound_phase_def cluster_true_SetNotReady [OF assms(1)]
        intro!: not_ready_sound publishEndpoint_sound assms(1)
        split: option.split)
  have fail: "wp (clusterCloudFailure r rs err b [ClusterLoadBalancerReadyCondition, ClusterReadyCondition])
      (\<lambda>out. wp (ret (Inl out)) (sound_phase (endpoint_ok (r_lib r)) (r_lib r))) s1" for rs err b s1
    by (rule wp_mono [OF clusterCloudFailure_sound [OF assms(1)]])
      (simp_all add: wp_return sound_phase_def)
  show ?thesis
    unfolding reconcileLoadBalancer_def using assms(2)
    by (auto simp: wp_simps Let_def intro!: lb fail split: prod.split sum.split)
      (auto simp: sound_phase_def intro!: requeue_sound)
qed

lemma reconcileEndpoint_sound:
  assumes "k8s_lib (r_lib r)" and "base_ok (r_lib r) (obj s)"
  shows "wp (reconcileEndpoint r cl C net) (sound_phase (endpoint_ok (r_lib r)) (r_lib r)) s"
  unfolding reconcileEndpoint_def using assms(2) reconcileLoadBalancer_sound [OF assms]
  by (auto simp: wp_simps sound_phase_def endpoint_ok_def base_ok_def condition_names
      cluster_true_SetConditions [OF assms(1)] cluster_true_SetNotReady [OF assms(1)]
      intro!: not_ready_sound)

section \<open>The bastion phase\<close>

text \<open>What \<open>reconcileBastion\<close> leaves behind where it returns \<open>ready\<close>, and otherwise.\<close>

definition bastion_phase :: "lib \<Rightarrow> go_error + Result \<times> bool \<Rightarrow> ('c, 'k) cstate \<Rightarrow> bool" where
  "bastion_phase L res s' \<longleftrightarrow>
     (case res of
        Inl err \<Rightarrow> True
      | Inr (result, ready) \<Rightarrow>
          if ready then bastion_ok L (obj s')
          else \<not> cluster_true L (obj s') ClusterReadyCondition)"

lemma cleanupBastion_keeps:
  "wp (cleanupBastion C tol input status) (\<lambda>_ s'. obj s' = obj s) s"
  by (simp add: cleanupBastion_def wp_simps Let_def split: prod.split sum.split)

lemma reconcileBastionState_phase:
  assumes "k8s_lib (r_lib r)" and "endpoint_ok (r_lib r) (obj s)"
    and "bst_PublicIP (scst_Bastion (sc_Status (obj s))) = bas_PublicIP bastion"
  shows "wp (reconcileBastionState r bastion) (bastion_phase (r_lib r)) s"
proof -
  obtain rd rs msg w where "serverStateCondition (bas_ServerState bastion) (bas_ServerPowerStatus bastion) =
    (rd, rs, msg, w)" by (cases "serverStateCondition (bas_ServerState bastion) (bas_ServerPowerStatus bastion)")
  with assms(2,3) show ?thesis
    by (auto simp: reconcileBastionState_def wp_simps bastion_phase_def bastion_ok_def endpoint_ok_def
        base_ok_def condition_names cluster_true_SetConditions [OF assms(1)]
        cluster_true_SetNotReady [OF assms(1)])
qed

lemma reconcileBastionServer_phase:
  assumes "k8s_lib (r_lib r)" and "endpoint_ok (r_lib r) (obj s)"
  shows "wp (reconcileBastionServer r C ci) (bastion_phase (r_lib r)) s"
proof -
  have rec: "wp (cleanupBastion C tol input status) (\<lambda>res. wp (case res of
       Inl err \<Rightarrow> fail_with err
     | Inr u \<Rightarrow> modifyObj ClearBastionStatus \<bind> (\<lambda>u. modifyObj (cluster_SetNotReady (r_lib r) rs msg
         [ClusterBastionReadyCondition, ClusterReadyCondition]) \<bind> (\<lambda>u. recordEvent a b \<bind> (\<lambda>u. ok (d, False)))))
     (bastion_phase (r_lib r))) s" for tol input status rs msg a b d
    by (rule wp_mono [OF cleanupBastion_keeps])
      (simp add: wp_simps bastion_phase_def cluster_true_SetNotReady [OF assms(1)] split: sum.split)
  have state: "wp (reconcileBastionState r b) (bastion_phase (r_lib r)) s1"
    if "obj s1 = SetBastionStatus b h (obj s)" for b h s1
    using assms that
    by (intro reconcileBastionState_phase)
      (auto simp: SetBastionStatus_def endpoint_ok_def base_ok_def)
  show ?thesis
    unfolding reconcileBastionServer_def
    by (auto simp: wp_simps Let_def bastion_phase_def [of _ "Inl err" for err]
        intro!: rec state split: prod.split sum.split)
qed

lemma reconcileBastionDisabled_phase:
  assumes "k8s_lib (r_lib r)" and "endpoint_ok (r_lib r) (obj s)"
    and "\<not> bs_Enabled (scs_Bastion (sc_Spec (obj s)))"
  shows "wp (reconcileBastionDisabled r C) (bastion_phase (r_lib r)) s"
proof -
  have done_: "bastion_phase (r_lib r) (Inr (d, True)) s1"
    if "obj s1 = cluster_SetConditions (r_lib r) ConditionTrue rs msg [ClusterBastionReadyCondition] sc"
      "endpoint_ok (r_lib r) sc" "sc_Spec sc = sc_Spec (obj s)" for d s1 rs msg sc
    using that assms(3)
    by (auto simp: bastion_phase_def bastion_ok_def endpoint_ok_def base_ok_def condition_names
        cluster_true_SetConditions [OF assms(1)])
  have clear: "endpoint_ok (r_lib r) (ClearBastionStatus (obj s))"
    using assms(2) by (auto simp: ClearBastionStatus_def endpoint_ok_def base_ok_def)
  have spec: "sc_Spec (ClearBastionStatus sc) = sc_Spec sc" for sc
    by (simp add: ClearBastionStatus_def)
  show ?thesis
    unfolding reconcileBastionDisabled_def wp_bind wp_getObj wp_let wp_if
    using assms(2)
    by (auto simp: wp_simps bastion_phase_def [of _ "Inl err" for err] clear spec
        intro!: wp_mono [OF cleanupBastion_keeps] done_ split: sum.split)
qed

lemma reconcileBastion_phase:
  assumes "k8s_lib (r_lib r)" and "endpoint_ok (r_lib r) (obj s)"
  shows "wp (reconcileBastion r C) (bastion_phase (r_lib r)) s"
proof -
  have server: "wp (reconcileBastionServer r C ci) (bastion_phase (r_lib r)) (s\<lparr>kube := k\<rparr>)" for ci k
    by (rule reconcileBastionServer_phase [OF assms(1)]) (simp add: assms(2))
  show ?thesis
    unfolding reconcileBastion_def
    by (auto simp: wp_simps bastion_phase_def [of _ "Inr (d, False)" for d] server
        cluster_true_SetNotReady [OF assms(1)]
        intro!: reconcileBastionDisabled_phase assms split: prod.split sum.split option.split)
qed

lemma reconcileClusterBastion_sound:
  assumes "k8s_lib (r_lib r)" and "endpoint_ok (r_lib r) (obj s)"
  shows "wp (reconcileClusterBastion r C) (sound_return (r_lib r)) s"
  unfolding reconcileClusterBastion_def wp_bind
proof (rule wp_mono [OF reconcileBastion_phase [OF assms]])
  fix res :: "go_error + Result \<times> bool" and s1 :: "('a, 'b) cstate"
  assume "bastion_phase (r_lib r) res s1"
  then show "wp (case res of
       Inl err \<Rightarrow> recordWarn ''FailedCreateBastion'' (''Failed to reconcile bastion: '' @ err_text err) \<bind>
         (\<lambda>_. clusterCloudFailure r ''BastionError'' err False
           [ClusterBastionReadyCondition, ClusterReadyCondition])
     | Inr (result, ready) \<Rightarrow> if \<not> ready then ret (result, None)
         else modifyObj (cluster_SetReady (r_lib r)) \<bind> (\<lambda>_. ret (no_requeue, None)))
     (sound_return (r_lib r)) s1"
    by (auto simp: wp_simps bastion_phase_def sound_return_def [of _ "(no_requeue, None)"]
        cluster_ready_ok_def cluster_SetReady_def bastion_ok_def endpoint_ok_def base_ok_def
        cluster_true_SetConditions [OF assms(1)] condition_names
        intro!: clusterCloudFailure_sound [OF assms(1)] not_ready_sound split: sum.splits)
qed

lemma ensureNetwork_phase:
  assumes "k8s_lib (r_lib r)" and "cluster_true (r_lib r) (obj s) ClusterCredentialsReadyCondition"
    and "scst_FailureDomains (sc_Status (obj s)) \<noteq> []"
  shows "wp (ensureNetwork r C) (\<lambda>(net, out) s'.
     (net = None \<longrightarrow> \<not> cluster_true (r_lib r) (obj s') ClusterReadyCondition) \<and>
     (net \<noteq> None \<longrightarrow> out = (no_requeue, None) \<and>
        cluster_true (r_lib r) (obj s') ClusterCredentialsReadyCondition \<and>
        scst_FailureDomains (sc_Status (obj s')) \<noteq> [])) s"
  using assms(2,3)
  unfolding ensureNetwork_def getUnmanagedNetwork_def ensureManagedNetwork_def createManagedNetwork_def
  by (auto simp: wp_simps Let_def set_cluster_Network_def
      intro!: wp_mono [OF clusterCloudFailure_not_true [OF assms(1)]] split: prod.split sum.split)

lemma reconcileClusterNetwork_sound:
  assumes "k8s_lib (r_lib r)" and "cluster_true (r_lib r) (obj s) ClusterCredentialsReadyCondition"
    and "scst_FailureDomains (sc_Status (obj s)) \<noteq> []"
  shows "wp (reconcileClusterNetwork r cl C) (sound_return (r_lib r)) s"
proof -
  have rest: "wp (reconcileEndpoint r cl C net) (\<lambda>res. wp (case res of
       Inl out \<Rightarrow> ret out | Inr u \<Rightarrow> reconcileClusterBastion r C) (sound_return (r_lib r))) s1"
    if "base_ok (r_lib r) (obj s1)" for net s1
    by (rule wp_mono [OF reconcileEndpoint_sound [OF assms(1) that]])
      (auto simp: wp_simps sound_phase_def intro!: reconcileClusterBastion_sound assms(1)
        split: sum.splits)
  show ?thesis
    unfolding reconcileClusterNetwork_def wp_bind
    by (rule wp_mono [OF ensureNetwork_phase [OF assms]])
      (auto simp: wp_simps Result_IsZero_def base_ok_def condition_names
        cluster_true_SetConditions [OF assms(1)] intro!: rest not_ready_sound split: option.split)
qed

lemma sort_key_eq_Nil [simp]: "sort_key f xs = [] \<longleftrightarrow> xs = []"
  by (metis length_0_conv length_sort)

lemma failureDomainsFromZones_neq_Nil: "failureDomainsFromZones region zones \<noteq> []"
  by (simp add: failureDomainsFromZones_def stackitFailureDomains_def Let_def)

lemma reconcileClusterCredentials_sound:
  assumes "k8s_lib (r_lib r)"
  shows "wp (reconcileClusterCredentials r cl) (sound_return (r_lib r)) s"
proof -
  have cred: "sound_return (r_lib r) out (s1\<lparr>obj := set_cluster_conditions
      (SetConditions (r_lib r) cs g ConditionFalse rs msg ts) sc\<rparr>)"
    if "ClusterReadyCondition \<in> set ts" for out s1 cs g rs msg ts sc
    using that
    by (intro not_ready_sound)
      (simp add: cluster_true_def set_cluster_conditions_def k8s_lib.is_true_SetConditions [OF assms])
  show ?thesis
    unfolding reconcileClusterCredentials_def reconcileClusterZones_def
    by (auto simp: wp_simps CredentialFailureResult_def SetFailureDomains_def
        cluster_true_SetConditions [OF assms] failureDomainsFromZones_neq_Nil
        intro!: cred reconcileClusterNetwork_sound clusterCloudFailure_sound assms
        split: prod.split sum.split)
qed


lemma pair_fst: "fst p = a \<Longrightarrow> p = (a, snd p)"
  by auto


section \<open>Failure domains and the placeholder target\<close>

lemma stackitFailureDomains_names:
  "map fd_Name (stackitFailureDomains region) = [region @ ''-1'', region @ ''-2'', region @ ''-3'']"
  by (simp add: stackitFailureDomains_def mkFailureDomain_def)

lemma map_mkFailureDomain_names [simp]: "map fd_Name (map (mkFailureDomain region) zs) = zs"
  by (induction zs) (simp_all add: mkFailureDomain_def)

lemma sorted_names_sort_key:
  "map fd_Name (sort_key fd_Name fds) = sort (map fd_Name fds)"
  by (rule properties_for_sort [symmetric])
    simp_all

lemma append_le_append: "(xs :: string) @ ys \<le> xs @ zs \<longleftrightarrow> ys \<le> zs"
  by (induction xs) simp_all

text \<open>
  The failure domains of a cluster. Whatever zones the cloud lists, the cluster publishes at
  least one failure domain; their names are sorted and are exactly the listed zones that are not
  metro zones (suffix \<open>-m\<close>), or the three default zones of the region where nothing else is left;
  no published zone is a metro zone and every one may host control plane machines.
\<close>

theorem failureDomains_spec:
  "(let fds = failureDomainsFromZones region zones;
        real = filter (\<lambda>z. \<not> HasSuffix z ''-m'') zones
    in fds \<noteq> [] \<and> sorted (map fd_Name fds) \<and>
       mset (map fd_Name fds) =
         mset (if real = [] then [region @ ''-1'', region @ ''-2'', region @ ''-3''] else real) \<and>
       list_all (\<lambda>fd. \<not> HasSuffix (fd_Name fd) ''-m'' \<and> fd_ControlPlane fd = Some True) fds)"
proof -
  have suf: "\<not> HasSuffix (region @ [CHR ''-'', c]) ''-m''" if "c \<noteq> CHR ''m''" for c
    using that by (auto simp: HasSuffix_iff append_eq_append_conv2 append_eq_Cons_conv Cons_eq_append_conv)
  show ?thesis
  proof (cases "filter (\<lambda>z. \<not> HasSuffix z ''-m'') zones = []")
    case True
    have "sorted [region @ ''-1'', region @ ''-2'', region @ ''-3'']"
      by (simp add: append_le_append less_char_def)
    with True suf show ?thesis
      by (simp add: failureDomainsFromZones_def stackitFailureDomains_names Let_def)
         (simp add: stackitFailureDomains_def mkFailureDomain_def)
  next
    case False
    then have "failureDomainsFromZones region zones =
        sort_key fd_Name (map (mkFailureDomain region) (filter (\<lambda>z. \<not> HasSuffix z ''-m'') zones))"
      by (simp add: failureDomainsFromZones_def Let_def)
    moreover have "mset (map fd_Name (sort_key fd_Name (map (mkFailureDomain region) zs))) = mset zs" for zs
      unfolding sorted_names_sort_key map_mkFailureDomain_names by simp
    ultimately show ?thesis
      using False
      by (auto simp: sorted_names_sort_key list_all_iff mkFailureDomain_def Let_def
          simp del: mset_map)
  qed
qed

lemma bootstrapTargetLoop_skip:
  assumes "list_all (\<lambda>p. case ParsePrefix p of Some (Addr4 a, bits) \<Rightarrow> False | _ \<Rightarrow> True) ps"
  shows "bootstrapTargetLoop (ps @ qs) = bootstrapTargetLoop qs"
  using assms by (induction ps) (auto split: option.splits prod.splits Addr.splits)

text \<open>
  The placeholder target of a new load balancer. The first IPv4 prefix of the network decides,
  prefixes that do not parse or are IPv6 are skipped: for a prefix of at most 28 bits, the only
  kind with a tenth host address in every case, the placeholder is the network address plus ten,
  which lies inside the prefix.
\<close>

theorem bootstrapTargetIP_in_prefix:
  assumes "net_IPv4Prefixes n = ps @ p # qs"
    and "list_all (\<lambda>p. case ParsePrefix p of Some (Addr4 a, bits) \<Rightarrow> False | _ \<Rightarrow> True) ps"
    and "ParsePrefix p = Some (Addr4 a, bits)" and "bits \<le> 28"
  shows "bootstrapTargetIP (Some n) = string4 (masked4 a bits + 10) \<and>
    contains4 a bits (Some (masked4 a bits + 10))"
proof -
  have ten: "(next4 ^^ 10) (Some (masked4 a bits)) = Some (masked4 a bits + 10)"
    using next4_funpow [OF assms(4), of 10 a] by simp
  have mem: "contains4 a bits (Some (masked4 a bits + 10))"
    by (rule contains4_masked4_add [OF assms(4)]) (simp add: take_bit_eq_mod)
  then show ?thesis
    using assms(1,3) ten bootstrapTargetLoop_skip [OF assms(2)]
    by (simp add: bootstrapTargetIP_def Let_def)
qed

theorem bootstrapTargetIP_in_prefix_witness:
  "bootstrapTargetIP (Some \<lparr>net_ID = ''n'', net_Name = ''n'',
     net_IPv4Prefixes = [''2001:db8::/64'', ''10.1.2.99/24'']\<rparr>) = ''10.1.2.10''"
proof -
  have "list_all (\<lambda>p. case ParsePrefix p of Some (Addr4 a, bits) \<Rightarrow> False | _ \<Rightarrow> True) [''2001:db8::/64'']"
    by code_simp
  moreover have "ParsePrefix ''10.1.2.99/24'' = Some (Addr4 167838307, 24)" by code_simp
  moreover have "string4 (masked4 167838307 24 + 10) = ''10.1.2.10''" by code_simp
  ultimately show ?thesis
    using bootstrapTargetIP_in_prefix [where ps = "[''2001:db8::/64'']" and p = "''10.1.2.99/24''" and
      qs = "[]" and a = 167838307 and bits = 24 and
      n = "\<lparr>net_ID = ''n'', net_Name = ''n'',
            net_IPv4Prefixes = [''2001:db8::/64'', ''10.1.2.99/24'']\<rparr>"]
    by simp
qed

section \<open>The life cycle of the bastion\<close>

lemma find_SomeD: "find P xs = Some x \<Longrightarrow> x \<in> set xs \<and> P x"
  by (auto simp: find_Some_iff)

text \<open>
  Which bastion specs are accepted: exactly those with an image, a machine type, an SSH key and
  at least one allowed source range, all of which are prefixes in the sense of
  \<open>netip.ParsePrefix\<close>; a rejected spec is classified as invalid input.
\<close>

theorem validateBastionSpec_spec:
  "(validateBastionSpec spec = None \<longleftrightarrow>
      bs_ImageID spec \<noteq> [] \<and> bs_MachineType spec \<noteq> [] \<and> bs_SSHKeyName spec \<noteq> [] \<and>
      bs_AllowedCIDRs spec \<noteq> [] \<and> list_all (\<lambda>cidr. ParsePrefix cidr \<noteq> None) (bs_AllowedCIDRs spec)) \<and>
   pred_option IsInvalidInput (validateBastionSpec spec)"
  by (auto simp: validateBastionSpec_def invalidInput_def IsInvalidInput_def find_None_iff list_all_iff
      dest!: find_SomeD split: option.splits) (metis option.distinct(1))

lemma find_cluster_SetConditions:
  assumes "k8s_lib L" and "t \<in> set ts"
  obtains c where "FindStatusCondition L (scst_Conditions (sc_Status (cluster_SetConditions L st rs msg ts sc))) t = Some c"
    and "cond_Reason c = rs"
  using k8s_lib.find_SetConditions_in [OF assms, of "scst_Conditions (sc_Status sc)"
      "om_Generation (sc_meta sc)" st rs msg]
  by (force simp: cluster_SetConditions_def)

lemma reconcileBastionDisabled_marks:
  assumes "k8s_lib (r_lib r)"
  shows "wp (reconcileBastionDisabled r C) (\<lambda>res s'. sc_Spec (obj s') = sc_Spec (obj s) \<and>
     (\<forall>v. res = Inr v \<longrightarrow>
        (\<exists>c. FindStatusCondition (r_lib r) (scst_Conditions (sc_Status (obj s'))) ClusterBastionReadyCondition = Some c \<and>
             cond_Reason c = bastionDisabledReason))) s"
proof -
  have mark: "\<exists>c. FindStatusCondition (r_lib r) (scst_Conditions (sc_Status (cluster_SetConditions (r_lib r) st
      rs msg [ClusterBastionReadyCondition] sc))) ClusterBastionReadyCondition = Some c \<and> cond_Reason c = rs"
    for st rs msg sc
    by (rule find_cluster_SetConditions [OF assms, of ClusterBastionReadyCondition]) auto
  show ?thesis
    unfolding reconcileBastionDisabled_def wp_bind wp_getObj wp_let wp_if
    by (auto simp: wp_simps mark ClearBastionStatus_def
        intro!: wp_mono [OF cleanupBastion_keeps] split: sum.split)
qed

text \<open>
  The cleanup of a disabled bastion runs until it has succeeded, and then never again. After a
  pass over a cluster without bastion that ended without error, the next pass on the object it left
  behind makes no cloud call for the bastion, records no event and reports it as settled.
\<close>

theorem bastion_disabled_cleanup_once:
  assumes "k8s_lib (r_lib r)" and "\<not> bs_Enabled (scs_Bastion (sc_Spec (obj s)))"
    and "run_state (reconcileBastion r C) s = (Inr v, s1)"
    and "obj s2 = obj s1" and "run_state (reconcileBastion r C') s2 = (res, s3)"
  shows "res = Inr (no_requeue, True) \<and> effects s3 = effects s2 \<and> cloud s3 = cloud s2"
proof -
  from assms(2) reconcileBastionDisabled_marks [OF assms(1), of C s]
  have "wp (reconcileBastion r C) (\<lambda>res s'. sc_Spec (obj s') = sc_Spec (obj s) \<and>
     (\<forall>v. res = Inr v \<longrightarrow>
        (\<exists>c. FindStatusCondition (r_lib r) (scst_Conditions (sc_Status (obj s'))) ClusterBastionReadyCondition = Some c \<and>
             cond_Reason c = bastionDisabledReason))) s"
    by (simp add: reconcileBastion_def wp_simps)
  with assms(3) obtain c where "sc_Spec (obj s1) = sc_Spec (obj s)"
    "FindStatusCondition (r_lib r) (scst_Conditions (sc_Status (obj s1))) ClusterBastionReadyCondition = Some c"
    "cond_Reason c = bastionDisabledReason" by (auto simp: wp_run)
  with assms(2,4) have "wp (reconcileBastion r C') (\<lambda>res s3. res = Inr (no_requeue, True) \<and>
      effects s3 = effects s2 \<and> cloud s3 = cloud s2) s2"
    by (simp add: reconcileBastion_def reconcileBastionDisabled_def wp_simps)
  with assms(5) show ?thesis by (simp add: wp_run)
qed

theorem bastion_disabled_cleanup_once_witness:
  "effects (snd (run_state (reconcileBastion sample_Reconciler fake_Client)
      (snd (run_state (reconcileBastion sample_Reconciler fake_Client) (sample_state sample_StackitCluster))))) =
   effects (snd (run_state (reconcileBastion sample_Reconciler fake_Client) (sample_state sample_StackitCluster)))"
proof -
  let ?run = "run_state (reconcileBastion sample_Reconciler fake_Client) (sample_state sample_StackitCluster)"
  have "fst ?run = Inr (no_requeue, True)" by code_simp
  then have run: "?run = (Inr (no_requeue, True), snd ?run)" by (rule pair_fst)
  have "\<not> bs_Enabled (scs_Bastion (sc_Spec (obj (sample_state sample_StackitCluster))))" by code_simp
  from bastion_disabled_cleanup_once [OF _ this run refl prod.collapse [symmetric]] show ?thesis by simp
qed


definition sample_stale_bastion :: StackitCluster where
  "sample_stale_bastion = map_sc_Status (\<lambda>st. st\<lparr>scst_Bastion :=
     \<lparr>bst_ServerID = ''fake-1'', bst_PublicIPID = [], bst_PublicIP = [], bst_SecurityGroupID = [],
      bst_CloudInitHash = ''old''\<rparr>\<rparr>) sample_StackitCluster"


end
