(* ===== verification/Cluster_Progress.thy ===== *)
theory Cluster_Progress
  imports Deletion_Progress Cluster_Ready Machine_Progress
begin

text \<open>
  Progress of both controllers on the in-memory cloud: a pass brings a cluster up, and the next pass
  over one of its machines brings the machine up.
\<close>

section \<open>The network\<close>

definition cloud_serves :: "StackitCluster \<Rightarrow> fake \<Rightarrow> bool" where
  \<comment> \<open>no failure is injected, there are no duplicates, a network that the user named is there, and a
    load balancer that is there already has its address\<close>
  "cloud_serves sc c \<longleftrightarrow>
     failures c = no_failures \<and> system_unique (cluster_tags_of sc) (bastion_tags sc) c \<and>
     map_of (networks c) [] = None \<and> map_of (loadBalancers c) [] = None \<and>
     (scs_NetworkID (sc_Spec sc) \<noteq> [] \<longrightarrow> map_of (networks c) (scs_NetworkID (sc_Spec sc)) \<noteq> None) \<and>
     (\<forall>i e. map_of (loadBalancers c) i = Some e \<longrightarrow> mapContains (le_tags e) (APIServerTags sc) \<longrightarrow>
        lb_IP (le_lb e) \<noteq> [])"

definition network_up ::
  "(fake, 'k) cstate \<Rightarrow> Network option \<times> outcome \<Rightarrow> (fake, 'k) cstate \<Rightarrow> bool" where
  "network_up s res s' \<longleftrightarrow> (\<exists>net managed. res = (Some net, no_requeue, None) \<and> net_ID net \<noteq> [] \<and>
     obj s' = set_cluster_Network (net_ID net) managed (obj s) \<and> kube s' = kube s \<and>
     failures (cloud s') = no_failures \<and> servers (cloud s') = servers (cloud s) \<and>
     loadBalancers (cloud s') = loadBalancers (cloud s) \<and>
     map_of (networks (cloud s')) (net_ID net) \<noteq> None)"

lemma network_upE:
  assumes "network_up s res s'"
  obtains net where "res = (Some net, no_requeue, None)" and "network_up s (Some net, no_requeue, None) s'"
  using assms by (auto simp: network_up_def)

lemma network_up_effects [simp]: "network_up (s\<lparr>effects := e\<rparr>) = network_up s"
  by (simp add: network_up_def fun_eq_iff)

lemma run_GetNetwork_found:
  assumes "failures c = no_failures" and "fake_wf c" and "map_of (networks c) i = Some e"
  shows "run_state (fake_GetNetwork i) c = (Inr (ne_network e), c)" "net_ID (ne_network e) = i"
  using assms keyed_mem [of "\<lambda>e. net_ID (ne_network e)" "networks c"]
  by (auto simp: fake_GetNetwork_def run_consume no_failures_def fake_wf_def)

lemma run_CreateNetwork_up:
  assumes "failures c = no_failures" and "fake_wf c" and "map_of (networks c) [] = None"
    and "at_most_one (tagged ne_tags (networks c) (NetworkTags sc))"
  obtains net c' where "run_state (fake_CreateNetwork (network_Input sc)) c = (Inr net, c')"
    and "net_ID net \<noteq> []" and "failures c' = no_failures" and "servers c' = servers c"
    and "loadBalancers c' = loadBalancers c" and "map_of (networks c') (net_ID net) \<noteq> None"
proof -
  have d: "distinct (map fst (networks c))" and k: "keyed (\<lambda>e. net_ID (ne_network e)) (networks c)"
    using assms(2) by (simp_all add: fake_wf_def keyed_def)
  note create = fake_CreateNetwork_def run_consume no_failures_def network_Input_def Let_def
  show ?thesis
  proof (rule tagged_at_most_one [OF d assms(4)])
    assume "filter (\<lambda>(i, e). mapContains (ne_tags e) (NetworkTags sc)) (networks c) = []"
    then have "networksByTags c (NetworkTags sc) = []" by (simp add: networksByTags_def)
    with assms(1) have "\<exists>net c'. run_state (fake_CreateNetwork (network_Input sc)) c = (Inr net, c') \<and>
        net_ID net \<noteq> [] \<and> failures c' = no_failures \<and> servers c' = servers c \<and>
        loadBalancers c' = loadBalancers c \<and> map_of (networks c') (net_ID net) \<noteq> None"
      by (simp add: create)
    with that show ?thesis by blast
  next
    fix i e assume f: "filter (\<lambda>(i, e). mapContains (ne_tags e) (NetworkTags sc)) (networks c) = [(i, e)]"
    then have "(i, e) \<in> set (filter (\<lambda>(i, e). mapContains (ne_tags e) (NetworkTags sc)) (networks c))" by simp
    with d k have e: "map_of (networks c) i = Some e" "net_ID (ne_network e) = i"
      by (auto simp: keyed_def list_all_iff)
    with assms(3) have "i \<noteq> []" by auto
    moreover from f have "networksByTags c (NetworkTags sc) = [ne_network e]" by (simp add: networksByTags_def)
    moreover have "NetworkTags sc \<noteq> []" by (simp add: NetworkTags_def)
    ultimately show ?thesis using e assms(1) that [of "ne_network e" c] by (simp add: create)
  qed
qed

lemma createManagedNetwork_up:
  assumes "cloud_serves (obj s) (cloud s)"
  shows "wp (createManagedNetwork r fake_Client) (network_up s) s"
proof -
  have "failures (cloud s) = no_failures" "fake_wf (cloud s)" "map_of (networks (cloud s)) [] = None"
    "at_most_one (tagged ne_tags (networks (cloud s)) (NetworkTags (obj s)))"
    using assms by (auto simp: cloud_serves_def system_unique_def NetworkTags_def)
  then show ?thesis
    by (rule run_CreateNetwork_up) (auto simp: createManagedNetwork_def wp_simps network_up_def)
qed

lemma ensureNetwork_up:
  assumes "cloud_serves (obj s) (cloud s)"
  shows "wp (ensureNetwork r fake_Client) (network_up s) s"
proof -
  have c: "failures (cloud s) = no_failures" "fake_wf (cloud s)"
    using assms by (auto simp: cloud_serves_def system_unique_def)
  have get: "run_state (fake_GetNetwork i) (cloud s) = (Inr (ne_network e), cloud s)" "net_ID (ne_network e) = i"
    if "map_of (networks (cloud s)) i = Some e" for i e
    using run_GetNetwork_found [OF c that] by auto
  show ?thesis
  proof (cases "scs_NetworkID (sc_Spec (obj s)) = []")
    case True
    let ?i = "nst_ID (scst_Network (sc_Status (obj s)))"
    note create = createManagedNetwork_up [of "s\<lparr>effects := effects s @ [Cloud (OpGetNetwork ?i)]\<rparr>"]
    show ?thesis
    proof (cases "map_of (networks (cloud s)) ?i")
      case None
      then have "run_state (fake_GetNetwork ?i) (cloud s) =
          (Inl (mk_error [ErrNotFound] (''network '' @ quote ?i @ '': not found'')), cloud s)"
        using c(1) by (simp add: fake_GetNetwork_def run_consume no_failures_def)
      with True assms create createManagedNetwork_up [OF assms] show ?thesis
        by (simp add: ensureNetwork_def ensureManagedNetwork_def wp_simps Let_def IsNotFound_def)
    next
      case (Some e)
      with True get [OF Some] c assms createManagedNetwork_up [OF assms] show ?thesis
        by (auto simp: ensureNetwork_def ensureManagedNetwork_def wp_simps Let_def network_up_def)
    qed
  next
    case False
    with assms obtain e where "map_of (networks (cloud s)) (scs_NetworkID (sc_Spec (obj s))) = Some e"
      by (auto simp: cloud_serves_def)
    with False get c(1) show ?thesis
      by (auto simp: ensureNetwork_def getUnmanagedNetwork_def wp_simps Let_def network_up_def)
  qed
qed

section \<open>The load balancer\<close>

lemma run_EnsureLB_up:
  assumes "failures c = no_failures" and "keyed (\<lambda>e. lb_ID (le_lb e)) (loadBalancers c)"
    and "map_of (loadBalancers c) [] = None"
    and "\<And>i e. map_of (loadBalancers c) i = Some e \<Longrightarrow> mapContains (le_tags e) (lbi_Tags inp) \<Longrightarrow> lb_IP (le_lb e) \<noteq> []"
  obtains e c' where "run_state (fake_EnsureAPIServerLoadBalancer inp) c = (Inr (Some (le_lb e)), c')"
    and "map_of (loadBalancers c') (lb_ID (le_lb e)) = Some e" and "lb_ID (le_lb e) \<noteq> []"
    and "lb_IP (le_lb e) \<noteq> []" and "failures c' = no_failures" and "servers c' = servers c"
    and "networks c' = networks c"
proof (cases "find (\<lambda>(i, e). lbi_Tags inp \<noteq> [] \<and> mapContains (le_tags e) (lbi_Tags inp)) (loadBalancers c)")
  case None
  let ?i = "fake_id (Suc (nextID c))"
  from None assms(1) show ?thesis
    using that [of "\<lparr>le_lb = \<lparr>lb_ID = ?i, lb_Name = lbi_Name inp, lb_IP = ''203.0.113.10'', lb_DNSName = [],
        lb_Port = lbi_Port inp\<rparr>, le_tags = lbi_Tags inp, le_targets = (if lbi_Targets inp = []
          then [(''capi-bootstrap-placeholder'', ''10.0.0.1'')] else targets_map (lbi_Targets inp))\<rparr>"]
    by (simp add: fake_EnsureAPIServerLoadBalancer_def run_consume no_failures_def Let_def)
next
  case (Some p)
  obtain i e where p: "p = (i, e)" by fastforce
  with Some have e: "(i, e) \<in> set (loadBalancers c)" "mapContains (le_tags e) (lbi_Tags inp)"
    by (auto simp: find_Some_iff set_conv_nth)
  with assms(2) have "map_of (loadBalancers c) i = Some e" "lb_ID (le_lb e) = i"
    by (auto simp: keyed_def list_all_iff)
  moreover from this assms(3) have "i \<noteq> []" by auto
  ultimately show ?thesis
    using that [of e c] assms(1) assms(4) [of i e] e(2) Some p
    by (simp add: fake_EnsureAPIServerLoadBalancer_def run_consume no_failures_def)
qed

definition lb_serves :: "string \<Rightarrow> LoadBalancerTargetInput list \<Rightarrow> fake \<Rightarrow> bool" where
  \<comment> \<open>the load balancer is there, with these targets if there are any\<close>
  "lb_serves i ts c \<longleftrightarrow> (\<exists>e. map_of (loadBalancers c) i = Some e \<and> (ts \<noteq> [] \<longrightarrow> le_targets e = targets_map ts))"

lemma publishTargets_up:
  assumes "failures (cloud s) = no_failures" and "map_of (loadBalancers (cloud s)) (lb_ID lb) = Some e"
    and "lb_ID lb \<noteq> []" and "list_all (\<lambda>t. lti_Name t \<noteq> [] \<and> lti_IP t \<noteq> []) ts"
  shows "wp (publishTargets r fake_Client ts lb) (\<lambda>res s'. res = Inr () \<and> obj s' = obj s \<and> kube s' = kube s \<and>
     failures (cloud s') = no_failures \<and> servers (cloud s') = servers (cloud s) \<and>
     networks (cloud s') = networks (cloud s) \<and> lb_serves (lb_ID lb) ts (cloud s')) s"
proof (cases "ts = []")
  case True
  with assms show ?thesis by (simp add: publishTargets_def wp_simps lb_serves_def)
next
  case False
  have "\<not> list_ex (\<lambda>t. lti_Name t = [] \<or> lti_IP t = []) ts"
    using assms(4) by (auto simp: list_ex_iff list_all_iff)
  with False assms show ?thesis
    by (simp add: publishTargets_def wp_simps fake_SetAPIServerLoadBalancerTargets_def run_consume
        no_failures_def defaultAPIServerPort_def lb_serves_def update_conv)
qed

lemma targetName_neq_Nil: "n \<noteq> [] \<Longrightarrow> targetName sha256 n \<noteq> []"
  by (auto simp: targetName_def Let_def)

lemma targetsLoop_named:
  "list_all (\<lambda>m. om_Name (mc_meta m) \<noteq> []) ms \<Longrightarrow>
   list_all (\<lambda>t. lti_Name t \<noteq> [] \<and> lti_IP t \<noteq> []) (targetsLoop sha256 seen ms)"
  by (induction sha256 seen ms rule: targetsLoop.induct) (auto simp: Let_def targetName_neq_Nil)

lemma APIServerTargets_named:
  assumes "list_all (\<lambda>m. om_Name (mc_meta m) \<noteq> []) ms"
  shows "list_all (\<lambda>t. lti_Name t \<noteq> [] \<and> lti_IP t \<noteq> []) (APIServerTargets sha256 (map Some ms))"
  unfolding APIServerTargets_def by (rule targetsLoop_named) (use assms in \<open>auto simp: list_all_iff map_filter_def\<close>)

definition same_but_endpoint :: "StackitCluster \<Rightarrow> StackitCluster \<Rightarrow> bool" where
  \<comment> \<open>what the later phases of a pass do not change\<close>
  "same_but_endpoint sc sc' \<longleftrightarrow> cluster_key sc' = cluster_key sc \<and>
     scs_Bastion (sc_Spec sc') = scs_Bastion (sc_Spec sc) \<and>
     scs_NetworkID (sc_Spec sc') = scs_NetworkID (sc_Spec sc) \<and>
     scs_LoadBalancerEnabled (sc_Spec sc') = scs_LoadBalancerEnabled (sc_Spec sc) \<and>
     scst_Network (sc_Status sc') = scst_Network (sc_Status sc) \<and>
     scst_FailureDomains (sc_Status sc') = scst_FailureDomains (sc_Status sc)"

definition same_endpoint :: "StackitCluster \<Rightarrow> StackitCluster \<Rightarrow> bool" where
  "same_endpoint sc sc' \<longleftrightarrow> same_but_endpoint sc sc' \<and>
     scst_APIServerEndpoint (sc_Status sc') = scst_APIServerEndpoint (sc_Status sc) \<and>
     scst_APIServerLoadBalancerID (sc_Status sc') = scst_APIServerLoadBalancerID (sc_Status sc)"

lemmas same_defs = same_but_endpoint_def same_endpoint_def cluster_key_def

lemma cluster_SetConditions_lb [simp]:
  "scst_APIServerLoadBalancerID (sc_Status (cluster_SetConditions L st rs msg ts sc)) =
     scst_APIServerLoadBalancerID (sc_Status sc)"
  by (simp add: cluster_SetConditions_def)

definition endpoint_up ::
  "LoadBalancerTargetInput list \<Rightarrow> (fake, 'k) cstate \<Rightarrow> outcome + unit \<Rightarrow> (fake, 'k) cstate \<Rightarrow> bool" where
  "endpoint_up ts s res s' \<longleftrightarrow> res = Inr () \<and> same_but_endpoint (obj s) (obj s') \<and>
     failures (cloud s') = no_failures \<and> servers (cloud s') = servers (cloud s) \<and>
     networks (cloud s') = networks (cloud s) \<and>
     ep_Host (scst_APIServerEndpoint (sc_Status (obj s'))) \<noteq> [] \<and>
     (scs_LoadBalancerEnabled (sc_Spec (obj s)) \<longrightarrow>
        lb_serves (scst_APIServerLoadBalancerID (sc_Status (obj s'))) ts (cloud s'))"

lemma publishEndpoint_up:
  assumes "failures (cloud s) = no_failures" and "map_of (loadBalancers (cloud s)) (lb_ID lb) = Some e"
    and "lb_ID lb \<noteq> []" and "lb_IP lb \<noteq> []" and "list_all (\<lambda>t. lti_Name t \<noteq> [] \<and> lti_IP t \<noteq> []) ts"
    and "scst_APIServerLoadBalancerID (sc_Status (obj s)) = lb_ID lb"
  shows "wp (publishEndpoint r fake_Client ts lb) (endpoint_up ts s) s"
  unfolding publishEndpoint_def wp_bind wp_getObj wp_let wp_modifyObj
  by (rule wp_mono [OF publishTargets_up [OF _ _ assms(3,5)]])
    (use assms in \<open>auto simp: wp_simps endpoint_up_def same_but_endpoint_def cluster_key_def
      SetAPIServerEndpoint_def cluster_SetConditions_def\<close>)

lemma reconcileEndpoint_up:
  assumes "failures (cloud s) = no_failures" and "keyed (\<lambda>e. lb_ID (le_lb e)) (loadBalancers (cloud s))"
    and "map_of (loadBalancers (cloud s)) [] = None"
    and "\<And>i e. map_of (loadBalancers (cloud s)) i = Some e \<Longrightarrow> mapContains (le_tags e) (APIServerTags (obj s)) \<Longrightarrow>
      lb_IP (le_lb e) \<noteq> []"
    and "run_state (kube_GetFilteredMachinesForCluster (r_Client r) cl
        [ControlPlaneMachines (om_Name (cl_meta cl)), ActiveMachines]) (kube s) = (Inr machines, k)"
    and "list_all (\<lambda>m. om_Name (mc_meta m) \<noteq> []) machines"
    and "scs_LoadBalancerEnabled (sc_Spec (obj s)) \<or> ep_Host (scs_ControlPlaneEndpoint (sc_Spec (obj s))) \<noteq> []"
  shows "wp (reconcileEndpoint r cl fake_Client net)
     (endpoint_up (APIServerTargets (r_sha256 r) (map Some machines)) s) s"
proof (cases "scs_LoadBalancerEnabled (sc_Spec (obj s))")
  case True
  let ?ts = "APIServerTargets (r_sha256 r) (map Some machines)"
  let ?inp = "APIServerInput (obj s) (if ?ts = [] then [BootstrapTarget (bootstrapTargetIP (Some net))] else ?ts)"
  have tags: "lbi_Tags ?inp = APIServerTags (obj s)" by (simp add: APIServerInput_def)
  obtain e c' where lb: "run_state (fake_EnsureAPIServerLoadBalancer ?inp) (cloud s) = (Inr (Some (le_lb e)), c')"
    "map_of (loadBalancers c') (lb_ID (le_lb e)) = Some e" "lb_ID (le_lb e) \<noteq> []" "lb_IP (le_lb e) \<noteq> []"
    "failures c' = no_failures" "servers c' = servers (cloud s)" "networks c' = networks (cloud s)"
    by (rule run_EnsureLB_up [OF assms(1-3), of ?inp]) (use assms(4) tags in auto)
  have pub: "wp (publishEndpoint r fake_Client ?ts (le_lb e)) (endpoint_up ?ts s) s1"
    if "cloud s1 = c'" "same_but_endpoint (obj s) (obj s1)"
      "scst_APIServerLoadBalancerID (sc_Status (obj s1)) = lb_ID (le_lb e)" for s1
    by (rule wp_mono [OF publishEndpoint_up [OF _ _ lb(3,4) APIServerTargets_named [OF assms(6)]]])
      (use that lb in \<open>auto simp: endpoint_up_def same_but_endpoint_def\<close>)
  from True assms(5) lb show ?thesis
    by (simp add: reconcileEndpoint_def reconcileLoadBalancer_def recordLoadBalancer_def wp_simps Let_def
        same_but_endpoint_def cluster_key_def pub)
next
  case False
  with assms show ?thesis
    by (simp add: reconcileEndpoint_def wp_simps endpoint_up_def same_but_endpoint_def cluster_key_def
        cluster_SetConditions_def)
qed

section \<open>The bastion and the rest\<close>

lemma servers_shrink:
  assumes "distinct (map fst m)"
  shows "tagged se_tags (filter (\<lambda>(i, e). P e) (delete_nonempty j
      (map (\<lambda>(i, e). (i, e\<lparr>se_securityGroups := g e\<rparr>)) m))) T \<subseteq> tagged se_tags m T"
    and "distinct (map fst (filter (\<lambda>(i, e). P e) (delete_nonempty j
      (map (\<lambda>(i, e). (i, e\<lparr>se_securityGroups := g e\<rparr>)) m))))"
proof -
  have d: "distinct (map fst (delete_nonempty j (map (\<lambda>(i, e). (i, e\<lparr>se_securityGroups := g e\<rparr>)) m)))"
    using assms by (simp add: delete_nonempty_def distinct_delete comp_def split_def)
  then show "tagged se_tags (filter (\<lambda>(i, e). P e) (delete_nonempty j
      (map (\<lambda>(i, e). (i, e\<lparr>se_securityGroups := g e\<rparr>)) m))) T \<subseteq> tagged se_tags m T"
    using tagged_delete_nonempty [of se_tags j] by (fastforce simp: tagged_filter tagged_map)
  from d show "distinct (map fst (filter (\<lambda>(i, e). P e) (delete_nonempty j
      (map (\<lambda>(i, e). (i, e\<lparr>se_securityGroups := g e\<rparr>)) m))))"
    by (simp add: distinct_map_filter)
qed

definition servers_less :: "fake \<Rightarrow> fake \<Rightarrow> bool" where
  \<comment> \<open>nothing new, and at most some servers fewer\<close>
  "servers_less c c' \<longleftrightarrow> failures c' = no_failures \<and> loadBalancers c' = loadBalancers c \<and>
     networks c' = networks c \<and> distinct (map fst (servers c')) \<and>
     (\<forall>T. tagged se_tags (servers c') T \<subseteq> tagged se_tags (servers c) T)"

lemma servers_less_refl: "failures c = no_failures \<Longrightarrow> distinct (map fst (servers c)) \<Longrightarrow> servers_less c c"
  by (simp add: servers_less_def)

lemma cleanupBastion_up:
  assumes "failures (cloud s) = no_failures" and "distinct (map fst (servers (cloud s)))"
  shows "wp (cleanupBastion fake_Client tol inp st) (\<lambda>res s'. res = Inr () \<and> obj s' = obj s \<and>
     servers_less (cloud s) (cloud s')) s"
  using assms
  by (simp add: cleanupBastion_def wp_simps Let_def fake_DeleteNodeSSHAccess_def fake_DeleteBastion_def
      run_consume no_failures_def servers_less_def servers_shrink)

definition bastion_off :: "(fake, 'k) cstate \<Rightarrow> (fake, 'k) cstate \<Rightarrow> bool" where
  "bastion_off s s' \<longleftrightarrow> same_endpoint (obj s) (obj s') \<and> servers_less (cloud s) (cloud s')"

lemma reconcileBastionDisabled_up:
  assumes "failures (cloud s) = no_failures" and "distinct (map fst (servers (cloud s)))"
  shows "wp (reconcileBastionDisabled r fake_Client)
     (\<lambda>res s'. res = Inr (no_requeue, True) \<and> bastion_off s s') s"
proof -
  have "wp (if b then do {
         res \<leftarrow> cleanupBastion fake_Client tol inp st;
         case res of
           Inl err \<Rightarrow> fail_with err
         | Inr _ \<Rightarrow> do {
             _ \<leftarrow> modifyObj ClearBastionStatus;
             _ \<leftarrow> recordEvent ''BastionDeleted'' ''Deleted bastion'';
             ok ()
           }
       } else ok ()) (\<lambda>res s'. res = Inr () \<and> bastion_off s s') s" for b tol inp st
    using servers_less_refl [OF assms]
    by (auto simp: wp_simps bastion_off_def same_defs ClearBastionStatus_def
        intro!: wp_mono [OF cleanupBastion_up [OF assms]])
  then show ?thesis
    unfolding reconcileBastionDisabled_def wp_bind wp_getObj wp_let
    by (rule wp_mono) (auto simp: wp_simps bastion_off_def same_defs)
qed

lemma reconcileClusterBastion_up:
  assumes "k8s_lib (r_lib r)" and "failures (cloud s) = no_failures"
    and "\<not> bs_Enabled (scs_Bastion (sc_Spec (obj s)))" and "distinct (map fst (servers (cloud s)))"
  shows "wp (reconcileClusterBastion r fake_Client) (\<lambda>out s'. out = (no_requeue, None) \<and>
     scst_Ready (sc_Status (obj s')) \<and> cluster_true (r_lib r) (obj s') ClusterReadyCondition \<and>
     bastion_off s s') s"
proof -
  have "wp (reconcileBastion r fake_Client) (\<lambda>res s'. res = Inr (no_requeue, True) \<and> bastion_off s s') s"
    using reconcileBastionDisabled_up [OF assms(2,4)] assms(3) by (simp add: reconcileBastion_def wp_simps)
  then show ?thesis
    unfolding reconcileClusterBastion_def wp_bind
    by (rule wp_mono) (auto simp: wp_simps cluster_SetReady_def cluster_true_SetConditions [OF assms(1)]
        bastion_off_def same_defs)
qed

section \<open>A pass over the cluster\<close>

definition served_zones :: "fake \<Rightarrow> string list" where
  "served_zones c = (if AvailabilityZones c \<noteq> [] then AvailabilityZones c
     else [''eu01-1'', ''eu01-2'', ''eu01-3''])"

definition cluster_up ::
  "lib \<Rightarrow> LoadBalancerTargetInput list \<Rightarrow> StackitCluster \<Rightarrow> StackitCluster \<Rightarrow> fake \<Rightarrow> bool" where
  \<comment> \<open>the cluster is reported ready, its network is there and its endpoint is served\<close>
  "cluster_up L ts sc sc' c' \<longleftrightarrow>
     scst_Ready (sc_Status sc') \<and> cluster_true L sc' ClusterReadyCondition \<and>
     nst_ID (scst_Network (sc_Status sc')) \<noteq> [] \<and>
     map_of (networks c') (nst_ID (scst_Network (sc_Status sc'))) \<noteq> None \<and>
     ep_Host (scst_APIServerEndpoint (sc_Status sc')) \<noteq> [] \<and>
     (scs_LoadBalancerEnabled (sc_Spec sc) \<longrightarrow>
        lb_serves (scst_APIServerLoadBalancerID (sc_Status sc')) ts c')"

definition undisturbed :: "StackitCluster \<Rightarrow> fake \<Rightarrow> StackitCluster \<Rightarrow> fake \<Rightarrow> bool" where
  \<comment> \<open>what a pass over the cluster leaves to the machines\<close>
  "undisturbed sc c sc' c' \<longleftrightarrow> cluster_key sc' = cluster_key sc \<and>
     scs_Bastion (sc_Spec sc') = scs_Bastion (sc_Spec sc) \<and> failures c' = no_failures \<and>
     distinct (map fst (servers c')) \<and> (\<forall>T. tagged se_tags (servers c') T \<subseteq> tagged se_tags (servers c) T)"

definition cluster_inputs ::
  "(fake, 'k) Reconciler \<Rightarrow> Cluster \<Rightarrow> Machine list \<Rightarrow> StackitCluster \<Rightarrow> 'k \<Rightarrow> bool" where
  \<comment> \<open>the control plane machines can be listed, and there is a way to an endpoint\<close>
  "cluster_inputs r cl machines sc k \<longleftrightarrow>
     fst (run_state (kube_GetFilteredMachinesForCluster (r_Client r) cl
        [ControlPlaneMachines (om_Name (cl_meta cl)), ActiveMachines]) k) = Inr machines \<and>
     list_all (\<lambda>m. om_Name (mc_meta m) \<noteq> []) machines \<and>
     (scs_LoadBalancerEnabled (sc_Spec sc) \<or> ep_Host (scs_ControlPlaneEndpoint (sc_Spec sc)) \<noteq> [])"

lemma cloud_serves_lb:
  assumes "cloud_serves sc c" and "cluster_key sc' = cluster_key sc" and "loadBalancers c' = loadBalancers c"
  shows "keyed (\<lambda>e. lb_ID (le_lb e)) (loadBalancers c')" and "map_of (loadBalancers c') [] = None"
    and "map_of (loadBalancers c') i = Some e \<Longrightarrow> mapContains (le_tags e) (APIServerTags sc') \<Longrightarrow> lb_IP (le_lb e) \<noteq> []"
proof -
  have "APIServerTags sc' = APIServerTags sc"
    using assms(2) by (simp add: APIServerTags_def cluster_key_def cluster_tags_of_def)
  with assms show "keyed (\<lambda>e. lb_ID (le_lb e)) (loadBalancers c')" and "map_of (loadBalancers c') [] = None"
    and "map_of (loadBalancers c') i = Some e \<Longrightarrow> mapContains (le_tags e) (APIServerTags sc') \<Longrightarrow> lb_IP (le_lb e) \<noteq> []"
    by (auto simp: cloud_serves_def system_unique_def fake_wf_def)
qed

definition endpoint_served ::
  "(fake, 'k) Reconciler \<Rightarrow> Machine list \<Rightarrow> (fake, 'k) cstate \<Rightarrow> outcome \<Rightarrow> (fake, 'k) cstate \<Rightarrow> bool" where
  "endpoint_served r machines s out s' \<longleftrightarrow> out = (no_requeue, None) \<and>
     scst_FailureDomains (sc_Status (obj s')) = scst_FailureDomains (sc_Status (obj s)) \<and>
     cluster_up (r_lib r) (APIServerTargets (r_sha256 r) (map Some machines)) (obj s) (obj s') (cloud s') \<and>
     undisturbed (obj s) (cloud s) (obj s') (cloud s')"

lemma reconcileClusterNetwork_up:
  assumes "k8s_lib (r_lib r)" and "cloud_serves (obj s) (cloud s)"
    and "cluster_inputs r cl machines (obj s) (kube s)"
    and "\<not> bs_Enabled (scs_Bastion (sc_Spec (obj s)))"
  shows "wp (reconcileClusterNetwork r cl fake_Client) (endpoint_served r machines s) s"
proof -
  let ?ts = "APIServerTargets (r_sha256 r) (map Some machines)"
  have d: "distinct (map fst (servers (cloud s)))"
    using assms(2) by (simp add: cloud_serves_def system_unique_def fake_wf_def keyed_def)
  have bastion: "wp (reconcileClusterBastion r fake_Client) (endpoint_served r machines s) s2"
    if net: "network_up s (Some n, no_requeue, None) s1" and ep: "endpoint_up ?ts s1' (Inr ()) s2"
      and s1': "s1' = s1\<lparr>obj := cluster_SetConditions (r_lib r) ConditionTrue ''Available'' []
        [ClusterNetworkReadyCondition] (obj s1)\<rparr>" for n s1 s1' s2
    by (rule wp_mono [OF reconcileClusterBastion_up [OF assms(1)]])
      (use net ep d assms(4) in \<open>auto simp: network_up_def endpoint_up_def endpoint_served_def cluster_up_def
        undisturbed_def bastion_off_def servers_less_def same_defs s1' lb_serves_def set_cluster_Network_def\<close>)
  have endpoint: "wp (reconcileEndpoint r cl fake_Client n) (endpoint_up ?ts s1') s1'"
    if net: "network_up s (Some n, no_requeue, None) s1"
      and s1': "s1' = s1\<lparr>obj := cluster_SetConditions (r_lib r) ConditionTrue ''Available'' []
        [ClusterNetworkReadyCondition] (obj s1)\<rparr>" for n s1 s1'
  proof -
    have "cluster_key (obj s1') = cluster_key (obj s)" "loadBalancers (cloud s1') = loadBalancers (cloud s)"
      using net by (auto simp: s1' network_up_def cluster_key_def set_cluster_Network_def)
    note lb = cloud_serves_lb [OF assms(2) this]
    show ?thesis
      by (rule reconcileEndpoint_up [OF _ lb(1,2)])
        (use net assms(3) lb(3) in \<open>auto simp: s1' network_up_def cluster_inputs_def set_cluster_Network_def
          intro: prod_eqI\<close>)
  qed
  have rest: "wp (reconcileEndpoint r cl fake_Client n) (\<lambda>res. wp (case res of Inl out \<Rightarrow> ret out
       | Inr _ \<Rightarrow> reconcileClusterBastion r fake_Client) (endpoint_served r machines s)) s1'"
    if "network_up s (Some n, no_requeue, None) s1"
      and "s1' = s1\<lparr>obj := cluster_SetConditions (r_lib r) ConditionTrue ''Available'' []
        [ClusterNetworkReadyCondition] (obj s1)\<rparr>" for n s1 s1'
    by (rule wp_mono [OF endpoint [OF that]]) (use bastion [OF that(1) _ that(2)] in \<open>auto simp: endpoint_up_def\<close>)
  show ?thesis
    unfolding reconcileClusterNetwork_def wp_bind
    by (rule wp_mono [OF ensureNetwork_up [OF assms(2)]], erule network_upE)
      (simp add: wp_simps Result_IsZero_def rest)
qed

section \<open>Both controllers\<close>

lemma cloud_serves_cong:
  "cluster_key sc' = cluster_key sc \<Longrightarrow> scs_NetworkID (sc_Spec sc') = scs_NetworkID (sc_Spec sc) \<Longrightarrow>
   cloud_serves sc' c = cloud_serves sc c"
  by (simp add: cloud_serves_def APIServerTags_def cluster_key_def cluster_tags_of_def bastion_tags_def)

lemma cluster_reconcileNormal_up:
  assumes "k8s_lib (r_lib r)" and "cluster_finalized (r_lib r) (obj s)"
    and "cloud_serves (obj s) (cloud s)"
    and "run_state (BuildCloudClient (r_Client r) (r_CloudClientFactory r) (obj s)) (kube s) = (Inr fake_Client, k)"
    and "cluster_inputs r cl machines (obj s) k"
    and "\<not> bs_Enabled (scs_Bastion (sc_Spec (obj s)))"
  shows "wp (cluster_reconcileNormal r cl) (\<lambda>out s'. out = (no_requeue, None) \<and>
     scst_FailureDomains (sc_Status (obj s')) =
       failureDomainsFromZones (scs_Region (sc_Spec (obj s))) (served_zones (cloud s)) \<and>
     cluster_up (r_lib r) (APIServerTargets (r_sha256 r) (map Some machines)) (obj s) (obj s') (cloud s') \<and>
     undisturbed (obj s) (cloud s) (obj s') (cloud s')) s"
proof -
  let ?fd = "SetFailureDomains (stackitFailureDomains (scs_Region (sc_Spec (obj s)))) (obj s)"
  let ?o = "SetFailureDomains (failureDomainsFromZones (scs_Region (sc_Spec (obj s))) (served_zones (cloud s)))
      (cluster_SetConditions (r_lib r) ConditionTrue ''Available'' [] [ClusterCredentialsReadyCondition] ?fd)"
  have o: "sc_meta ?fd = sc_meta (obj s)" "sc_Spec ?fd = sc_Spec (obj s)"
    "sc_meta ?o = sc_meta (obj s)" "sc_Spec ?o = sc_Spec (obj s)"
    "scst_FailureDomains (sc_Status ?o) =
       failureDomainsFromZones (scs_Region (sc_Spec (obj s))) (served_zones (cloud s))"
    by (simp_all add: SetFailureDomains_def)
  have build: "run_state (BuildCloudClient (r_Client r) (r_CloudClientFactory r) ?fd) (kube s) = (Inr fake_Client, k)"
    using assms(4) by (simp add: BuildCloudClient_cong [OF o(1,2)])
  have zones: "run_state fake_ListAvailabilityZones (cloud s) = (Inr (served_zones (cloud s)), cloud s)"
    using assms(3) by (simp add: fake_ListAvailabilityZones_def run_consume cloud_serves_def no_failures_def
        served_zones_def)
  have rest: "wp (reconcileClusterNetwork r cl fake_Client) (\<lambda>out s'. out = (no_requeue, None) \<and>
     scst_FailureDomains (sc_Status (obj s')) =
       failureDomainsFromZones (scs_Region (sc_Spec (obj s))) (served_zones (cloud s)) \<and>
     cluster_up (r_lib r) (APIServerTargets (r_sha256 r) (map Some machines)) (obj s) (obj s') (cloud s') \<and>
     undisturbed (obj s) (cloud s) (obj s') (cloud s')) s1"
    if s1: "obj s1 = ?o" "cloud s1 = cloud s" "kube s1 = k" for s1
  proof (rule wp_mono [OF reconcileClusterNetwork_up [OF assms(1)]])
    show "cloud_serves (obj s1) (cloud s1)"
      using assms(3) cloud_serves_cong [of ?o "obj s"] o s1 by (simp add: cluster_key_def)
    show "cluster_inputs r cl machines (obj s1) (kube s1)"
      using assms(5) o s1 by (simp add: cluster_inputs_def)
    show "\<not> bs_Enabled (scs_Bastion (sc_Spec (obj s1)))" using assms(6) o s1 by simp
  qed (use o s1 in \<open>simp add: endpoint_served_def cluster_up_def undisturbed_def cluster_key_def\<close>)
  show ?thesis
    unfolding cluster_reconcileNormal_def wp_bind wp_ensureClusterFinalizer
    using assms(2) build zones
    by (simp add: reconcileClusterCredentials_def reconcileClusterZones_def wp_simps rest o(2))
qed

definition zones_known :: "FailureDomain list \<Rightarrow> MachineScope \<Rightarrow> StackitMachine \<Rightarrow> bool" where
  \<comment> \<open>the zones that a machine asks for, if any, are among these failure domains\<close>
  "zones_known fds ms sm \<longleftrightarrow>
     (sms_AvailabilityZone (sm_Spec sm) = [] \<or> knownAZ fds (sms_AvailabilityZone (sm_Spec sm))) \<and>
     (mc_FailureDomain (ms_Machine ms) = [] \<or> knownAZ fds (mc_FailureDomain (ms_Machine ms)))"

lemma zones_known_valid:
  "zones_known (scst_FailureDomains (sc_Status (ms_StackitCluster ms))) ms sm \<Longrightarrow>
   validateMachineAvailabilityZone ms sm = None"
  by (auto simp: zones_known_def validateMachineAvailabilityZone_def Let_def)

lemma matching_fake_srvs: "matching mapContains (fake_srvs c) T = tagged se_tags (servers c) T"
  by (auto simp: matching_def fake_srvs_iff tagged_def)

text \<open>
  A cluster and its machines come up. Let the cluster carry its finalizer and have no bastion,
  its credentials and control plane machines be readable, and the in-memory cloud inject no failure
  and hold nothing of the cluster, or at most one of each. Then one pass of \<open>reconcileNormal\<close> over
  the cluster returns without error or requeue and reports it ready: its network exists, its
  endpoint has a host, and its load balancer exists and forwards to the control plane machines. Let
  then a new machine (no recorded server, none in the cloud) see this cluster, ask for no zone that
  the cloud does not have, and have its bootstrap data. One pass over it returns without error or
  requeue and reports it ready: the server whose ID it records exists, active, with the machine's
  tags, in the network of the cluster and booted with the bootstrap data.
\<close>

theorem system_comes_up:
  assumes lib: "k8s_lib (r_lib r)" and "cluster_finalized (r_lib r) (obj s)"
    and "cloud_serves (obj s) (cloud s)"
    and "run_state (BuildCloudClient (r_Client r) (r_CloudClientFactory r) (obj s)) (kube s) = (Inr fake_Client, k)"
    and "cluster_inputs r cl machines (obj s) k"
    and bastion: "\<not> bs_Enabled (scs_Bastion (sc_Spec (obj s)))"
    and cpass: "run_state (cluster_reconcileNormal r cl) s = (out, s')"
    and t: "ms_StackitCluster ms = obj s'" "cloud t = cloud s'"
    and fin: "machine_finalized (r_lib r) (obj t)"
    and zones: "zones_known (failureDomainsFromZones (scs_Region (sc_Spec (obj s))) (served_zones (cloud s))) ms (obj t)"
    and boot: "run_state (fetchBootstrapData (r_Client r) (ms_Machine ms)) (kube t) =
           ((ud, ConditionTrue, rs, msg), ka)"
    and build: "run_state (BuildCloudClient (r_Client r) (r_CloudClientFactory r) (obj s')) ka = (Inr fake_Client, kb)"
    and new: "tagged se_tags (servers (cloud s)) (machine_Tags ms (obj t)) = {}"
      "\<not> smst_Provisioned (sm_Status (obj t))" "smst_InstanceID (sm_Status (obj t)) = []"
    and mpass: "run_state (machine_reconcileNormal r ms) t = (out', t')"
  shows "out = (no_requeue, None) \<and>
    cluster_up (r_lib r) (APIServerTargets (r_sha256 r) (map Some machines)) (obj s) (obj s') (cloud s') \<and>
    out' = (no_requeue, None) \<and> smst_Ready (sm_Status (obj t')) \<and>
    machine_true (r_lib r) (obj t') MachineReadyCondition \<and>
    (\<exists>e. server_up ms (obj t) ud e (cloud t') \<and> smst_InstanceID (sm_Status (obj t')) = srv_ID (se_server e))"
proof -
  have up: "out = (no_requeue, None)"
    "scst_FailureDomains (sc_Status (obj s')) =
       failureDomainsFromZones (scs_Region (sc_Spec (obj s))) (served_zones (cloud s))"
    "cluster_up (r_lib r) (APIServerTargets (r_sha256 r) (map Some machines)) (obj s) (obj s') (cloud s')"
    "undisturbed (obj s) (cloud s) (obj s') (cloud s')"
    using cluster_reconcileNormal_up [OF assms(1-6)] cpass by (simp_all add: wp_run)
  have none: "matching mapContains (fake_srvs (cloud t)) (machine_Tags ms (obj t)) = {}"
    using new(1) up(4) unfolding matching_fake_srvs t undisturbed_def by blast
  have valid: "validateMachineAvailabilityZone ms (obj t) = None"
    by (rule zones_known_valid) (use zones up(2) t in simp)
  have "out' = (no_requeue, None) \<and> smst_Ready (sm_Status (obj t')) \<and>
    machine_true (r_lib r) (obj t') MachineReadyCondition \<and>
    (\<exists>e. server_up ms (obj t) ud e (cloud t') \<and> smst_InstanceID (sm_Status (obj t')) = srv_ID (se_server e))"
    by (rule machine_comes_up [OF lib fin _ valid boot _ _ _ none new(2,3) _ _ mpass])
      (use up(3,4) t build bastion in \<open>auto simp: cluster_up_def undisturbed_def machine_NetworkID_def\<close>)
  with up show ?thesis by simp
qed

definition first_cluster_pass :: "(fake, api, StackitCluster) rstate" where
  \<comment> \<open>after the first pass over the sample cluster with one control plane machine\<close>
  "first_cluster_pass = snd (run_state (cluster_reconcileNormal control_plane_Reconciler sample_Cluster)
     (sample_state (add_cluster_finalizer (std_lib 0) sample_fresh_cluster)))"

definition first_machine_pass :: "(fake, api, StackitMachine) rstate" where
  \<comment> \<open>after the pass over a machine of it\<close>
  "first_machine_pass = snd (run_state
     (machine_reconcileNormal control_plane_Reconciler (sample_scope\<lparr>ms_StackitCluster := obj first_cluster_pass\<rparr>))
     ((sample_state (add_machine_finalizer (std_lib 0) sample_StackitMachine))\<lparr>cloud := cloud first_cluster_pass\<rparr>))"

theorem system_comes_up_witness:
  "scst_Ready (sc_Status (obj first_cluster_pass)) \<and> smst_Ready (sm_Status (obj first_machine_pass)) \<and>
   map_of (servers (cloud first_machine_pass)) (smst_InstanceID (sm_Status (obj first_machine_pass))) \<noteq> None"
proof -
  let ?r = control_plane_Reconciler
  let ?sc = "add_cluster_finalizer (std_lib 0) sample_fresh_cluster"
  let ?sm = "add_machine_finalizer (std_lib 0) sample_StackitMachine"
  let ?ms = "sample_scope\<lparr>ms_StackitCluster := obj first_cluster_pass\<rparr>"
  have r: "r_lib ?r = std_lib 0" "r_CloudClientFactory ?r = Some (\<lambda>creds. Inr fake_Client)"
    "kube_GetSecret (r_Client ?r) = kube_GetSecret sample_Kube"
    by (simp_all add: control_plane_Reconciler_def)
  have eval: "cluster_finalized (std_lib 0) ?sc" "\<not> bs_Enabled (scs_Bastion (sc_Spec ?sc))"
    "CredentialsSecretKey ?sc = \<lparr>nn_Namespace = ''ns'', nn_Name = ''creds''\<rparr>"
    "scs_ProjectID (sc_Spec ?sc) = ''proj''" "scs_Region (sc_Spec ?sc) = ''eu01''"
    "scs_LoadBalancerEnabled (sc_Spec ?sc)" "scs_NetworkID (sc_Spec ?sc) = []"
    by code_simp+
  have eval': "CredentialsSecretKey (obj first_cluster_pass) = \<lparr>nn_Namespace = ''ns'', nn_Name = ''creds''\<rparr>"
    "scs_ProjectID (sc_Spec (obj first_cluster_pass)) = ''proj''"
    "scs_Region (sc_Spec (obj first_cluster_pass)) = ''eu01''"
    "machine_finalized (std_lib 0) ?sm" "\<not> smst_Provisioned (sm_Status ?sm)" "smst_InstanceID (sm_Status ?sm) = []"
    by code_simp+
  have build: "run_state (BuildCloudClient (r_Client ?r) (r_CloudClientFactory ?r) sc) sample_api =
      (Inr fake_Client, sample_api)"
    if "CredentialsSecretKey sc = \<lparr>nn_Namespace = ''ns'', nn_Name = ''creds''\<rparr>"
      "scs_ProjectID (sc_Spec sc) = ''proj''" "scs_Region (sc_Spec sc) = ''eu01''" for sc
    using that by (simp add: r BuildCloudClient_def sample_Kube_def sample_api_def api_get_def
        ParseCredentialsSecret_def credentialsKeyServiceAcct_def credentialsKeyProjectID_def Let_def)
  have boot: "run_state (fetchBootstrapData (r_Client ?r) (ms_Machine ?ms)) sample_api =
       ((''#cloud-config'', ConditionTrue, ''Available'', []), sample_api)"
    by (simp add: r fetchBootstrapData_def sample_scope_def sample_Machine_def sample_meta_def
        sample_Kube_def sample_api_def api_get_def ExtractBootstrapData_def Let_def)
  have serves: "cloud_serves ?sc (fake_New [])" and none: "tagged se_tags (servers (fake_New [])) T = {}" for T
    using eval fake_New_wf [of "[]"]
    by (simp_all add: cloud_serves_def system_unique_def fake_New_def tagged_def at_most_one_def)
  have inputs: "cluster_inputs ?r sample_Cluster [sample_control_plane] ?sc sample_api"
    using eval(6) by (simp add: cluster_inputs_def control_plane_Reconciler_def sample_control_plane_def
        sample_Machine_def sample_meta_def)
  have zones: "zones_known fds ?ms ?sm" for fds
    by (simp add: zones_known_def sample_scope_def sample_Machine_def sample_StackitMachine_def add_machine_finalizer_def)
  note up = system_comes_up [where r = ?r and s = "sample_state ?sc" and cl = sample_Cluster and k = sample_api
      and machines = "[sample_control_plane]" and ms = ?ms and ud = "''#cloud-config''" and rs = "''Available''"
      and msg = "[]" and ka = sample_api and kb = sample_api
      and t = "(sample_state ?sm)\<lparr>cloud := cloud first_cluster_pass\<rparr>",
      OF _ _ _ _ _ _ prod.collapse [symmetric] _ _ _ _ _ _ _ _ _ prod.collapse [symmetric],
      folded first_cluster_pass_def first_machine_pass_def]
  show ?thesis
    using up serves inputs zones boot eval eval' build [of ?sc] build [of "obj first_cluster_pass"]
    by (auto simp: r none server_up_def cluster_up_def)
qed

end
