(* ===== verification/Recovery.thy ===== *)
theory Recovery
  imports Cluster_Progress
begin

text \<open>
  A cluster comes up in spite of failing calls. A call of the in-memory cloud either returns an injected
  failure, which is then used up, or does what it does on a cloud that injects none; so a whole pass
  either uses up a failure or is the pass of \<open>Cluster_Progress\<close>. Repeated passes use up every failure
  that is in their way: the locale \<open>draining\<close> again has the argument.
\<close>

section \<open>Failures that are used up\<close>

definition calm :: "fake \<Rightarrow> fake" where
  "calm c = c\<lparr>failures := no_failures\<rparr>"

definition outstanding :: "fake \<Rightarrow> nat" where
  \<comment> \<open>the failures that are still to come\<close>
  "outstanding c = (let f = failures c in
     armed (FailNextCreateServer f) + armed (FailNextDeleteServer f) + armed (FailNextGetServer f) +
     armed (FailNextFindServer f) + armed (FailNextEnsureLB f) + armed (FailNextDeleteLB f) +
     armed (FailNextSetTargets f) + armed (FailNextGetNetwork f) + armed (FailNextCreateNetwork f) +
     armed (FailNextDeleteNetwork f) + armed (FailNextEnsureBastion f) + armed (FailNextDeleteBastion f) +
     armed (FailNextEnsureNodeSSH f) + armed (FailNextDeleteNodeSSH f) + armed (FailNextListAZ f))"

definition calm_run :: "('c \<Rightarrow> fake) \<Rightarrow> ('c \<Rightarrow> 'c) \<Rightarrow> ('c, 'a) state \<Rightarrow> 'c \<Rightarrow> bool" where
  \<comment> \<open>the run uses up a failure, or it is the run without failures\<close>
  "calm_run cl quiet m s \<longleftrightarrow> (case run_state m s of (a, s') \<Rightarrow>
     outstanding (cl s') < outstanding (cl s) \<or>
     failures (cl s') = failures (cl s) \<and> run_state m (quiet s) = (a, quiet s'))"

abbreviation tolerant :: "(fake, 'a) call \<Rightarrow> bool" where
  "tolerant m \<equiv> (\<forall>c. calm_run (\<lambda>c. c) calm m c)"

lemma tolerant_consume:
  assumes "\<And>c. sel (failures c) \<noteq> None \<Longrightarrow> outstanding (c\<lparr>failures := upd (\<lambda>_. None) (failures c)\<rparr>) < outstanding c"
    and "sel no_failures = None"
    and "\<And>c. failures (snd (run_state body c)) = failures c \<and>
      run_state body (calm c) = (fst (run_state body c), calm (snd (run_state body c)))"
  shows "tolerant (consume sel upd body)"
proof
  fix c
  show "calm_run (\<lambda>c. c) calm (consume sel upd body) c"
  proof (cases "sel (failures c)")
    case (Some err)
    with assms(1) [of c] show ?thesis by (simp add: calm_run_def run_consume)
  next
    case None
    with assms(2) assms(3) [of c] show ?thesis
      by (cases "run_state body c") (auto simp: calm_run_def run_consume calm_def)
  qed
qed

lemma tolerant_calls:
  "tolerant (fake_ListAvailabilityZones)" "tolerant (fake_GetNetwork i)" "tolerant (fake_CreateNetwork ni)"
  "tolerant (fake_EnsureAPIServerLoadBalancer li)" "tolerant (fake_SetAPIServerLoadBalancerTargets i p ts)"
  "tolerant (fake_DeleteNodeSSHAccess t)" "tolerant (fake_DeleteBastion bi st)"
  "tolerant (fake_GetServer i)" "tolerant (fake_FindServerByTags t)" "tolerant (fake_CreateServer si)"
  unfolding fake_ListAvailabilityZones_def fake_GetNetwork_def fake_CreateNetwork_def
    fake_EnsureAPIServerLoadBalancer_def fake_SetAPIServerLoadBalancerTargets_def
    fake_DeleteNodeSSHAccess_def fake_DeleteBastion_def
    fake_GetServer_def fake_FindServerByTags_def fake_CreateServer_def
  by (rule tolerant_consume; force simp: outstanding_def no_failures_def calm_def Let_def networksByTags_def
      split: option.splits list.splits)+

section \<open>Passes that recover\<close>

named_theorems recovers_intros

abbreviation quiet :: "(fake, 'k, 'o) rstate \<Rightarrow> (fake, 'k, 'o) rstate" where
  "quiet s \<equiv> s\<lparr>cloud := calm (cloud s)\<rparr>"

definition recovers ::
  "('o \<Rightarrow> bool) \<Rightarrow> (fake \<Rightarrow> bool) \<Rightarrow> ('k \<Rightarrow> bool) \<Rightarrow> ((fake, 'k, 'o) rstate, 'a) state \<Rightarrow> bool" where
  \<comment> \<open>the facts about the object, the cloud and the API are kept, and the run uses up a failure or is the
    run without failures\<close>
  "recovers K I A m \<longleftrightarrow> (\<forall>s. K (obj s) \<longrightarrow> I (cloud s) \<longrightarrow> A (kube s) \<longrightarrow>
     (case run_state m s of (a, s') \<Rightarrow> K (obj s') \<and> I (cloud s') \<and> A (kube s')) \<and> calm_run cloud quiet m s)"

lemma recoversD:
  assumes "recovers K I A m" and "run_state m s = (a, s')" and "K (obj s)" and "I (cloud s)" and "A (kube s)"
  shows "K (obj s')" and "I (cloud s')" and "A (kube s')"
    and "outstanding (cloud s') < outstanding (cloud s) \<or>
      failures (cloud s') = failures (cloud s) \<and> run_state m (quiet s) = (a, quiet s')"
  using assms unfolding recovers_def calm_run_def by fastforce+

lemma recoversI:
  assumes "\<And>s a s'. run_state m s = (a, s') \<Longrightarrow> K (obj s) \<Longrightarrow> I (cloud s) \<Longrightarrow> A (kube s) \<Longrightarrow>
      K (obj s') \<and> I (cloud s') \<and> A (kube s') \<and> (outstanding (cloud s') < outstanding (cloud s) \<or>
      failures (cloud s') = failures (cloud s) \<and> run_state m (quiet s) = (a, quiet s'))"
  shows "recovers K I A m"
  using assms unfolding recovers_def calm_run_def by fast

lemma outstanding_cong: "failures c' = failures c \<Longrightarrow> outstanding c' = outstanding c"
  by (simp add: outstanding_def)

lemma recovers_return [recovers_intros]: "recovers K I A (State_Monad.return a)"
  by (rule recoversI) auto

lemma recovers_ok [recovers_intros]: "recovers K I A (ok a)" "recovers K I A (fail_with err)"
  by (rule recoversI; auto)+

lemma recovers_bind [recovers_intros]:
  assumes "recovers K I A m" and "\<And>a. recovers K I A (f a)"
  shows "recovers K I A (State_Monad.bind m f)"
proof (rule recoversI)
  fix s b s' assume r: "run_state (State_Monad.bind m f) s = (b, s')" and p: "K (obj s)" "I (cloud s)" "A (kube s)"
  obtain a s1 where m: "run_state m s = (a, s1)" by fastforce
  with r have f: "run_state (f a) s1 = (b, s')" by simp
  note one = recoversD [OF assms(1) m p]
  note two = recoversD [OF assms(2) f one(1-3)]
  from one(4) two(4) outstanding_cong [of "cloud s1" "cloud s"] outstanding_cong [of "cloud s'" "cloud s1"]
  have "outstanding (cloud s') < outstanding (cloud s) \<or>
      failures (cloud s') = failures (cloud s) \<and> run_state (State_Monad.bind m f) (quiet s) = (b, quiet s')"
    by (elim disjE conjE) simp_all
  with two(1-3) show "K (obj s') \<and> I (cloud s') \<and> A (kube s') \<and> (outstanding (cloud s') < outstanding (cloud s) \<or>
      failures (cloud s') = failures (cloud s) \<and> run_state (State_Monad.bind m f) (quiet s) = (b, quiet s'))"
    by blast
qed

lemma recovers_obj:
  assumes "\<And>x. K x \<Longrightarrow> recovers K I A (f x)"
  shows "recovers K I A (State_Monad.bind getObj f)"
proof (rule recoversI)
  fix s b s' assume r: "run_state (State_Monad.bind getObj f) s = (b, s')" and p: "K (obj s)" "I (cloud s)" "A (kube s)"
  then have "run_state (f (obj s)) s = (b, s')" by (simp add: getObj_def)
  from recoversD [OF assms [OF p(1)] this p] show "K (obj s') \<and> I (cloud s') \<and> A (kube s') \<and>
      (outstanding (cloud s') < outstanding (cloud s) \<or>
      failures (cloud s') = failures (cloud s) \<and> run_state (State_Monad.bind getObj f) (quiet s) = (b, quiet s'))"
    by (simp add: getObj_def)
qed

lemma recovers_if [recovers_intros]:
  "(b \<Longrightarrow> recovers K I A m) \<Longrightarrow> (\<not> b \<Longrightarrow> recovers K I A n) \<Longrightarrow> recovers K I A (if b then m else n)"
  by simp

lemma recovers_case_sum [recovers_intros]:
  "(\<And>a. x = Inl a \<Longrightarrow> recovers K I A (f a)) \<Longrightarrow> (\<And>b. x = Inr b \<Longrightarrow> recovers K I A (g b)) \<Longrightarrow>
   recovers K I A (case x of Inl a \<Rightarrow> f a | Inr b \<Rightarrow> g b)"
  by (cases x) simp_all

lemma recovers_case_option [recovers_intros]:
  "(x = None \<Longrightarrow> recovers K I A m) \<Longrightarrow> (\<And>a. x = Some a \<Longrightarrow> recovers K I A (f a)) \<Longrightarrow>
   recovers K I A (case x of None \<Rightarrow> m | Some a \<Rightarrow> f a)"
  by (cases x) simp_all

lemma recovers_case_prod [recovers_intros]:
  "(\<And>a b. x = (a, b) \<Longrightarrow> recovers K I A (f a b)) \<Longrightarrow> recovers K I A (case x of (a, b) \<Rightarrow> f a b)"
  by (cases x) simp

lemma recovers_let [recovers_intros]: "recovers K I A (f x) \<Longrightarrow> recovers K I A (Let x f)"
  by (simp add: Let_def)

lemma recovers_record [recovers_intros]: "recovers K I A (recordEvent rs msg)" "recovers K I A (recordWarn rs msg)"
  by (rule recoversI; auto simp: recordEvent_def recordWarn_def)+

lemma recovers_modifyObj: "(\<And>x. K x \<Longrightarrow> K (f x)) \<Longrightarrow> recovers K I A (modifyObj f)"
  by (rule recoversI) (auto simp: modifyObj_def)

lemma recovers_kubeCall: "(\<And>k. A k \<Longrightarrow> A (snd (run_state m k))) \<Longrightarrow> recovers K I A (kubeCall m)"
  by (rule recoversI) (auto simp: kubeCall_def split_def)

lemma recovers_cloudCall:
  assumes "keeps I m" and "tolerant m"
  shows "recovers K I A (cloudCall op m)"
proof (rule recoversI)
  fix s a s' assume r: "run_state (cloudCall op m) s = (a, s')" and p: "K (obj s)" "I (cloud s)" "A (kube s)"
  obtain c' where c: "run_state m (cloud s) = (a, c')" "s' = s\<lparr>cloud := c', effects := effects s @ [Cloud op]\<rparr>"
    using r by (auto simp: cloudCall_def split: prod.splits)
  with keepsD [OF assms(1) p(2)] assms(2) [THEN spec, of "cloud s"] p
  show "K (obj s') \<and> I (cloud s') \<and> A (kube s') \<and> (outstanding (cloud s') < outstanding (cloud s) \<or>
      failures (cloud s') = failures (cloud s) \<and> run_state (cloudCall op m) (quiet s) = (a, quiet s'))"
    by (auto simp: calm_run_def cloudCall_def)
qed

lemma recovers_client:
  assumes "\<And>k. A k \<Longrightarrow> \<exists>k'. run_state (BuildCloudClient K8s fac sc) k = (Inr fake_Client, k') \<and> A k'"
    and "recovers K I A (h fake_Client)"
  shows "recovers K I A (State_Monad.bind (kubeCall (BuildCloudClient K8s fac sc))
    (\<lambda>res. case res of Inl err \<Rightarrow> g err | Inr cl \<Rightarrow> h cl))"
proof (rule recoversI)
  let ?m = "State_Monad.bind (kubeCall (BuildCloudClient K8s fac sc)) (\<lambda>res. case res of Inl err \<Rightarrow> g err | Inr cl \<Rightarrow> h cl)"
  fix s a s' assume r: "run_state ?m s = (a, s')" and p: "K (obj s)" "I (cloud s)" "A (kube s)"
  from assms(1) [OF p(3)] obtain k' where k: "run_state (BuildCloudClient K8s fac sc) (kube s) = (Inr fake_Client, k')" "A k'"
    by blast
  with r have h: "run_state (h fake_Client) (s\<lparr>kube := k'\<rparr>) = (a, s')" by (simp add: kubeCall_def)
  have q: "quiet (s\<lparr>kube := k'\<rparr>) = (quiet s)\<lparr>kube := k'\<rparr>" by simp
  from recoversD [OF assms(2) h, unfolded q] p k show "K (obj s') \<and> I (cloud s') \<and> A (kube s') \<and>
      (outstanding (cloud s') < outstanding (cloud s) \<or>
       failures (cloud s') = failures (cloud s) \<and> run_state ?m (quiet s) = (a, quiet s'))"
    by (simp add: kubeCall_def)
qed

section \<open>The invariant of the cloud\<close>

definition cluster_core :: "StackitCluster \<Rightarrow> ObjectMeta \<times> StackitClusterSpec" where
  \<comment> \<open>what a pass leaves alone\<close>
  "cluster_core sc = (sc_meta sc, (sc_Spec sc)\<lparr>scs_ControlPlaneEndpoint := \<lparr>ep_Host = [], ep_Port = 0\<rparr>\<rparr>)"

definition coming_up :: "StackitCluster \<Rightarrow> StackitCluster \<Rightarrow> bool" where
  \<comment> \<open>a version of the cluster that passes have worked on\<close>
  "coming_up sc0 sc \<longleftrightarrow> cluster_core sc = cluster_core sc0 \<and>
     (scs_LoadBalancerEnabled (sc_Spec sc0) \<or>
      scs_ControlPlaneEndpoint (sc_Spec sc) = scs_ControlPlaneEndpoint (sc_Spec sc0))"

definition cloud_fit :: "StackitCluster \<Rightarrow> fake \<Rightarrow> fake \<Rightarrow> bool" where
  \<comment> \<open>\<open>cloud_serves\<close>, whatever failures are injected, with the zones of \<open>c0\<close> and no server that was not
    there\<close>
  "cloud_fit sc c0 c \<longleftrightarrow> cloud_serves sc (calm c) \<and> AvailabilityZones c = AvailabilityZones c0 \<and>
     (\<forall>T. tagged se_tags (servers c) T \<subseteq> tagged se_tags (servers c0) T)"

lemma coming_up_facts:
  assumes "coming_up sc0 sc"
  shows "sc_meta sc = sc_meta sc0" and "cluster_key sc = cluster_key sc0"
    and "scs_NetworkID (sc_Spec sc) = scs_NetworkID (sc_Spec sc0)"
    and "scs_Bastion (sc_Spec sc) = scs_Bastion (sc_Spec sc0)"
    and "scs_LoadBalancerEnabled (sc_Spec sc) = scs_LoadBalancerEnabled (sc_Spec sc0)"
    and "scs_Region (sc_Spec sc) = scs_Region (sc_Spec sc0)"
    and "scs_ProjectID (sc_Spec sc) = scs_ProjectID (sc_Spec sc0)"
    and "scs_CredentialsSecretRef (sc_Spec sc) = scs_CredentialsSecretRef (sc_Spec sc0)"
proof -
  have "(sc_Spec sc)\<lparr>scs_ControlPlaneEndpoint := \<lparr>ep_Host = [], ep_Port = 0\<rparr>\<rparr> =
      (sc_Spec sc0)\<lparr>scs_ControlPlaneEndpoint := \<lparr>ep_Host = [], ep_Port = 0\<rparr>\<rparr>" and m: "sc_meta sc = sc_meta sc0"
    using assms by (simp_all add: coming_up_def cluster_core_def)
  then show "sc_meta sc = sc_meta sc0" "scs_NetworkID (sc_Spec sc) = scs_NetworkID (sc_Spec sc0)"
    "scs_Bastion (sc_Spec sc) = scs_Bastion (sc_Spec sc0)" "scs_Region (sc_Spec sc) = scs_Region (sc_Spec sc0)"
    "scs_LoadBalancerEnabled (sc_Spec sc) = scs_LoadBalancerEnabled (sc_Spec sc0)"
    "scs_ProjectID (sc_Spec sc) = scs_ProjectID (sc_Spec sc0)"
    "scs_CredentialsSecretRef (sc_Spec sc) = scs_CredentialsSecretRef (sc_Spec sc0)"
    "cluster_key sc = cluster_key sc0"
    unfolding cluster_key_def by (metis StackitClusterSpec.select_convs StackitClusterSpec.surjective
      StackitClusterSpec.update_convs(6))+
qed

definition fit_entries :: "StackitCluster \<Rightarrow> fake \<Rightarrow> fake \<Rightarrow> bool" where
  "fit_entries sc c0 c \<longleftrightarrow> AvailabilityZones c = AvailabilityZones c0 \<and>
     (\<forall>T. tagged se_tags (servers c) T \<subseteq> tagged se_tags (servers c0) T) \<and>
     map_of (networks c) [] = None \<and> map_of (loadBalancers c) [] = None \<and>
     (scs_NetworkID (sc_Spec sc) \<noteq> [] \<longrightarrow> map_of (networks c) (scs_NetworkID (sc_Spec sc)) \<noteq> None) \<and>
     (\<forall>i e. map_of (loadBalancers c) i = Some e \<longrightarrow> mapContains (le_tags e) (APIServerTags sc) \<longrightarrow> lb_IP (le_lb e) \<noteq> [])"

lemma cloud_fit_iff:
  "cloud_fit sc c0 c \<longleftrightarrow> system_unique (cluster_tags_of sc) (bastion_tags sc) c \<and> fit_entries sc c0 c"
  by (auto simp add: cloud_fit_def cloud_serves_def fit_entries_def system_unique_def fake_wf_def calm_def)

lemma keeps_fit:
  assumes "keeps (system_unique (cluster_tags_of sc) (bastion_tags sc)) m"
    and "\<And>c. distinct (map fst (servers c)) \<Longrightarrow> fit_entries sc c0 c \<Longrightarrow> fit_entries sc c0 (snd (run_state m c))"
  shows "keeps (cloud_fit sc c0) m"
  using assms by (auto simp: keeps_def cloud_fit_iff system_unique_def fake_wf_def keyed_def)

lemma calls_keep_fit:
  "keeps (cloud_fit sc0 c0) fake_ListAvailabilityZones" "keeps (cloud_fit sc0 c0) (fake_GetNetwork i)"
  "keeps (cloud_fit sc0 c0) (fake_SetAPIServerLoadBalancerTargets i p ts)"
  by (rule keeps_fit, rule keep_unique,
    (auto simp: fit_entries_def run_consume fake_ListAvailabilityZones_def fake_GetNetwork_def
      fake_SetAPIServerLoadBalancerTargets_def update_conv Let_def split: option.splits if_splits) [1])+

lemma tagged_remove:
  assumes "distinct (map fst m)"
  shows "tagged tf (filter (\<lambda>(i, e). P e) (delete_nonempty j m)) T \<subseteq> tagged tf m T"
proof -
  have "distinct (map fst (delete_nonempty j m))" using assms by (simp add: delete_nonempty_def distinct_delete)
  then show ?thesis using tagged_delete_nonempty [of tf j m T] by (auto simp: tagged_filter)
qed

lemma DeleteNodeSSH_keeps_fit: "keeps (cloud_fit sc0 c0) (fake_DeleteNodeSSHAccess t)"
  by (rule keeps_fit, rule keep_unique)
    (auto simp: fit_entries_def run_consume fake_DeleteNodeSSHAccess_def Let_def tagged_map split: option.splits)

lemma DeleteBastion_keeps_fit: "keeps (cloud_fit sc0 c0) (fake_DeleteBastion bi st)"
proof (rule keeps_fit, rule keep_unique)
  fix c assume "distinct (map fst (servers c))" and "fit_entries sc0 c0 c"
  with tagged_remove [of "servers c" se_tags] show "fit_entries sc0 c0 (snd (run_state (fake_DeleteBastion bi st) c))"
    by (simp add: fit_entries_def run_consume fake_DeleteBastion_def split: option.split) blast
qed

lemma creates_keep_fit:
  assumes "coming_up sc0 sc"
  shows "keeps (cloud_fit sc0 c0) (fake_CreateNetwork (network_Input sc))"
    and "keeps (cloud_fit sc0 c0) (fake_EnsureAPIServerLoadBalancer (APIServerInput sc ts))"
proof -
  have t: "cluster_tags_of sc = cluster_tags_of sc0"
    using coming_up_facts(2) [OF assms] by (simp add: cluster_key_def cluster_tags_of_def)
  show "keeps (cloud_fit sc0 c0) (fake_CreateNetwork (network_Input sc))"
    by (rule keeps_fit, rule keep_unique)
      (auto simp: t own_or_other_def network_Input_def NetworkTags_def fit_entries_def run_consume
        fake_CreateNetwork_def Let_def update_conv split: option.splits list.splits)
  show "keeps (cloud_fit sc0 c0) (fake_EnsureAPIServerLoadBalancer (APIServerInput sc ts))"
    by (rule keeps_fit, rule keep_unique)
      (auto simp: t own_or_other_def APIServerInput_def APIServerTags_def fit_entries_def run_consume
        fake_EnsureAPIServerLoadBalancer_def Let_def update_conv split: option.splits if_splits)
qed

section \<open>A pass over the cluster\<close>

lemma cluster_calls:
  "recovers K (cloud_fit sc0 c0) A (cloudCall op (ListAvailabilityZones fake_Client))"
  "recovers K (cloud_fit sc0 c0) A (cloudCall op (GetNetwork fake_Client i))"
  "recovers K (cloud_fit sc0 c0) A (cloudCall op (SetAPIServerLoadBalancerTargets fake_Client i p ts))"
  "recovers K (cloud_fit sc0 c0) A (cloudCall op (DeleteNodeSSHAccess fake_Client t))"
  "recovers K (cloud_fit sc0 c0) A (cloudCall op (DeleteBastion fake_Client bi st))"
  by (simp_all add: recovers_cloudCall calls_keep_fit DeleteNodeSSH_keeps_fit DeleteBastion_keeps_fit tolerant_calls)

lemma cluster_creates:
  assumes "coming_up sc0 sc"
  shows "recovers K (cloud_fit sc0 c0) A (cloudCall op (CreateNetwork fake_Client (network_Input sc)))"
    and "recovers K (cloud_fit sc0 c0) A (cloudCall op (EnsureAPIServerLoadBalancer fake_Client (APIServerInput sc ts)))"
  using assms by (simp_all add: recovers_cloudCall creates_keep_fit tolerant_calls)

lemma modify_coming_up:
  assumes "\<And>sc. sc_meta (f sc) = sc_meta sc" and "\<And>sc. sc_Spec (f sc) = sc_Spec sc"
  shows "recovers (coming_up sc0) I A (modifyObj f)"
  by (rule recovers_modifyObj) (simp add: coming_up_def cluster_core_def assms)

lemmas core_simps = cluster_scope_defs set_cluster_Ready_def set_cluster_conditions_def set_cluster_Network_def

lemma clusterCloudFailure_recovers: "recovers (coming_up sc0) I A (clusterCloudFailure r rs err b ts)"
  unfolding clusterCloudFailure_def
  by (intro modify_coming_up recovers_obj recovers_intros) (simp_all add: core_simps)

lemma ensureNetwork_recovers: "recovers (coming_up sc0) (cloud_fit sc0 c0) A (ensureNetwork r fake_Client)"
  unfolding ensureNetwork_def getUnmanagedNetwork_def ensureManagedNetwork_def createManagedNetwork_def
  by (intro modify_coming_up recovers_obj recovers_intros cluster_calls cluster_creates clusterCloudFailure_recovers)
    (simp_all add: core_simps)

lemma publishEndpoint_recovers:
  assumes "scs_LoadBalancerEnabled (sc_Spec sc0)"
  shows "recovers (coming_up sc0) (cloud_fit sc0 c0) A (publishEndpoint r fake_Client ts lb)"
proof -
  have "recovers (coming_up sc0) (cloud_fit sc0 c0) A (modifyObj (SetAPIServerEndpoint ep))" for ep
    by (rule recovers_modifyObj) (use assms in \<open>simp add: coming_up_def cluster_core_def SetAPIServerEndpoint_def\<close>)
  then show ?thesis
    unfolding publishEndpoint_def publishTargets_def
    by (intro recovers_obj recovers_intros cluster_calls) (simp_all add: modify_coming_up core_simps)
qed

definition api_serves ::
  "('k \<Rightarrow> bool) \<Rightarrow> (fake, 'k) Reconciler \<Rightarrow> Cluster \<Rightarrow> Machine list \<Rightarrow> StackitCluster \<Rightarrow> bool" where
  \<comment> \<open>in the states \<open>A\<close> of the API server, which the two reads do not leave, these control plane machines
    are listed and the credentials are there\<close>
  "api_serves A r cl machines sc0 \<longleftrightarrow>
     (\<forall>k. A k \<longrightarrow> fst (run_state (kube_GetFilteredMachinesForCluster (r_Client r) cl
          [ControlPlaneMachines (om_Name (cl_meta cl)), ActiveMachines]) k) = Inr machines \<and>
        A (snd (run_state (kube_GetFilteredMachinesForCluster (r_Client r) cl
          [ControlPlaneMachines (om_Name (cl_meta cl)), ActiveMachines]) k))) \<and>
     (\<forall>k sc. A k \<longrightarrow> coming_up sc0 sc \<longrightarrow>
        (\<exists>k'. run_state (BuildCloudClient (r_Client r) (r_CloudClientFactory r) sc) k = (Inr fake_Client, k') \<and> A k'))"

lemma reconcileEndpoint_recovers:
  assumes "api_serves A r cl machines sc0"
  shows "recovers (coming_up sc0) (cloud_fit sc0 c0) A (reconcileEndpoint r cl fake_Client net)"
proof -
  have list: "recovers (coming_up sc0) (cloud_fit sc0 c0) A (kubeCall (kube_GetFilteredMachinesForCluster (r_Client r) cl
      [ControlPlaneMachines (om_Name (cl_meta cl)), ActiveMachines]))"
    by (rule recovers_kubeCall) (use assms in \<open>simp add: api_serves_def\<close>)
  show ?thesis
  proof (cases "scs_LoadBalancerEnabled (sc_Spec sc0)")
    case True
    then show ?thesis
      unfolding reconcileEndpoint_def reconcileLoadBalancer_def recordLoadBalancer_def
      by (intro modify_coming_up recovers_obj recovers_intros list cluster_creates publishEndpoint_recovers
          clusterCloudFailure_recovers) (simp_all add: core_simps)
  next
    case False
    then show ?thesis
      unfolding reconcileEndpoint_def
      by (intro modify_coming_up recovers_obj recovers_intros) (auto simp: core_simps dest: coming_up_facts(5))
  qed
qed

lemma reconcileClusterBastion_recovers:
  assumes "\<not> bs_Enabled (scs_Bastion (sc_Spec sc0))"
  shows "recovers (coming_up sc0) (cloud_fit sc0 c0) A (reconcileClusterBastion r fake_Client)"
proof -
  have "recovers (coming_up sc0) (cloud_fit sc0 c0) A (reconcileBastionDisabled r fake_Client)"
    unfolding reconcileBastionDisabled_def cleanupBastion_def
    by (intro modify_coming_up recovers_obj recovers_intros cluster_calls) (simp_all add: core_simps)
  then have "recovers (coming_up sc0) (cloud_fit sc0 c0) A (reconcileBastion r fake_Client)"
    unfolding reconcileBastion_def
    by (intro recovers_obj) (simp add: assms coming_up_facts(4))
  then show ?thesis
    unfolding reconcileClusterBastion_def
    by (intro modify_coming_up recovers_obj recovers_intros clusterCloudFailure_recovers) (simp_all add: core_simps)
qed

lemma cluster_reconcileNormal_recovers:
  assumes "api_serves A r cl machines sc0" and "\<not> bs_Enabled (scs_Bastion (sc_Spec sc0))"
    and "cluster_finalized (r_lib r) sc0"
  shows "recovers (coming_up sc0) (cloud_fit sc0 c0) A (cluster_reconcileNormal r cl)"
proof -
  have "recovers (coming_up sc0) (cloud_fit sc0 c0) A (ensureClusterFinalizer r)"
    unfolding ensureClusterFinalizer_def
    by (intro recovers_obj) (use assms(3) in \<open>simp add: coming_up_facts(1) cluster_finalized_def recovers_intros\<close>)
  moreover have "recovers (coming_up sc0) (cloud_fit sc0 c0) A (reconcileClusterZones r cl fake_Client)"
    unfolding reconcileClusterZones_def reconcileClusterNetwork_def
    by (intro modify_coming_up recovers_intros cluster_calls clusterCloudFailure_recovers ensureNetwork_recovers
        reconcileEndpoint_recovers [OF assms(1)] reconcileClusterBastion_recovers [OF assms(2)])
      (simp_all add: core_simps)
  ultimately show ?thesis
    unfolding cluster_reconcileNormal_def reconcileClusterCredentials_def
    by (intro modify_coming_up recovers_client recovers_obj recovers_intros)
      (use assms(1) in \<open>simp_all add: core_simps api_serves_def\<close>)
qed

section \<open>Repeated passes over the cluster\<close>

definition normal_pass :: "('c, 'k) Reconciler \<Rightarrow> Cluster \<Rightarrow> ('c, 'k) cstate \<Rightarrow> ('c, 'k) cstate" where
  "normal_pass r cl s = snd (run_state (cluster_reconcileNormal r cl) s)"

definition bringable ::
  "('k \<Rightarrow> bool) \<Rightarrow> (fake, 'k) Reconciler \<Rightarrow> Cluster \<Rightarrow> Machine list \<Rightarrow> StackitCluster \<Rightarrow> bool" where
  \<comment> \<open>the cluster carries its finalizer, has no bastion and a way to an endpoint, and the API answers\<close>
  "bringable A r cl machines sc0 \<longleftrightarrow> k8s_lib (r_lib r) \<and> cluster_finalized (r_lib r) sc0 \<and>
     \<not> bs_Enabled (scs_Bastion (sc_Spec sc0)) \<and> api_serves A r cl machines sc0 \<and>
     list_all (\<lambda>m. om_Name (mc_meta m) \<noteq> []) machines \<and>
     (scs_LoadBalancerEnabled (sc_Spec sc0) \<or> ep_Host (scs_ControlPlaneEndpoint (sc_Spec sc0)) \<noteq> [])"

definition under_way ::
  "('k \<Rightarrow> bool) \<Rightarrow> (fake, 'k) Reconciler \<Rightarrow> Cluster \<Rightarrow> Machine list \<Rightarrow> StackitCluster \<Rightarrow> fake \<Rightarrow>
   (fake, 'k) cstate \<Rightarrow> bool" where
  "under_way A r cl machines sc0 c0 s \<longleftrightarrow> bringable A r cl machines sc0 \<and>
     coming_up sc0 (obj s) \<and> cloud_fit sc0 c0 (cloud s) \<and> A (kube s)"

definition arrived ::
  "(fake, 'k) Reconciler \<Rightarrow> Machine list \<Rightarrow> StackitCluster \<Rightarrow> (fake, 'k) cstate \<Rightarrow> bool" where
  \<comment> \<open>the cluster is up, and its failure domains are the zones of the cloud\<close>
  "arrived r machines sc0 s \<longleftrightarrow>
     cluster_up (r_lib r) (APIServerTargets (r_sha256 r) (map Some machines)) sc0 (obj s) (cloud s) \<and>
     scst_FailureDomains (sc_Status (obj s)) =
       failureDomainsFromZones (scs_Region (sc_Spec sc0)) (served_zones (cloud s)) \<and>
     distinct (map fst (servers (cloud s)))"

lemma quiet_pass_arrives:
  assumes "under_way A r cl machines sc0 c0 s" and "AvailabilityZones (cloud s') = AvailabilityZones c0"
    and "run_state (cluster_reconcileNormal r cl) (quiet s) = (out, quiet s')"
  shows "arrived r machines sc0 s'"
proof -
  have u: "bringable A r cl machines sc0" "coming_up sc0 (obj s)" "cloud_fit sc0 c0 (cloud s)" "A (kube s)"
    using assms(1) by (simp_all add: under_way_def)
  note f = coming_up_facts [OF u(2)]
  obtain k where k: "run_state (BuildCloudClient (r_Client r) (r_CloudClientFactory r) (obj s)) (kube s) = (Inr fake_Client, k)"
      "A k" using u unfolding bringable_def api_serves_def by blast
  have "wp (cluster_reconcileNormal r cl) (\<lambda>out s'. out = (no_requeue, None) \<and>
     scst_FailureDomains (sc_Status (obj s')) =
       failureDomainsFromZones (scs_Region (sc_Spec (obj (quiet s)))) (served_zones (cloud (quiet s))) \<and>
     cluster_up (r_lib r) (APIServerTargets (r_sha256 r) (map Some machines)) (obj (quiet s)) (obj s') (cloud s') \<and>
     undisturbed (obj (quiet s)) (cloud (quiet s)) (obj s') (cloud s')) (quiet s)"
  proof (rule cluster_reconcileNormal_up)
    show "cloud_serves (obj (quiet s)) (cloud (quiet s))"
      using u(3) cloud_serves_cong [OF f(2,3)] by (simp add: cloud_fit_def)
    show "cluster_inputs r cl machines (obj (quiet s)) k"
      using u(1,2) k(2) f(5) by (auto simp: cluster_inputs_def bringable_def api_serves_def coming_up_def)
  qed (use u k f in \<open>simp_all add: bringable_def cluster_finalized_def\<close>)
  with assms(3) have "scst_FailureDomains (sc_Status (obj s')) =
       failureDomainsFromZones (scs_Region (sc_Spec (obj s))) (served_zones (calm (cloud s))) \<and>
     cluster_up (r_lib r) (APIServerTargets (r_sha256 r) (map Some machines)) (obj s) (obj s') (calm (cloud s')) \<and>
     undisturbed (obj s) (calm (cloud s)) (obj s') (calm (cloud s'))"
    by (simp add: wp_def)
  with f(5,6) assms(2) u(3) show ?thesis
    by (simp add: arrived_def cluster_up_def lb_serves_def calm_def served_zones_def undisturbed_def cloud_fit_def)
qed

lemma normal_pass_under_way:
  assumes "under_way A r cl machines sc0 c0 s"
  shows "under_way A r cl machines sc0 c0 (normal_pass r cl s)"
    and "arrived r machines sc0 (normal_pass r cl s) \<or>
      outstanding (cloud (normal_pass r cl s)) < outstanding (cloud s)"
proof -
  have b: "bringable A r cl machines sc0" and p: "coming_up sc0 (obj s)" "cloud_fit sc0 c0 (cloud s)" "A (kube s)"
    using assms by (simp_all add: under_way_def)
  have "recovers (coming_up sc0) (cloud_fit sc0 c0) A (cluster_reconcileNormal r cl)"
    using b by (intro cluster_reconcileNormal_recovers) (auto simp: bringable_def)
  note run = recoversD [OF this prod.collapse [symmetric] p, folded normal_pass_def]
  from run(1-3) b show "under_way A r cl machines sc0 c0 (normal_pass r cl s)" by (simp add: under_way_def)
  from run(2) have "AvailabilityZones (cloud (normal_pass r cl s)) = AvailabilityZones c0" by (simp add: cloud_fit_def)
  with run(4) quiet_pass_arrives [OF assms]
  show "arrived r machines sc0 (normal_pass r cl s) \<or>
      outstanding (cloud (normal_pass r cl s)) < outstanding (cloud s)" by blast
qed

interpretation bringing_up: draining "normal_pass r cl" "under_way A r cl machines sc0 c0"
  "arrived r machines sc0" "\<lambda>s. outstanding (cloud s)" for A r cl machines sc0 c0
  by unfold_locales (use normal_pass_under_way in blast)

section \<open>Repeated passes over a machine\<close>

definition machine_normal_pass ::
  "('c, 'k) Reconciler \<Rightarrow> MachineScope \<Rightarrow> ('c, 'k, StackitMachine) rstate \<Rightarrow> ('c, 'k, StackitMachine) rstate" where
  "machine_normal_pass r ms t = snd (run_state (machine_reconcileNormal r ms) t)"

definition machine_up ::
  "(fake, 'k) Reconciler \<Rightarrow> MachineScope \<Rightarrow> StackitMachine \<Rightarrow> string \<Rightarrow> (fake, 'k, StackitMachine) rstate \<Rightarrow> bool" where
  \<comment> \<open>the machine is reported ready, and the server that it records is up\<close>
  "machine_up r ms sm0 ud t \<longleftrightarrow> smst_Ready (sm_Status (obj t)) \<and>
     machine_true (r_lib r) (obj t) MachineReadyCondition \<and>
     (\<exists>e. server_up ms sm0 ud e (cloud t) \<and> smst_InstanceID (sm_Status (obj t)) = srv_ID (se_server e))"

definition unstarted :: "MachineScope \<Rightarrow> StackitMachine \<Rightarrow> (fake, 'k, StackitMachine) rstate \<Rightarrow> bool" where
  \<comment> \<open>the machine has no server yet, in its status or in the cloud\<close>
  "unstarted ms sm0 t \<longleftrightarrow> sm_meta (obj t) = sm_meta sm0 \<and> sm_Spec (obj t) = sm_Spec sm0 \<and>
     \<not> smst_Provisioned (sm_Status (obj t)) \<and> smst_InstanceID (sm_Status (obj t)) = [] \<and>
     distinct (map fst (servers (cloud t))) \<and>
     tagged se_tags (servers (cloud t)) (machine_Tags ms sm0) = {}"

definition machine_inputs ::
  "('k \<Rightarrow> bool) \<Rightarrow> (fake, 'k) Reconciler \<Rightarrow> MachineScope \<Rightarrow> StackitMachine \<Rightarrow> string \<Rightarrow> bool" where
  \<comment> \<open>the machine carries its finalizer, asks for a zone that the cluster has, and its bootstrap data and
    credentials can be read in the states \<open>B\<close> of the API server\<close>
  "machine_inputs B r ms sm0 ud \<longleftrightarrow> machine_finalized (r_lib r) sm0 \<and>
     zones_known (scst_FailureDomains (sc_Status (ms_StackitCluster ms))) ms sm0 \<and>
     (\<forall>k. B k \<longrightarrow> (\<exists>rs msg ka kb.
        run_state (fetchBootstrapData (r_Client r) (ms_Machine ms)) k = ((ud, ConditionTrue, rs, msg), ka) \<and>
        run_state (BuildCloudClient (r_Client r) (r_CloudClientFactory r) (ms_StackitCluster ms)) ka =
          (Inr fake_Client, kb) \<and> B kb))"

definition tried ::
  "MachineScope \<Rightarrow> StackitMachine \<Rightarrow> (fake, 'k, StackitMachine) rstate \<Rightarrow> (fake, 'k, StackitMachine) rstate \<Rightarrow> bool" where
  \<comment> \<open>nothing has happened except that a failure was used up\<close>
  "tried ms sm0 s s' \<longleftrightarrow> unstarted ms sm0 s' \<and> kube s' = kube s \<and> outstanding (cloud s') < outstanding (cloud s)"

lemma ensureServer_tries:
  assumes "unstarted ms sm0 s" and "machine_NetworkID ms sm0 \<noteq> []"
  shows "wp (ensureServer fake_Client ms ud) (\<lambda>res s'. kube s' = kube s \<and> (case res of
     Inr (server, created) \<Rightarrow> \<exists>e. server = se_server e \<and> server_up ms sm0 ud e (cloud s')
   | Inl err \<Rightarrow> tried ms sm0 s s')) s"
proof -
  let ?t = "machine_Tags ms sm0" and ?c = "cloud s"
  let ?inp = "createServerInput ms (obj s) (machine_NetworkID ms sm0) ud"
  let ?e = "newServerEntry (fake_id (Suc (nextID ?c))) ?inp"
  have o: "sm_meta (obj s) = sm_meta sm0" "sm_Spec (obj s) = sm_Spec sm0"
    "\<not> smst_Provisioned (sm_Status (obj s))" "smst_InstanceID (sm_Status (obj s)) = []"
    using assms(1) by (simp_all add: unstarted_def)
  then have t: "machine_Tags ms (obj s) = ?t" "machine_NetworkID ms (obj s) = machine_NetworkID ms sm0" "?t \<noteq> []"
    by (simp_all add: machine_Tags_def machine_NetworkID_def)
  then have inp: "csi_Tags ?inp = ?t" "csi_UserData ?inp = ud" "csi_NetworkID ?inp = machine_NetworkID ms sm0"
    by (simp_all add: createServerInput_def)
  have "find (\<lambda>(i, e). mapContains (se_tags e) ?t) (servers ?c) = None"
    using assms(1) fake_no_match_find(1) [of ?c ?t] by (simp add: unstarted_def matching_fake_srvs)
  then show ?thesis
    using o t inp assms
    by (cases "FailNextFindServer (failures ?c)"; cases "FailNextCreateServer (failures ?c)")
      (auto simp: ensureServer_def findServerOrCreate_def createMissingServer_def wp_simps Let_def run_consume
        fake_FindServerByTags_def fake_CreateServer_def IsNotFound_def server_up_def tried_def unstarted_def
        outstanding_def intro!: exI [of _ ?e])
qed

lemma reconcileMachineState_up:
  assumes "k8s_lib (r_lib r)" and "\<not> bs_Enabled (scs_Bastion (sc_Spec (ms_StackitCluster ms)))"
    and "server_up ms sm0 ud e (cloud s)"
  shows "wp (reconcileMachineState r fake_Client ms (se_server e)) (\<lambda>_. machine_up r ms sm0 ud) s"
  using assms
  by (auto simp: machine_up_def reconcileMachineState_def reconcileMachineAccess_def wp_simps server_up_def
      reconcileBastionNodeSSHAccess_def serverStateCondition_def serverStates_def ssi_def
      machine_SetReady_def machine_true_SetConditions SetInstance_def
      machine_SetConditions_status intro!: exI [of _ e])

lemma tried_status:
  assumes "tried ms sm0 s s1" and "cloud s2 = cloud s1" and "kube s2 = kube s1"
    and "sm_meta (obj s2) = sm_meta (obj s1)" and "sm_Spec (obj s2) = sm_Spec (obj s1)"
    and "smst_Provisioned (sm_Status (obj s2)) = smst_Provisioned (sm_Status (obj s1))"
    and "smst_InstanceID (sm_Status (obj s2)) = smst_InstanceID (sm_Status (obj s1))"
  shows "tried ms sm0 s s2"
  using assms by (simp add: tried_def unstarted_def)

lemma machineCloudFailure_tried:
  assumes "tried ms sm0 s s1"
  shows "wp (machineCloudFailure r rs err ts) (\<lambda>_. tried ms sm0 s) s1"
  by (simp add: machineCloudFailure_def wp_simps split_def machine_scope_defs, rule tried_status [OF assms]) simp_all

lemma reconcileMachineInstance_tries:
  assumes "k8s_lib (r_lib r)" and "\<not> bs_Enabled (scs_Bastion (sc_Spec (ms_StackitCluster ms)))"
    and "unstarted ms sm0 s" and "machine_NetworkID ms sm0 \<noteq> []"
  shows "wp (reconcileMachineInstance r fake_Client ms ud) (\<lambda>_ s'. machine_up r ms sm0 ud s' \<or> tried ms sm0 s s') s"
proof -
  have up: "wp (reconcileMachineState r fake_Client ms (se_server e)) (\<lambda>_ s'. machine_up r ms sm0 ud s' \<or> tried ms sm0 s s') s1"
    if "server_up ms sm0 ud e (cloud s1)" for e s1
    by (rule wp_mono [OF reconcileMachineState_up [OF assms(1,2) that]]) simp
  have failed: "wp (machineCloudFailure r rs err ts) (\<lambda>_ s'. machine_up r ms sm0 ud s' \<or> tried ms sm0 s s') s1"
    if "tried ms sm0 s s1" for rs err ts s1
    by (rule wp_mono [OF machineCloudFailure_tried [OF that]]) simp
  have st: "tried ms sm0 s (s1\<lparr>obj := machine_SetNotReady L rs msg ts (obj s1), effects := es\<rparr>)"
    "tried ms sm0 s (s1\<lparr>effects := es\<rparr>)" if "tried ms sm0 s s1" for L rs msg ts es s1
    by (rule tried_status [OF that]; simp add: machine_scope_defs)+
  show ?thesis
    unfolding reconcileMachineInstance_def wp_bind
    by (rule wp_mono [OF ensureServer_tries [OF assms(3,4)]])
      (auto simp: wp_simps st intro!: up failed split: sum.splits)
qed

lemma machine_pass_tries:
  assumes "k8s_lib (r_lib r)" and "machine_inputs B r ms sm0 ud" and "scst_Ready (sc_Status (ms_StackitCluster ms))"
    and "\<not> bs_Enabled (scs_Bastion (sc_Spec (ms_StackitCluster ms)))" and "machine_NetworkID ms sm0 \<noteq> []"
    and "unstarted ms sm0 t" and "B (kube t)"
  shows "machine_up r ms sm0 ud (machine_normal_pass r ms t) \<or>
    (unstarted ms sm0 (machine_normal_pass r ms t) \<and> B (kube (machine_normal_pass r ms t))) \<and>
    outstanding (cloud (machine_normal_pass r ms t)) < outstanding (cloud t)"
proof -
  have o: "sm_meta (obj t) = sm_meta sm0" "sm_Spec (obj t) = sm_Spec sm0" using assms(6) by (simp_all add: unstarted_def)
  from assms(2,7) obtain rs msg ka kb where b:
      "run_state (fetchBootstrapData (r_Client r) (ms_Machine ms)) (kube t) = ((ud, ConditionTrue, rs, msg), ka)"
      "run_state (BuildCloudClient (r_Client r) (r_CloudClientFactory r) (ms_StackitCluster ms)) ka = (Inr fake_Client, kb)"
      "B kb" unfolding machine_inputs_def by blast
  have valid: "validateMachineAvailabilityZone ms (obj t) = None"
    using assms(2) o by (intro zones_known_valid) (simp add: machine_inputs_def zones_known_def)
  have fin: "machine_finalized (r_lib r) (obj t)" using assms(2) o by (simp add: machine_inputs_def machine_finalized_def)
  let ?boot = "machine_SetConditions (r_lib r) ConditionTrue rs msg [MachineBootstrapReadyCondition] (obj t)"
  let ?t = "t\<lparr>kube := kb, obj := machine_SetConditions (r_lib r) ConditionTrue ''Available'' []
      [MachineCredentialsReadyCondition] ?boot\<rparr>"
  have "unstarted ms sm0 ?t" using assms(6) by (simp add: unstarted_def machine_SetConditions_def)
  from reconcileMachineInstance_tries [OF assms(1,4) this assms(5)]
  have "wp (reconcileMachineInstance r fake_Client ms ud) (\<lambda>_ s'. machine_up r ms sm0 ud s' \<or> tried ms sm0 ?t s') ?t" .
  then have "wp (machine_reconcileNormal r ms) (\<lambda>_ s'. machine_up r ms sm0 ud s' \<or> tried ms sm0 ?t s') t"
    using fin assms(3) valid b
    by (simp add: machine_reconcileNormal_def reconcileMachineGuards_def wp_bind
        wp_ensureMachineFinalizer reconcileMachineBootstrap_def reconcileMachineCredentials_def wp_simps)
  with b(3) show ?thesis by (auto simp: wp_def machine_normal_pass_def tried_def split: prod.splits)
qed

definition starting ::
  "('k \<Rightarrow> bool) \<Rightarrow> (fake, 'k) Reconciler \<Rightarrow> MachineScope \<Rightarrow> StackitMachine \<Rightarrow> string \<Rightarrow>
   (fake, 'k, StackitMachine) rstate \<Rightarrow> bool" where
  "starting B r ms sm0 ud t \<longleftrightarrow> k8s_lib (r_lib r) \<and> machine_inputs B r ms sm0 ud \<and>
     scst_Ready (sc_Status (ms_StackitCluster ms)) \<and> \<not> bs_Enabled (scs_Bastion (sc_Spec (ms_StackitCluster ms))) \<and>
     machine_NetworkID ms sm0 \<noteq> [] \<and> unstarted ms sm0 t \<and> B (kube t)"

interpretation starting_up: draining "machine_normal_pass r ms" "starting B r ms sm0 ud"
  "machine_up r ms sm0 ud" "\<lambda>t. outstanding (cloud t)" for B r ms sm0 ud
  by unfold_locales (use machine_pass_tries in \<open>unfold starting_def, blast\<close>)

section \<open>Both controllers\<close>

text \<open>
  C5: a cluster and its machines come up in spite of failing calls. Let the cluster carry its finalizer
  and have no bastion, its credentials and control plane machines be readable, and let the in-memory
  cloud hold nothing of the cluster, or at most one of each, and inject a failure into the next call of
  any of its operations. Then repeated passes of \<open>reconcileNormal\<close> bring the cluster up, after at most
  one pass more than there are failures: it is reported ready with its spec unchanged, its network
  exists, its endpoint has a host, its load balancer exists and forwards to the control plane machines,
  and its failure domains are the zones of the cloud. Let then a new machine (no recorded server, none
  in the cloud at the start) see this cluster, ask for no zone that the cluster does not have, and have
  its bootstrap data and credentials readable. Repeated passes over it bring it up, after at most one
  pass more than there are failures left: it is reported ready, and the server that it records exists,
  active, with the machine's tags, in the network of the cluster and booted with the bootstrap data.
\<close>

theorem system_recovers:
  assumes "bringable A r cl machines (obj s)" and "cloud_serves (obj s) (calm (cloud s))" and "A (kube s)"
  shows "\<exists>n \<le> Suc (outstanding (cloud s)). let s' = (normal_pass r cl ^^ n) s in
    arrived r machines (obj s) s' \<and> coming_up (obj s) (obj s') \<and>
    (\<forall>B ms ud t. ms_StackitCluster ms = obj s' \<longrightarrow> cloud t = cloud s' \<longrightarrow> machine_inputs B r ms (obj t) ud \<longrightarrow>
       \<not> smst_Provisioned (sm_Status (obj t)) \<longrightarrow> smst_InstanceID (sm_Status (obj t)) = [] \<longrightarrow>
       tagged se_tags (servers (cloud s)) (machine_Tags ms (obj t)) = {} \<longrightarrow> B (kube t) \<longrightarrow>
       (\<exists>m \<le> Suc (outstanding (cloud s')). machine_up r ms (obj t) ud ((machine_normal_pass r ms ^^ m) t)))"
proof -
  let ?u = "under_way A r cl machines (obj s) (cloud s)"
  have "?u s" using assms by (simp add: under_way_def coming_up_def cloud_fit_def)
  from bringing_up.finishes_with [of A r cl machines "obj s" "cloud s" ?u, OF normal_pass_under_way(1) this this]
  obtain n where n: "n \<le> Suc (outstanding (cloud s))" and a: "arrived r machines (obj s) ((normal_pass r cl ^^ n) s)"
    and u: "?u ((normal_pass r cl ^^ n) s)" by blast
  let ?s = "(normal_pass r cl ^^ n) s"
  have c: "coming_up (obj s) (obj ?s)" and t: "tagged se_tags (servers (cloud ?s)) T \<subseteq> tagged se_tags (servers (cloud s)) T" for T
    using u by (simp_all add: under_way_def cloud_fit_def)
  have "\<exists>m \<le> Suc (outstanding (cloud ?s)). machine_up r ms (obj t) ud ((machine_normal_pass r ms ^^ m) t)"
    if m: "ms_StackitCluster ms = obj ?s" "cloud t = cloud ?s" "machine_inputs B r ms (obj t) ud"
      "\<not> smst_Provisioned (sm_Status (obj t))" "smst_InstanceID (sm_Status (obj t)) = []"
      "tagged se_tags (servers (cloud s)) (machine_Tags ms (obj t)) = {}" "B (kube t)" for B ms ud t
  proof -
    have "machine_NetworkID ms (obj t) \<noteq> []" using a m(1) by (simp add: arrived_def cluster_up_def machine_NetworkID_def)
    moreover have "unstarted ms (obj t) t"
      using a m(2,4,5,6) t [of "machine_Tags ms (obj t)"] by (simp add: unstarted_def arrived_def)
    ultimately have "starting B r ms (obj t) ud t"
      using a m assms(1) coming_up_facts(4) [OF c] by (simp add: starting_def arrived_def cluster_up_def bringable_def)
    from starting_up.finishes [OF this] m(2) show ?thesis by simp
  qed
  with n a c show ?thesis by (auto simp: Let_def)
qed

definition failing_start :: "(fake, api, StackitCluster) rstate" where
  \<comment> \<open>a new cluster, whose network and whose machine's server cannot be created at first\<close>
  "failing_start = (sample_state (add_cluster_finalizer (std_lib 0) sample_fresh_cluster))
     \<lparr>cloud := (fake_New [])\<lparr>failures := no_failures\<lparr>
        FailNextCreateNetwork := Some (mk_error [ErrTransient] ''transient: try again''),
        FailNextCreateServer := Some (mk_error [ErrTransient] ''transient: try again'')\<rparr>\<rparr>\<rparr>"

definition waiting_machine :: "fake \<Rightarrow> (fake, api, StackitMachine) rstate" where
  "waiting_machine c = (sample_state (add_machine_finalizer (std_lib 0) sample_StackitMachine))\<lparr>cloud := c\<rparr>"

lemma failing_start_sel:
  "kube failing_start = sample_api" "outstanding (cloud failing_start) = 2"
  "servers (cloud failing_start) = []" "cloud_serves (obj failing_start) (calm (cloud failing_start))"
proof -
  let ?sc = "add_cluster_finalizer (std_lib 0) sample_fresh_cluster"
  have c: "calm (cloud failing_start) = fake_New []"
    by (simp add: failing_start_def calm_def fake_New_def)
  have "scs_NetworkID (sc_Spec ?sc) = []" by code_simp
  then show "cloud_serves (obj failing_start) (calm (cloud failing_start))"
    using fake_New_wf [of "[]"] unfolding c
    by (simp add: failing_start_def cloud_serves_def system_unique_def) (simp add: fake_New_def tagged_def at_most_one_def)
qed (simp_all add: failing_start_def outstanding_def no_failures_def fake_New_def Let_def)

lemma failing_start_client:
  assumes "coming_up (obj failing_start) sc"
  shows "run_state (BuildCloudClient (r_Client control_plane_Reconciler) (r_CloudClientFactory control_plane_Reconciler) sc)
     sample_api = (Inr fake_Client, sample_api)"
proof -
  have "CredentialsSecretKey (obj failing_start) = \<lparr>nn_Namespace = ''ns'', nn_Name = ''creds''\<rparr>"
    "scs_ProjectID (sc_Spec (obj failing_start)) = ''proj''" "scs_Region (sc_Spec (obj failing_start)) = ''eu01''"
    by code_simp+
  then have "CredentialsSecretKey sc = \<lparr>nn_Namespace = ''ns'', nn_Name = ''creds''\<rparr>"
    "scs_ProjectID (sc_Spec sc) = ''proj''" "scs_Region (sc_Spec sc) = ''eu01''"
    using coming_up_facts [OF assms] by (auto simp: CredentialsSecretKey_def Let_def split: if_splits)
  then show ?thesis
    by (simp add: control_plane_Reconciler_def BuildCloudClient_def sample_Kube_def sample_api_def api_get_def
        ParseCredentialsSecret_def credentialsKeyServiceAcct_def credentialsKeyProjectID_def Let_def)
qed

lemma failing_start_bringable:
  "bringable (\<lambda>k. k = sample_api) control_plane_Reconciler sample_Cluster [sample_control_plane] (obj failing_start)"
proof -
  have "cluster_finalized (std_lib 0) (obj failing_start)" "\<not> bs_Enabled (scs_Bastion (sc_Spec (obj failing_start)))"
    "scs_LoadBalancerEnabled (sc_Spec (obj failing_start))" by code_simp+
  then show ?thesis
    using failing_start_client by (simp add: bringable_def api_serves_def control_plane_Reconciler_def
        sample_control_plane_def sample_Machine_def sample_meta_def)
qed

lemma waiting_machine_inputs:
  assumes "coming_up (obj failing_start) sc"
  shows "machine_inputs (\<lambda>k. k = sample_api) control_plane_Reconciler (sample_scope\<lparr>ms_StackitCluster := sc\<rparr>)
    (obj (waiting_machine c)) ''#cloud-config''"
proof -
  have "machine_finalized (std_lib 0) (obj (waiting_machine c))" unfolding waiting_machine_def by code_simp
  moreover have "run_state (fetchBootstrapData (r_Client control_plane_Reconciler) (ms_Machine sample_scope)) sample_api =
       ((''#cloud-config'', ConditionTrue, ''Available'', []), sample_api)"
    by (simp add: control_plane_Reconciler_def fetchBootstrapData_def sample_scope_def sample_Machine_def sample_meta_def
        sample_Kube_def sample_api_def api_get_def ExtractBootstrapData_def Let_def)
  ultimately show ?thesis
    using failing_start_client [OF assms] by (simp add: machine_inputs_def zones_known_def waiting_machine_def
        control_plane_Reconciler_def sample_scope_def sample_Machine_def sample_StackitMachine_def add_machine_finalizer_def)
qed

theorem system_recovers_witness:
  "\<not> scst_Ready (sc_Status (obj (normal_pass control_plane_Reconciler sample_Cluster failing_start))) \<and>
   (\<exists>n \<le> 3. let s' = (normal_pass control_plane_Reconciler sample_Cluster ^^ n) failing_start;
        ms = sample_scope\<lparr>ms_StackitCluster := obj s'\<rparr>
      in scst_Ready (sc_Status (obj s')) \<and>
         (\<exists>m \<le> Suc (outstanding (cloud s')). smst_Ready (sm_Status (obj
            ((machine_normal_pass control_plane_Reconciler ms ^^ m) (waiting_machine (cloud s')))))))"
proof
  let ?r = control_plane_Reconciler and ?s = failing_start
  show "\<not> scst_Ready (sc_Status (obj (normal_pass ?r sample_Cluster ?s)))" by code_simp
  obtain n where n: "n \<le> 3" "arrived ?r [sample_control_plane] (obj ?s) ((normal_pass ?r sample_Cluster ^^ n) ?s)"
      "coming_up (obj ?s) (obj ((normal_pass ?r sample_Cluster ^^ n) ?s))"
    and m: "\<And>B ms ud t. ms_StackitCluster ms = obj ((normal_pass ?r sample_Cluster ^^ n) ?s) \<Longrightarrow>
       cloud t = cloud ((normal_pass ?r sample_Cluster ^^ n) ?s) \<Longrightarrow> machine_inputs B ?r ms (obj t) ud \<Longrightarrow>
       \<not> smst_Provisioned (sm_Status (obj t)) \<Longrightarrow> smst_InstanceID (sm_Status (obj t)) = [] \<Longrightarrow>
       tagged se_tags (servers (cloud ?s)) (machine_Tags ms (obj t)) = {} \<Longrightarrow> B (kube t) \<Longrightarrow>
       \<exists>m \<le> Suc (outstanding (cloud ((normal_pass ?r sample_Cluster ^^ n) ?s))).
         machine_up ?r ms (obj t) ud ((machine_normal_pass ?r ms ^^ m) t)"
    using system_recovers [OF failing_start_bringable failing_start_sel(4,1)]
    unfolding failing_start_sel(2) Let_def by (auto simp: eval_nat_numeral)
  let ?s' = "(normal_pass ?r sample_Cluster ^^ n) ?s"
  let ?ms = "sample_scope\<lparr>ms_StackitCluster := obj ?s'\<rparr>"
  have t: "cloud (waiting_machine c) = c" "kube (waiting_machine c) = sample_api"
    "\<not> smst_Provisioned (sm_Status (obj (waiting_machine c)))" "smst_InstanceID (sm_Status (obj (waiting_machine c))) = []" for c
    by (simp_all add: waiting_machine_def add_machine_finalizer_def sample_StackitMachine_def)
  have "\<exists>m \<le> Suc (outstanding (cloud ?s')). machine_up ?r ?ms (obj (waiting_machine (cloud ?s'))) ''#cloud-config''
      ((machine_normal_pass ?r ?ms ^^ m) (waiting_machine (cloud ?s')))"
    by (rule m [OF _ _ waiting_machine_inputs [OF n(3)]]) (simp_all add: t failing_start_sel(3) tagged_def)
  with n show "\<exists>n \<le> 3. let s' = (normal_pass ?r sample_Cluster ^^ n) ?s; ms = sample_scope\<lparr>ms_StackitCluster := obj s'\<rparr>
      in scst_Ready (sc_Status (obj s')) \<and> (\<exists>m \<le> Suc (outstanding (cloud s')). smst_Ready (sm_Status (obj
            ((machine_normal_pass ?r ms ^^ m) (waiting_machine (cloud s'))))))"
    by (intro exI [of _ n]) (auto simp: Let_def arrived_def cluster_up_def machine_up_def)
qed

end
