(* ===== verification/Teardown.thy ===== *)
theory Teardown
  imports Deletion_Progress
begin

text \<open>
  Deleting machines and clusters comes to an end: the passes over a machine drain the failures of its
  deletion, and the passes over the cluster then drain theirs.
\<close>

section \<open>Machines\<close>

definition machine_pending :: "fake \<Rightarrow> nat" where
  \<comment> \<open>the failures that the deletion of a machine can still meet\<close>
  "machine_pending c = armed (FailNextFindServer (failures c)) + armed (FailNextDeleteServer (failures c))"

definition machine_delete_pass ::
  "('c, 'k) Reconciler \<Rightarrow> MachineScope \<Rightarrow> ('c, 'k, StackitMachine) rstate \<Rightarrow> ('c, 'k, StackitMachine) rstate" where
  "machine_delete_pass r ms t = snd (run_state (machine_reconcileDelete r ms) t)"

definition machine_deletable ::
  "('k \<Rightarrow> bool) \<Rightarrow> (fake, 'k) Reconciler \<Rightarrow> MachineScope \<Rightarrow> (fake, 'k, StackitMachine) rstate \<Rightarrow> bool" where
  \<comment> \<open>in the states \<open>A\<close> of the API server, which the read does not leave, the credentials are there\<close>
  "machine_deletable A r ms t \<longleftrightarrow> k8s_lib (r_lib r) \<and> uses_client (r_CloudClientFactory r) fake_Client \<and>
     (\<forall>k res k'. A k \<longrightarrow>
        run_state (BuildCloudClient (r_Client r) (r_CloudClientFactory r) (ms_StackitCluster ms)) k = (res, k') \<longrightarrow>
        \<not> isl res \<and> A k') \<and> A (kube t)"

definition deleted_or_drained :: "lib \<Rightarrow> (fake, 'k, StackitMachine) rstate \<Rightarrow> (fake, 'k, StackitMachine) rstate \<Rightarrow> bool" where
  "deleted_or_drained L t t' \<longleftrightarrow> kube t' = kube t \<and> pending (cloud t') = pending (cloud t) \<and>
     (\<not> machine_finalized L (obj t') \<or> machine_pending (cloud t') < machine_pending (cloud t))"

lemma deleteServerByID_drained:
  assumes "k8s_lib (r_lib r)"
  shows "wp (deleteServerByID r fake_Client i) (\<lambda>_. deleted_or_drained (r_lib r) t) t"
  using k8s_lib.contains_remove [OF assms]
  by (cases "FailNextDeleteServer (failures (cloud t))")
    (auto simp: deleteServerByID_def wp_simps fake_DeleteServer_def run_consume Let_def deleted_or_drained_def
      removeMachineFinalizer_def machine_finalized_def machine_pending_def pending_def)

lemma resolveServerForDeletion_drained:
  "wp (resolveServerForDeletion fake_Client ms) (\<lambda>res t'. kube t' = kube t \<and> pending (cloud t') = pending (cloud t) \<and>
     machine_pending (cloud t') \<le> machine_pending (cloud t) \<and>
     (isl res \<longrightarrow> machine_pending (cloud t') < machine_pending (cloud t))) t"
proof (cases "FailNextFindServer (failures (cloud t))")
  case None
  then show ?thesis
    by (cases "find (\<lambda>(i, e). mapContains (se_tags e) (machine_Tags ms (obj t))) (servers (cloud t))")
      (auto simp: resolveServerForDeletion_def wp_simps fake_FindServerByTags_def run_consume Let_def IsNotFound_def)
next
  case (Some err)
  then show ?thesis
    by (auto simp: resolveServerForDeletion_def wp_simps fake_FindServerByTags_def run_consume Let_def
      machine_pending_def pending_def)
qed

lemma deleteMachineServer_drained:
  assumes "k8s_lib (r_lib r)"
  shows "wp (deleteMachineServer r fake_Client ms) (\<lambda>_. deleted_or_drained (r_lib r) t) t"
  unfolding deleteMachineServer_def wp_bind
  by (rule wp_mono [OF resolveServerForDeletion_drained])
    (auto simp: wp_simps deleted_or_drained_def split: sum.split
      intro!: wp_mono [OF deleteServerByID_drained [OF assms]])

lemma machine_delete_pass_drained:
  assumes "machine_deletable A r ms t"
  shows "A (kube (machine_delete_pass r ms t))"
    and "pending (cloud (machine_delete_pass r ms t)) = pending (cloud t)"
    and "\<not> machine_finalized (r_lib r) (obj (machine_delete_pass r ms t)) \<or>
      machine_pending (cloud (machine_delete_pass r ms t)) < machine_pending (cloud t)"
proof -
  obtain b k where b: "run_state (BuildCloudClient (r_Client r) (r_CloudClientFactory r) (ms_StackitCluster ms))
      (kube t) = (b, k)" by fastforce
  with assms have "\<not> isl b" and k: "A k" unfolding machine_deletable_def by blast+
  with b assms BuildCloudClient_uses have k2: "b = Inr fake_Client"
    unfolding machine_deletable_def by (cases b) fastforce+
  have "wp (deleteMachineServer r fake_Client ms) (\<lambda>_. deleted_or_drained (r_lib r) (t\<lparr>kube := k\<rparr>)) (t\<lparr>kube := k\<rparr>)"
    using assms by (intro deleteMachineServer_drained) (simp add: machine_deletable_def)
  with b k2 have "wp (machine_reconcileDelete r ms) (\<lambda>_. deleted_or_drained (r_lib r) (t\<lparr>kube := k\<rparr>)) t"
    by (simp add: machine_reconcileDelete_def wp_simps)
  then have "deleted_or_drained (r_lib r) (t\<lparr>kube := k\<rparr>) (machine_delete_pass r ms t)"
    by (simp add: machine_delete_pass_def wp_def split_def)
  with k show "A (kube (machine_delete_pass r ms t))"
    and "pending (cloud (machine_delete_pass r ms t)) = pending (cloud t)"
    and "\<not> machine_finalized (r_lib r) (obj (machine_delete_pass r ms t)) \<or>
      machine_pending (cloud (machine_delete_pass r ms t)) < machine_pending (cloud t)"
    by (simp_all add: deleted_or_drained_def)
qed

lemma machine_delete_pass_unique:
  assumes "machine_deletable A r ms t" and "system_unique T S (cloud t)"
  shows "system_unique T S (cloud (machine_delete_pass r ms t))"
proof -
  have u: "uses_client (r_CloudClientFactory r) fake_Client" using assms(1) by (simp add: machine_deletable_def)
  have "frame (\<lambda>_. True) (system_unique T S) (machine_reconcileDelete r ms)"
    unfolding machine_reconcileDelete_def deleteMachineServer_def resolveServerForDeletion_def
      deleteServerByID_def removeMachineFinalizer_def
    by (intro frame_modifyObj frame_client [OF u] frame_obj frame_intros frame_cloudCall)
      (simp_all add: keep_unique)
  from frameD [OF this prod.collapse [symmetric] _ assms(2)] show ?thesis by (simp add: machine_delete_pass_def)
qed

interpretation machine_draining: draining "machine_delete_pass r ms" "machine_deletable A r ms"
  "\<lambda>t. \<not> machine_finalized (r_lib r) (obj t)" "\<lambda>t. machine_pending (cloud t)" for A r ms
proof
  fix t assume "machine_deletable A r ms t"
  with machine_delete_pass_drained [OF this]
  show "\<not> machine_finalized (r_lib r) (obj (machine_delete_pass r ms t)) \<or>
      machine_deletable A r ms (machine_delete_pass r ms t) \<and>
      machine_pending (cloud (machine_delete_pass r ms t)) < machine_pending (cloud t)"
    unfolding machine_deletable_def by blast
qed

section \<open>A machine and then its cluster\<close>

text \<open>
  C6: deleting ends. Let a machine and a cluster be deleted on the in-memory cloud, whose calls may
  fail, with at most one load balancer and network of the cluster there, and let their credentials be
  readable. Repeated passes over the machine remove its finalizer after at most one pass more than
  there are injected failures of its calls. Once the API server lists no machine any more, repeated
  passes over the cluster remove its finalizer after at most one pass more than there are injected
  failures of deletes: every pass that does not finish has used one up.
\<close>

theorem deletion_terminates:
  assumes "machine_deletable B r ms t"
    and "k8s_lib (r_lib r)" and "uses_client (r_CloudClientFactory r) fake_Client"
    and "api_answers A r cl (obj s)" and "A (kube s)"
    and "system_unique (cluster_tags_of (obj s)) (bastion_tags (obj s)) (cloud t)"
  shows "\<exists>n \<le> Suc (machine_pending (cloud t)). \<exists>m \<le> Suc (pending (cloud t)).
    let t' = (machine_delete_pass r ms ^^ n) t;
        s' = (delete_pass r cl ^^ m) (s\<lparr>cloud := cloud t'\<rparr>)
    in \<not> machine_finalized (r_lib r) (obj t') \<and> \<not> cluster_finalized (r_lib r) (obj s')"
proof -
  let ?J = "\<lambda>t'. system_unique (cluster_tags_of (obj s)) (bastion_tags (obj s)) (cloud t') \<and>
    pending (cloud t') = pending (cloud t)"
  obtain n where n: "n \<le> Suc (machine_pending (cloud t))"
    "\<not> machine_finalized (r_lib r) (obj ((machine_delete_pass r ms ^^ n) t))"
    "?J ((machine_delete_pass r ms ^^ n) t)"
    using machine_draining.finishes_with [of B r ms ?J, OF _ assms(1)] assms(6)
      machine_delete_pass_unique machine_delete_pass_drained(2) by metis
  let ?s = "s\<lparr>cloud := cloud ((machine_delete_pass r ms ^^ n) t)\<rparr>"
  have "deletable A r cl ?s" using assms(2-5) n(3) by (simp add: deletable_def)
  from cluster_draining.finishes [OF this] n show ?thesis by (auto simp: Let_def)
qed

definition sample_failing_cloud :: fake where
  \<comment> \<open>a network and a server, and one failure for each of the two deletions\<close>
  "sample_failing_cloud = (snd (run_state (fake_CreateServer sample_create_input) (cloud sample_cluster_deleting)))
     \<lparr>failures := no_failures\<lparr>FailNextDeleteServer := Some (mk_error [ErrTransient] ''transient: try again''),
        FailNextDeleteNodeSSH := Some (mk_error [ErrTransient] ''transient: try again'')\<rparr>\<rparr>"

definition sample_teardown :: "(fake, api, StackitMachine) rstate" where
  \<comment> \<open>a deleted machine whose status does not record its server\<close>
  "sample_teardown = sample_deleting\<lparr>cloud := sample_failing_cloud, obj := (obj sample_deleting)
     \<lparr>sm_Status := (sm_Status (obj sample_deleting))\<lparr>smst_InstanceID := []\<rparr>\<rparr>\<rparr>"

theorem deletion_terminates_witness:
  "machine_finalized (std_lib 0) (obj (machine_delete_pass sample_Reconciler sample_scope sample_teardown)) \<and>
   (\<exists>n \<le> 2. \<exists>m \<le> 2.
      let t' = (machine_delete_pass sample_Reconciler sample_scope ^^ n) sample_teardown;
          s' = (delete_pass sample_Reconciler sample_Cluster ^^ m) (sample_cluster_deleting\<lparr>cloud := cloud t'\<rparr>)
      in \<not> machine_finalized (std_lib 0) (obj t') \<and> \<not> cluster_finalized (std_lib 0) (obj s'))"
proof -
  let ?A = "\<lambda>k. k = sample_api" and ?c = sample_failing_cloud
  have "machine_finalized (std_lib 0) (obj (machine_delete_pass sample_Reconciler sample_scope sample_teardown))"
    by code_simp
  moreover have "pending ?c = 1" "machine_pending ?c = 1" by code_simp+
  moreover have "system_unique T S ?c" for T S
  proof -
    have "map fst (servers ?c) = [''fake-2'']" "map fst (loadBalancers ?c) = []"
      "map fst (networks ?c) = [''fake-1'']" by code_simp+
    then have "at_most_one (tagged se_tags (servers ?c) S)" "at_most_one (tagged le_tags (loadBalancers ?c) T)"
      "at_most_one (tagged ne_tags (networks ?c) T)"
      using tagged_keys_subset [of se_tags "servers ?c" S] tagged_keys_subset [of le_tags "loadBalancers ?c" T]
        tagged_keys_subset [of ne_tags "networks ?c" T]
      by (auto intro: at_most_one_subset [of "{x}" for x] simp: at_most_one_def [of "{x}" for x])
    moreover have "fake_wf (cloud sample_cluster_deleting)"
      unfolding sample_cluster_deleting_def
      using keepsD [OF networks_keep_wf(1) fake_New_wf] helpers_keep_wf(1) by simp
    then have "fake_wf ?c"
      unfolding sample_failing_cloud_def
      by (intro helpers_keep_wf(1) keepsD [OF servers_keep_wf(1)])
    ultimately show ?thesis by (simp add: system_unique_def)
  qed
  moreover have "uses_client (r_CloudClientFactory sample_Reconciler) fake_Client"
    by (simp add: uses_client_def)
  moreover have "api_answers ?A sample_Reconciler sample_Cluster (obj sample_cluster_deleting)"
  proof -
    let ?b = "run_state (BuildCloudClient (r_Client sample_Reconciler)
      (r_CloudClientFactory sample_Reconciler) (obj sample_cluster_deleting)) sample_api"
    have "\<not> isl (fst ?b)" "snd ?b = sample_api" by code_simp+
    moreover have "run_state (kube_GetFilteredMachinesForCluster (r_Client sample_Reconciler)
        sample_Cluster []) sample_api = (Inr [], sample_api)" by (simp add: sample_Kube_def)
    ultimately show ?thesis
      unfolding api_answers_def using BuildCloudClient_cong
      by (metis (no_types, lifting) fst_conv snd_conv)
  qed
  moreover have "machine_deletable ?A sample_Reconciler sample_scope sample_teardown"
  proof -
    let ?b = "run_state (BuildCloudClient (r_Client sample_Reconciler)
      (r_CloudClientFactory sample_Reconciler) (ms_StackitCluster sample_scope)) sample_api"
    have "\<not> isl (fst ?b)" "snd ?b = sample_api" by code_simp+
    then show ?thesis
      by (auto simp: machine_deletable_def uses_client_def sample_teardown_def sample_deleting_def)
  qed
  moreover have "kube sample_cluster_deleting = sample_api" "cloud sample_teardown = ?c"
    by (simp_all add: sample_cluster_deleting_def sample_teardown_def)
  ultimately show ?thesis
    using deletion_terminates [of ?A sample_Reconciler sample_scope sample_teardown ?A sample_Cluster
        sample_cluster_deleting]
    by (simp add: numeral_2_eq_2)
qed

end
