(* ===== verification/Owned_Conditions.thy ===== *)
theory Owned_Conditions
  imports Frames Sample_API
begin

text \<open>
  The conditions that the scopes own when they patch an object (\<open>PatchObject\<close> in
  \<open>scope/cluster_scope.go\<close> and \<open>scope/machine_scope.go\<close>), against the conditions that a pass changes:
  what a pass changes without owning it is merged by the patch helper as if another controller had
  written it.
\<close>

definition clusterOwnedConditions :: "string list" where
  "clusterOwnedConditions =
     [ClusterReadyCondition, ClusterNetworkReadyCondition, ClusterLoadBalancerReadyCondition,
      ClusterCredentialsReadyCondition, PausedCondition]"

definition machineOwnedConditions :: "string list" where
  "machineOwnedConditions =
     [MachineReadyCondition, MachineBootstrapReadyCondition, MachineCredentialsReadyCondition,
      MachineInstanceReadyCondition, PausedCondition]"

lemma frame_anyCloud: "frame K (\<lambda>_. True) (cloudCall op m)"
  by (rule frame_cloudCall) (simp add: keeps_def)

definition unowned_kept :: "lib \<Rightarrow> string list \<Rightarrow> Condition list \<Rightarrow> Condition list \<Rightarrow> bool" where
  \<comment> \<open>the conditions of other types are those of the first list\<close>
  "unowned_kept L owned cs0 cs \<longleftrightarrow>
     (\<forall>t. t \<notin> set owned \<longrightarrow> FindStatusCondition L cs t = FindStatusCondition L cs0 t)"

lemma unowned_SetConditions:
  assumes "k8s_lib L" and "unowned_kept L owned cs0 cs" and "set ts \<subseteq> set owned"
  shows "unowned_kept L owned cs0 (SetConditions L cs gen st rs msg ts)"
  using assms(2,3) k8s_lib.find_SetConditions_other [OF assms(1)]
  unfolding unowned_kept_def by (metis subsetD)

section \<open>Machines\<close>

definition machine_kept :: "lib \<Rightarrow> Condition list \<Rightarrow> StackitMachine \<Rightarrow> bool" where
  "machine_kept L cs0 sm \<longleftrightarrow> unowned_kept L machineOwnedConditions cs0 (smst_Conditions (sm_Status sm))"

lemma machine_kept_same:
  "(\<And>sm. smst_Conditions (sm_Status (f sm)) = smst_Conditions (sm_Status sm)) \<Longrightarrow>
   frame (machine_kept L cs0) I (modifyObj f)"
  by (rule frame_modifyObj) (simp add: machine_kept_def)

lemma machine_kept_to:
  "unowned_kept L machineOwnedConditions cs0 cs \<Longrightarrow>
   frame (machine_kept L cs0) I (modifyObj (map_sm_Status (\<lambda>st. st\<lparr>smst_Conditions := cs\<rparr>)))"
  by (rule frame_modifyObj) (simp add: machine_kept_def)

lemma machine_kept_set:
  assumes "k8s_lib L" and "set ts \<subseteq> set machineOwnedConditions"
  shows "frame (machine_kept L cs0) I (modifyObj (machine_SetConditions L st rs msg ts))"
    and "frame (machine_kept L cs0) I (modifyObj (machine_SetNotReady L rs msg ts))"
  by (rule frame_modifyObj, use assms in \<open>simp add: machine_kept_def machine_SetConditions_def
      machine_SetNotReady_def unowned_SetConditions\<close>)+

lemma machine_kept_ready:
  assumes "k8s_lib L"
  shows "frame (machine_kept L cs0) I (modifyObj (machine_SetReady L))"
  by (rule frame_modifyObj) (use assms in \<open>simp add: machine_kept_def machine_SetReady_def machine_SetConditions_def
      unowned_SetConditions machineOwnedConditions_def\<close>)

lemmas machine_kept_intros = machine_kept_set machine_kept_ready frame_obj frame_anyCloud frame_intros

lemma machine_cloud_kept:
  assumes "k8s_lib (r_lib r)" and "set ts \<subseteq> set machineOwnedConditions"
  shows "frame (machine_kept (r_lib r) cs0) (\<lambda>_. True) (machineCloudFailure r rs err ts)"
  unfolding machineCloudFailure_def CloudFailureResult_def
  by (intro machine_kept_to machine_kept_intros assms)
   (use assms in \<open>auto simp: machine_kept_def intro: unowned_SetConditions\<close>)

lemma machine_instance_kept:
  assumes "k8s_lib (r_lib r)"
  shows "frame (machine_kept (r_lib r) cs0) (\<lambda>_. True) (reconcileMachineInstance r C ms ud)"
  unfolding reconcileMachineInstance_def reconcileMachineState_def reconcileMachineAccess_def
    reconcileBastionNodeSSHAccess_def ensureServer_def findServerOrCreate_def createMissingServer_def
  by (intro machine_kept_intros machine_cloud_kept machine_kept_same assms)
    (simp_all add: machineOwnedConditions_def SetInstance_def)

lemma machine_normal_kept:
  assumes "k8s_lib (r_lib r)"
  shows "frame (machine_kept (r_lib r) cs0) (\<lambda>_. True) (machine_reconcileNormal r ms)"
  unfolding machine_reconcileNormal_def ensureMachineFinalizer_def reconcileMachineGuards_def
    reconcileMachineBootstrap_def reconcileMachineCredentials_def CredentialFailureResult_def
  by (intro machine_kept_to machine_kept_intros machine_instance_kept machine_kept_same assms)
    (auto simp: machineOwnedConditions_def machine_kept_def intro!: unowned_SetConditions assms)

lemma machine_delete_kept:
  assumes "k8s_lib (r_lib r)"
  shows "frame (machine_kept (r_lib r) cs0) (\<lambda>_. True) (machine_reconcileDelete r ms)"
  unfolding machine_reconcileDelete_def deleteMachineServer_def resolveServerForDeletion_def
    deleteServerByID_def removeMachineFinalizer_def CredentialFailureResult_def
  by (intro machine_kept_to machine_kept_intros machine_kept_same assms)
    (auto simp: machineOwnedConditions_def machine_kept_def ClearInstance_def
      intro!: unowned_SetConditions assms)

lemma machine_pass_kept:
  assumes "k8s_lib (r_lib r)"
  shows "frame (machine_kept (r_lib r) cs0) (\<lambda>_. True) (machine_reconcileScope r ms)"
  unfolding machine_reconcileScope_def machine_runPhases_def
  by (intro machine_kept_intros machine_normal_kept machine_delete_kept frame_modifyObj assms)
    (auto simp: machine_kept_def SetPausedCondition_def machineOwnedConditions_def
      intro!: unowned_SetConditions assms)

section \<open>Clusters\<close>

definition cluster_kept :: "lib \<Rightarrow> Condition list \<Rightarrow> StackitCluster \<Rightarrow> bool" where
  \<comment> \<open>\<open>BastionReady\<close> is not owned, yet a pass sets it\<close>
  "cluster_kept L cs0 sc \<longleftrightarrow>
     unowned_kept L (ClusterBastionReadyCondition # clusterOwnedConditions) cs0 (scst_Conditions (sc_Status sc))"

lemma cluster_kept_same:
  "(\<And>sc. scst_Conditions (sc_Status (f sc)) = scst_Conditions (sc_Status sc)) \<Longrightarrow>
   frame (cluster_kept L cs0) I (modifyObj f)"
  by (rule frame_modifyObj) (simp add: cluster_kept_def)

lemma cluster_kept_to:
  "unowned_kept L (ClusterBastionReadyCondition # clusterOwnedConditions) cs0 cs \<Longrightarrow>
   frame (cluster_kept L cs0) I (modifyObj (set_cluster_conditions cs))"
  by (rule frame_modifyObj) (simp add: cluster_kept_def set_cluster_conditions_def)

lemma cluster_kept_set:
  assumes "k8s_lib L" and "set ts \<subseteq> set (ClusterBastionReadyCondition # clusterOwnedConditions)"
  shows "frame (cluster_kept L cs0) I (modifyObj (cluster_SetConditions L st rs msg ts))"
    and "frame (cluster_kept L cs0) I (modifyObj (cluster_SetNotReady L rs msg ts))"
  by (rule frame_modifyObj, use assms in \<open>simp add: cluster_kept_def cluster_SetConditions_def
      cluster_SetNotReady_def unowned_SetConditions\<close>)+

lemma cluster_kept_ready:
  assumes "k8s_lib L"
  shows "frame (cluster_kept L cs0) I (modifyObj (cluster_SetReady L))"
  by (rule frame_modifyObj) (use assms in \<open>simp add: cluster_kept_def cluster_SetReady_def
      cluster_SetConditions_def unowned_SetConditions clusterOwnedConditions_def\<close>)

lemmas cluster_kept_intros = cluster_kept_set cluster_kept_ready frame_obj frame_anyCloud frame_intros

lemma cluster_cloud_kept:
  assumes "k8s_lib (r_lib r)" and "set ts \<subseteq> set (ClusterBastionReadyCondition # clusterOwnedConditions)"
  shows "frame (cluster_kept (r_lib r) cs0) (\<lambda>_. True) (clusterCloudFailure r rs err b ts)"
  unfolding clusterCloudFailure_def CloudFailureResult_def
  by (intro cluster_kept_to cluster_kept_intros cluster_kept_same)
   (use assms in \<open>auto simp: cluster_kept_def set_cluster_Ready_def intro!: unowned_SetConditions\<close>)

lemma cluster_network_kept:
  assumes "k8s_lib (r_lib r)"
  shows "frame (cluster_kept (r_lib r) cs0) (\<lambda>_. True) (ensureNetwork r C)"
  unfolding ensureNetwork_def getUnmanagedNetwork_def ensureManagedNetwork_def createManagedNetwork_def
  by (intro cluster_kept_intros cluster_cloud_kept cluster_kept_same assms)
    (simp_all add: clusterOwnedConditions_def set_cluster_Network_def)

lemma cluster_endpoint_kept:
  assumes "k8s_lib (r_lib r)"
  shows "frame (cluster_kept (r_lib r) cs0) (\<lambda>_. True) (reconcileEndpoint r cl C net)"
  unfolding reconcileEndpoint_def reconcileLoadBalancer_def recordLoadBalancer_def
    publishEndpoint_def publishTargets_def
  by (intro cluster_kept_intros cluster_cloud_kept cluster_kept_same assms)
    (simp_all add: clusterOwnedConditions_def SetAPIServerEndpoint_def)

lemma cluster_bastion_kept:
  assumes "k8s_lib (r_lib r)"
  shows "frame (cluster_kept (r_lib r) cs0) (\<lambda>_. True) (reconcileClusterBastion r C)"
  unfolding reconcileClusterBastion_def reconcileBastion_def reconcileBastionServer_def
    reconcileBastionState_def reconcileBastionDisabled_def cleanupBastion_def
  by (intro cluster_kept_intros cluster_cloud_kept cluster_kept_same assms)
    (simp_all add: clusterOwnedConditions_def SetBastionStatus_def ClearBastionStatus_def)

lemma cluster_normal_kept:
  assumes "k8s_lib (r_lib r)"
  shows "frame (cluster_kept (r_lib r) cs0) (\<lambda>_. True) (cluster_reconcileNormal r cl)"
  unfolding cluster_reconcileNormal_def ensureClusterFinalizer_def reconcileClusterCredentials_def
    reconcileClusterZones_def reconcileClusterNetwork_def CredentialFailureResult_def
  by (intro cluster_kept_to cluster_kept_intros cluster_cloud_kept cluster_network_kept
      cluster_endpoint_kept cluster_bastion_kept cluster_kept_same assms)
    (auto simp: clusterOwnedConditions_def SetFailureDomains_def set_cluster_Ready_def cluster_kept_def
      intro!: unowned_SetConditions assms)

lemma cluster_delete_kept:
  assumes "k8s_lib (r_lib r)"
  shows "frame (cluster_kept (r_lib r) cs0) (\<lambda>_. True) (cluster_reconcileDelete r cl)"
  unfolding cluster_reconcileDelete_def cleanupCluster_def deleteClusterLoadBalancer_def
    deleteClusterBastion_def deleteClusterNetwork_def removeClusterFinalizer_def
    ResolveID_def ResolveManagedNetworkID_def
  by (intro cluster_kept_intros cluster_kept_same assms)
    (simp_all add: clusterOwnedConditions_def ClearBastionStatus_def)

lemma cluster_pass_kept:
  assumes "k8s_lib (r_lib r)"
  shows "frame (cluster_kept (r_lib r) cs0) (\<lambda>_. True) (cluster_reconcileScope r cl)"
  unfolding cluster_reconcileScope_def cluster_runPhases_def
  by (intro cluster_kept_intros cluster_normal_kept cluster_delete_kept frame_modifyObj assms)
    (auto simp: cluster_kept_def SetPausedCondition_def clusterOwnedConditions_def
      intro!: unowned_SetConditions assms)

section \<open>The property\<close>

text \<open>
  C25: a pass leaves the conditions of others alone. A pass over a machine changes no condition of a
  type that \<open>MachineScope.PatchObject\<close> does not own. A pass over a cluster changes no condition of a
  type that \<open>ClusterScope.PatchObject\<close> does not own, with one exception: \<open>BastionReady\<close>, which the
  controller maintains but the scope does not own.
\<close>

theorem conditions_owned:
  assumes "k8s_lib (r_lib r)"
  shows "(run_state (machine_reconcileScope r ms) s = (out, s') \<longrightarrow> t \<notin> set machineOwnedConditions \<longrightarrow>
      FindStatusCondition (r_lib r) (smst_Conditions (sm_Status (obj s'))) t =
      FindStatusCondition (r_lib r) (smst_Conditions (sm_Status (obj s))) t) \<and>
    (run_state (cluster_reconcileScope r cl) z = (res, z') \<longrightarrow>
      t \<notin> set clusterOwnedConditions \<longrightarrow> t \<noteq> ClusterBastionReadyCondition \<longrightarrow>
      FindStatusCondition (r_lib r) (scst_Conditions (sc_Status (obj z'))) t =
      FindStatusCondition (r_lib r) (scst_Conditions (sc_Status (obj z))) t) \<and>
    ClusterBastionReadyCondition \<notin> set clusterOwnedConditions"
proof (intro conjI impI)
  assume "run_state (machine_reconcileScope r ms) s = (out, s')" "t \<notin> set machineOwnedConditions"
  with frameD [OF machine_pass_kept [OF assms], of ms s out s' "smst_Conditions (sm_Status (obj s))"]
  show "FindStatusCondition (r_lib r) (smst_Conditions (sm_Status (obj s'))) t =
      FindStatusCondition (r_lib r) (smst_Conditions (sm_Status (obj s))) t"
    by (auto simp: machine_kept_def unowned_kept_def)
next
  assume "run_state (cluster_reconcileScope r cl) z = (res, z')" "t \<notin> set clusterOwnedConditions"
    "t \<noteq> ClusterBastionReadyCondition"
  with frameD [OF cluster_pass_kept [OF assms], of cl z res z' "scst_Conditions (sc_Status (obj z))"]
  show "FindStatusCondition (r_lib r) (scst_Conditions (sc_Status (obj z'))) t =
      FindStatusCondition (r_lib r) (scst_Conditions (sc_Status (obj z))) t"
    by (auto simp: cluster_kept_def unowned_kept_def)
next
  show "ClusterBastionReadyCondition \<notin> set clusterOwnedConditions" by code_simp
qed

definition sample_bastion_step :: "(fake, api, StackitCluster) rstate" where
  "sample_bastion_step = snd (run_state (reconcileBastionDisabled sample_Reconciler fake_Client)
     (sample_state sample_StackitCluster))"

theorem conditions_owned_witness:
  "FindStatusCondition (std_lib 0) (scst_Conditions (sc_Status (obj (snd (run_state
      (cluster_reconcileScope sample_Reconciler sample_Cluster) (sample_state sample_StackitCluster)))))) ''Other'' = None \<and>
   FindStatusCondition (std_lib 0) (scst_Conditions (sc_Status (obj sample_bastion_step)))
      ClusterBastionReadyCondition \<noteq> None \<and>
   ClusterBastionReadyCondition \<notin> set clusterOwnedConditions"
proof -
  have "''Other'' \<notin> set clusterOwnedConditions" "''Other'' \<noteq> ClusterBastionReadyCondition" by code_simp+
  moreover have "FindStatusCondition (std_lib 0) (scst_Conditions (sc_Status sample_StackitCluster)) ''Other'' = None"
    "FindStatusCondition (std_lib 0) (scst_Conditions (sc_Status (obj sample_bastion_step)))
      ClusterBastionReadyCondition \<noteq> None" by code_simp+
  moreover have "k8s_lib (r_lib sample_Reconciler)" by simp
  ultimately show ?thesis
    using conditions_owned [THEN conjunct2, rule_format, of sample_Reconciler sample_Cluster
        "sample_state sample_StackitCluster"] by (metis prod.collapse sample_Reconciler_sel(1) sample_state_sel(3))
qed

end
