(* ===== verification/Load_Balancer.thy ===== *)
theory Load_Balancer
  imports Services
begin

text \<open>
  The API server target pool of \<open>cloud/services/loadbalancer\<close>: which machines appear in it,
  under which names, and that it depends only on the set of machines.
\<close>

section \<open>Target names\<close>

definition label_chars :: "char set" where
  "label_chars = set ''abcdefghijklmnopqrstuvwxyz0123456789''"

definition rfc1123_subdomain :: "string \<Rightarrow> bool" where
  \<comment> \<open>the shape of a Kubernetes object name\<close>
  "rfc1123_subdomain s \<longleftrightarrow> s \<noteq> [] \<and> hd s \<in> label_chars \<and> last s \<in> label_chars \<and>
     set s \<subseteq> label_chars \<union> {CHR ''-'', CHR ''.''}"

definition rfc1123_label :: "string \<Rightarrow> bool" where
  \<comment> \<open>what STACKIT accepts as the display name of a target\<close>
  "rfc1123_label s \<longleftrightarrow> s \<noteq> [] \<and> length s \<le> 63 \<and> hd s \<in> label_chars \<and> last s \<in> label_chars \<and>
     set s \<subseteq> label_chars \<union> {CHR ''-''}"

lemma hex_digit_label: "hex_digit n \<in> label_chars"
proof -
  have "hex_digit n \<in> set ''0123456789abcdef''"
    unfolding hex_digit_def by (rule nth_mem) simp
  moreover have "set ''0123456789abcdef'' \<subseteq> label_chars" by (simp add: label_chars_def)
  ultimately show ?thesis by blast
qed

lemma set_hex_encode: "set (hex_encode bs) \<subseteq> label_chars"
  by (auto simp: hex_encode_def hex_digit_label)

lemma length_hex_encode [simp]: "length (hex_encode bs) = 2 * length bs"
  by (induction bs) (auto simp: hex_encode_def)

definition target_digest :: "(string \<Rightarrow> 8 word list) \<Rightarrow> string \<Rightarrow> string" where
  "target_digest sha256 n = take targetNameDigestLength (hex_encode (sha256 n))"

lemma target_digest:
  assumes "length (sha256 n) = 32"
  shows "length (target_digest sha256 n) = 7" and "set (target_digest sha256 n) \<subseteq> label_chars"
  using assms set_hex_encode [of "sha256 n"]
  by (auto simp: target_digest_def targetNameDigestLength_def dest: in_set_takeD)

lemma targetName_cases:
  assumes "length (sha256 n) = 32" and "n \<noteq> []"
  obtains (same) "targetName sha256 n = n" "length n \<le> 63" "CHR ''.'' \<notin> set n"
  | (digest) p where "targetName sha256 n = p @ ''-'' @ target_digest sha256 n"
      "length p \<le> 55" "set p \<subseteq> insert CHR ''-'' (set n - {CHR ''.''})"
      "hd n \<noteq> CHR ''-'' \<Longrightarrow> hd n \<noteq> CHR ''.'' \<Longrightarrow> p \<noteq> [] \<and> hd p = hd n"
proof (cases "length n \<le> 63 \<and> CHR ''.'' \<notin> set n")
  case True
  then show ?thesis using same by (simp add: targetName_def maxTargetNameLength_def)
next
  case False
  define r where "r = ReplaceChar n CHR ''.'' CHR ''-''"
  define p where "p = (if length r > 55 then TrimRightChar (take 55 r) CHR ''-'' else r)"
  have eq: "targetName sha256 n = p @ ''-'' @ target_digest sha256 n"
    using False target_digest(1) [of sha256 n] assms(1)
    by (auto simp: targetName_def maxTargetNameLength_def target_digest_def p_def r_def Let_def)
  have len: "length p \<le> 55"
    using length_TrimRightChar [of "take 55 r" "CHR ''-''"] by (auto simp: p_def)
  have "set p \<subseteq> set r"
    using set_TrimRightChar [of "take 55 r" "CHR ''-''"] by (auto simp: p_def dest: in_set_takeD)
  then have chars: "set p \<subseteq> insert CHR ''-'' (set n - {CHR ''.''})"
    using set_ReplaceChar [of n "CHR ''.''" "CHR ''-''"] unfolding r_def by blast
  have hd: "p \<noteq> [] \<and> hd p = hd n" if h: "hd n \<noteq> CHR ''-''" "hd n \<noteq> CHR ''.''"
  proof -
    obtain c t where n: "n = c # t" using assms(2) by (cases n) auto
    have r: "r = c # ReplaceChar t CHR ''.'' CHR ''-''"
      using h n by (auto simp: r_def ReplaceChar_def)
    have "dropWhile (\<lambda>d. d = CHR ''-'') (rev (c # u)) =
        dropWhile (\<lambda>d. d = CHR ''-'') (rev u) @ [c]" if "c \<noteq> CHR ''-''" for u
      using that by (cases "\<forall>x\<in>set u. x = CHR ''-''")
        (auto simp: dropWhile_append dropWhile_eq_Nil_conv)
    then have "TrimRightChar (c # u) CHR ''-'' = c # TrimRightChar u CHR ''-''" for u
      using h n by (simp add: TrimRightChar_def)
    then show ?thesis using r n by (simp add: p_def)
  qed
  show ?thesis by (rule digest [OF eq len chars hd])
qed

text \<open>
  C22: every target name the provider sends is one that the load balancer API accepts. For a machine
  name of the shape Kubernetes enforces, \<open>targetName\<close> is an RFC 1123 label: at most 63
  characters, no dots, alphanumeric at both ends. One bad name would make the API reject the pool.
\<close>

theorem targetName_valid:
  assumes "length (sha256 n) = 32" and "rfc1123_subdomain n"
  shows "rfc1123_label (targetName sha256 n)"
proof -
  have n: "n \<noteq> []" "hd n \<in> label_chars" "set n \<subseteq> label_chars \<union> {CHR ''-'', CHR ''.''}"
    using assms(2) by (auto simp: rfc1123_subdomain_def)
  have nolabel: "CHR ''-'' \<notin> label_chars" "CHR ''.'' \<notin> label_chars"
    by (simp_all add: label_chars_def)
  have d: "length (target_digest sha256 n) = 7" "set (target_digest sha256 n) \<subseteq> label_chars"
    using target_digest assms(1) by blast+
  then have dne: "target_digest sha256 n \<noteq> []" by auto
  from assms(1) n(1) show ?thesis
  proof (cases rule: targetName_cases)
    case same
    with assms(2) show ?thesis by (auto simp: rfc1123_subdomain_def rfc1123_label_def)
  next
    case (digest p)
    have "p \<noteq> [] \<and> hd p = hd n" using digest(4) n(2) nolabel by metis
    moreover have "last (target_digest sha256 n) \<in> label_chars"
      using d(2) last_in_set [OF dne] by auto
    ultimately show ?thesis using digest(1-3) d dne n by (auto simp: rfc1123_label_def)
  qed
qed

theorem targetName_valid_witness:
  "rfc1123_label (targetName (\<lambda>_. replicate 32 0) ''foo.bar-a'')"
proof -
  have "rfc1123_subdomain ''foo.bar-a''" by (simp add: rfc1123_subdomain_def label_chars_def)
  then show ?thesis using targetName_valid [of "\<lambda>_. replicate 32 0" "''foo.bar-a''"] by simp
qed

text \<open>
  A machine name that is sanitised never takes the target name of a machine whose name is kept
  unless the latter ends in the digest of the former; and two sanitised names collide only if their
  digests do. This is the reason for the digest in the name.
\<close>

theorem targetName_collision:
  assumes "length (sha256 a) = 32" "length (sha256 b) = 32" "a \<noteq> []" "b \<noteq> []"
    and "targetName sha256 a = targetName sha256 b" and "a \<noteq> b"
  shows "target_digest sha256 a = target_digest sha256 b \<or>
         HasSuffix b (''-'' @ target_digest sha256 a) \<or> HasSuffix a (''-'' @ target_digest sha256 b)"
  using assms(1,3)
proof (cases rule: targetName_cases)
  case same_a: same
  from assms(2,4) show ?thesis
  proof (cases rule: targetName_cases)
    case same
    with same_a assms(5,6) show ?thesis by simp
  next
    case (digest p)
    with same_a assms(5) have "a = p @ (''-'' @ target_digest sha256 b)" by simp
    then show ?thesis unfolding HasSuffix_iff by blast
  qed
next
  case dig_a: (digest p)
  from assms(2,4) show ?thesis
  proof (cases rule: targetName_cases)
    case same
    with dig_a assms(5) have "b = p @ (''-'' @ target_digest sha256 a)" by simp
    then show ?thesis unfolding HasSuffix_iff by blast
  next
    case (digest q)
    have "length (target_digest sha256 a) = length (target_digest sha256 b)"
      using target_digest(1) assms(1,2) by metis
    with dig_a(1) digest(1) assms(5) show ?thesis by simp
  qed
qed

definition zero_digest :: "string \<Rightarrow> 8 word list" where
  "zero_digest s = [0, 0, 0, 0] @ replicate 28 0"

lemma target_digest_zero: "target_digest zero_digest s = ''0000000''"
  by (simp add: target_digest_def zero_digest_def hex_encode_def hex_digit_def
      targetNameDigestLength_def take_Cons')

theorem targetName_collision_witness:
  "target_digest zero_digest ''a.b'' = target_digest zero_digest ''a-b-0000000''
   \<or> HasSuffix ''a-b-0000000'' (''-'' @ target_digest zero_digest ''a.b'')
   \<or> HasSuffix ''a.b'' (''-'' @ target_digest zero_digest ''a-b-0000000'')"
proof (rule targetName_collision)
  show "targetName zero_digest ''a.b'' = targetName zero_digest ''a-b-0000000''"
    by (simp add: targetName_def maxTargetNameLength_def ReplaceChar_def
        target_digest_zero [unfolded target_digest_def])
qed (simp_all add: zero_digest_def)

section \<open>The target pool\<close>

lemma targetsLoop_ips:
  "distinct (map lti_IP (targetsLoop sha256 seen ms)) \<and>
   lti_IP ` set (targetsLoop sha256 seen ms) =
     (\<lambda>m. firstInternalIP (mc_Addresses m)) ` set ms - insert [] (set seen)"
  by (induction sha256 seen ms rule: targetsLoop.induct) (auto simp: Let_def)

lemma targetsLoop_machine:
  "t \<in> set (targetsLoop sha256 seen ms) \<Longrightarrow>
   \<exists>m \<in> set ms. lti_Name t = targetName sha256 (om_Name (mc_meta m)) \<and>
                lti_IP t = firstInternalIP (mc_Addresses m)"
  by (induction sha256 seen ms rule: targetsLoop.induct) (auto simp: Let_def split: if_splits)

lemma set_map_filter_id: "set (List.map_filter id ms) = {m. Some m \<in> set ms}"
  by (force simp: map_filter_def)


definition machine0 :: "string \<Rightarrow> string \<Rightarrow> Machine" where
  \<comment> \<open>a machine with a name and one internal IP\<close>
  "machine0 n ip =
     \<lparr>mc_meta = \<lparr>om_Name = n, om_Namespace = [], om_UID = [], om_Generation = 0,
        om_Finalizers = [], om_Labels = [], om_Annotations = [], om_DeletionTimestamp = None\<rparr>,
      mc_ClusterName = [], mc_DataSecretName = None, mc_FailureDomain = [],
      mc_InfrastructureRef = \<lparr>ref_APIGroup = [], ref_Kind = [], ref_Name = []\<rparr>,
      mc_Addresses = [\<lparr>ma_Type = ''InternalIP'', ma_Address = ip\<rparr>]\<rparr>"


text \<open>
  C35: the pool does not depend on the order in which the API server lists the machines, which is
  what lets the pool be compared with the cloud's without spurious updates.
\<close>

theorem APIServerTargets_order:
  assumes "set ms = set ms'"
    and "distinct (map (\<lambda>m. om_Name (mc_meta m)) (List.map_filter id ms))"
    and "distinct (map (\<lambda>m. om_Name (mc_meta m)) (List.map_filter id ms'))"
  shows "APIServerTargets sha256 ms = APIServerTargets sha256 ms'"
proof -
  let ?k = "\<lambda>m. om_Name (mc_meta m)"
  let ?f = "\<lambda>ms. sort_key ?k (List.map_filter id ms)"
  have eq: "set (?f ms) = set (?f ms')" using assms(1) by (simp add: set_map_filter_id)
  have d: "distinct (map ?k (?f xs))" if "distinct (map ?k (List.map_filter id xs))" for xs
    using that by (simp add: distinct_map)
  have "?f ms = ?f ms'"
  proof (rule map_sorted_distinct_set_unique [where f = ?k])
    show "inj_on ?k (set (?f ms) \<union> set (?f ms'))"
      using d [OF assms(2)] eq by (simp add: distinct_map)
  qed (use d assms(2,3) eq in auto)
  then show ?thesis by (simp add: APIServerTargets_def)
qed

theorem APIServerTargets_order_witness:
  "APIServerTargets (\<lambda>_. []) [Some (machine0 ''b'' ''1''), None, Some (machine0 ''a'' ''1'')] =
   APIServerTargets (\<lambda>_. []) [Some (machine0 ''a'' ''1''), Some (machine0 ''b'' ''1''), None]"
  by (rule APIServerTargets_order) (auto simp: machine0_def map_filter_simps)

end
