(* ===== verification/Watches.thy ===== *)
theory Watches
  imports Cluster_Controller Load_Balancer Sample_API
begin

text \<open>
  The watches of both controllers (\<open>controller/stackitcluster_controller.go\<close>,
  \<open>controller/stackitmachine_watches.go\<close>): which requests an event of another object enqueues. A
  pass that waits for such an object returns without a requeue, so a missed event would leave it
  waiting; the theorems say that no event that matters is missed.
\<close>

section \<open>Events and requests\<close>

datatype client_Object =
    ObjCluster Cluster | ObjMachine Machine | ObjStackitCluster StackitCluster
  | ObjStackitMachine StackitMachine | ObjSecret Secret | ObjConfigMap ConfigMap

definition GroupVersion_Group :: string where
  "GroupVersion_Group = ''infrastructure.cluster.x-k8s.io''"

definition mapsEqual :: "string gomap \<Rightarrow> string gomap \<Rightarrow> bool" where
  \<comment> \<open>\<open>maps.Equal\<close>\<close>
  "mapsEqual xs ys \<longleftrightarrow> length xs = length ys \<and> list_all (\<lambda>(k, v). map_of ys k = Some v) xs"

section \<open>controller/stackitcluster_controller.go\<close>

definition filterForStackitClusterResources :: "client_Object \<Rightarrow> NamespacedName list" where
  "filterForStackitClusterResources ob = (case ob of
     ObjCluster cluster \<Rightarrow>
       let ref = cl_InfrastructureRef cluster in
       if ref_APIGroup ref \<noteq> GroupVersion_Group \<or> ref_Kind ref \<noteq> ''StackitCluster'' \<or> ref_Name ref = []
       then []
       else [\<lparr>nn_Namespace = om_Namespace (cl_meta cluster), nn_Name = ref_Name ref\<rparr>]
   | _ \<Rightarrow> [])"

definition loadBalancerTargetsForControlPlanes ::
  "(Machine \<Rightarrow> bool) \<Rightarrow> 'k Kube \<Rightarrow> client_Object \<Rightarrow> ('k, NamespacedName list option) state" where
  \<comment> \<open>\<open>isControlPlaneMachine\<close> is \<open>clusterutil.IsControlPlaneMachine\<close>. \<open>None\<close> is the nil dereference
    that a nil cluster without an error would cause.\<close>
  "loadBalancerTargetsForControlPlanes isControlPlaneMachine K ob = (case ob of
     ObjMachine machine \<Rightarrow>
       if \<not> isControlPlaneMachine machine then ret (Some [])
       else do {
         res \<leftarrow> kube_GetClusterFromMetadata K (mc_meta machine);
         (case res of
            Inl err \<Rightarrow> ret (Some [])
          | Inr None \<Rightarrow> ret None
          | Inr (Some cluster) \<Rightarrow> ret (Some (filterForStackitClusterResources (ObjCluster cluster))))
       }
   | _ \<Rightarrow> ret (Some []))"

definition machineTargetPoolChanged :: "client_Object \<Rightarrow> client_Object \<Rightarrow> bool" where
  "machineTargetPoolChanged objectOld objectNew = (case (objectOld, objectNew) of
     (ObjMachine oldMachine, ObjMachine newMachine) \<Rightarrow>
       mc_Addresses oldMachine \<noteq> mc_Addresses newMachine \<or>
       (om_DeletionTimestamp (mc_meta oldMachine) = None) \<noteq>
         (om_DeletionTimestamp (mc_meta newMachine) = None) \<or>
       \<not> mapsEqual (om_Labels (mc_meta oldMachine)) (om_Labels (mc_meta newMachine))
   | _ \<Rightarrow> True)"

fun cloudInitRequests :: "string \<Rightarrow> string \<Rightarrow> StackitCluster list \<Rightarrow> NamespacedName list" where
  "cloudInitRequests kind name [] = []"
| "cloudInitRequests kind name (cluster # rest) =
     (case bs_CloudInitRef (scs_Bastion (sc_Spec cluster)) of
        None \<Rightarrow> cloudInitRequests kind name rest
      | Some ref \<Rightarrow>
          if cir_Kind ref \<noteq> kind \<or> cir_Name ref \<noteq> name then cloudInitRequests kind name rest
          else \<lparr>nn_Namespace = om_Namespace (sc_meta cluster), nn_Name = om_Name (sc_meta cluster)\<rparr>
               # cloudInitRequests kind name rest)"

definition stackitClusterRequestsForCloudInitRef ::
  "'k Kube \<Rightarrow> client_Object \<Rightarrow> ('k, NamespacedName list) state" where
  "stackitClusterRequestsForCloudInitRef K ob =
     (let go = (\<lambda>kind namespace name. do {
            res \<leftarrow> kube_ListStackitClusters K namespace;
            (case res of
               Inl err \<Rightarrow> ret []
             | Inr clusters \<Rightarrow> ret (cloudInitRequests kind name clusters))
          })
      in case ob of
           ObjConfigMap cm \<Rightarrow> go ''ConfigMap'' (cm_Namespace cm) (cm_Name cm)
         | ObjSecret sec \<Rightarrow> go ''Secret'' (sec_Namespace sec) (sec_Name sec)
         | _ \<Rightarrow> ret [])"

section \<open>controller/stackitmachine\_watches.go\<close>

definition stackitMachineRequestForMachine :: "Machine option \<Rightarrow> NamespacedName list" where
  "stackitMachineRequestForMachine m = (case m of
     None \<Rightarrow> []
   | Some machine \<Rightarrow>
       let ref = mc_InfrastructureRef machine in
       if ref_APIGroup ref \<noteq> GroupVersion_Group \<or> ref_Kind ref \<noteq> ''StackitMachine'' \<or> ref_Name ref = []
       then []
       else [\<lparr>nn_Namespace = om_Namespace (mc_meta machine), nn_Name = ref_Name ref\<rparr>])"

fun addRequests :: "NamespacedName list \<times> NamespacedName list \<Rightarrow> NamespacedName list \<Rightarrow>
  NamespacedName list \<times> NamespacedName list" where
  \<comment> \<open>the inner loop, on the pair of \<open>seen\<close> and \<open>requests\<close>\<close>
  "addRequests (seen, requests) [] = (seen, requests)"
| "addRequests (seen, requests) (request # rest) =
     (if request \<in> set seen then addRequests (seen, requests) rest
      else addRequests (request # seen, requests @ [request]) rest)"

definition stackitMachineRequestsForMachines ::
  "Machine list \<Rightarrow> (Machine \<Rightarrow> bool) \<Rightarrow> NamespacedName list" where
  "stackitMachineRequestsForMachines machines matches =
     snd (foldl (\<lambda>acc machine.
            if \<not> matches machine then acc
            else addRequests acc (stackitMachineRequestForMachine (Some machine)))
          ([], []) machines)"

definition stackitMachineRequestsForMachine :: "client_Object \<Rightarrow> NamespacedName list" where
  "stackitMachineRequestsForMachine ob = (case ob of
     ObjMachine machine \<Rightarrow> stackitMachineRequestForMachine (Some machine)
   | _ \<Rightarrow> [])"

definition stackitMachineRequestsForStackitCluster ::
  "'k Kube \<Rightarrow> client_Object \<Rightarrow> ('k, NamespacedName list) state" where
  "stackitMachineRequestsForStackitCluster K ob = (case ob of
     ObjStackitCluster stackitCluster \<Rightarrow> do {
       cres \<leftarrow> kube_GetOwnerCluster K (sc_meta stackitCluster);
       (case cres of
          Inl err \<Rightarrow> ret []
        | Inr None \<Rightarrow> ret []
        | Inr (Some cluster) \<Rightarrow> do {
            mres \<leftarrow> kube_GetFilteredMachinesForCluster K cluster [];
            (case mres of
               Inl err \<Rightarrow> ret []
             | Inr machines \<Rightarrow> ret (stackitMachineRequestsForMachines machines
                 (\<lambda>machine. mc_ClusterName machine = om_Name (cl_meta cluster))))
          })
     }
   | _ \<Rightarrow> ret [])"

definition stackitMachineRequestsForBootstrapSecret ::
  "'k Kube \<Rightarrow> client_Object \<Rightarrow> ('k, NamespacedName list) state" where
  \<comment> \<open>the order in which \<open>collections.FromMachineList\<close> gives the machines back is that of the listing\<close>
  "stackitMachineRequestsForBootstrapSecret K ob = (case ob of
     ObjSecret secret \<Rightarrow> do {
       mres \<leftarrow> kube_ListMachines K (sec_Namespace secret);
       (case mres of
          Inl err \<Rightarrow> ret []
        | Inr machines \<Rightarrow> ret (stackitMachineRequestsForMachines machines
            (\<lambda>machine. mc_DataSecretName machine = Some (sec_Name secret))))
     }
   | _ \<Rightarrow> ret [])"

section \<open>Requests are collected without duplicates\<close>

lemma addRequests_spec:
  assumes "set (fst acc) = set (snd acc)" and "distinct (snd acc)"
  shows "set (fst (addRequests acc rs)) = set (snd (addRequests acc rs)) \<and>
    distinct (snd (addRequests acc rs)) \<and> set (snd (addRequests acc rs)) = set (snd acc) \<union> set rs"
  using assms by (induction acc rs rule: addRequests.induct) auto

lemma stackitMachineRequestsForMachines_spec:
  "distinct (stackitMachineRequestsForMachines ms P) \<and>
   set (stackitMachineRequestsForMachines ms P) =
     (\<Union>m \<in> {m \<in> set ms. P m}. set (stackitMachineRequestForMachine (Some m)))"
proof -
  let ?f = "\<lambda>acc machine. if \<not> P machine then acc
            else addRequests acc (stackitMachineRequestForMachine (Some machine))"
  have "set (fst (foldl ?f ([], []) ms)) = set (snd (foldl ?f ([], []) ms)) \<and>
    distinct (snd (foldl ?f ([], []) ms)) \<and> set (snd (foldl ?f ([], []) ms)) =
      (\<Union>m \<in> {m \<in> set ms. P m}. set (stackitMachineRequestForMachine (Some m)))"
  proof (induction ms rule: rev_induct)
    case (snoc m ms)
    with addRequests_spec [of "foldl ?f ([], []) ms" "stackitMachineRequestForMachine (Some m)"]
    show ?case by auto
  qed simp
  then show ?thesis by (simp add: stackitMachineRequestsForMachines_def)
qed

lemma set_cloudInitRequests:
  "set (cloudInitRequests kind name scs) =
     (\<lambda>sc. \<lparr>nn_Namespace = om_Namespace (sc_meta sc), nn_Name = om_Name (sc_meta sc)\<rparr>) `
       {sc \<in> set scs. \<exists>ref. bs_CloudInitRef (scs_Bastion (sc_Spec sc)) = Some ref \<and>
          cir_Kind ref = kind \<and> cir_Name ref = name}"
  by (induction scs) (auto split: option.splits)

section \<open>Which Secret and which ConfigMap a pass depends on\<close>

lemma fetchBootstrapData_depends:
  assumes "fst (run_state (fetchBootstrapData K m) ka) \<noteq> fst (run_state (fetchBootstrapData K m) kb)"
  shows "\<exists>n. mc_DataSecretName m = Some n \<and>
    fst (run_state (kube_GetSecret K \<lparr>nn_Namespace = om_Namespace (mc_meta m), nn_Name = n\<rparr>) ka) \<noteq>
    fst (run_state (kube_GetSecret K \<lparr>nn_Namespace = om_Namespace (mc_meta m), nn_Name = n\<rparr>) kb)"
  using assms
  by (auto simp: fetchBootstrapData_def Let_def run_state_bind split: option.splits if_splits prod.splits sum.splits)

lemma resolveBastionCloudInit_depends:
  assumes "fst (run_state (resolveBastionCloudInit K sc) ka) \<noteq>
           fst (run_state (resolveBastionCloudInit K sc) kb)"
  obtains ref where "bs_CloudInitRef (scs_Bastion (sc_Spec sc)) = Some ref"
    and "cir_Kind ref = ''ConfigMap'' \<and>
      fst (run_state (kube_GetConfigMap K \<lparr>nn_Namespace = om_Namespace (sc_meta sc), nn_Name = cir_Name ref\<rparr>) ka) \<noteq>
      fst (run_state (kube_GetConfigMap K \<lparr>nn_Namespace = om_Namespace (sc_meta sc), nn_Name = cir_Name ref\<rparr>) kb) \<or>
     cir_Kind ref = ''Secret'' \<and>
      fst (run_state (kube_GetSecret K \<lparr>nn_Namespace = om_Namespace (sc_meta sc), nn_Name = cir_Name ref\<rparr>) ka) \<noteq>
      fst (run_state (kube_GetSecret K \<lparr>nn_Namespace = om_Namespace (sc_meta sc), nn_Name = cir_Name ref\<rparr>) kb)"
proof (cases "bs_CloudInitRef (scs_Bastion (sc_Spec sc))")
  case None
  with assms show ?thesis by (simp add: resolveBastionCloudInit_def ok_def)
next
  case (Some ref)
  show ?thesis
    by (rule that [OF Some], rule ccontr, use assms Some in
        \<open>auto simp: resolveBastionCloudInit_def Let_def run_state_bind ok_def fail_with_def
          split: if_splits prod.splits sum.splits option.splits\<close>)
qed

section \<open>What the target pool depends on\<close>

lemma mapsEqual_map_of:
  assumes "mapsEqual xs ys" and "distinct (map fst xs)" and "distinct (map fst ys)"
  shows "map_of xs = map_of ys"
proof -
  have le: "map_of xs \<subseteq>\<^sub>m map_of ys"
    using assms(1) map_of_SomeD [of xs]
    by (force simp: mapsEqual_def list_all_iff map_le_def dom_def)
  have card: "card (dom (map_of zs)) = length zs" if "distinct (map fst zs)" for zs :: "string gomap"
    using that distinct_card [OF that] by (simp add: dom_map_of_conv_image_fst)
  have "dom (map_of xs) = dom (map_of ys)"
    using map_le_implies_dom_le [OF le] card assms
    by (intro card_subset_eq) (auto simp: mapsEqual_def finite_dom_map_of)
  with le have "map_of xs k = map_of ys k" for k
    by (cases "k \<in> dom (map_of xs)") (auto simp: map_le_def domIff)
  then show ?thesis ..
qed

definition same_target :: "Machine \<Rightarrow> Machine \<Rightarrow> bool" where
  "same_target a b \<longleftrightarrow> om_Name (mc_meta a) = om_Name (mc_meta b) \<and> mc_Addresses a = mc_Addresses b"

lemma list_all2_insort:
  assumes "same_target a b" and "list_all2 same_target xs ys"
  shows "list_all2 same_target (insort_key (\<lambda>m. om_Name (mc_meta m)) a xs)
           (insort_key (\<lambda>m. om_Name (mc_meta m)) b ys)"
  using assms(2,1) by (induction rule: list_all2_induct) (auto simp: same_target_def)

lemma list_all2_sort:
  "list_all2 same_target xs ys \<Longrightarrow> list_all2 same_target
     (sort_key (\<lambda>m. om_Name (mc_meta m)) xs) (sort_key (\<lambda>m. om_Name (mc_meta m)) ys)"
  by (induction rule: list_all2_induct) (simp_all add: sort_key_def list_all2_insort)

lemma targetsLoop_cong:
  "list_all2 same_target xs ys \<Longrightarrow> targetsLoop sha256 seen xs = targetsLoop sha256 seen ys"
  by (induction arbitrary: seen rule: list_all2_induct) (auto simp: same_target_def Let_def)

lemma map_filter_id_Some: "List.map_filter id (map Some xs) = xs"
  by (induction xs) (simp_all add: map_filter_simps)

lemma APIServerTargets_cong:
  "list_all2 same_target xs ys \<Longrightarrow>
   APIServerTargets sha256 (map Some xs) = APIServerTargets sha256 (map Some ys)"
  by (simp add: APIServerTargets_def map_filter_id_Some targetsLoop_cong list_all2_sort)

section \<open>The properties\<close>

text \<open>
  No machine waits for bootstrap data that is there. If the API server changes from one state to
  another that agrees with it on every Secret but one, and this changes what a pass over a machine
  reads as its bootstrap data, then the event of that Secret enqueues the infrastructure object of
  the machine, and no request twice.
\<close>

lemma bootstrap_secret_wakes:
  assumes "\<And>key. key \<noteq> \<lparr>nn_Namespace = sec_Namespace secret, nn_Name = sec_Name secret\<rparr> \<Longrightarrow>
      fst (run_state (kube_GetSecret K key) ka) = fst (run_state (kube_GetSecret K key) kb)"
    and "fst (run_state (fetchBootstrapData K m) ka) \<noteq> fst (run_state (fetchBootstrapData K m) kb)"
    and "run_state (kube_ListMachines K (om_Namespace (mc_meta m))) kb = (Inr machines, kc)"
    and "m \<in> set machines" and "key \<in> set (stackitMachineRequestForMachine (Some m))"
    and "run_state (stackitMachineRequestsForBootstrapSecret K (ObjSecret secret)) kb = (requests, kd)"
  shows "key \<in> set requests \<and> distinct requests"
proof -
  let ?match = "\<lambda>machine. mc_DataSecretName machine = Some (sec_Name secret)"
  from fetchBootstrapData_depends [OF assms(2)] assms(1)
  have s: "mc_DataSecretName m = Some (sec_Name secret)" "om_Namespace (mc_meta m) = sec_Namespace secret"
    by fastforce+
  with assms(3,6) have "requests = stackitMachineRequestsForMachines machines ?match"
    by (simp add: stackitMachineRequestsForBootstrapSecret_def run_state_bind)
  with stackitMachineRequestsForMachines_spec [of machines ?match] assms(4,5) s(1)
  show ?thesis by blast
qed

text \<open>
  The bastion follows its cloud-init document. If the API server changes in one ConfigMap or in
  one Secret, and this changes what a pass over a cluster resolves as the cloud-init document of
  the bastion, then the event of that object enqueues the cluster.
\<close>

lemma cloud_init_wakes:
  assumes "\<And>key. ob \<noteq> ObjSecret sec \<or> key \<noteq> \<lparr>nn_Namespace = sec_Namespace sec, nn_Name = sec_Name sec\<rparr> \<Longrightarrow>
      fst (run_state (kube_GetSecret K key) ka) = fst (run_state (kube_GetSecret K key) kb)"
    and "\<And>key. ob \<noteq> ObjConfigMap cm \<or> key \<noteq> \<lparr>nn_Namespace = cm_Namespace cm, nn_Name = cm_Name cm\<rparr> \<Longrightarrow>
      fst (run_state (kube_GetConfigMap K key) ka) = fst (run_state (kube_GetConfigMap K key) kb)"
    and "fst (run_state (resolveBastionCloudInit K sc) ka) \<noteq> fst (run_state (resolveBastionCloudInit K sc) kb)"
    and "run_state (kube_ListStackitClusters K (om_Namespace (sc_meta sc))) kb = (Inr clusters, kc)"
    and "sc \<in> set clusters"
    and "run_state (stackitClusterRequestsForCloudInitRef K ob) kb = (requests, kd)"
  shows "\<lparr>nn_Namespace = om_Namespace (sc_meta sc), nn_Name = om_Name (sc_meta sc)\<rparr> \<in> set requests"
proof -
  from resolveBastionCloudInit_depends [OF assms(3)] obtain ref where
    r: "bs_CloudInitRef (scs_Bastion (sc_Spec sc)) = Some ref" and
    d: "cir_Kind ref = ''ConfigMap'' \<and>
      fst (run_state (kube_GetConfigMap K \<lparr>nn_Namespace = om_Namespace (sc_meta sc), nn_Name = cir_Name ref\<rparr>) ka) \<noteq>
      fst (run_state (kube_GetConfigMap K \<lparr>nn_Namespace = om_Namespace (sc_meta sc), nn_Name = cir_Name ref\<rparr>) kb) \<or>
     cir_Kind ref = ''Secret'' \<and>
      fst (run_state (kube_GetSecret K \<lparr>nn_Namespace = om_Namespace (sc_meta sc), nn_Name = cir_Name ref\<rparr>) ka) \<noteq>
      fst (run_state (kube_GetSecret K \<lparr>nn_Namespace = om_Namespace (sc_meta sc), nn_Name = cir_Name ref\<rparr>) kb)" .
  from d have "cir_Kind ref = ''ConfigMap'' \<and> ob = ObjConfigMap cm \<and>
       om_Namespace (sc_meta sc) = cm_Namespace cm \<and> cir_Name ref = cm_Name cm \<or>
     cir_Kind ref = ''Secret'' \<and> ob = ObjSecret sec \<and>
       om_Namespace (sc_meta sc) = sec_Namespace sec \<and> cir_Name ref = sec_Name sec"
    using assms(1,2) [of "\<lparr>nn_Namespace = om_Namespace (sc_meta sc), nn_Name = cir_Name ref\<rparr>"] by auto
  then have "requests = cloudInitRequests (cir_Kind ref) (cir_Name ref) clusters"
    using assms(4,6)
    by (auto simp: stackitClusterRequestsForCloudInitRef_def run_state_bind)
  with r assms(5) show ?thesis by (auto simp: set_cloudInitRequests)
qed

text \<open>
  Machines learn that their cluster is ready. An event of a cluster object enqueues exactly the
  infrastructure objects of the machines of its owning cluster, each once.
\<close>

theorem stackitCluster_wakes:
  assumes "run_state (kube_GetOwnerCluster K (sc_meta sc)) ka = (Inr (Some cluster), kb)"
    and "run_state (kube_GetFilteredMachinesForCluster K cluster []) kb = (Inr machines, kc)"
    and "run_state (stackitMachineRequestsForStackitCluster K (ObjStackitCluster sc)) ka = (requests, kd)"
  shows "distinct requests \<and> (key \<in> set requests \<longleftrightarrow>
    (\<exists>m \<in> set machines. mc_ClusterName m = om_Name (cl_meta cluster) \<and>
       ref_APIGroup (mc_InfrastructureRef m) = ''infrastructure.cluster.x-k8s.io'' \<and>
       ref_Kind (mc_InfrastructureRef m) = ''StackitMachine'' \<and> nn_Name key \<noteq> [] \<and>
       ref_Name (mc_InfrastructureRef m) = nn_Name key \<and> om_Namespace (mc_meta m) = nn_Namespace key))"
proof -
  let ?match = "\<lambda>machine. mc_ClusterName machine = om_Name (cl_meta cluster)"
  from assms have "requests = stackitMachineRequestsForMachines machines ?match"
    by (simp add: stackitMachineRequestsForStackitCluster_def run_state_bind)
  moreover have "key \<in> set (stackitMachineRequestForMachine (Some m)) \<longleftrightarrow>
       ref_APIGroup (mc_InfrastructureRef m) = ''infrastructure.cluster.x-k8s.io'' \<and>
       ref_Kind (mc_InfrastructureRef m) = ''StackitMachine'' \<and> nn_Name key \<noteq> [] \<and>
       ref_Name (mc_InfrastructureRef m) = nn_Name key \<and> om_Namespace (mc_meta m) = nn_Namespace key"
    for m
    by (cases key) (auto simp: stackitMachineRequestForMachine_def GroupVersion_Group_def Let_def)
  ultimately show ?thesis
    using stackitMachineRequestsForMachines_spec [of machines ?match] by auto
qed

definition listing_Kube :: "api Kube" where
  \<comment> \<open>the sample API server, which lists its machine\<close>
  "listing_Kube = sample_Kube\<lparr>kube_GetFilteredMachinesForCluster :=
     (\<lambda>c fs. State (\<lambda>a. (Inr [api_Machine a], a)))\<rparr>"

theorem stackitCluster_wakes_witness:
  "\<lparr>nn_Namespace = ''ns'', nn_Name = ''m''\<rparr> \<in> set (fst (run_state
     (stackitMachineRequestsForStackitCluster listing_Kube (ObjStackitCluster sample_StackitCluster)) sample_api))"
proof -
  have "run_state (kube_GetOwnerCluster listing_Kube (sc_meta sample_StackitCluster)) sample_api =
      (Inr (Some sample_Cluster), sample_api)" by code_simp
  moreover have "run_state (kube_GetFilteredMachinesForCluster listing_Kube sample_Cluster []) sample_api =
      (Inr [sample_Machine], sample_api)" by code_simp
  ultimately show ?thesis
    using stackitCluster_wakes [OF _ _ prod.collapse [symmetric], of listing_Kube sample_StackitCluster
        sample_api sample_Cluster sample_api "[sample_Machine]" sample_api
        "\<lparr>nn_Namespace = ''ns'', nn_Name = ''m''\<rparr>"]
    by (simp add: sample_Machine_def sample_Cluster_def sample_meta_def)
qed

text \<open>
  C28: dropping an update event of a machine is safe. Let \<open>listed\<close> be the filter with which the
  cluster controller lists the control plane machines of a cluster, which looks at name, namespace,
  labels and whether the machine is being deleted. If the predicate of the watch drops the update
  of a machine, then the target pool that a pass would publish is the same before and after it.
\<close>

theorem dropped_update_keeps_pool:
  assumes "\<And>a b. om_Name (mc_meta a) = om_Name (mc_meta b) \<Longrightarrow>
      om_Namespace (mc_meta a) = om_Namespace (mc_meta b) \<Longrightarrow>
      map_of (om_Labels (mc_meta a)) = map_of (om_Labels (mc_meta b)) \<Longrightarrow>
      (om_DeletionTimestamp (mc_meta a) = None) = (om_DeletionTimestamp (mc_meta b) = None) \<Longrightarrow>
      listed a = listed b"
    and "om_Name (mc_meta m) = om_Name (mc_meta m')"
    and "om_Namespace (mc_meta m) = om_Namespace (mc_meta m')"
    and "distinct (map fst (om_Labels (mc_meta m)))" and "distinct (map fst (om_Labels (mc_meta m')))"
    and "\<not> machineTargetPoolChanged (ObjMachine m) (ObjMachine m')"
  shows "APIServerTargets sha256 (map Some (filter listed (xs @ m # ys))) =
    APIServerTargets sha256 (map Some (filter listed (xs @ m' # ys)))"
proof (rule APIServerTargets_cong)
  from assms(6) have eq: "mc_Addresses m = mc_Addresses m'"
    "(om_DeletionTimestamp (mc_meta m) = None) = (om_DeletionTimestamp (mc_meta m') = None)"
    "mapsEqual (om_Labels (mc_meta m)) (om_Labels (mc_meta m'))"
    by (auto simp: machineTargetPoolChanged_def)
  from mapsEqual_map_of [OF eq(3) assms(4,5)] assms(1) [OF assms(2,3) _ eq(2)]
  have "listed m = listed m'" by simp
  moreover have "same_target m m'" using eq assms(2) by (simp add: same_target_def)
  moreover have "list_all2 same_target zs zs" for zs
    by (simp add: list_all2_same same_target_def)
  ultimately show "list_all2 same_target (filter listed (xs @ m # ys)) (filter listed (xs @ m' # ys))"
    by (simp add: list_all2_appendI)
qed

definition sample_listed :: "Machine \<Rightarrow> bool" where
  \<comment> \<open>the documented behaviour of \<open>collections.ControlPlaneMachines\<close> and \<open>ActiveMachines\<close>\<close>
  "sample_listed m \<longleftrightarrow> om_DeletionTimestamp (mc_meta m) = None \<and>
     map_of (om_Labels (mc_meta m)) ''cluster.x-k8s.io/control-plane'' \<noteq> None"

definition sample_cp :: "string option \<Rightarrow> Machine" where
  "sample_cp secret = (machine0 ''a'' ''10.0.0.5'')\<lparr>mc_DataSecretName := secret,
     mc_meta := (mc_meta (machine0 ''a'' ''10.0.0.5''))\<lparr>om_Labels :=
       [(''cluster.x-k8s.io/control-plane'', [])]\<rparr>\<rparr>"

theorem dropped_update_keeps_pool_witness:
  "APIServerTargets (\<lambda>_. []) (map Some (filter sample_listed [sample_cp None])) =
   APIServerTargets (\<lambda>_. []) (map Some (filter sample_listed [sample_cp (Some ''boot'')])) \<and>
   APIServerTargets (\<lambda>_. []) (map Some (filter sample_listed [sample_cp None])) \<noteq> []"
proof
  show "APIServerTargets (\<lambda>_. []) (map Some (filter sample_listed [sample_cp None])) =
    APIServerTargets (\<lambda>_. []) (map Some (filter sample_listed [sample_cp (Some ''boot'')]))"
    using dropped_update_keeps_pool [of sample_listed "sample_cp None" "sample_cp (Some ''boot'')"
        "\<lambda>_. []" "[]" "[]"]
    by (simp add: sample_listed_def sample_cp_def machine0_def machineTargetPoolChanged_def mapsEqual_def)
qed code_simp

end
