(* ===== verification/Registration.thy ===== *)
theory Registration
  imports Watches
begin

text \<open>
  The \<open>SetupWithManager\<close> methods of both reconcilers: for which kinds of objects each controller
  registers a watch, with which map function and which predicate. What \<open>controller-runtime\<close> does
  with a registration is not modelled.
\<close>

section \<open>The watches of the controllers\<close>

datatype object_kind =
    KindCluster | KindMachine | KindStackitCluster | KindStackitMachine | KindSecret | KindConfigMap

fun kind_of :: "client_Object \<Rightarrow> object_kind" where
  "kind_of (ObjCluster _) = KindCluster"
| "kind_of (ObjMachine _) = KindMachine"
| "kind_of (ObjStackitCluster _) = KindStackitCluster"
| "kind_of (ObjStackitMachine _) = KindStackitMachine"
| "kind_of (ObjSecret _) = KindSecret"
| "kind_of (ObjConfigMap _) = KindConfigMap"

record 'k watch =
  w_Object :: object_kind
  w_MapFunc :: "client_Object \<Rightarrow> ('k, NamespacedName list option) state"
  w_UpdateFunc :: "(client_Object \<Rightarrow> client_Object \<Rightarrow> bool) option"

record 'k registration =
  reg_For :: object_kind
  reg_Watches :: "'k watch list"
  reg_Named :: string

definition mapFunc :: "('k, NamespacedName list) state \<Rightarrow> ('k, NamespacedName list option) state" where
  \<comment> \<open>a map function that cannot fail\<close>
  "mapFunc m = do { requests \<leftarrow> m; ret (Some requests) }"

definition cluster_SetupWithManager :: "(Machine \<Rightarrow> bool) \<Rightarrow> 'k Kube \<Rightarrow> 'k registration" where
  "cluster_SetupWithManager isControlPlaneMachine K =
     \<lparr>reg_For = KindStackitCluster,
      reg_Watches =
        [\<lparr>w_Object = KindCluster,
          w_MapFunc = (\<lambda>ob. ret (Some (filterForStackitClusterResources ob))), w_UpdateFunc = None\<rparr>,
         \<lparr>w_Object = KindMachine,
          w_MapFunc = loadBalancerTargetsForControlPlanes isControlPlaneMachine K,
          w_UpdateFunc = Some machineTargetPoolChanged\<rparr>,
         \<lparr>w_Object = KindConfigMap,
          w_MapFunc = (\<lambda>ob. mapFunc (stackitClusterRequestsForCloudInitRef K ob)), w_UpdateFunc = None\<rparr>,
         \<lparr>w_Object = KindSecret,
          w_MapFunc = (\<lambda>ob. mapFunc (stackitClusterRequestsForCloudInitRef K ob)), w_UpdateFunc = None\<rparr>],
      reg_Named = ''stackitcluster''\<rparr>"

definition machine_SetupWithManager :: "'k Kube \<Rightarrow> 'k registration" where
  "machine_SetupWithManager K =
     \<lparr>reg_For = KindStackitMachine,
      reg_Watches =
        [\<lparr>w_Object = KindMachine,
          w_MapFunc = (\<lambda>ob. ret (Some (stackitMachineRequestsForMachine ob))), w_UpdateFunc = None\<rparr>,
         \<lparr>w_Object = KindStackitCluster,
          w_MapFunc = (\<lambda>ob. mapFunc (stackitMachineRequestsForStackitCluster K ob)), w_UpdateFunc = None\<rparr>,
         \<lparr>w_Object = KindSecret,
          w_MapFunc = (\<lambda>ob. mapFunc (stackitMachineRequestsForBootstrapSecret K ob)), w_UpdateFunc = None\<rparr>],
      reg_Named = ''stackitmachine''\<rparr>"

section \<open>The registered watches\<close>

definition wakes :: "'k registration \<Rightarrow> client_Object \<Rightarrow> 'k \<Rightarrow> NamespacedName \<Rightarrow> bool" where
  \<comment> \<open>a watch for objects of this kind, with no predicate that drops updates, enqueues the request\<close>
  "wakes reg ob k key \<longleftrightarrow>
     (\<exists>w \<in> set (reg_Watches reg). \<exists>requests. w_Object w = kind_of ob \<and> w_UpdateFunc w = None \<and>
        fst (run_state (w_MapFunc w ob) k) = Some requests \<and> key \<in> set requests)"

lemma run_mapFunc: "fst (run_state (mapFunc m) k) = Some (fst (run_state m k))"
  by (simp add: mapFunc_def run_state_bind split: prod.splits)

text \<open>
  C26: no machine waits for bootstrap data that is there. If the API server changes from one state to
  another that agrees with it on every Secret but one, and this changes what a pass over a machine
  reads as its bootstrap data, then a watch that the machine controller registers enqueues the
  infrastructure object of the machine for the event of that Secret.
\<close>

theorem machine_watch_wakes:
  assumes "\<And>key. key \<noteq> \<lparr>nn_Namespace = sec_Namespace secret, nn_Name = sec_Name secret\<rparr> \<Longrightarrow>
      fst (run_state (kube_GetSecret K key) ka) = fst (run_state (kube_GetSecret K key) kb)"
    and "fst (run_state (fetchBootstrapData K m) ka) \<noteq> fst (run_state (fetchBootstrapData K m) kb)"
    and "run_state (kube_ListMachines K (om_Namespace (mc_meta m))) kb = (Inr machines, kc)"
    and "m \<in> set machines" and "key \<in> set (stackitMachineRequestForMachine (Some m))"
  shows "wakes (machine_SetupWithManager K) (ObjSecret secret) kb key"
  using bootstrap_secret_wakes [OF assms prod.collapse [symmetric]]
  by (simp add: wakes_def machine_SetupWithManager_def run_mapFunc)

definition sample_secret :: Secret where
  "sample_secret = \<lparr>sec_Namespace = ''ns'', sec_Name = ''boot'',
     sec_Data = [(''value'', ''#cloud-config'')]\<rparr>"

definition sample_api_without_boot :: api where
  "sample_api_without_boot = sample_api\<lparr>api_Secrets :=
     filter (\<lambda>s. sec_Name s \<noteq> ''boot'') (api_Secrets sample_api)\<rparr>"

theorem machine_watch_wakes_witness:
  "wakes (machine_SetupWithManager sample_Kube) (ObjSecret sample_secret) sample_api
     \<lparr>nn_Namespace = ''ns'', nn_Name = ''m''\<rparr>"
proof (rule machine_watch_wakes)
  fix key assume "key \<noteq> \<lparr>nn_Namespace = sec_Namespace sample_secret, nn_Name = sec_Name sample_secret\<rparr>"
  then show "fst (run_state (kube_GetSecret sample_Kube key) sample_api_without_boot) =
      fst (run_state (kube_GetSecret sample_Kube key) sample_api)"
    by (cases key) (auto simp: sample_Kube_def sample_api_without_boot_def sample_api_def sample_secret_def)
next
  show "fst (run_state (fetchBootstrapData sample_Kube sample_Machine) sample_api_without_boot) \<noteq>
      fst (run_state (fetchBootstrapData sample_Kube sample_Machine) sample_api)" by code_simp
  show "run_state (kube_ListMachines sample_Kube (om_Namespace (mc_meta sample_Machine))) sample_api =
      (Inr [sample_Machine], sample_api)" by code_simp
  show "\<lparr>nn_Namespace = ''ns'', nn_Name = ''m''\<rparr> \<in>
      set (stackitMachineRequestForMachine (Some sample_Machine))" by code_simp
qed simp

text \<open>
  C27: the bastion follows its cloud-init document. If the API server changes in one ConfigMap or in
  one Secret, and this changes what a pass over a cluster resolves as the cloud-init document of
  the bastion, then a watch that the cluster controller registers enqueues the cluster for the
  event of that object.
\<close>

theorem cluster_watch_wakes:
  assumes "\<And>key. ob \<noteq> ObjSecret sec \<or> key \<noteq> \<lparr>nn_Namespace = sec_Namespace sec, nn_Name = sec_Name sec\<rparr> \<Longrightarrow>
      fst (run_state (kube_GetSecret K key) ka) = fst (run_state (kube_GetSecret K key) kb)"
    and "\<And>key. ob \<noteq> ObjConfigMap cm \<or> key \<noteq> \<lparr>nn_Namespace = cm_Namespace cm, nn_Name = cm_Name cm\<rparr> \<Longrightarrow>
      fst (run_state (kube_GetConfigMap K key) ka) = fst (run_state (kube_GetConfigMap K key) kb)"
    and "fst (run_state (resolveBastionCloudInit K sc) ka) \<noteq> fst (run_state (resolveBastionCloudInit K sc) kb)"
    and "run_state (kube_ListStackitClusters K (om_Namespace (sc_meta sc))) kb = (Inr clusters, kc)"
    and "sc \<in> set clusters"
  shows "wakes (cluster_SetupWithManager isCP K) ob kb
    \<lparr>nn_Namespace = om_Namespace (sc_meta sc), nn_Name = om_Name (sc_meta sc)\<rparr>"
proof -
  let ?key = "\<lparr>nn_Namespace = om_Namespace (sc_meta sc), nn_Name = om_Name (sc_meta sc)\<rparr>"
  from cloud_init_wakes [OF assms prod.collapse [symmetric]]
  have key: "?key \<in> set (fst (run_state (stackitClusterRequestsForCloudInitRef K ob) kb))" by simp
  then have "kind_of ob = KindConfigMap \<or> kind_of ob = KindSecret"
    by (cases ob) (simp_all add: stackitClusterRequestsForCloudInitRef_def Let_def)
  with key show ?thesis by (auto simp: wakes_def cluster_SetupWithManager_def run_mapFunc)
qed

definition sample_cloud_init :: "string \<Rightarrow> ConfigMap" where
  "sample_cloud_init doc = \<lparr>cm_Namespace = ''ns'', cm_Name = ''init'', cm_Data = [(''k'', doc)]\<rparr>"

definition sample_ref_cluster :: StackitCluster where
  "sample_ref_cluster = sample_StackitCluster\<lparr>sc_Spec := (sc_Spec sample_StackitCluster)
     \<lparr>scs_Bastion := (scs_Bastion (sc_Spec sample_StackitCluster))\<lparr>bs_CloudInitRef :=
        Some \<lparr>cir_Kind = ''ConfigMap'', cir_Name = ''init'', cir_Key = ''k''\<rparr>\<rparr>\<rparr>\<rparr>"

definition sample_init_api :: "string \<Rightarrow> api" where
  "sample_init_api doc = sample_api\<lparr>api_StackitCluster := sample_ref_cluster,
     api_ConfigMaps := [sample_cloud_init doc]\<rparr>"

theorem cluster_watch_wakes_witness:
  "wakes (cluster_SetupWithManager (\<lambda>_. False) sample_Kube) (ObjConfigMap (sample_cloud_init ''new''))
     (sample_init_api ''new'') \<lparr>nn_Namespace = ''ns'', nn_Name = ''c''\<rparr>"
proof -
  let ?ob = "ObjConfigMap (sample_cloud_init ''new'')"
  have "fst (run_state (kube_GetSecret sample_Kube key) (sample_init_api ''old'')) =
      fst (run_state (kube_GetSecret sample_Kube key) (sample_init_api ''new''))" for key
    by (simp add: sample_Kube_def sample_init_api_def)
  moreover have "fst (run_state (kube_GetConfigMap sample_Kube key) (sample_init_api ''old'')) =
      fst (run_state (kube_GetConfigMap sample_Kube key) (sample_init_api ''new''))"
    if "?ob \<noteq> ObjConfigMap (sample_cloud_init ''new'') \<or>
      key \<noteq> \<lparr>nn_Namespace = cm_Namespace (sample_cloud_init ''new''), nn_Name = cm_Name (sample_cloud_init ''new'')\<rparr>"
    for key
    using that by (cases key) (auto simp: sample_Kube_def sample_init_api_def sample_cloud_init_def)
  moreover have "fst (run_state (resolveBastionCloudInit sample_Kube sample_ref_cluster) (sample_init_api ''old'')) \<noteq>
      fst (run_state (resolveBastionCloudInit sample_Kube sample_ref_cluster) (sample_init_api ''new''))"
    by code_simp
  moreover have "run_state (kube_ListStackitClusters sample_Kube (om_Namespace (sc_meta sample_ref_cluster)))
      (sample_init_api ''new'') = (Inr [sample_ref_cluster], sample_init_api ''new'')" by code_simp
  ultimately have "wakes (cluster_SetupWithManager (\<lambda>_. False) sample_Kube) ?ob (sample_init_api ''new'')
      \<lparr>nn_Namespace = om_Namespace (sc_meta sample_ref_cluster), nn_Name = om_Name (sc_meta sample_ref_cluster)\<rparr>"
    by (rule cluster_watch_wakes [where cm = "sample_cloud_init ''new''"]) simp_all
  then show ?thesis by (simp add: sample_ref_cluster_def sample_StackitCluster_def sample_meta_def)
qed

end
