(* ===== verification/Manager.thy ===== *)
theory Manager
  imports Registration
begin

text \<open>
  \<open>cmd/manager/main.go\<close>: the command line, the options of the webhook server, of the metrics server
  and of the manager, and the order in which \<open>main\<close> sets everything up. Parsing of the command line
  is that of the Go package \<open>flag\<close>; the flags that libraries register (\<open>kubeconfig\<close>, the \<open>zap\<close> flags)
  and the calls of \<open>controller-runtime\<close> are parameters. Log lines and help texts are not modelled.
\<close>

section \<open>The command line\<close>

record manager_flags =
  metricsAddr :: string
  metricsCertPath :: string
  metricsCertName :: string
  metricsCertKey :: string
  webhookCertPath :: string
  webhookCertName :: string
  webhookCertKey :: string
  enableLeaderElection :: bool
  probeAddr :: string
  secureMetrics :: bool
  enableHTTP2 :: bool

definition default_flags :: manager_flags where
  "default_flags = \<lparr>metricsAddr = ''0'', metricsCertPath = [], metricsCertName = ''tls.crt'',
     metricsCertKey = ''tls.key'', webhookCertPath = [], webhookCertName = ''tls.crt'',
     webhookCertKey = ''tls.key'', enableLeaderElection = False, probeAddr = '':8081'',
     secureMetrics = True, enableHTTP2 = False\<rparr>"

datatype 'f flag_value =
    StringVar "string \<Rightarrow> 'f \<Rightarrow> 'f"
  | BoolVar "bool \<Rightarrow> 'f \<Rightarrow> 'f"

definition manager_formal :: "manager_flags flag_value gomap" where
  \<comment> \<open>the calls of \<open>flag.StringVar\<close> and \<open>flag.BoolVar\<close>\<close>
  "manager_formal =
     [(''metrics-bind-address'', StringVar (\<lambda>v f. f\<lparr>metricsAddr := v\<rparr>)),
      (''health-probe-bind-address'', StringVar (\<lambda>v f. f\<lparr>probeAddr := v\<rparr>)),
      (''leader-elect'', BoolVar (\<lambda>b f. f\<lparr>enableLeaderElection := b\<rparr>)),
      (''metrics-secure'', BoolVar (\<lambda>b f. f\<lparr>secureMetrics := b\<rparr>)),
      (''webhook-cert-path'', StringVar (\<lambda>v f. f\<lparr>webhookCertPath := v\<rparr>)),
      (''webhook-cert-name'', StringVar (\<lambda>v f. f\<lparr>webhookCertName := v\<rparr>)),
      (''webhook-cert-key'', StringVar (\<lambda>v f. f\<lparr>webhookCertKey := v\<rparr>)),
      (''metrics-cert-path'', StringVar (\<lambda>v f. f\<lparr>metricsCertPath := v\<rparr>)),
      (''metrics-cert-name'', StringVar (\<lambda>v f. f\<lparr>metricsCertName := v\<rparr>)),
      (''metrics-cert-key'', StringVar (\<lambda>v f. f\<lparr>metricsCertKey := v\<rparr>)),
      (''enable-http2'', BoolVar (\<lambda>b f. f\<lparr>enableHTTP2 := b\<rparr>))]"

definition ParseBool :: "string \<Rightarrow> bool option" where
  \<comment> \<open>\<open>strconv.ParseBool\<close>\<close>
  "ParseBool s =
     (if List.member [''1'', ''t'', ''T'', ''TRUE'', ''true'', ''True''] s then Some True
      else if List.member [''0'', ''f'', ''F'', ''FALSE'', ''false'', ''False''] s then Some False
      else None)"

datatype flag_token = NoFlag | BadSyntax | FlagToken string "string option"

fun cutEquals :: "string \<Rightarrow> string \<times> string option" where
  \<comment> \<open>a name and the value after the first \<open>=\<close>\<close>
  "cutEquals [] = ([], None)"
| "cutEquals (c # s) = (if c = CHR ''='' then ([], Some s) else case cutEquals s of (n, v) \<Rightarrow> (c # n, v))"

definition flagToken :: "string \<Rightarrow> flag_token" where
  \<comment> \<open>one argument as \<open>FlagSet.parseOne\<close> reads it; \<open>--\<close> ends the flags, as does an argument that is no flag\<close>
  "flagToken s =
     (if length s < 2 \<or> hd s \<noteq> CHR ''-'' then NoFlag
      else if s = ''--'' then NoFlag
      else
        let name = (if s ! 1 = CHR ''-'' then drop 2 s else drop 1 s) in
        if name = [] \<or> hd name = CHR ''-'' \<or> hd name = CHR ''='' then BadSyntax
        else case cutEquals name of (n, v) \<Rightarrow> FlagToken n v)"

datatype 'f parse_result = Parsed 'f | ParseFailed | ParseHelp

fun flag_Parse :: "(string \<Rightarrow> 'f flag_value option) \<Rightarrow> string list \<Rightarrow> 'f \<Rightarrow> 'f parse_result" where
  "flag_Parse formal [] f = Parsed f"
| "flag_Parse formal (s # args) f = (case flagToken s of
     NoFlag \<Rightarrow> Parsed f
   | BadSyntax \<Rightarrow> ParseFailed
   | FlagToken name value \<Rightarrow> (case formal name of
       None \<Rightarrow> if name = ''help'' \<or> name = ''h'' then ParseHelp else ParseFailed
     | Some (BoolVar set_flag) \<Rightarrow>
         (case ParseBool (case value of None \<Rightarrow> ''true'' | Some v \<Rightarrow> v) of
            None \<Rightarrow> ParseFailed
          | Some b \<Rightarrow> flag_Parse formal args (set_flag b f))
     | Some (StringVar set_flag) \<Rightarrow>
         (case value of
            Some v \<Rightarrow> flag_Parse formal args (set_flag v f)
          | None \<Rightarrow> (case args of
              [] \<Rightarrow> ParseFailed
            | v # args' \<Rightarrow> flag_Parse formal args' (set_flag v f)))))"

section \<open>Server options\<close>

record tls_Config =
  NextProtos :: "string list"

type_synonym TLSOpt = "tls_Config \<Rightarrow> tls_Config"

record webhook_Options =
  wo_TLSOpts :: "TLSOpt list"
  wo_CertDir :: string
  wo_CertName :: string
  wo_KeyName :: string

datatype FilterProvider = WithAuthenticationAndAuthorization

record metrics_Options =
  mo_BindAddress :: string
  mo_SecureServing :: bool
  mo_TLSOpts :: "TLSOpt list"
  mo_FilterProvider :: "FilterProvider option"
  mo_CertDir :: string
  mo_CertName :: string
  mo_KeyName :: string

record ctrl_Options =
  co_Metrics :: metrics_Options
  co_WebhookServer :: webhook_Options
  co_HealthProbeBindAddress :: string
  co_LeaderElection :: bool
  co_LeaderElectionID :: string

definition disableHTTP2 :: TLSOpt where
  "disableHTTP2 c = c\<lparr>NextProtos := [''http/1.1'']\<rparr>"

definition manager_tlsOpts :: "manager_flags \<Rightarrow> TLSOpt list" where
  "manager_tlsOpts f = (if \<not> enableHTTP2 f then [disableHTTP2] else [])"

definition webhookServerOptions :: "manager_flags \<Rightarrow> webhook_Options" where
  "webhookServerOptions f =
     (let opts = \<lparr>wo_TLSOpts = manager_tlsOpts f, wo_CertDir = [], wo_CertName = [], wo_KeyName = []\<rparr> in
      if webhookCertPath f \<noteq> []
      then opts\<lparr>wo_CertDir := webhookCertPath f, wo_CertName := webhookCertName f,
                wo_KeyName := webhookCertKey f\<rparr>
      else opts)"

definition metricsServerOptions :: "manager_flags \<Rightarrow> metrics_Options" where
  "metricsServerOptions f =
     (let opts = \<lparr>mo_BindAddress = metricsAddr f, mo_SecureServing = secureMetrics f,
                  mo_TLSOpts = manager_tlsOpts f, mo_FilterProvider = None,
                  mo_CertDir = [], mo_CertName = [], mo_KeyName = []\<rparr>;
          opts = (if secureMetrics f
                  then opts\<lparr>mo_FilterProvider := Some WithAuthenticationAndAuthorization\<rparr> else opts)
      in if metricsCertPath f \<noteq> []
         then opts\<lparr>mo_CertDir := metricsCertPath f, mo_CertName := metricsCertName f,
                   mo_KeyName := metricsCertKey f\<rparr>
         else opts)"

definition managerOptions :: "manager_flags \<Rightarrow> ctrl_Options" where
  "managerOptions f =
     \<lparr>co_Metrics = metricsServerOptions f, co_WebhookServer = webhookServerOptions f,
      co_HealthProbeBindAddress = probeAddr f, co_LeaderElection = enableLeaderElection f,
      co_LeaderElectionID = ''85750c9c.cluster.x-k8s.io''\<rparr>"

section \<open>main\<close>

text \<open>
  What \<open>main\<close> calls of \<open>controller-runtime\<close> and of the packages around it, over a state \<open>'w\<close> of the
  process. \<open>GetConfigOrDie\<close> ends the process itself when it fails, with status 1.
\<close>

record ('w, 'k) runtime_calls =
  GetConfigOrDie :: "('w, unit) call"
  NewManager :: "ctrl_Options \<Rightarrow> ('w, unit) call"
  InitFromRecorder :: "string \<Rightarrow> ('w, unit) state"
  CompleteController :: "'k registration \<Rightarrow> ('w, unit) call"
  CompleteWebhook :: "object_kind \<times> bool \<Rightarrow> ('w, unit) call" \<comment> \<open>kind, and whether it is the template\<close>
  AddHealthzCheck :: "string \<Rightarrow> ('w, unit) call"
  AddReadyzCheck :: "string \<Rightarrow> ('w, unit) call"
  mgr_Start :: "('w, unit) call"

definition orExit :: "('w, unit) call \<Rightarrow> ('w, nat) state \<Rightarrow> ('w, nat) state" where
  \<comment> \<open>\<open>if err := m; err != nil { os.Exit(1) }\<close>, then the rest\<close>
  "orExit m rest = do {
     res \<leftarrow> m;
     case res of Inl err \<Rightarrow> ret 1 | Inr _ \<Rightarrow> rest
   }"

definition setupWebhooks ::
  "('w, 'k) runtime_calls \<Rightarrow> ('w, nat) state \<Rightarrow> ('w, nat) state" where
  "setupWebhooks rt rest =
     orExit (CompleteWebhook rt (KindStackitCluster, False))
       (orExit (CompleteWebhook rt (KindStackitMachine, False))
         (orExit (CompleteWebhook rt (KindStackitCluster, True))
           (orExit (CompleteWebhook rt (KindStackitMachine, True)) rest)))"

definition runManager ::
  "('w, 'k) runtime_calls \<Rightarrow> (Machine \<Rightarrow> bool) \<Rightarrow> 'k Kube \<Rightarrow> ctrl_Options \<Rightarrow> string \<Rightarrow> ('w, nat) state" where
  \<comment> \<open>\<open>main\<close> from the creation of the manager on; the result is the exit status\<close>
  "runManager rt isControlPlaneMachine K opts enableWebhooks =
     orExit (GetConfigOrDie rt)
      (orExit (NewManager rt opts) (do {
         _ \<leftarrow> InitFromRecorder rt ''cluster-api-provider-stackit'';
         orExit (CompleteController rt (cluster_SetupWithManager isControlPlaneMachine K))
          (orExit (CompleteController rt (machine_SetupWithManager K))
            (let checks = orExit (AddHealthzCheck rt ''healthz'')
                   (orExit (AddReadyzCheck rt ''readyz'') (orExit (mgr_Start rt) (ret 0)))
             in if enableWebhooks \<noteq> ''false'' then setupWebhooks rt checks else checks))
       }))"

fun lift_flag :: "manager_flags flag_value \<Rightarrow> (manager_flags \<times> 'z) flag_value" where
  "lift_flag (StringVar g) = StringVar (\<lambda>v (f, z). (g v f, z))"
| "lift_flag (BoolVar g) = BoolVar (\<lambda>b (f, z). (g b f, z))"

fun lift_lib :: "'z flag_value \<Rightarrow> (manager_flags \<times> 'z) flag_value" where
  "lift_lib (StringVar g) = StringVar (\<lambda>v (f, z). (f, g v z))"
| "lift_lib (BoolVar g) = BoolVar (\<lambda>b (f, z). (f, g b z))"

definition commandLine ::
  "(string \<Rightarrow> 'z flag_value option) \<Rightarrow> string \<Rightarrow> (manager_flags \<times> 'z) flag_value option" where
  \<comment> \<open>all registered flags: those of \<open>main\<close> and those of the libraries, which set variables of their own\<close>
  "commandLine libs name = (case map_of manager_formal name of
     Some v \<Rightarrow> Some (lift_flag v)
   | None \<Rightarrow> map_option lift_lib (libs name))"

definition manager_main ::
  "('w, 'k) runtime_calls \<Rightarrow> (Machine \<Rightarrow> bool) \<Rightarrow> 'k Kube \<Rightarrow> (string \<Rightarrow> 'z flag_value option) \<Rightarrow> 'z \<Rightarrow>
   (string \<Rightarrow> string) \<Rightarrow> string list \<Rightarrow> ('w, nat) state" where
  \<comment> \<open>\<open>flag.Parse\<close> exits with 2 on a bad command line and with 0 on \<open>-help\<close>\<close>
  "manager_main rt isControlPlaneMachine K libs z Getenv args =
     (case flag_Parse (commandLine libs) args (default_flags, z) of
        ParseFailed \<Rightarrow> ret 2
      | ParseHelp \<Rightarrow> ret 0
      | Parsed (f, z') \<Rightarrow>
          runManager rt isControlPlaneMachine K (managerOptions f) (Getenv ''ENABLE_WEBHOOKS''))"

section \<open>The command line is read back\<close>

definition showBool :: "bool \<Rightarrow> string" where
  "showBool b = (if b then ''true'' else ''false'')"

definition manager_args :: "manager_flags \<Rightarrow> string list" where
  \<comment> \<open>a command line that sets every flag\<close>
  "manager_args f =
     [''--metrics-bind-address='' @ metricsAddr f, ''--health-probe-bind-address='' @ probeAddr f,
      ''--leader-elect='' @ showBool (enableLeaderElection f),
      ''--metrics-secure='' @ showBool (secureMetrics f),
      ''--webhook-cert-path='' @ webhookCertPath f, ''--webhook-cert-name='' @ webhookCertName f,
      ''--webhook-cert-key='' @ webhookCertKey f, ''--metrics-cert-path='' @ metricsCertPath f,
      ''--metrics-cert-name='' @ metricsCertName f, ''--metrics-cert-key='' @ metricsCertKey f,
      ''--enable-http2='' @ showBool (enableHTTP2 f)]"

lemma cutEquals_append: "CHR ''='' \<notin> set n \<Longrightarrow> cutEquals (n @ CHR ''='' # v) = (n, Some v)"
  by (induction n) auto

lemma flagToken_long:
  assumes "n \<noteq> []" "CHR ''='' \<notin> set n" "hd n \<noteq> CHR ''-''"
  shows "flagToken (''--'' @ n @ CHR ''='' # v) = FlagToken n (Some v)"
proof -
  from assms have "hd n \<noteq> CHR ''=''" by (cases n) auto
  with assms show ?thesis by (simp add: flagToken_def cutEquals_append)
qed

lemma flag_Parse_string:
  "map_of manager_formal n = Some (StringVar g) \<Longrightarrow> n \<noteq> [] \<Longrightarrow> CHR ''='' \<notin> set n \<Longrightarrow> hd n \<noteq> CHR ''-'' \<Longrightarrow>
   flag_Parse (commandLine libs) ((''--'' @ n @ CHR ''='' # v) # args) (f, z) =
   flag_Parse (commandLine libs) args (g v f, z)"
  by (simp add: flagToken_long commandLine_def del: append.simps)

lemma flag_Parse_bool:
  "map_of manager_formal n = Some (BoolVar g) \<Longrightarrow> n \<noteq> [] \<Longrightarrow> CHR ''='' \<notin> set n \<Longrightarrow> hd n \<noteq> CHR ''-'' \<Longrightarrow>
   flag_Parse (commandLine libs) ((''--'' @ n @ CHR ''='' # showBool b) # args) (f, z) =
   flag_Parse (commandLine libs) args (g b f, z)"
  by (simp add: flagToken_long commandLine_def ParseBool_def showBool_def del: append.simps)

lemmas flag_Parse_steps =
  flag_Parse_string [of "''metrics-bind-address''"] flag_Parse_string [of "''health-probe-bind-address''"]
  flag_Parse_bool [of "''leader-elect''"] flag_Parse_bool [of "''metrics-secure''"]
  flag_Parse_string [of "''webhook-cert-path''"] flag_Parse_string [of "''webhook-cert-name''"]
  flag_Parse_string [of "''webhook-cert-key''"] flag_Parse_string [of "''metrics-cert-path''"]
  flag_Parse_string [of "''metrics-cert-name''"] flag_Parse_string [of "''metrics-cert-key''"]
  flag_Parse_bool [of "''enable-http2''"]

text \<open>
  The command line of the manager is read back as it was meant. For every setting of the flags,
  the command line that spells out each of them is parsed to exactly this setting, whatever
  characters the addresses and paths contain and whichever flags the libraries register, and leaves
  the variables of the libraries alone.
\<close>

theorem manager_flags_roundtrip:
  "flag_Parse (commandLine libs) (manager_args f) (default_flags, z) = Parsed (f, z)"
  unfolding manager_args_def
  by (simp add: flag_Parse_steps [simplified] manager_formal_def)

section \<open>What the servers offer\<close>

lemma flag_Parse_keeps:
  assumes "flag_Parse formal args f = Parsed f'" and "I f"
    and "\<forall>s \<in> set args. \<forall>v. flagToken s \<noteq> FlagToken x v"
    and str: "\<And>n g v f. n \<noteq> x \<Longrightarrow> formal n = Some (StringVar g) \<Longrightarrow> I f \<Longrightarrow> I (g v f)"
    and bool: "\<And>n g b f. n \<noteq> x \<Longrightarrow> formal n = Some (BoolVar g) \<Longrightarrow> I f \<Longrightarrow> I (g b f)"
  shows "I f'"
  using assms(1-3)
proof (induction args arbitrary: f rule: length_induct)
  case (1 args)
  have IH: "I f'" if "flag_Parse formal as g = Parsed f'" "I g" "length as < length args" "set as \<subseteq> set args" for as g
    using "1.IH" that "1.prems"(3) by blast
  show ?case
  proof (cases args)
    case (Cons s rest)
    show ?thesis
    proof (cases "flagToken s")
      case (FlagToken n v)
      with "1.prems"(1,3) Cons obtain w where w: "formal n = Some w" "n \<noteq> x"
        by (auto split: option.splits if_splits)
      with "1.prems"(1,2) Cons FlagToken show ?thesis
        by (cases w) (auto split: option.splits list.splits intro: IH str bool)
    qed (use "1.prems" Cons in auto)
  qed (use "1.prems" in auto)
qed

definition http1_only :: "TLSOpt list \<Rightarrow> bool" where
  "http1_only opts \<longleftrightarrow> (\<forall>c. NextProtos (foldl (\<lambda>c opt. opt c) c opts) = [''http/1.1''])"

lemma manager_formal_sel:
  assumes "map_of manager_formal n = Some w"
  shows "w = StringVar g \<Longrightarrow> enableHTTP2 (g v f) = enableHTTP2 f \<and> secureMetrics (g v f) = secureMetrics f"
    and "w = BoolVar h \<Longrightarrow> n \<noteq> ''enable-http2'' \<Longrightarrow> enableHTTP2 (h b f) = enableHTTP2 f"
    and "w = BoolVar h \<Longrightarrow> n \<noteq> ''metrics-secure'' \<Longrightarrow> secureMetrics (h b f) = secureMetrics f"
  using assms by (auto simp: manager_formal_def split: if_splits)

fun_cases lift_flagE: "lift_flag w = StringVar g" "lift_flag w = BoolVar h"
fun_cases lift_libE: "lift_lib w = StringVar g" "lift_lib w = BoolVar h"

lemma commandLine_keeps:
  "commandLine libs n = Some (StringVar g) \<Longrightarrow> enableHTTP2 (fst (g v p)) = enableHTTP2 (fst p)"
  "commandLine libs n = Some (StringVar g) \<Longrightarrow> secureMetrics (fst (g v p)) = secureMetrics (fst p)"
  "commandLine libs n = Some (BoolVar h) \<Longrightarrow> n \<noteq> ''enable-http2'' \<Longrightarrow>
     enableHTTP2 (fst (h b p)) = enableHTTP2 (fst p)"
  "commandLine libs n = Some (BoolVar h) \<Longrightarrow> n \<noteq> ''metrics-secure'' \<Longrightarrow>
     secureMetrics (fst (h b p)) = secureMetrics (fst p)"
  unfolding commandLine_def
  by (auto simp: manager_formal_sel split: option.splits prod.splits elim!: lift_flagE lift_libE)

text \<open>
  The servers of the manager are hardened by default. Whatever else the command line says: if it
  does not name \<open>enable-http2\<close>, the webhook server and the metrics server offer only HTTP/1.1; if
  it does not name \<open>metrics-secure\<close>, the metrics are served over TLS and behind authentication and
  authorization.
\<close>

theorem manager_hardened:
  assumes "flag_Parse (commandLine libs) args (default_flags, z) = Parsed (f, z')"
  shows "((\<forall>s \<in> set args. \<forall>v. flagToken s \<noteq> FlagToken ''enable-http2'' v) \<longrightarrow>
      http1_only (wo_TLSOpts (co_WebhookServer (managerOptions f))) \<and>
      http1_only (mo_TLSOpts (co_Metrics (managerOptions f)))) \<and>
    ((\<forall>s \<in> set args. \<forall>v. flagToken s \<noteq> FlagToken ''metrics-secure'' v) \<longrightarrow>
      mo_SecureServing (co_Metrics (managerOptions f)) \<and>
      mo_FilterProvider (co_Metrics (managerOptions f)) = Some WithAuthenticationAndAuthorization)"
proof -
  have http2: "\<not> enableHTTP2 f" if "\<forall>s \<in> set args. \<forall>v. flagToken s \<noteq> FlagToken ''enable-http2'' v"
    using flag_Parse_keeps [OF assms _ that, where I = "\<lambda>p. \<not> enableHTTP2 (fst p)"]
    by (simp add: commandLine_keeps default_flags_def)
  have secure: "secureMetrics f" if "\<forall>s \<in> set args. \<forall>v. flagToken s \<noteq> FlagToken ''metrics-secure'' v"
    using flag_Parse_keeps [OF assms _ that, where I = "\<lambda>p. secureMetrics (fst p)"]
    by (simp add: commandLine_keeps default_flags_def)
  from http2 secure show ?thesis
    by (simp add: managerOptions_def webhookServerOptions_def metricsServerOptions_def Let_def
        manager_tlsOpts_def http1_only_def disableHTTP2_def)
qed

theorem manager_hardened_witness:
  "\<exists>f. flag_Parse (commandLine (\<lambda>_. None)) [''--leader-elect'', ''-metrics-bind-address'', '':8443''] (default_flags, ()) =
      Parsed (f, ()) \<and>
    http1_only (mo_TLSOpts (co_Metrics (managerOptions f))) \<and> mo_SecureServing (co_Metrics (managerOptions f)) \<and>
    mo_BindAddress (co_Metrics (managerOptions f)) = '':8443''"
proof -
  let ?args = "[''--leader-elect'', ''-metrics-bind-address'', '':8443'']"
  let ?f = "default_flags\<lparr>enableLeaderElection := True, metricsAddr := '':8443''\<rparr>"
  have p: "flag_Parse (commandLine (\<lambda>_. None)) ?args (default_flags, ()) = Parsed (?f, ())"
    by (simp add: flagToken_def commandLine_def manager_formal_def ParseBool_def)
  moreover have "\<forall>s \<in> set ?args. \<forall>v. flagToken s \<noteq> FlagToken ''enable-http2'' v"
    and "\<forall>s \<in> set ?args. \<forall>v. flagToken s \<noteq> FlagToken ''metrics-secure'' v"
    by (simp_all add: flagToken_def)
  moreover have "mo_BindAddress (co_Metrics (managerOptions ?f)) = '':8443''" by code_simp
  ultimately show ?thesis using manager_hardened [OF p] by blast
qed

section \<open>The order of the set-up\<close>

definition manager_steps ::
  "('w, 'k) runtime_calls \<Rightarrow> (Machine \<Rightarrow> bool) \<Rightarrow> 'k Kube \<Rightarrow> ctrl_Options \<Rightarrow> string \<Rightarrow> ('w, unit) call list" where
  \<comment> \<open>everything before the start of the manager\<close>
  "manager_steps rt isCP K opts enableWebhooks =
     [GetConfigOrDie rt, NewManager rt opts,
      do { _ \<leftarrow> InitFromRecorder rt ''cluster-api-provider-stackit''; ok () },
      CompleteController rt (cluster_SetupWithManager isCP K),
      CompleteController rt (machine_SetupWithManager K)] @
     (if enableWebhooks \<noteq> ''false''
      then map (CompleteWebhook rt) [(KindStackitCluster, False), (KindStackitMachine, False),
             (KindStackitCluster, True), (KindStackitMachine, True)]
      else []) @
     [AddHealthzCheck rt ''healthz'', AddReadyzCheck rt ''readyz'']"

fun perform :: "('w, unit) call list \<Rightarrow> 'w \<Rightarrow> bool \<times> 'w" where
  \<comment> \<open>one step after the other up to the first that fails; whether none did\<close>
  "perform [] w = (True, w)"
| "perform (m # ms) w = (case run_state m w of
     (Inl err, w') \<Rightarrow> (False, w')
   | (Inr u, w') \<Rightarrow> perform ms w')"

lemma run_orExit:
  "run_state (orExit m rest) w = (case run_state m w of
     (Inl err, w') \<Rightarrow> (1, w') | (Inr u, w') \<Rightarrow> run_state rest w')"
  by (simp add: orExit_def run_state_bind split: prod.splits sum.splits)

lemma run_orExits:
  "run_state (foldr orExit ms rest) w = (case perform ms w of
     (True, w') \<Rightarrow> run_state rest w' | (False, w') \<Rightarrow> (1, w'))"
  by (induction ms w rule: perform.induct) (auto simp: run_orExit split: prod.splits sum.splits)

lemma orExit_init: "orExit (State_Monad.bind m ok) rest = State_Monad.bind m (\<lambda>_. rest)"
  by (rule state.expand) (simp add: fun_eq_iff run_orExit run_state_bind split: prod.splits)

lemma runManager_steps:
  "runManager rt isCP K opts e = foldr orExit (manager_steps rt isCP K opts e) (orExit (mgr_Start rt) (ret 0))"
  by (simp add: runManager_def manager_steps_def setupWebhooks_def orExit_init Let_def)


datatype setup_step =
    StepConfig | StepManager ctrl_Options | StepRecorder | StepController string
  | StepWebhook "object_kind \<times> bool" | StepHealthz | StepReadyz | StepStart

definition sample_step :: "(setup_step \<Rightarrow> bool) \<Rightarrow> setup_step \<Rightarrow> (setup_step list, unit) call" where
  \<comment> \<open>a step is logged, and fails where the predicate says so\<close>
  "sample_step bad st = State (\<lambda>log. (if bad st then Inl (mk_error [] ''failed'') else Inr (), log @ [st]))"

definition sample_runtime :: "(setup_step \<Rightarrow> bool) \<Rightarrow> (setup_step list, api) runtime_calls" where
  "sample_runtime bad =
     \<lparr>GetConfigOrDie = sample_step bad StepConfig, NewManager = (\<lambda>opts. sample_step bad (StepManager opts)),
      InitFromRecorder = (\<lambda>_. State (\<lambda>log. ((), log @ [StepRecorder]))),
      CompleteController = (\<lambda>reg. sample_step bad (StepController (reg_Named reg))),
      CompleteWebhook = (\<lambda>k. sample_step bad (StepWebhook k)),
      AddHealthzCheck = (\<lambda>_. sample_step bad StepHealthz), AddReadyzCheck = (\<lambda>_. sample_step bad StepReadyz),
      mgr_Start = sample_step bad StepStart\<rparr>"


end
