(* ===== verification/Cleanup.thy ===== *)
theory Cleanup
  imports Fake_Cloud
begin

text \<open>
  The cleanup by tags (\<open>cloud/cleanup.go\<close>), which the end-to-end tests use when the Kubernetes
  objects are gone, and what it does to the in-memory cloud.
\<close>

section \<open>cloud/cleanup.go\<close>

definition noteError :: "string list \<Rightarrow> string \<Rightarrow> go_error + unit \<Rightarrow> string list" where
  \<comment> \<open>\<open>if err != nil && !IsNotFound(err) { errs = append(errs, prefix + ": " + err) }\<close>\<close>
  "noteError errs prefix res = (case res of
     Inl err \<Rightarrow> if IsNotFound err then errs else errs @ [prefix @ '': '' @ err_text err]
   | Inr _ \<Rightarrow> errs)"

fun deleteAll ::
  "(string \<Rightarrow> ('c, unit) call) \<Rightarrow> string \<Rightarrow> string list \<Rightarrow> string list \<Rightarrow> ('c, string list) state" where
  \<comment> \<open>a loop over the IDs of one kind of resource; the result is \<open>errs\<close>\<close>
  "deleteAll delete kind [] errs = ret errs"
| "deleteAll delete kind (i # rest) errs = do {
     res \<leftarrow> delete i;
     deleteAll delete kind rest (noteError errs (''delete '' @ kind @ '' '' @ quote i) res)
   }"

definition CleanupByTags :: "'c Client \<Rightarrow> string gomap \<Rightarrow> ('c, unit) call" where
  "CleanupByTags cl tags =
     (if tags = []
      then fail_with (mk_error [ErrInvalidInput] ''invalid input: empty cleanup tag selector'')
      else do {
        let bastionTags = AList.update ''cluster-api-provider-stackit/resource-role'' ''bastion'' tags;
        bres \<leftarrow> DeleteBastion cl (empty_BastionInput\<lparr>bi_Tags := bastionTags\<rparr>) empty_Bastion;
        let errs = noteError [] ''delete bastion resources'' bres;
        lbs \<leftarrow> ListAPIServerLoadBalancersByTags cl tags;
        errs \<leftarrow> (case lbs of
          Inl err \<Rightarrow> ret (errs @ [err_text err])
        | Inr xs \<Rightarrow> deleteAll (DeleteAPIServerLoadBalancer cl) ''load balancer'' (map lb_ID xs) errs);
        srvs \<leftarrow> ListServersByTags cl tags;
        errs \<leftarrow> (case srvs of
          Inl err \<Rightarrow> ret (errs @ [err_text err])
        | Inr xs \<Rightarrow> deleteAll (DeleteServer cl) ''server'' (map srv_ID xs) errs);
        nets \<leftarrow> ListNetworksByTags cl tags;
        errs \<leftarrow> (case nets of
          Inl err \<Rightarrow> ret (errs @ [err_text err])
        | Inr xs \<Rightarrow> deleteAll (DeleteNetwork cl) ''network'' (map net_ID xs) errs);
        if errs \<noteq> []
        then fail_with (mk_error [ErrTransient] (''transient: '' @ JoinStr errs ''; ''))
        else ok ()
      })"

section \<open>cmd/cleanup-stackit\<close>

text \<open>
  The command around it: the environment, the file system and the constructor of the cloud client
  are parameters.
\<close>

definition requiredEnv :: "(string \<Rightarrow> string) \<Rightarrow> string \<Rightarrow> go_error + string" where
  "requiredEnv getenv name =
     (let v = getenv name in if v = [] then Inl (mk_error [] (name @ '' is required'')) else Inr v)"

definition envDefault :: "(string \<Rightarrow> string) \<Rightarrow> string \<Rightarrow> string \<Rightarrow> string" where
  "envDefault getenv name fallback = (let v = getenv name in if v \<noteq> [] then v else fallback)"

definition serviceAccountJSON ::
  "(string \<Rightarrow> string) \<Rightarrow> (string \<Rightarrow> go_error + string) \<Rightarrow> go_error + string" where
  "serviceAccountJSON getenv readFile =
     (if getenv ''STACKIT_SERVICE_ACCOUNT_JSON'' \<noteq> [] then Inr (getenv ''STACKIT_SERVICE_ACCOUNT_JSON'')
      else
        let path = getenv ''STACKIT_SERVICE_ACCOUNT_JSON_FILE'' in
        if path = []
        then Inl (mk_error [] ''set STACKIT_SERVICE_ACCOUNT_JSON_FILE or STACKIT_SERVICE_ACCOUNT_JSON'')
        else case readFile path of
          Inl err \<Rightarrow> Inl (mk_error (err_chain err) (''read STACKIT_SERVICE_ACCOUNT_JSON_FILE or set '' @
                          ''STACKIT_SERVICE_ACCOUNT_JSON: '' @ err_text err))
        | Inr content \<Rightarrow> Inr content)"

definition cleanup_run ::
  "(string \<Rightarrow> string) \<Rightarrow> (string \<Rightarrow> go_error + string) \<Rightarrow> 'c Factory \<Rightarrow> ('c, unit) call" where
  "cleanup_run getenv readFile newClient =
     (case requiredEnv getenv ''STACKIT_E2E_TEST_ID'' of
        Inl err \<Rightarrow> fail_with err
      | Inr testID \<Rightarrow>
          (case requiredEnv getenv ''STACKIT_PROJECT_ID'' of
             Inl err \<Rightarrow> fail_with err
           | Inr projectID \<Rightarrow>
               let region = envDefault getenv ''STACKIT_REGION'' ''eu01'' in
               (case serviceAccountJSON getenv readFile of
                  Inl err \<Rightarrow> fail_with err
                | Inr json \<Rightarrow>
                    (case newClient \<lparr>cr_ProjectID = projectID, cr_Region = region,
                                     cr_ServiceAccountJSON = json\<rparr> of
                       Inl err \<Rightarrow> fail_with err
                     | Inr cl \<Rightarrow>
                         CleanupByTags cl [(LabelE2E, E2EValue), (LabelTestID, testID)]))))"

section \<open>One kind of resource\<close>

lemma noteError_extends: "\<exists>es. noteError errs p res = errs @ es"
  by (auto simp: noteError_def split: sum.splits)

lemma noteError_clean:
  "noteError errs p res = [] \<longleftrightarrow> errs = [] \<and> (\<forall>err. res = Inl err \<longrightarrow> IsNotFound err)"
  by (auto simp: noteError_def split: sum.splits)

lemma deleteAll_extends:
  "\<exists>es. fst (run_state (deleteAll delete kind is errs) c) = errs @ es"
proof (induction "is" arbitrary: errs c)
  case (Cons i "is")
  obtain res c1 where r: "run_state (delete i) c = (res, c1)" by fastforce
  obtain es where "noteError errs (''delete '' @ kind @ '' '' @ quote i) res = errs @ es"
    using noteError_extends by blast
  with r Cons.IH [of "errs @ es" c1] show ?case by (auto simp: run_state_bind)
qed simp

text \<open>A loop that ends without an error has deleted every entry it was given.\<close>

lemma deleteAll_clean:
  assumes "run_state (deleteAll delete kind is errs) c = ([], c')"
    and "\<And>i c res c1. run_state (delete i) c = (res, c1) \<Longrightarrow> I c \<Longrightarrow> i \<in> set is \<Longrightarrow>
      (\<forall>err. res = Inl err \<longrightarrow> IsNotFound err) \<Longrightarrow> I c1 \<and> c1 = del i c"
    and "I c"
  shows "errs = [] \<and> I c' \<and> c' = fold del is c"
  using assms
proof (induction "is" arbitrary: errs c)
  case (Cons i "is")
  obtain res c1 where r: "run_state (delete i) c = (res, c1)" by fastforce
  let ?e = "noteError errs (''delete '' @ kind @ '' '' @ quote i) res"
  have run: "run_state (deleteAll delete kind is ?e) c1 = ([], c')"
    using Cons.prems(1) r by (simp add: run_state_bind)
  moreover have "?e = []"
    using deleteAll_extends [of delete kind "is" ?e c1] run by auto
  then have "errs = []" "\<forall>err. res = Inl err \<longrightarrow> IsNotFound err" by (auto simp: noteError_clean)
  moreover have "I c1 \<and> c1 = del i c"
    by (rule Cons.prems(2) [OF r Cons.prems(3)]) (use calculation in auto)
  ultimately show ?case using Cons.IH [OF run] Cons.prems(2) by (metis fold_simps(2) list.set_intros(2))
qed simp

section \<open>The in-memory cloud\<close>

lemma filter_delete:
  "filter (\<lambda>(i, e). i \<notin> set is) (AList.delete a m) = filter (\<lambda>(i, e). i \<noteq> a \<and> i \<notin> set is) m"
  by (auto simp: AList.delete_eq intro!: filter_cong)

lemma fold_delete_servers:
  "fold (\<lambda>i c. c\<lparr>servers := AList.delete i (servers c)\<rparr>) is c =
   c\<lparr>servers := filter (\<lambda>(i, e). i \<notin> set is) (servers c)\<rparr>"
  by (induction "is" arbitrary: c) (simp_all add: filter_delete)

lemma fold_delete_lbs:
  "fold (\<lambda>i c. c\<lparr>loadBalancers := AList.delete i (loadBalancers c)\<rparr>) is c =
   c\<lparr>loadBalancers := filter (\<lambda>(i, e). i \<notin> set is) (loadBalancers c)\<rparr>"
  by (induction "is" arbitrary: c) (simp_all add: filter_delete)

lemma fold_delete_networks:
  "fold (\<lambda>i c. c\<lparr>networks := AList.delete i (networks c)\<rparr>) is c =
   c\<lparr>networks := filter (\<lambda>(i, e). i \<notin> set is) (networks c)\<rparr>"
  by (induction "is" arbitrary: c) (simp_all add: filter_delete)

lemma keyed_remove_matching:
  assumes "keyed idf m"
  shows "filter (\<lambda>(i, e). i \<notin> set (map idf (map snd (filter (\<lambda>(i, e). P e) m)))) m =
    filter (\<lambda>(i, e). \<not> P e) m"
proof (rule filter_cong [OF refl])
  fix x assume "x \<in> set m"
  then obtain i e where x: "x = (i, e)" "map_of m i = Some e"
    using assms unfolding keyed_def by (metis map_of_eq_Some_iff surj_pair)
  have "i \<in> set (map idf (map snd (filter (\<lambda>(i, e). P e) m))) \<longleftrightarrow> P e"
  proof
    assume "i \<in> set (map idf (map snd (filter (\<lambda>(i, e). P e) m)))"
    then obtain j f where f: "(j, f) \<in> set m" "P f" "idf f = i" by auto
    then have "map_of m j = Some f" using assms by (simp add: keyed_def)
    with f keyed_mem [OF assms] x show "P e" by fastforce
  next
    assume "P e"
    with x keyed_mem [OF assms x(2)] \<open>x \<in> set m\<close>
    show "i \<in> set (map idf (map snd (filter (\<lambda>(i, e). P e) m)))" by force
  qed
  with x show "(case x of (i, e) \<Rightarrow> i \<notin> set (map idf (map snd (filter (\<lambda>(i, e). P e) m)))) =
      (case x of (i, e) \<Rightarrow> \<not> P e)" by simp
qed

definition honest_deletes :: "fake \<Rightarrow> bool" where
  \<comment> \<open>an injected failure of a delete does not pretend that the resource is missing\<close>
  "honest_deletes c \<longleftrightarrow> honest (FailNextDeleteBastion (failures c)) \<and>
     honest (FailNextDeleteLB (failures c)) \<and> honest (FailNextDeleteServer (failures c)) \<and>
     honest (FailNextDeleteNetwork (failures c))"

lemma honest_deletes_update [simp]:
  "honest_deletes (c\<lparr>servers := a\<rparr>) = honest_deletes c"
  "honest_deletes (c\<lparr>loadBalancers := b\<rparr>) = honest_deletes c"
  "honest_deletes (c\<lparr>networks := d\<rparr>) = honest_deletes c"
  "honest_deletes (c\<lparr>publicIPs := e\<rparr>) = honest_deletes c"
  "honest_deletes (c\<lparr>securityGroups := f\<rparr>) = honest_deletes c"
  by (simp_all add: honest_deletes_def)

lemma fake_deletes:
  assumes "honest_deletes c" and "\<forall>err. res = Inl err \<longrightarrow> IsNotFound err"
  shows "run_state (fake_DeleteServer i) c = (res, c1) \<Longrightarrow>
      honest_deletes c1 \<and> c1 = c\<lparr>servers := AList.delete i (servers c)\<rparr>"
    and "run_state (fake_DeleteAPIServerLoadBalancer i) c = (res, c1) \<Longrightarrow>
      honest_deletes c1 \<and> c1 = c\<lparr>loadBalancers := AList.delete i (loadBalancers c)\<rparr>"
    and "run_state (fake_DeleteNetwork i) c = (res, c1) \<Longrightarrow>
      honest_deletes c1 \<and> c1 = c\<lparr>networks := AList.delete i (networks c)\<rparr>"
proof -
  have gone: "AList.delete i m = m" if "map_of m i = None" for m :: "networkEntry gomap"
    using that by (simp add: map_of_eq_None_iff)
  show "run_state (fake_DeleteServer i) c = (res, c1) \<Longrightarrow>
      honest_deletes c1 \<and> c1 = c\<lparr>servers := AList.delete i (servers c)\<rparr>"
    "run_state (fake_DeleteAPIServerLoadBalancer i) c = (res, c1) \<Longrightarrow>
      honest_deletes c1 \<and> c1 = c\<lparr>loadBalancers := AList.delete i (loadBalancers c)\<rparr>"
    "run_state (fake_DeleteNetwork i) c = (res, c1) \<Longrightarrow>
      honest_deletes c1 \<and> c1 = c\<lparr>networks := AList.delete i (networks c)\<rparr>"
    using assms
    by (auto simp: honest_deletes_def fake_DeleteServer_def fake_DeleteAPIServerLoadBalancer_def
        fake_DeleteNetwork_def run_consume gone split: option.splits)
qed

lemma delete_matching_servers:
  assumes "run_state (deleteAll fake_DeleteServer kind (map (\<lambda>e. srv_ID (se_server e)) (map snd
      (filter (\<lambda>(i, e). mapContains (se_tags e) tags) (servers c)))) []) c = ([], c')"
    and "honest_deletes c" and "keyed (\<lambda>e. srv_ID (se_server e)) (servers c)"
  shows "c' = c\<lparr>servers := filter (\<lambda>(i, e). \<not> mapContains (se_tags e) tags) (servers c)\<rparr>"
  unfolding keyed_remove_matching [OF assms(3), symmetric] fold_delete_servers [symmetric]
  by (rule deleteAll_clean [where I = honest_deletes, OF assms(1) _ assms(2), THEN conjunct2, THEN conjunct2])
    (rule fake_deletes(1); assumption)

lemma delete_matching_lbs:
  assumes "run_state (deleteAll fake_DeleteAPIServerLoadBalancer kind (map (\<lambda>e. lb_ID (le_lb e)) (map snd
      (filter (\<lambda>(i, e). mapContains (le_tags e) tags) (loadBalancers c)))) []) c = ([], c')"
    and "honest_deletes c" and "keyed (\<lambda>e. lb_ID (le_lb e)) (loadBalancers c)"
  shows "c' = c\<lparr>loadBalancers := filter (\<lambda>(i, e). \<not> mapContains (le_tags e) tags) (loadBalancers c)\<rparr>"
  unfolding keyed_remove_matching [OF assms(3), symmetric] fold_delete_lbs [symmetric]
  by (rule deleteAll_clean [where I = honest_deletes, OF assms(1) _ assms(2), THEN conjunct2, THEN conjunct2])
    (rule fake_deletes(2); assumption)

lemma delete_matching_networks:
  assumes "run_state (deleteAll fake_DeleteNetwork kind (map (\<lambda>e. net_ID (ne_network e)) (map snd
      (filter (\<lambda>(i, e). mapContains (ne_tags e) tags) (networks c)))) []) c = ([], c')"
    and "honest_deletes c" and "keyed (\<lambda>e. net_ID (ne_network e)) (networks c)"
  shows "c' = c\<lparr>networks := filter (\<lambda>(i, e). \<not> mapContains (ne_tags e) tags) (networks c)\<rparr>"
  unfolding keyed_remove_matching [OF assms(3), symmetric] fold_delete_networks [symmetric]
  by (rule deleteAll_clean [where I = honest_deletes, OF assms(1) _ assms(2), THEN conjunct2, THEN conjunct2])
    (rule fake_deletes(3); assumption)

section \<open>The properties\<close>

definition bastion_selector :: "string gomap \<Rightarrow> string gomap" where
  "bastion_selector tags = AList.update ''cluster-api-provider-stackit/resource-role'' ''bastion'' tags"

lemma fake_DeleteBastion_clean:
  assumes "honest_deletes c" and "\<forall>err. res = Inl err \<longrightarrow> IsNotFound err"
    and "run_state (fake_DeleteBastion (empty_BastionInput\<lparr>bi_Tags := t\<rparr>) empty_Bastion) c = (res, c1)"
  shows "honest_deletes c1 \<and>
    c1 = c\<lparr>servers := filter (\<lambda>(i, e). \<not> mapContains (se_tags e) t) (servers c),
           publicIPs := filter (\<lambda>(i, e). \<not> mapContains (pe_tags e) t) (publicIPs c),
           securityGroups := filter (\<lambda>(i, e). \<not> mapContains (sge_tags e) t) (securityGroups c)\<rparr>"
  using assms
  by (auto simp: honest_deletes_def fake_DeleteBastion_def run_consume delete_nonempty_def
      empty_Bastion_def split: option.splits)

definition cleaned :: "string gomap \<Rightarrow> fake \<Rightarrow> fake" where
  \<comment> \<open>the cloud without what the selector covers\<close>
  "cleaned tags c =
     c\<lparr>servers := filter (\<lambda>(i, e). \<not> mapContains (se_tags e) (bastion_selector tags) \<and>
                                 \<not> mapContains (se_tags e) tags) (servers c),
       publicIPs := filter (\<lambda>(i, e). \<not> mapContains (pe_tags e) (bastion_selector tags)) (publicIPs c),
       securityGroups := filter (\<lambda>(i, e). \<not> mapContains (sge_tags e) (bastion_selector tags))
         (securityGroups c),
       loadBalancers := filter (\<lambda>(i, e). \<not> mapContains (le_tags e) tags) (loadBalancers c),
       networks := filter (\<lambda>(i, e). \<not> mapContains (ne_tags e) tags) (networks c)\<rparr>"

lemma CleanupByTags_run:
  assumes "tags \<noteq> []"
    and b: "run_state (fake_DeleteBastion (empty_BastionInput\<lparr>bi_Tags := bastion_selector tags\<rparr>)
        empty_Bastion) c = (bres, c1)"
    and l: "run_state (deleteAll fake_DeleteAPIServerLoadBalancer ''load balancer''
        (map (\<lambda>e. lb_ID (le_lb e)) (map snd (filter (\<lambda>(i, e). mapContains (le_tags e) tags) (loadBalancers c1))))
        (noteError [] ''delete bastion resources'' bres)) c1 = (e1, c2)"
    and s: "run_state (deleteAll fake_DeleteServer ''server''
        (map (\<lambda>e. srv_ID (se_server e)) (map snd (filter (\<lambda>(i, e). mapContains (se_tags e) tags) (servers c2))))
        e1) c2 = (e2, c3)"
    and n: "run_state (deleteAll fake_DeleteNetwork ''network''
        (map (\<lambda>e. net_ID (ne_network e)) (map snd (filter (\<lambda>(i, e). mapContains (ne_tags e) tags) (networks c3))))
        e2) c3 = (e3, c4)"
  shows "run_state (CleanupByTags fake_Client tags) c =
    (if e3 \<noteq> [] then Inl (mk_error [ErrTransient] (''transient: '' @ JoinStr e3 ''; '')) else Inr (), c4)"
  using assms
  by (simp add: CleanupByTags_def bastion_selector_def Let_def run_state_bind comp_def split_def
      fake_ListAPIServerLoadBalancersByTags_def fake_ListServersByTags_def
      fake_ListNetworksByTags_def networksByTags_def)

text \<open>A cleanup without an error went through all its steps without one.\<close>

lemma CleanupByTags_clean:
  assumes "run_state (CleanupByTags fake_Client tags) c = (Inr (), c')"
  obtains bres c1 c2 c3 where "\<forall>err. bres = Inl err \<longrightarrow> IsNotFound err"
    and "run_state (fake_DeleteBastion (empty_BastionInput\<lparr>bi_Tags := bastion_selector tags\<rparr>)
      empty_Bastion) c = (bres, c1)"
    and "run_state (deleteAll fake_DeleteAPIServerLoadBalancer ''load balancer''
      (map (\<lambda>e. lb_ID (le_lb e)) (map snd (filter (\<lambda>(i, e). mapContains (le_tags e) tags) (loadBalancers c1))))
      []) c1 = ([], c2)"
    and "run_state (deleteAll fake_DeleteServer ''server''
      (map (\<lambda>e. srv_ID (se_server e)) (map snd (filter (\<lambda>(i, e). mapContains (se_tags e) tags) (servers c2))))
      []) c2 = ([], c3)"
    and "run_state (deleteAll fake_DeleteNetwork ''network''
      (map (\<lambda>e. net_ID (ne_network e)) (map snd (filter (\<lambda>(i, e). mapContains (ne_tags e) tags) (networks c3))))
      []) c3 = ([], c')"
proof -
  have t: "tags \<noteq> []" using assms(1) by (auto simp: CleanupByTags_def)
  obtain bres c1 where b: "run_state (fake_DeleteBastion (empty_BastionInput\<lparr>bi_Tags := bastion_selector tags\<rparr>)
        empty_Bastion) c = (bres, c1)" by fastforce
  let ?e0 = "noteError [] ''delete bastion resources'' bres"
  obtain e1 c2 where l: "run_state (deleteAll fake_DeleteAPIServerLoadBalancer ''load balancer''
      (map (\<lambda>e. lb_ID (le_lb e)) (map snd (filter (\<lambda>(i, e). mapContains (le_tags e) tags) (loadBalancers c1))))
      ?e0) c1 = (e1, c2)" by fastforce
  obtain e2 c3 where s: "run_state (deleteAll fake_DeleteServer ''server''
      (map (\<lambda>e. srv_ID (se_server e)) (map snd (filter (\<lambda>(i, e). mapContains (se_tags e) tags) (servers c2))))
      e1) c2 = (e2, c3)" by fastforce
  obtain e3 c4 where n: "run_state (deleteAll fake_DeleteNetwork ''network''
      (map (\<lambda>e. net_ID (ne_network e)) (map snd (filter (\<lambda>(i, e). mapContains (ne_tags e) tags) (networks c3))))
      e2) c3 = (e3, c4)" by fastforce
  from CleanupByTags_run [OF t b l s n] assms(1) have e: "e3 = []" "c4 = c'"
    by (simp_all split: if_splits)
  have "e2 = []" "e1 = []" "?e0 = []"
    using deleteAll_extends n s l e(1) by (metis fst_conv append_is_Nil_conv)+
  note clean = e(1) this
  from clean have ok: "\<forall>err. bres = Inl err \<longrightarrow> IsNotFound err" by (simp add: noteError_clean)
  show thesis by (rule that [OF ok b l [unfolded clean] s [unfolded clean] n [unfolded clean e(2)]])
qed

lemma deleteAll_keeps:
  assumes "\<And>i c. f (snd (run_state (delete i) c)) = f c"
  shows "f (snd (run_state (deleteAll delete kind is errs) c)) = f c"
proof (induction "is" arbitrary: errs c)
  case (Cons i "is")
  obtain res c1 where "run_state (delete i) c = (res, c1)" by fastforce
  with Cons.IH assms [of i c] show ?case by (simp add: run_state_bind)
qed simp

lemma deletes_keep_groups:
  "securityGroups (snd (run_state (fake_DeleteServer i) c)) = securityGroups c"
  "securityGroups (snd (run_state (fake_DeleteAPIServerLoadBalancer i) c)) = securityGroups c"
  "securityGroups (snd (run_state (fake_DeleteNetwork i) c)) = securityGroups c"
  by (simp_all add: fake_DeleteServer_def fake_DeleteAPIServerLoadBalancer_def fake_DeleteNetwork_def
      run_consume split: option.splits)

text \<open>
  The cleanup leaves the node SSH access behind. Whatever the tags and whatever fails, a security
  group with the role \<open>node-ssh\<close> survives \<open>CleanupByTags\<close>.
\<close>

lemma cleanup_keeps_node_ssh:
  assumes "(i, e) \<in> set (securityGroups c)"
    and "lookup_or [] (sge_tags e) LabelResourceRole = ResourceRoleNodeSSH"
  shows "(i, e) \<in> set (securityGroups (snd (run_state (CleanupByTags fake_Client tags) c)))"
proof (cases "tags = []")
  case True
  with assms(1) show ?thesis by (simp add: CleanupByTags_def)
next
  case False
  have role: "(''cluster-api-provider-stackit/resource-role'', ''bastion'') \<in> set (bastion_selector tags)"
    unfolding bastion_selector_def by (rule map_of_SomeD) (simp add: update_conv')
  have b: "\<not> mapContains (sge_tags e) (bastion_selector tags)"
    using assms(2) role
    by (force simp: mapContains_def list_all_iff LabelResourceRole_def ResourceRoleNodeSSH_def)
  obtain bres c1 where r: "run_state (fake_DeleteBastion (empty_BastionInput\<lparr>bi_Tags := bastion_selector tags\<rparr>)
      empty_Bastion) c = (bres, c1)" by fastforce
  with assms(1) b have "(i, e) \<in> set (securityGroups c1)"
    by (auto simp: fake_DeleteBastion_def run_consume delete_nonempty_def empty_Bastion_def
        split: option.splits)
  moreover have "securityGroups (snd (run_state (CleanupByTags fake_Client tags) c)) = securityGroups c1"
    using deleteAll_keeps [where f = securityGroups, OF deletes_keep_groups(1)]
      deleteAll_keeps [where f = securityGroups, OF deletes_keep_groups(2)]
      deleteAll_keeps [where f = securityGroups, OF deletes_keep_groups(3)]
      CleanupByTags_run [OF False r prod.collapse [symmetric] prod.collapse [symmetric] prod.collapse [symmetric]]
    by simp
  ultimately show ?thesis by simp
qed

text \<open>
  C32: a cleanup that reports success is complete and precise. On a consistent in-memory cloud whose
  injected failures do not pretend that a resource is missing, if \<open>CleanupByTags\<close> returns no error,
  then exactly the servers, load balancers and networks that match the tags, and the servers,
  public IPs and security groups of matching bastions, are gone and nothing else has changed. So the
  security groups for node SSH access are left behind, whatever their tags.
\<close>

theorem cleanup_complete:
  assumes "fake_wf c" and "honest_deletes c"
    and "run_state (CleanupByTags fake_Client tags) c = (Inr (), c')"
  shows "c' = cleaned tags c \<and>
    {(i, e) \<in> set (securityGroups c). lookup_or [] (sge_tags e) LabelResourceRole = ResourceRoleNodeSSH}
      \<subseteq> set (securityGroups c')"
proof -
  from CleanupByTags_clean [OF assms(3)] obtain bres c1 c2 c3 where
    ok: "\<forall>err. bres = Inl err \<longrightarrow> IsNotFound err"
    and b: "run_state (fake_DeleteBastion (empty_BastionInput\<lparr>bi_Tags := bastion_selector tags\<rparr>)
      empty_Bastion) c = (bres, c1)"
    and l: "run_state (deleteAll fake_DeleteAPIServerLoadBalancer ''load balancer''
      (map (\<lambda>e. lb_ID (le_lb e)) (map snd (filter (\<lambda>(i, e). mapContains (le_tags e) tags) (loadBalancers c1))))
      []) c1 = ([], c2)"
    and s: "run_state (deleteAll fake_DeleteServer ''server''
      (map (\<lambda>e. srv_ID (se_server e)) (map snd (filter (\<lambda>(i, e). mapContains (se_tags e) tags) (servers c2))))
      []) c2 = ([], c3)"
    and n: "run_state (deleteAll fake_DeleteNetwork ''network''
      (map (\<lambda>e. net_ID (ne_network e)) (map snd (filter (\<lambda>(i, e). mapContains (ne_tags e) tags) (networks c3))))
      []) c3 = ([], c')" .
  have c1: "c1 = c\<lparr>servers := filter (\<lambda>(i, e). \<not> mapContains (se_tags e) (bastion_selector tags)) (servers c),
      publicIPs := filter (\<lambda>(i, e). \<not> mapContains (pe_tags e) (bastion_selector tags)) (publicIPs c),
      securityGroups := filter (\<lambda>(i, e). \<not> mapContains (sge_tags e) (bastion_selector tags)) (securityGroups c)\<rparr>"
    using fake_DeleteBastion_clean [OF assms(2) ok b] by blast
  have c2: "c2 = c1\<lparr>loadBalancers := filter (\<lambda>(i, e). \<not> mapContains (le_tags e) tags) (loadBalancers c)\<rparr>"
    using delete_matching_lbs [OF l] assms(1,2) by (simp add: c1 fake_wf_def)
  have c3: "c3 = c2\<lparr>servers := filter (\<lambda>(i, e). \<not> mapContains (se_tags e) tags)
      (filter (\<lambda>(i, e). \<not> mapContains (se_tags e) (bastion_selector tags)) (servers c))\<rparr>"
    using delete_matching_servers [OF s] assms(1,2) by (simp add: c2 c1 fake_wf_def keyed_filter)
  have c4: "c' = c3\<lparr>networks := filter (\<lambda>(i, e). \<not> mapContains (ne_tags e) tags) (networks c)\<rparr>"
    using delete_matching_networks [OF n] assms(1,2) by (simp add: c3 c2 c1 fake_wf_def)
  have "c' = cleaned tags c"
    unfolding c4 c3 c2 c1 cleaned_def by (simp add: case_prod_unfold conj_commute)
  moreover have "(i, e) \<in> set (securityGroups c')"
    if "(i, e) \<in> set (securityGroups c)" "lookup_or [] (sge_tags e) LabelResourceRole = ResourceRoleNodeSSH" for i e
    using cleanup_keeps_node_ssh [OF that] assms(3) by (metis snd_conv)
  ultimately show ?thesis by blast
qed

definition tagged_cloud :: fake where
  \<comment> \<open>a server and a network of one test run, and a server of another\<close>
  "tagged_cloud = (fake_New [])
     \<lparr>servers := [(''fake-1'', \<lparr>se_server = \<lparr>srv_ID = ''fake-1'', srv_Name = ''a'', srv_State = ''ACTIVE'',
          srv_PowerStatus = [], srv_ProviderID = [], srv_AvailabilityZone = [], srv_Addresses = []\<rparr>,
          se_tags = [(''test'', ''1'')], se_securityGroups = [], se_userData = []\<rparr>),
        (''fake-2'', \<lparr>se_server = \<lparr>srv_ID = ''fake-2'', srv_Name = ''b'', srv_State = ''ACTIVE'',
          srv_PowerStatus = [], srv_ProviderID = [], srv_AvailabilityZone = [], srv_Addresses = []\<rparr>,
          se_tags = [(''test'', ''2'')], se_securityGroups = [], se_userData = []\<rparr>)],
      networks := [(''fake-3'', \<lparr>ne_network = \<lparr>net_ID = ''fake-3'', net_Name = ''n'',
          net_IPv4Prefixes = []\<rparr>, ne_tags = [(''test'', ''1'')]\<rparr>)],
      securityGroups := [(''fake-4'', \<lparr>sge_securityGroup = \<lparr>sg_ID = ''fake-4'', sg_Name = ''c-node-ssh''\<rparr>,
          sge_tags = [(''test'', ''1''), (''cluster-api-provider-stackit/resource-role'', ''node-ssh'')],
          sge_allowedCIDRs = [], sge_remoteSecurityGroups = []\<rparr>)]\<rparr>"

theorem cleanup_complete_witness:
  "map fst (servers (snd (run_state (CleanupByTags fake_Client [(''test'', ''1'')]) tagged_cloud))) = [''fake-2''] \<and>
   securityGroups (snd (run_state (CleanupByTags fake_Client [(''test'', ''1'')]) tagged_cloud)) \<noteq> []"
proof -
  let ?run = "run_state (CleanupByTags fake_Client [(''test'', ''1'')]) tagged_cloud"
  have "fst ?run = Inr ()" by code_simp
  then have run: "?run = (Inr (), snd ?run)" by (metis prod.collapse)
  have "fake_wf tagged_cloud" "honest_deletes tagged_cloud" by code_simp+
  note all = cleanup_complete [OF this run]
  then have "servers (snd ?run) = servers (cleaned [(''test'', ''1'')] tagged_cloud)" by simp
  moreover have "map fst (servers (cleaned [(''test'', ''1'')] tagged_cloud)) = [''fake-2'']" by code_simp
  moreover have "lookup_or [] (sge_tags (snd (hd (securityGroups tagged_cloud)))) LabelResourceRole = ResourceRoleNodeSSH"
    "securityGroups tagged_cloud \<noteq> []" by code_simp+
  with all have "hd (securityGroups tagged_cloud) \<in> set (securityGroups (snd ?run))"
    by (cases "securityGroups tagged_cloud") auto
  ultimately show ?thesis by auto
qed

end
