(* ===== verification/SDK_Types.thy ===== *)
theory SDK_Types
  imports Cloud_Types
begin

text \<open>
  The STACKIT SDK as a parameter of \<open>cloud/sdk_client.go\<close>: the records \<open>IaaS\<close> and \<open>LBAPI\<close> hold the
  calls that the client makes, over a state of type \<open>'a\<close>; responses are records of what the getters
  of the SDK return (a getter gives the zero value for an absent field), and payloads have an
  option for each field that the client may leave unset. A label value, which has type \<open>any\<close>, is
  given by what \<open>fmt.Sprint\<close> prints for it.
\<close>

section \<open>Responses\<close>

record sdk_error =
  sde_StatusCode :: "int option" \<comment> \<open>\<open>Some\<close> when \<open>errors.As\<close> finds an OpenAPI error\<close>
  sde_Text :: string

record sdk_Server =
  ss_Id :: string
  ss_Name :: string
  ss_Status :: string
  ss_PowerStatus :: string
  ss_AvailabilityZone :: string
  ss_Labels :: "string gomap"

record sdk_Nic =
  nic_Ipv4 :: string
  nic_Ipv6 :: string

record sdk_Network =
  sn_Id :: string
  sn_Name :: string
  sn_Prefixes :: "string list"
  sn_Labels :: "string gomap"

record sdk_PublicIp =
  spi_Id :: string
  spi_Ip :: string
  spi_NetworkInterface :: string
  spi_Labels :: "string gomap"

record sdk_SecurityGroup =
  ssg_Id :: string
  ssg_Name :: string
  ssg_Labels :: "string gomap"

record sdk_Rule =
  rule_Id :: string
  rule_Direction :: string
  rule_IpRange :: string
  rule_PortMin :: int
  rule_PortMax :: int
  rule_Protocol :: "string option" \<comment> \<open>the name of the protocol, if one is set\<close>
  rule_RemoteSecurityGroupId :: string

record sdk_Target =
  tgt_DisplayName :: string
  tgt_Ip :: string

record sdk_TargetPool =
  tp_Name :: string
  tp_TargetPort :: int
  tp_Targets :: "sdk_Target list"

record sdk_Listener =
  lis_DisplayName :: string
  lis_Port :: int
  lis_Protocol :: string
  lis_TargetPool :: string

record sdk_LoadBalancer =
  slb_Name :: string
  slb_ExternalAddress :: string
  slb_PrivateAddress :: string
  slb_Listeners :: "sdk_Listener list"
  slb_Labels :: "string gomap"
  slb_TargetPools :: "sdk_TargetPool list"

section \<open>Payloads\<close>

record BootVolume =
  bv_Source :: "(string \<times> string) option"
  bv_Size :: "int option"
  bv_PerformanceClass :: "string option"
  bv_DeleteOnTermination :: bool

record CreateServerPayload =
  csp_Name :: string
  csp_MachineType :: string
  csp_ImageId :: "string option"
  csp_Labels :: "string gomap option"
  csp_NetworkId :: "string option"
  csp_SecurityGroups :: "string list option"
  csp_UserData :: "string option"
  csp_ConfigDrive :: "bool option"
  csp_BootVolume :: "BootVolume option"
  csp_KeypairName :: "string option"
  csp_AvailabilityZone :: "string option"

record CreateNetworkPayload =
  cnp_Name :: string
  cnp_Labels :: "string gomap option"
  cnp_IPv4Prefix :: "string option"

record CreateSecurityGroupPayload =
  cgp_Name :: string
  cgp_Description :: string
  cgp_Labels :: "string gomap"

record CreateSecurityGroupRulePayload =
  crp_Direction :: string
  crp_IpRange :: "string option"
  crp_RemoteSecurityGroupId :: "string option"
  crp_PortMin :: int
  crp_PortMax :: int
  crp_Protocol :: string

record CreateLoadBalancerPayload =
  clp_Name :: string
  clp_Region :: string
  clp_Labels :: "string gomap option"
  clp_EphemeralAddress :: bool
  clp_Networks :: "(string \<times> string) list"
  clp_TargetPools :: "sdk_TargetPool list"
  clp_Listeners :: "sdk_Listener list"

record UpdateTargetPoolPayload =
  utp_Name :: string
  utp_TargetPort :: "int option"
  utp_Targets :: "sdk_Target list"

section \<open>The calls\<close>

type_synonym ('a, 'r) api_call = "('a, sdk_error + 'r) state"

record 'a IaaS =
  iaas_GetServer :: "string \<Rightarrow> string \<Rightarrow> string \<Rightarrow> ('a, sdk_Server) api_call"
  iaas_ListServers :: "string \<Rightarrow> string \<Rightarrow> string \<Rightarrow> ('a, sdk_Server list) api_call"
  iaas_CreateServer :: "string \<Rightarrow> string \<Rightarrow> CreateServerPayload \<Rightarrow> ('a, sdk_Server) api_call"
  iaas_DeleteServer :: "string \<Rightarrow> string \<Rightarrow> string \<Rightarrow> ('a, unit) api_call"
  iaas_ListServerNICs :: "string \<Rightarrow> string \<Rightarrow> string \<Rightarrow> ('a, sdk_Nic list) api_call"
  iaas_ListAvailabilityZones :: "string \<Rightarrow> ('a, string list) api_call"
  iaas_GetNetwork :: "string \<Rightarrow> string \<Rightarrow> string \<Rightarrow> ('a, sdk_Network) api_call"
  iaas_ListNetworks :: "string \<Rightarrow> string \<Rightarrow> string \<Rightarrow> ('a, sdk_Network list) api_call"
  iaas_CreateNetwork :: "string \<Rightarrow> string \<Rightarrow> CreateNetworkPayload \<Rightarrow> ('a, sdk_Network) api_call"
  iaas_DeleteNetwork :: "string \<Rightarrow> string \<Rightarrow> string \<Rightarrow> ('a, unit) api_call"
  iaas_AddPublicIpToServer :: "string \<Rightarrow> string \<Rightarrow> string \<Rightarrow> string \<Rightarrow> ('a, unit) api_call"
  iaas_RemovePublicIpFromServer :: "string \<Rightarrow> string \<Rightarrow> string \<Rightarrow> string \<Rightarrow> ('a, unit) api_call"
  iaas_AddSecurityGroupToServer :: "string \<Rightarrow> string \<Rightarrow> string \<Rightarrow> string \<Rightarrow> ('a, unit) api_call"
  iaas_RemoveSecurityGroupFromServer :: "string \<Rightarrow> string \<Rightarrow> string \<Rightarrow> string \<Rightarrow> ('a, unit) api_call"
  iaas_ListPublicIPs :: "string \<Rightarrow> string \<Rightarrow> string \<Rightarrow> ('a, sdk_PublicIp list) api_call"
  iaas_GetPublicIP :: "string \<Rightarrow> string \<Rightarrow> string \<Rightarrow> ('a, sdk_PublicIp) api_call"
  iaas_CreatePublicIP :: "string \<Rightarrow> string \<Rightarrow> string gomap \<Rightarrow> ('a, sdk_PublicIp) api_call"
  iaas_DeletePublicIP :: "string \<Rightarrow> string \<Rightarrow> string \<Rightarrow> ('a, unit) api_call"
  iaas_ListSecurityGroups :: "string \<Rightarrow> string \<Rightarrow> string \<Rightarrow> ('a, sdk_SecurityGroup list) api_call"
  iaas_CreateSecurityGroup ::
    "string \<Rightarrow> string \<Rightarrow> CreateSecurityGroupPayload \<Rightarrow> ('a, sdk_SecurityGroup) api_call"
  iaas_DeleteSecurityGroup :: "string \<Rightarrow> string \<Rightarrow> string \<Rightarrow> ('a, unit) api_call"
  iaas_ListSecurityGroupRules :: "string \<Rightarrow> string \<Rightarrow> string \<Rightarrow> ('a, sdk_Rule list) api_call"
  iaas_CreateSecurityGroupRule ::
    "string \<Rightarrow> string \<Rightarrow> string \<Rightarrow> CreateSecurityGroupRulePayload \<Rightarrow> ('a, unit) api_call"
  iaas_DeleteSecurityGroupRule :: "string \<Rightarrow> string \<Rightarrow> string \<Rightarrow> string \<Rightarrow> ('a, unit) api_call"

record 'a LBAPI =
  lba_ListLoadBalancers :: "string \<Rightarrow> string \<Rightarrow> ('a, sdk_LoadBalancer list) api_call"
  lba_GetLoadBalancer :: "string \<Rightarrow> string \<Rightarrow> string \<Rightarrow> ('a, sdk_LoadBalancer) api_call"
  lba_CreateLoadBalancer ::
    "string \<Rightarrow> string \<Rightarrow> CreateLoadBalancerPayload \<Rightarrow> ('a, sdk_LoadBalancer) api_call"
  lba_DeleteLoadBalancer :: "string \<Rightarrow> string \<Rightarrow> string \<Rightarrow> ('a, unit) api_call"
  lba_UpdateTargetPool ::
    "string \<Rightarrow> string \<Rightarrow> string \<Rightarrow> string \<Rightarrow> UpdateTargetPoolPayload \<Rightarrow> ('a, unit) api_call"

text \<open>The options of an SDK client (package \<open>config\<close>).\<close>

datatype ConfigurationOption =
    WithUserAgent string | WithoutAuthentication | WithServiceAccountKey string
  | WithEndpoint string | WithTokenEndpoint string

end
