(* ===== verification/SDK_Client.thy ===== *)
theory SDK_Client
  imports SDK_Types Tags
begin

text \<open>
  The client over the STACKIT SDK (\<open>cloud/sdk_client.go\<close>): an implementation of the interface
  \<open>Client\<close> whose operations are sequences of API calls. Functions are in the order of the file, the
  helpers of its end first.
\<close>

section \<open>Error handling\<close>

definition sdk_fail :: "sentinel \<Rightarrow> string \<Rightarrow> string \<Rightarrow> sdk_error \<Rightarrow> go_error" where
  \<comment> \<open>\<open>fmt.Errorf("%w: %s: %v", sentinel, op, err)\<close>\<close>
  "sdk_fail s text op err = mk_error [s] (text @ '': '' @ op @ '': '' @ sde_Text err)"

definition classifySDKError :: "string \<Rightarrow> sdk_error \<Rightarrow> go_error" where
  "classifySDKError op err =
     (case sde_StatusCode err of
        Some code \<Rightarrow>
          if code = 404 then sdk_fail ErrNotFound ''not found'' op err
          else if code = 401 \<or> code = 403 then sdk_fail ErrUnauthorized ''unauthorized'' op err
          else if code = 409 then sdk_fail ErrConflict ''conflict'' op err
          else if code = 400 \<or> code = 422 then sdk_fail ErrInvalidInput ''invalid input'' op err
          else if code = 429 then sdk_fail ErrTransient ''transient'' op err
          else if code \<ge> 500 then sdk_fail ErrTransient ''transient'' op err
          else sdk_fail ErrTransient ''transient'' op err
      | None \<Rightarrow> sdk_fail ErrTransient ''transient'' op err)"

definition isLoadBalancerServiceNotEnabled :: "go_error \<Rightarrow> bool" where
  "isLoadBalancerServiceNotEnabled err \<longleftrightarrow>
     IsUnauthorized err \<and> ContainsStr (err_text err) ''Service not enabled''"

definition sdk :: "string \<Rightarrow> ('a, 'r) api_call \<Rightarrow> ('a, 'r) call" where
  \<comment> \<open>an API call whose error is classified\<close>
  "sdk op m = do {
     res \<leftarrow> m;
     ret (case res of Inl err \<Rightarrow> Inl (classifySDKError op err) | Inr x \<Rightarrow> Inr x)
   }"

definition onOk :: "('s, 'a) call \<Rightarrow> ('a \<Rightarrow> ('s, 'b) call) \<Rightarrow> ('s, 'b) call" where
  \<comment> \<open>\<open>if err != nil { return err }\<close>\<close>
  "onOk m f = do { res \<leftarrow> m; case res of Inl err \<Rightarrow> fail_with err | Inr x \<Rightarrow> f x }"

definition tolerate :: "(go_error \<Rightarrow> bool) \<Rightarrow> ('s, unit) call \<Rightarrow> ('s, unit) call" where
  \<comment> \<open>\<open>if err != nil && !tolerated(err) { return err }\<close>\<close>
  "tolerate tolerated m = do {
     res \<leftarrow> m;
     case res of Inl err \<Rightarrow> if tolerated err then ok () else fail_with err | Inr _ \<Rightarrow> ok ()
   }"

definition orElse :: "(go_error \<Rightarrow> bool) \<Rightarrow> ('s, 'a) call \<Rightarrow> ('s, 'a) call \<Rightarrow> ('s, 'a) call" where
  \<comment> \<open>\<open>if existing, err := find(); err == nil { return existing } else if !absent(err) { return err }\<close>\<close>
  "orElse absent search create = do {
     res \<leftarrow> search;
     case res of Inr x \<Rightarrow> ok x | Inl err \<Rightarrow> if absent err then create else fail_with err
   }"

section \<open>Labels\<close>

text \<open>The iteration order of a Go map is unspecified; the model takes the order of the list.\<close>

definition labelSelector :: "string gomap \<Rightarrow> string" where
  "labelSelector tags = JoinStr (map (\<lambda>(k, v). k @ ''='' @ v) tags) '',''"

definition labelsContainTags :: "string gomap \<Rightarrow> string gomap \<Rightarrow> bool" where
  "labelsContainTags labels tags \<longleftrightarrow> list_all (\<lambda>(k, want). map_of labels k = Some want) tags"

definition tagsToSDKLabels :: "string gomap \<Rightarrow> string gomap" where
  "tagsToSDKLabels tags = foldr (\<lambda>(k, v) out. AList.update k v out) tags []"

definition clusterServerSelectorFromTags :: "string gomap \<Rightarrow> string gomap" where
  "clusterServerSelectorFromTags tags =
     foldl (\<lambda>selector key.
              if lookup_or [] tags key \<noteq> [] then AList.update key (lookup_or [] tags key) selector
              else selector) []
       [''cluster.x-k8s.io/cluster-name'', ''cluster.x-k8s.io/cluster-namespace'',
        ''cluster.x-k8s.io/managed-by'']"

definition loadBalancerLabels :: "string gomap \<Rightarrow> string gomap" where
  "loadBalancerLabels tags =
     foldr (\<lambda>(k, v) out. AList.update (ReplaceChar k CHR ''/'' CHR ''.'') v out) tags []"

section \<open>Conversions\<close>

fun firstNonEmpty :: "string list \<Rightarrow> string" where
  "firstNonEmpty [] = []"
| "firstNonEmpty (v # vs) = (if v \<noteq> [] then v else firstNonEmpty vs)"

fun listenerPort :: "sdk_Listener list \<Rightarrow> int" where
  "listenerPort [] = 0"
| "listenerPort (l # ls) = (if lis_Port l > 0 then lis_Port l else listenerPort ls)"

definition securityGroupFromSDK :: "sdk_SecurityGroup \<Rightarrow> SecurityGroup" where
  "securityGroupFromSDK g = \<lparr>sg_ID = ssg_Id g, sg_Name = ssg_Name g\<rparr>"

definition publicIPFromSDK :: "sdk_PublicIp \<Rightarrow> PublicIP" where
  "publicIPFromSDK p =
     \<lparr>pip_ID = spi_Id p, pip_IP = spi_Ip p, pip_NetworkInterfaceID = spi_NetworkInterface p\<rparr>"

definition loadBalancerFromSDK :: "sdk_LoadBalancer \<Rightarrow> LoadBalancer" where
  "loadBalancerFromSDK l =
     \<lparr>lb_ID = slb_Name l, lb_Name = slb_Name l,
      lb_IP = firstNonEmpty [slb_ExternalAddress l, slb_PrivateAddress l],
      lb_DNSName = [], lb_Port = listenerPort (slb_Listeners l)\<rparr>"

definition networkFromSDK :: "sdk_Network \<Rightarrow> Network" where
  "networkFromSDK n =
     \<lparr>net_ID = sn_Id n, net_Name = sn_Name n, net_IPv4Prefixes = sn_Prefixes n\<rparr>"

fun nicAddresses :: "sdk_Nic list \<Rightarrow> Address list" where
  "nicAddresses [] = []"
| "nicAddresses (n # ns) =
     (if nic_Ipv4 n \<noteq> [] then [\<lparr>adr_Type = ''InternalIP'', adr_Address = nic_Ipv4 n\<rparr>] else []) @
     (if nic_Ipv6 n \<noteq> [] then [\<lparr>adr_Type = ''InternalIP'', adr_Address = nic_Ipv6 n\<rparr>] else []) @
     nicAddresses ns"

record 'a SDKClient =
  sdk_projectID :: string
  sdk_region :: string
  sdk_iaas :: "'a IaaS"
  sdk_lb :: "'a LBAPI"

definition serverFromSDK :: "'a SDKClient \<Rightarrow> sdk_Server \<Rightarrow> ('a, Server) state" where
  \<comment> \<open>an error of \<open>ListServerNICs\<close> leaves the addresses empty\<close>
  "serverFromSDK c server = do {
     nics \<leftarrow> iaas_ListServerNICs (sdk_iaas c) (sdk_projectID c) (sdk_region c) (ss_Id server);
     ret \<lparr>srv_ID = ss_Id server, srv_Name = ss_Name server, srv_State = ss_Status server,
          srv_PowerStatus = ss_PowerStatus server, srv_ProviderID = [],
          srv_AvailabilityZone = ss_AvailabilityZone server,
          srv_Addresses = (case nics of Inl _ \<Rightarrow> [] | Inr ns \<Rightarrow> nicAddresses ns)\<rparr>
   }"

section \<open>NewClient\<close>

definition stackitOptions :: "(string \<Rightarrow> string) \<Rightarrow> Credentials \<Rightarrow> string \<Rightarrow> ConfigurationOption list" where
  "stackitOptions getenv creds endpoint =
     [WithUserAgent ''cluster-api-provider-stackit''] @
     (if getenv ''STACKIT_NO_AUTH'' = ''true'' then [WithoutAuthentication]
      else [WithServiceAccountKey (cr_ServiceAccountJSON creds)]) @
     (if endpoint \<noteq> [] then [WithEndpoint endpoint] else []) @
     (if getenv ''STACKIT_TOKEN_BASEURL'' \<noteq> [] then [WithTokenEndpoint (getenv ''STACKIT_TOKEN_BASEURL'')]
      else [])"

definition NewSDKClient ::
  "(string \<Rightarrow> string) \<Rightarrow> (ConfigurationOption list \<Rightarrow> go_error + 'a IaaS) \<Rightarrow>
   (ConfigurationOption list \<Rightarrow> go_error + 'a LBAPI) \<Rightarrow> Credentials \<Rightarrow> go_error + 'a SDKClient" where
  \<comment> \<open>the environment and the two SDK constructors are parameters\<close>
  "NewSDKClient getenv newIaaS newLB creds =
     (if cr_ProjectID creds = []
      then Inl (mk_error [ErrInvalidInput] ''invalid input: project ID is empty'')
      else if cr_Region creds = []
      then Inl (mk_error [ErrInvalidInput] ''invalid input: region is empty'')
      else if cr_ServiceAccountJSON creds = [] \<and> getenv ''STACKIT_NO_AUTH'' \<noteq> ''true''
      then Inl (mk_error [ErrInvalidInput] ''invalid input: service account JSON is empty'')
      else case newIaaS (stackitOptions getenv creds (getenv ''STACKIT_IAAS_ENDPOINT'')) of
        Inl err \<Rightarrow> Inl (mk_error [ErrInvalidInput]
                     (''invalid input: create IAAS SDK client: '' @ err_text err))
      | Inr iaas \<Rightarrow>
          (case newLB (stackitOptions getenv creds (getenv ''STACKIT_LOADBALANCER_ENDPOINT'')) of
             Inl err \<Rightarrow> Inl (mk_error [ErrInvalidInput]
                          (''invalid input: create load balancer SDK client: '' @ err_text err))
           | Inr lb \<Rightarrow> Inr \<lparr>sdk_projectID = cr_ProjectID creds, sdk_region = cr_Region creds,
                            sdk_iaas = iaas, sdk_lb = lb\<rparr>))"

section \<open>Servers\<close>

definition sdk_GetServer :: "'a SDKClient \<Rightarrow> string \<Rightarrow> ('a, Server) call" where
  "sdk_GetServer c i =
     onOk (sdk ''get server'' (iaas_GetServer (sdk_iaas c) (sdk_projectID c) (sdk_region c) i))
       (\<lambda>server. do { sv \<leftarrow> serverFromSDK c server; ok sv })"

fun serversFromSDK :: "'a SDKClient \<Rightarrow> string gomap \<Rightarrow> sdk_Server list \<Rightarrow> ('a, Server list) state" where
  "serversFromSDK c tags [] = ret []"
| "serversFromSDK c tags (server # rest) =
     (if labelsContainTags (ss_Labels server) tags then do {
        sv \<leftarrow> serverFromSDK c server;
        svs \<leftarrow> serversFromSDK c tags rest;
        ret (sv # svs)
      }
      else serversFromSDK c tags rest)"

definition sdk_ListServersByTags :: "'a SDKClient \<Rightarrow> string gomap \<Rightarrow> ('a, Server list) call" where
  "sdk_ListServersByTags c tags =
     (if tags = [] then fail_with (mk_error [ErrInvalidInput] ''invalid input: empty tag selector'')
      else onOk (sdk ''list servers''
             (iaas_ListServers (sdk_iaas c) (sdk_projectID c) (sdk_region c) (labelSelector tags)))
             (\<lambda>items. do { svs \<leftarrow> serversFromSDK c tags items; ok svs }))"

definition exactlyOne :: "string \<Rightarrow> 'b list \<Rightarrow> ('a, 'b) call" where
  \<comment> \<open>none is not found, several are a conflict\<close>
  "exactlyOne kind xs = (case xs of
     [] \<Rightarrow> fail_with (mk_error [ErrNotFound] (''not found: no '' @ kind @ '' matching tags''))
   | [x] \<Rightarrow> ok x
   | _ \<Rightarrow> fail_with (mk_error [ErrConflict] (''conflict: multiple '' @ kind @ ''s matching tags'')))"

definition sdk_FindServerByTags :: "'a SDKClient \<Rightarrow> string gomap \<Rightarrow> ('a, Server) call" where
  "sdk_FindServerByTags c tags = onOk (sdk_ListServersByTags c tags) (exactlyOne ''server'')"

definition base64_char :: "nat \<Rightarrow> char" where
  "base64_char n = ''ABCDEFGHIJKLMNOPQRSTUVWXYZabcdefghijklmnopqrstuvwxyz0123456789+/'' ! (n mod 64)"

fun base64_bytes :: "nat list \<Rightarrow> string" where
  \<comment> \<open>\<open>base64.StdEncoding\<close>\<close>
  "base64_bytes [] = []"
| "base64_bytes [a] = [base64_char (a div 4), base64_char (a mod 4 * 16), CHR ''='', CHR ''='']"
| "base64_bytes [a, b] =
     [base64_char (a div 4), base64_char (a mod 4 * 16 + b div 16), base64_char (b mod 16 * 4), CHR ''='']"
| "base64_bytes (a # b # d # rest) =
     [base64_char (a div 4), base64_char (a mod 4 * 16 + b div 16),
      base64_char (b mod 16 * 4 + d div 64), base64_char (d mod 64)] @ base64_bytes rest"

definition EncodeToString :: "string \<Rightarrow> string" where
  "EncodeToString s = base64_bytes (map of_char s)"

definition unlessEmpty :: "'b list \<Rightarrow> 'b list option" where
  "unlessEmpty s = (if s = [] then None else Some s)"

definition bootVolumeOf :: "CreateServerInput \<Rightarrow> BootVolume" where
  "bootVolumeOf input =
     \<lparr>bv_Source = (if csi_ImageID input = [] then None else Some (csi_ImageID input, ''image'')),
      bv_Size = (if rv_SizeGiB (csi_RootVolume input) > 0
                 then Some (rv_SizeGiB (csi_RootVolume input)) else None),
      bv_PerformanceClass = unlessEmpty (rv_PerformanceClass (csi_RootVolume input)),
      bv_DeleteOnTermination = rv_DeleteOnTermination (csi_RootVolume input)\<rparr>"

definition serverPayload :: "CreateServerInput \<Rightarrow> CreateServerPayload" where
  "serverPayload input =
     (let useBootVolume = (rv_SizeGiB (csi_RootVolume input) > 0 \<or>
            rv_PerformanceClass (csi_RootVolume input) \<noteq> [])
      in \<lparr>csp_Name = csi_Name input, csp_MachineType = csi_MachineType input,
          csp_ImageId = (if csi_ImageID input \<noteq> [] \<and> \<not> useBootVolume then Some (csi_ImageID input) else None),
          csp_Labels = map_option tagsToSDKLabels (unlessEmpty (csi_Tags input)),
          csp_NetworkId = unlessEmpty (csi_NetworkID input),
          csp_SecurityGroups = unlessEmpty (csi_SecurityGroups input),
          csp_UserData = map_option EncodeToString (unlessEmpty (csi_UserData input)),
          csp_ConfigDrive = (if csi_UserData input = [] then None else Some True),
          csp_BootVolume = (if useBootVolume then Some (bootVolumeOf input) else None),
          csp_KeypairName = unlessEmpty (csi_SSHKeyName input),
          csp_AvailabilityZone = unlessEmpty (csi_AvailabilityZone input)\<rparr>)"

definition sdk_CreateServer :: "'a SDKClient \<Rightarrow> CreateServerInput \<Rightarrow> ('a, Server) call" where
  "sdk_CreateServer c input =
     orElse IsNotFound (sdk_FindServerByTags c (csi_Tags input))
       (onOk (sdk ''create server''
          (iaas_CreateServer (sdk_iaas c) (sdk_projectID c) (sdk_region c) (serverPayload input)))
          (\<lambda>server. do { sv \<leftarrow> serverFromSDK c server; ok sv }))"

definition sdk_ListAvailabilityZones :: "'a SDKClient \<Rightarrow> ('a, string list) call" where
  "sdk_ListAvailabilityZones c =
     sdk ''list availability zones'' (iaas_ListAvailabilityZones (sdk_iaas c) (sdk_region c))"

definition sdk_DeleteServer :: "'a SDKClient \<Rightarrow> string \<Rightarrow> ('a, unit) call" where
  "sdk_DeleteServer c i =
     sdk ''delete server'' (iaas_DeleteServer (sdk_iaas c) (sdk_projectID c) (sdk_region c) i)"

section \<open>Networks\<close>

definition sdk_GetNetwork :: "'a SDKClient \<Rightarrow> string \<Rightarrow> ('a, Network) call" where
  "sdk_GetNetwork c i =
     onOk (sdk ''get network'' (iaas_GetNetwork (sdk_iaas c) (sdk_projectID c) (sdk_region c) i))
       (\<lambda>network. ok (networkFromSDK network))"

definition sdk_ListNetworksByTags :: "'a SDKClient \<Rightarrow> string gomap \<Rightarrow> ('a, Network list) call" where
  "sdk_ListNetworksByTags c tags =
     (if tags = [] then fail_with (mk_error [ErrInvalidInput] ''invalid input: empty tag selector'')
      else onOk (sdk ''list networks''
             (iaas_ListNetworks (sdk_iaas c) (sdk_projectID c) (sdk_region c) (labelSelector tags)))
             (\<lambda>items. ok (map networkFromSDK (filter (\<lambda>n. labelsContainTags (sn_Labels n) tags) items))))"

definition sdk_FindNetworkByTags :: "'a SDKClient \<Rightarrow> string gomap \<Rightarrow> ('a, Network) call" where
  "sdk_FindNetworkByTags c tags = onOk (sdk_ListNetworksByTags c tags) (exactlyOne ''network'')"

definition networkPayload :: "CreateNetworkInput \<Rightarrow> CreateNetworkPayload" where
  "networkPayload input =
     \<lparr>cnp_Name = cni_Name input, cnp_Labels = map_option tagsToSDKLabels (unlessEmpty (cni_Tags input)),
      cnp_IPv4Prefix = unlessEmpty (cni_IPv4Prefix input)\<rparr>"

definition sdk_CreateNetwork :: "'a SDKClient \<Rightarrow> CreateNetworkInput \<Rightarrow> ('a, Network) call" where
  "sdk_CreateNetwork c input =
     (if cni_Name input = []
      then fail_with (mk_error [ErrInvalidInput] ''invalid input: network name is required'')
      else
        let create = onOk (sdk ''create network''
              (iaas_CreateNetwork (sdk_iaas c) (sdk_projectID c) (sdk_region c) (networkPayload input)))
              (\<lambda>network. ok (networkFromSDK network))
        in if cni_Tags input \<noteq> []
           then orElse IsNotFound (sdk_FindNetworkByTags c (cni_Tags input)) create
           else create)"

definition sdk_DeleteNetwork :: "'a SDKClient \<Rightarrow> string \<Rightarrow> ('a, unit) call" where
  "sdk_DeleteNetwork c i =
     sdk ''delete network'' (iaas_DeleteNetwork (sdk_iaas c) (sdk_projectID c) (sdk_region c) i)"

section \<open>Public IPs and security groups by tags\<close>

definition sdk_ListPublicIPsByTags :: "'a SDKClient \<Rightarrow> string gomap \<Rightarrow> ('a, PublicIP list) call" where
  "sdk_ListPublicIPsByTags c tags =
     (if tags = [] then fail_with (mk_error [ErrInvalidInput] ''invalid input: empty tag selector'')
      else onOk (sdk ''list public IPs''
             (iaas_ListPublicIPs (sdk_iaas c) (sdk_projectID c) (sdk_region c) (labelSelector tags)))
             (\<lambda>items. ok (map publicIPFromSDK (filter (\<lambda>p. labelsContainTags (spi_Labels p) tags) items))))"

definition sdk_ListSecurityGroupsByTags ::
    "'a SDKClient \<Rightarrow> string gomap \<Rightarrow> ('a, SecurityGroup list) call" where
  "sdk_ListSecurityGroupsByTags c tags =
     (if tags = [] then fail_with (mk_error [ErrInvalidInput] ''invalid input: empty tag selector'')
      else onOk (sdk ''list security groups''
             (iaas_ListSecurityGroups (sdk_iaas c) (sdk_projectID c) (sdk_region c) (labelSelector tags)))
             (\<lambda>items. ok (map securityGroupFromSDK
                (filter (\<lambda>g. labelsContainTags (ssg_Labels g) tags) items))))"

definition findPublicIPByTags :: "'a SDKClient \<Rightarrow> string gomap \<Rightarrow> ('a, PublicIP) call" where
  "findPublicIPByTags c tags = onOk (sdk_ListPublicIPsByTags c tags) (exactlyOne ''public IP'')"

definition findSecurityGroupByTags :: "'a SDKClient \<Rightarrow> string gomap \<Rightarrow> ('a, SecurityGroup) call" where
  "findSecurityGroupByTags c tags =
     onOk (sdk_ListSecurityGroupsByTags c tags) (exactlyOne ''security group'')"

definition getPublicIP :: "'a SDKClient \<Rightarrow> string \<Rightarrow> ('a, PublicIP) call" where
  "getPublicIP c i =
     onOk (sdk ''get public IP'' (iaas_GetPublicIP (sdk_iaas c) (sdk_projectID c) (sdk_region c) i))
       (\<lambda>p. ok (publicIPFromSDK p))"

definition ensurePublicIP :: "'a SDKClient \<Rightarrow> string gomap \<Rightarrow> ('a, PublicIP) call" where
  "ensurePublicIP c tags =
     orElse IsNotFound (findPublicIPByTags c tags)
       (onOk (sdk ''create public IP''
          (iaas_CreatePublicIP (sdk_iaas c) (sdk_projectID c) (sdk_region c) (tagsToSDKLabels tags)))
          (\<lambda>p. ok (publicIPFromSDK p)))"

definition createSecurityGroup ::
    "'a SDKClient \<Rightarrow> CreateSecurityGroupPayload \<Rightarrow> ('a, SecurityGroup) call" where
  "createSecurityGroup c payload =
     onOk (sdk ''create security group''
       (iaas_CreateSecurityGroup (sdk_iaas c) (sdk_projectID c) (sdk_region c) payload))
       (\<lambda>g. ok (securityGroupFromSDK g))"

definition ensureBastionSecurityGroup :: "'a SDKClient \<Rightarrow> BastionInput \<Rightarrow> ('a, SecurityGroup) call" where
  "ensureBastionSecurityGroup c input =
     orElse IsNotFound (findSecurityGroupByTags c (bi_Tags input))
       (createSecurityGroup c
          \<lparr>cgp_Name = bi_Name input @ ''-ssh'',
           cgp_Description = ''Cluster API Provider STACKIT bastion SSH access'',
           cgp_Labels = tagsToSDKLabels (bi_Tags input)\<rparr>)"

definition ensureNodeSSHSecurityGroup ::
    "'a SDKClient \<Rightarrow> NodeSSHAccessInput \<Rightarrow> ('a, SecurityGroup) call" where
  "ensureNodeSSHSecurityGroup c input =
     orElse IsNotFound (findSecurityGroupByTags c (nsi_Tags input))
       (createSecurityGroup c
          \<lparr>cgp_Name = nsi_Name input,
           cgp_Description = ''Cluster API Provider STACKIT node SSH access from bastion'',
           cgp_Labels = tagsToSDKLabels (nsi_Tags input)\<rparr>)"

end
