(* ===== verification/User_Data.thy ===== *)
theory User_Data
  imports SDK_Client
begin

text \<open>
  The user data of a server: \<open>CreateServer\<close> of \<open>cloud/sdk_client.go\<close> sends the bootstrap document
  encoded in base64. A reference decoder, written from RFC 4648, gets the document back, byte by
  byte.
\<close>

section \<open>A reference decoder\<close>

definition base64_alphabet :: string where
  "base64_alphabet = ''ABCDEFGHIJKLMNOPQRSTUVWXYZabcdefghijklmnopqrstuvwxyz0123456789+/''"

definition base64_value :: "char \<Rightarrow> nat option" where
  "base64_value c = map_of (zip base64_alphabet [0..<64]) c"

fun base64_decode :: "string \<Rightarrow> nat list option" where
  "base64_decode [] = Some []"
| "base64_decode (w # x # y # z # rest) =
     do {
       p \<leftarrow> base64_value w;
       q \<leftarrow> base64_value x;
       if z = CHR ''='' then
         if rest \<noteq> [] then None
         else if y = CHR ''='' then Some [p * 4 + q div 16]
         else do { r \<leftarrow> base64_value y; Some [p * 4 + q div 16, q mod 16 * 16 + r div 4] }
       else do {
         r \<leftarrow> base64_value y;
         s \<leftarrow> base64_value z;
         bs \<leftarrow> base64_decode rest;
         Some ([p * 4 + q div 16, q mod 16 * 16 + r div 4, r mod 4 * 64 + s] @ bs)
       }
     }"
| "base64_decode _ = None"

definition DecodeString :: "string \<Rightarrow> string option" where
  "DecodeString s = map_option (map char_of) (base64_decode s)"

section \<open>Decoding inverts encoding\<close>

lemma base64_char_alphabet: "base64_char n = base64_alphabet ! (n mod 64)"
  by (simp add: base64_char_def base64_alphabet_def)

lemma distinct_alphabet: "distinct base64_alphabet" and length_alphabet: "length base64_alphabet = 64"
  by code_simp+

lemma base64_value_char: "n < 64 \<Longrightarrow> base64_value (base64_char n) = Some n"
  unfolding base64_value_def base64_char_alphabet
  using map_of_zip_nth [of base64_alphabet "[0..<64]" n] by (simp add: distinct_alphabet length_alphabet)

lemma base64_char_no_pad: "base64_char n \<noteq> CHR ''=''"
proof -
  have "base64_char n \<in> set base64_alphabet" by (simp add: base64_char_alphabet length_alphabet)
  moreover have "CHR ''='' \<notin> set base64_alphabet" by code_simp
  ultimately show ?thesis by metis
qed

lemma byte_bounds:
  assumes "(a::nat) < 256"
  shows "a div 4 < 64" "a div 16 < 16" "a div 64 < 4" "a div 16 div 16 = 0" "a div 16 mod 16 = a div 16"
    "a div 64 div 4 = 0" "a div 64 mod 4 = a div 64"
  using assms by auto

lemma base64_decode_bytes:
  "list_all (\<lambda>b. b < 256) bs \<Longrightarrow> base64_decode (base64_bytes bs) = Some bs"
proof (induction bs rule: base64_bytes.induct)
  case (2 a)
  then show ?case by (simp add: base64_value_char base64_char_no_pad byte_bounds)
next
  case (3 a b)
  then have "a mod 4 * 16 + b div 16 < 64" by (auto simp: byte_bounds)
  with 3 show ?case by (simp add: base64_value_char base64_char_no_pad byte_bounds)
next
  case (4 a b d rest)
  then have "a mod 4 * 16 + b div 16 < 64" "b mod 16 * 4 + d div 64 < 64" by (auto simp: byte_bounds)
  with 4 show ?case by (simp add: base64_value_char base64_char_no_pad byte_bounds)
qed simp

lemma DecodeString_EncodeToString: "DecodeString (EncodeToString s) = Some s"
proof -
  have "list_all (\<lambda>b. b < 256) (map of_char s :: nat list)" by (simp add: list_all_iff)
  then show ?thesis by (simp add: DecodeString_def EncodeToString_def base64_decode_bytes comp_def)
qed

text \<open>
  C30: a server boots with exactly the document that the bootstrap provider wrote. Whatever bytes the
  user data of a server to create consists of, decoding what \<open>CreateServer\<close> sends as user data gives
  them back, and the config drive that delivers them is requested; without user data neither is
  sent.
\<close>

theorem user_data_roundtrip:
  "(csi_UserData input \<noteq> [] \<longrightarrow>
     map_option DecodeString (csp_UserData (serverPayload input)) = Some (Some (csi_UserData input)) \<and>
     csp_ConfigDrive (serverPayload input) = Some True) \<and>
   (csi_UserData input = [] \<longrightarrow>
     csp_UserData (serverPayload input) = None \<and> csp_ConfigDrive (serverPayload input) = None)"
  by (simp add: serverPayload_def Let_def unlessEmpty_def DecodeString_EncodeToString)

theorem user_data_roundtrip_witness:
  "\<exists>input. csi_UserData input = ''#cloud-config'' \<and> csp_UserData (serverPayload input) = Some ''I2Nsb3VkLWNvbmZpZw=='' \<and>
     map_option DecodeString (csp_UserData (serverPayload input)) = Some (Some ''#cloud-config'')"
proof -
  let ?i = "\<lparr>csi_Name = ''m'', csi_ProjectID = ''p'', csi_Region = ''r'', csi_ImageID = ''i'', csi_MachineType = ''t'',
    csi_AvailabilityZone = [], csi_SSHKeyName = [], csi_NetworkID = [], csi_SecurityGroups = [],
    csi_UserData = ''#cloud-config'', csi_Tags = [],
    csi_RootVolume = \<lparr>rv_SizeGiB = 0, rv_PerformanceClass = [], rv_DeleteOnTermination = True\<rparr>\<rparr>"
  have "csp_UserData (serverPayload ?i) = Some ''I2Nsb3VkLWNvbmZpZw==''" by code_simp
  moreover have "csi_UserData ?i = ''#cloud-config''" by simp
  ultimately show ?thesis using user_data_roundtrip [of ?i] by (intro exI [of _ ?i]) simp
qed

end
