(* ===== verification/SDK_Bastion.thy ===== *)
theory SDK_Bastion
  imports SDK_Client
begin

text \<open>
  The bastion and the SSH access of the nodes in the SDK client: the rules of the security groups
  and the operations \<open>EnsureBastion\<close>, \<open>DeleteBastion\<close>, \<open>EnsureNodeSSHAccess\<close> and
  \<open>DeleteNodeSSHAccess\<close>.
\<close>

section \<open>Security group rules\<close>

definition isSSHRule :: "sdk_Rule \<Rightarrow> bool" where
  "isSSHRule rule \<longleftrightarrow> rule_Direction rule = ''ingress'' \<and>
     rule_PortMin rule = 22 \<and> rule_PortMax rule = 22 \<and> rule_Protocol rule = Some ''tcp''"

definition hasSSHRule :: "sdk_Rule list \<Rightarrow> string \<Rightarrow> bool" where
  "hasSSHRule rules cidr \<longleftrightarrow> list_ex (\<lambda>rule. rule_IpRange rule = cidr \<and> isSSHRule rule) rules"

definition hasRemoteSecurityGroupSSHRule :: "sdk_Rule list \<Rightarrow> string \<Rightarrow> bool" where
  "hasRemoteSecurityGroupSSHRule rules remote \<longleftrightarrow>
     list_ex (\<lambda>rule. rule_Direction rule = ''ingress'' \<and> rule_RemoteSecurityGroupId rule = remote \<and>
       rule_PortMin rule = 22 \<and> rule_PortMax rule = 22 \<and> rule_Protocol rule = Some ''tcp'') rules"

definition sshRulePayload :: "string option \<Rightarrow> string option \<Rightarrow> CreateSecurityGroupRulePayload" where
  "sshRulePayload ipRange remote =
     \<lparr>crp_Direction = ''ingress'', crp_IpRange = ipRange, crp_RemoteSecurityGroupId = remote,
      crp_PortMin = 22, crp_PortMax = 22, crp_Protocol = ''tcp''\<rparr>"

definition listRules :: "'a SDKClient \<Rightarrow> string \<Rightarrow> ('a, sdk_Rule list) call" where
  "listRules c gid =
     sdk ''list security group rules''
       (iaas_ListSecurityGroupRules (sdk_iaas c) (sdk_projectID c) (sdk_region c) gid)"

definition createRule :: "'a SDKClient \<Rightarrow> string \<Rightarrow> CreateSecurityGroupRulePayload \<Rightarrow> ('a, unit) call" where
  "createRule c gid rule =
     sdk ''create security group rule''
       (iaas_CreateSecurityGroupRule (sdk_iaas c) (sdk_projectID c) (sdk_region c) gid rule)"

fun deleteRules :: "'a SDKClient \<Rightarrow> string \<Rightarrow> string list \<Rightarrow> ('a, unit) call" where
  \<comment> \<open>the loop that deletes rules by ID: a rule without ID is skipped, one that is gone is ignored\<close>
  "deleteRules c gid [] = ok ()"
| "deleteRules c gid (ruleID # rest) =
     (if ruleID = [] then deleteRules c gid rest
      else onOk (tolerate IsNotFound (sdk ''delete security group rule''
             (iaas_DeleteSecurityGroupRule (sdk_iaas c) (sdk_projectID c) (sdk_region c) gid ruleID)))
             (\<lambda>_. deleteRules c gid rest))"

fun createCIDRRules ::
    "'a SDKClient \<Rightarrow> string \<Rightarrow> sdk_Rule list \<Rightarrow> string list \<Rightarrow> string list \<Rightarrow> ('a, string list) call" where
  \<comment> \<open>the first loop of \<open>ensureBastionSecurityGroupRules\<close>; its result is the set \<open>desired\<close>\<close>
  "createCIDRRules c gid existingRules desired [] = ok desired"
| "createCIDRRules c gid existingRules desired (cidr # cidrs) =
     (if cidr = [] then fail_with (mk_error [ErrInvalidInput] ''invalid input: empty bastion allowed CIDR'')
      else if cidr \<in> set desired then createCIDRRules c gid existingRules desired cidrs
      else if hasSSHRule existingRules cidr
        then createCIDRRules c gid existingRules (cidr # desired) cidrs
      else onOk (createRule c gid (sshRulePayload (Some cidr) None))
             (\<lambda>_. createCIDRRules c gid existingRules (cidr # desired) cidrs))"

definition ensureBastionSecurityGroupRules ::
    "'a SDKClient \<Rightarrow> string \<Rightarrow> string list \<Rightarrow> ('a, unit) call" where
  "ensureBastionSecurityGroupRules c gid cidrs =
     (if gid = [] then fail_with (mk_error [ErrInvalidInput] ''invalid input: security group ID is required'')
      else onOk (listRules c gid) (\<lambda>existingRules.
        onOk (createCIDRRules c gid existingRules [] cidrs) (\<lambda>desired.
          deleteRules c gid
            (map rule_Id (filter (\<lambda>rule. isSSHRule rule \<and> rule_IpRange rule \<notin> set desired) existingRules)))))"

definition ensureNodeSSHSecurityGroupRule :: "'a SDKClient \<Rightarrow> string \<Rightarrow> string \<Rightarrow> ('a, unit) call" where
  "ensureNodeSSHSecurityGroupRule c nodeGroup bastionGroup =
     (if nodeGroup = [] \<or> bastionGroup = []
      then fail_with (mk_error [ErrInvalidInput]
             ''invalid input: node and bastion security group IDs are required'')
      else onOk (listRules c nodeGroup) (\<lambda>rules.
        if hasRemoteSecurityGroupSSHRule rules bastionGroup then ok ()
        else createRule c nodeGroup (sshRulePayload None (Some bastionGroup))))"

definition deleteSecurityGroupRules :: "'a SDKClient \<Rightarrow> string \<Rightarrow> ('a, unit) call" where
  "deleteSecurityGroupRules c gid = do {
     res \<leftarrow> listRules c gid;
     case res of
       Inl err \<Rightarrow> if IsNotFound err then ok () else fail_with err
     | Inr rules \<Rightarrow> deleteRules c gid (map rule_Id rules)
   }"

definition addSecurityGroupToServer :: "'a SDKClient \<Rightarrow> string \<Rightarrow> string \<Rightarrow> ('a, unit) call" where
  "addSecurityGroupToServer c serverID gid =
     tolerate (\<lambda>err. IsConflict err \<or> IsInvalidInput err \<or> IsNotFound err)
       (sdk ''add security group to server''
         (iaas_AddSecurityGroupToServer (sdk_iaas c) (sdk_projectID c) (sdk_region c) serverID gid))"

definition removeSecurityGroupFromServer :: "'a SDKClient \<Rightarrow> string \<Rightarrow> string \<Rightarrow> ('a, unit) call" where
  "removeSecurityGroupFromServer c serverID gid =
     tolerate (\<lambda>err. IsNotFound err \<or> IsConflict err)
       (sdk ''remove security group from server''
         (iaas_RemoveSecurityGroupFromServer (sdk_iaas c) (sdk_projectID c) (sdk_region c) serverID gid))"

definition deleteSecurityGroup :: "'a SDKClient \<Rightarrow> string \<Rightarrow> ('a, unit) call" where
  \<comment> \<open>the rules first, then the group\<close>
  "deleteSecurityGroup c gid =
     onOk (deleteSecurityGroupRules c gid) (\<lambda>_.
       tolerate IsNotFound (sdk ''delete security group''
         (iaas_DeleteSecurityGroup (sdk_iaas c) (sdk_projectID c) (sdk_region c) gid)))"

section \<open>Bastion\<close>

definition bastionServerInput :: "BastionInput \<Rightarrow> string \<Rightarrow> CreateServerInput" where
  "bastionServerInput input groupID =
     \<lparr>csi_Name = bi_Name input, csi_ProjectID = bi_ProjectID input, csi_Region = bi_Region input,
      csi_ImageID = bi_ImageID input, csi_MachineType = bi_MachineType input,
      csi_AvailabilityZone = [], csi_SSHKeyName = bi_SSHKeyName input,
      csi_NetworkID = bi_NetworkID input, csi_SecurityGroups = [groupID],
      csi_UserData = bi_CloudInit input, csi_Tags = bi_Tags input,
      csi_RootVolume = bi_RootVolume input\<rparr>"

definition attachPublicIP :: "'a SDKClient \<Rightarrow> string \<Rightarrow> PublicIP \<Rightarrow> ('a, PublicIP) call" where
  "attachPublicIP c serverID publicIP =
     (if pip_NetworkInterfaceID publicIP = []
      then onOk (tolerate IsConflict (sdk ''add public IP to server''
                  (iaas_AddPublicIpToServer (sdk_iaas c) (sdk_projectID c) (sdk_region c) serverID
                     (pip_ID publicIP))))
             (\<lambda>_. getPublicIP c (pip_ID publicIP))
      else ok publicIP)"

definition sdk_EnsureBastion :: "'a SDKClient \<Rightarrow> BastionInput \<Rightarrow> ('a, Bastion) call" where
  "sdk_EnsureBastion c input =
     (if bi_Name input = [] \<or> bi_NetworkID input = [] \<or> bi_ImageID input = [] \<or>
         bi_MachineType input = [] \<or> bi_SSHKeyName input = []
      then fail_with (mk_error [ErrInvalidInput] (''invalid input: bastion name, network ID, image ID, '' @
             ''machine type, and SSH key name are required''))
      else if bi_AllowedCIDRs input = []
      then fail_with (mk_error [ErrInvalidInput] ''invalid input: bastion allowed CIDRs are required'')
      else if bi_Tags input = []
      then fail_with (mk_error [ErrInvalidInput] ''invalid input: bastion tags are required'')
      else
        onOk (ensureBastionSecurityGroup c input) (\<lambda>securityGroup.
        onOk (ensureBastionSecurityGroupRules c (sg_ID securityGroup) (bi_AllowedCIDRs input)) (\<lambda>_.
        onOk (sdk_CreateServer c (bastionServerInput input (sg_ID securityGroup))) (\<lambda>server.
        onOk (addSecurityGroupToServer c (srv_ID server) (sg_ID securityGroup)) (\<lambda>_.
        onOk (ensurePublicIP c (bi_Tags input)) (\<lambda>publicIP.
        onOk (attachPublicIP c (srv_ID server) publicIP) (\<lambda>publicIP.
        ok \<lparr>bas_ServerID = srv_ID server, bas_ServerState = srv_State server,
            bas_ServerPowerStatus = srv_PowerStatus server, bas_PublicIPID = pip_ID publicIP,
            bas_PublicIP = pip_IP publicIP, bas_SecurityGroupID = sg_ID securityGroup\<rparr>)))))))"

definition idOr :: "string \<Rightarrow> ('b \<Rightarrow> string) \<Rightarrow> ('a, 'b) call \<Rightarrow> ('a, string) call" where
  \<comment> \<open>the ID of the status, or the one found by tags, or none\<close>
  "idOr known idOf search =
     (if known \<noteq> [] then ok known
      else do {
        res \<leftarrow> search;
        case res of
          Inr x \<Rightarrow> ok (idOf x)
        | Inl err \<Rightarrow> if IsNotFound err then ok [] else fail_with err
      })"

definition whenSet :: "bool \<Rightarrow> ('a, unit) call \<Rightarrow> ('a, unit) call" where
  "whenSet b m = (if b then m else ok ())"

definition sdk_DeleteBastion :: "'a SDKClient \<Rightarrow> BastionInput \<Rightarrow> Bastion \<Rightarrow> ('a, unit) call" where
  "sdk_DeleteBastion c input status =
     onOk (idOr (bas_ServerID status) srv_ID (sdk_FindServerByTags c (bi_Tags input))) (\<lambda>serverID.
     onOk (idOr (bas_PublicIPID status) pip_ID (findPublicIPByTags c (bi_Tags input))) (\<lambda>publicIPID.
     onOk (idOr (bas_SecurityGroupID status) sg_ID (findSecurityGroupByTags c (bi_Tags input)))
       (\<lambda>securityGroupID.
     onOk (whenSet (serverID \<noteq> [] \<and> publicIPID \<noteq> [])
       (tolerate (\<lambda>err. IsNotFound err \<or> IsConflict err) (sdk ''remove public IP from server''
         (iaas_RemovePublicIpFromServer (sdk_iaas c) (sdk_projectID c) (sdk_region c) serverID publicIPID))))
       (\<lambda>_.
     onOk (whenSet (serverID \<noteq> [] \<and> securityGroupID \<noteq> [])
       (removeSecurityGroupFromServer c serverID securityGroupID)) (\<lambda>_.
     onOk (whenSet (serverID \<noteq> []) (tolerate IsNotFound (sdk_DeleteServer c serverID))) (\<lambda>_.
     onOk (whenSet (publicIPID \<noteq> []) (tolerate IsNotFound (sdk ''delete public IP''
       (iaas_DeletePublicIP (sdk_iaas c) (sdk_projectID c) (sdk_region c) publicIPID)))) (\<lambda>_.
     whenSet (securityGroupID \<noteq> []) (deleteSecurityGroup c securityGroupID))))))))"

section \<open>SSH access of the nodes\<close>

definition sdk_EnsureNodeSSHAccess ::
    "'a SDKClient \<Rightarrow> NodeSSHAccessInput \<Rightarrow> ('a, SecurityGroup) call" where
  "sdk_EnsureNodeSSHAccess c input =
     (if nsi_Name input = [] \<or> nsi_ServerID input = [] \<or> nsi_BastionSecurityGroupID input = []
      then fail_with (mk_error [ErrInvalidInput] (''invalid input: node SSH access name, server ID, '' @
             ''and bastion security group ID are required''))
      else if nsi_Tags input = []
      then fail_with (mk_error [ErrInvalidInput] ''invalid input: node SSH access tags are required'')
      else
        onOk (ensureNodeSSHSecurityGroup c input) (\<lambda>securityGroup.
        onOk (ensureNodeSSHSecurityGroupRule c (sg_ID securityGroup) (nsi_BastionSecurityGroupID input))
          (\<lambda>_.
        onOk (addSecurityGroupToServer c (nsi_ServerID input) (sg_ID securityGroup)) (\<lambda>_.
        ok securityGroup))))"

fun removeFromServers :: "'a SDKClient \<Rightarrow> string \<Rightarrow> Server list \<Rightarrow> ('a, unit) call" where
  "removeFromServers c gid [] = ok ()"
| "removeFromServers c gid (server # rest) =
     onOk (removeSecurityGroupFromServer c (srv_ID server) gid) (\<lambda>_. removeFromServers c gid rest)"

definition sdk_DeleteNodeSSHAccess :: "'a SDKClient \<Rightarrow> string gomap \<Rightarrow> ('a, unit) call" where
  "sdk_DeleteNodeSSHAccess c tags = do {
     res \<leftarrow> findSecurityGroupByTags c tags;
     case res of
       Inl err \<Rightarrow> if IsNotFound err then ok () else fail_with err
     | Inr securityGroup \<Rightarrow>
         onOk (sdk_ListServersByTags c (clusterServerSelectorFromTags tags)) (\<lambda>servers.
         onOk (removeFromServers c (sg_ID securityGroup) servers) (\<lambda>_.
         deleteSecurityGroup c (sg_ID securityGroup)))
   }"

end
