(* ===== verification/SDK_Balancer.thy ===== *)
theory SDK_Balancer
  imports SDK_Bastion
begin

text \<open>
  The load balancers of the SDK client, and \<open>sdk_Client\<close>, the SDK client as a value of the interface
  \<open>Client\<close>.
\<close>

section \<open>Load balancers\<close>

definition sdk_mapContains :: "string gomap \<Rightarrow> string gomap \<Rightarrow> bool" where
  "sdk_mapContains haystack needle \<longleftrightarrow> list_all (\<lambda>(k, v). lookup_or [] haystack k = v) needle"

definition sdk_ListAPIServerLoadBalancersByTags ::
    "'a SDKClient \<Rightarrow> string gomap \<Rightarrow> ('a, LoadBalancer list) call" where
  "sdk_ListAPIServerLoadBalancersByTags c tags =
     (if tags = [] then fail_with (mk_error [ErrInvalidInput] ''invalid input: empty tag selector'')
      else do {
        res \<leftarrow> sdk ''list load balancers''
          (lba_ListLoadBalancers (sdk_lb c) (sdk_projectID c) (sdk_region c));
        case res of
          Inl err \<Rightarrow> if isLoadBalancerServiceNotEnabled err then ok [] else fail_with err
        | Inr candidates \<Rightarrow>
            ok (map loadBalancerFromSDK
                 (filter (\<lambda>l. sdk_mapContains (slb_Labels l) (loadBalancerLabels tags)) candidates))
      })"

definition findLoadBalancerByTags :: "'a SDKClient \<Rightarrow> string gomap \<Rightarrow> ('a, LoadBalancer) call" where
  "findLoadBalancerByTags c tags =
     onOk (sdk_ListAPIServerLoadBalancersByTags c tags) (exactlyOne ''load balancer'')"

definition targetFromInput :: "LoadBalancerTargetInput \<Rightarrow> sdk_Target" where
  "targetFromInput t = \<lparr>tgt_DisplayName = lti_Name t, tgt_Ip = lti_IP t\<rparr>"

definition loadBalancerPayload :: "LoadBalancerInput \<Rightarrow> CreateLoadBalancerPayload" where
  "loadBalancerPayload input =
     \<lparr>clp_Name = lbi_Name input, clp_Region = lbi_Region input,
      clp_Labels = map_option loadBalancerLabels (unlessEmpty (lbi_Tags input)),
      clp_EphemeralAddress = True,
      clp_Networks = [(lbi_NetworkID input, ''ROLE_LISTENERS_AND_TARGETS'')],
      clp_TargetPools =
        [\<lparr>tp_Name = ''apiserver'', tp_TargetPort = lbi_Port input,
          tp_Targets =
            (if lbi_Targets input = []
             then [\<lparr>tgt_DisplayName = ''capi-bootstrap-placeholder'', tgt_Ip = ''10.0.0.1''\<rparr>]
             else map targetFromInput (lbi_Targets input))\<rparr>],
      clp_Listeners =
        [\<lparr>lis_DisplayName = ''apiserver'', lis_Port = lbi_Port input, lis_Protocol = ''PROTOCOL_TCP'',
          lis_TargetPool = ''apiserver''\<rparr>]\<rparr>"

definition sdk_EnsureAPIServerLoadBalancer ::
    "'a SDKClient \<Rightarrow> LoadBalancerInput \<Rightarrow> ('a, LoadBalancer) call" where
  "sdk_EnsureAPIServerLoadBalancer c input =
     orElse (\<lambda>err. IsNotFound err \<or> isLoadBalancerServiceNotEnabled err)
       (findLoadBalancerByTags c (lbi_Tags input))
       (onOk (sdk ''create load balancer''
          (lba_CreateLoadBalancer (sdk_lb c) (sdk_projectID c) (sdk_region c) (loadBalancerPayload input)))
          (\<lambda>l. ok (loadBalancerFromSDK l)))"

definition sdk_DeleteAPIServerLoadBalancer :: "'a SDKClient \<Rightarrow> string \<Rightarrow> ('a, unit) call" where
  "sdk_DeleteAPIServerLoadBalancer c i =
     sdk ''delete load balancer''
       (lba_DeleteLoadBalancer (sdk_lb c) (sdk_projectID c) (sdk_region c) i)"

section \<open>Targets\<close>

datatype targetKey = targetKey (tk_name: string) (tk_ip: string)

text \<open>The order of \<open>sortedTargetKeys\<close>: by name, and by IP within a name.\<close>

instantiation targetKey :: linorder
begin

definition less_eq_targetKey :: "targetKey \<Rightarrow> targetKey \<Rightarrow> bool" where
  "a \<le> b \<longleftrightarrow> tk_name a < tk_name b \<or> tk_name a = tk_name b \<and> tk_ip a \<le> tk_ip b"

definition less_targetKey :: "targetKey \<Rightarrow> targetKey \<Rightarrow> bool" where
  "a < b \<longleftrightarrow> tk_name a < tk_name b \<or> tk_name a = tk_name b \<and> tk_ip a < tk_ip b"

instance
  by standard (auto simp: less_eq_targetKey_def less_targetKey_def targetKey.expand)

end

definition sortedTargetKeys :: "sdk_Target list \<Rightarrow> targetKey list" where
  "sortedTargetKeys targets = sort (map (\<lambda>t. targetKey (tgt_DisplayName t) (tgt_Ip t)) targets)"

definition sameTargets :: "sdk_Target list \<Rightarrow> sdk_Target list \<Rightarrow> bool" where
  "sameTargets current desired \<longleftrightarrow>
     length current = length desired \<and> sortedTargetKeys current = sortedTargetKeys desired"

definition apiServerTargetPool :: "sdk_LoadBalancer \<Rightarrow> sdk_TargetPool option" where
  "apiServerTargetPool l = List.find (\<lambda>p. tp_Name p = ''apiserver'') (slb_TargetPools l)"

definition updateAPIServerTargetPool ::
    "'a SDKClient \<Rightarrow> string \<Rightarrow> sdk_TargetPool \<Rightarrow> sdk_Target list \<Rightarrow> int \<Rightarrow> ('a, unit) call" where
  "updateAPIServerTargetPool c loadBalancerID current targets port =
     sdk ''update load balancer target pool''
       (lba_UpdateTargetPool (sdk_lb c) (sdk_projectID c) (sdk_region c) loadBalancerID ''apiserver''
         \<lparr>utp_Name = ''apiserver'',
          utp_TargetPort =
            (if port > 0 then Some port
             else if tp_TargetPort current > 0 then Some (tp_TargetPort current) else None),
          utp_Targets = targets\<rparr>)"

definition sdk_SetAPIServerLoadBalancerTargets ::
    "'a SDKClient \<Rightarrow> string \<Rightarrow> int \<Rightarrow> LoadBalancerTargetInput list \<Rightarrow> ('a, unit) call" where
  "sdk_SetAPIServerLoadBalancerTargets c loadBalancerID port targets =
     (if loadBalancerID = [] \<or> port \<le> 0
      then fail_with (mk_error [ErrInvalidInput]
             ''invalid input: load balancer ID and target port are required'')
      else if targets = []
      then fail_with (mk_error [ErrInvalidInput] ''invalid input: at least one target is required'')
      else if list_ex (\<lambda>t. lti_Name t = [] \<or> lti_IP t = []) targets
      then fail_with (mk_error [ErrInvalidInput] ''invalid input: target name and target IP are required'')
      else onOk (sdk ''get load balancer''
             (lba_GetLoadBalancer (sdk_lb c) (sdk_projectID c) (sdk_region c) loadBalancerID))
        (\<lambda>loadBalancer.
          case apiServerTargetPool loadBalancer of
            None \<Rightarrow> fail_with (mk_error [ErrNotFound] (''not found: load balancer '' @ quote loadBalancerID @
                      '' has no '' @ quote ''apiserver'' @ '' target pool''))
          | Some targetPool \<Rightarrow>
              let desired = map targetFromInput targets
              in if tp_TargetPort targetPool = port \<and> sameTargets (tp_Targets targetPool) desired
                 then ok ()
                 else updateAPIServerTargetPool c loadBalancerID targetPool desired port))"

section \<open>The client\<close>

definition sdk_Client :: "'a SDKClient \<Rightarrow> 'a Client" where
  "sdk_Client c =
     \<lparr>GetNetwork = sdk_GetNetwork c,
      FindNetworkByTags = sdk_FindNetworkByTags c,
      ListNetworksByTags = sdk_ListNetworksByTags c,
      CreateNetwork = sdk_CreateNetwork c,
      DeleteNetwork = sdk_DeleteNetwork c,
      GetServer = sdk_GetServer c,
      FindServerByTags = sdk_FindServerByTags c,
      ListServersByTags = sdk_ListServersByTags c,
      CreateServer = sdk_CreateServer c,
      DeleteServer = sdk_DeleteServer c,
      EnsureBastion = sdk_EnsureBastion c,
      DeleteBastion = sdk_DeleteBastion c,
      EnsureNodeSSHAccess = sdk_EnsureNodeSSHAccess c,
      DeleteNodeSSHAccess = sdk_DeleteNodeSSHAccess c,
      ListPublicIPsByTags = sdk_ListPublicIPsByTags c,
      ListSecurityGroupsByTags = sdk_ListSecurityGroupsByTags c,
      EnsureAPIServerLoadBalancer =
        (\<lambda>input. onOk (sdk_EnsureAPIServerLoadBalancer c input) (\<lambda>l. ok (Some l))),
      ListAPIServerLoadBalancersByTags = sdk_ListAPIServerLoadBalancersByTags c,
      SetAPIServerLoadBalancerTargets = sdk_SetAPIServerLoadBalancerTargets c,
      DeleteAPIServerLoadBalancer = sdk_DeleteAPIServerLoadBalancer c,
      ListAvailabilityZones = sdk_ListAvailabilityZones c\<rparr>"

end
