(* ===== verification/SDK_Laws.thy ===== *)
theory SDK_Laws
  imports SDK_Balancer
begin

text \<open>
  Vocabulary for what an API promises: \<open>api_law\<close> states the behaviour of one call from every good
  state, \<open>keeps\<close> that a computation leaves a view of the state alone. The second composes along the
  operations of the client (\<open>keeps_intros\<close>).
\<close>

definition api_law :: "('a \<Rightarrow> bool) \<Rightarrow> ('a, 'r) state \<Rightarrow> ('a \<Rightarrow> 'r \<Rightarrow> 'a \<Rightarrow> bool) \<Rightarrow> bool" where
  "api_law good m Q \<longleftrightarrow> (\<forall>a. good a \<longrightarrow> wp m (\<lambda>res a'. good a' \<and> Q a res a') a)"

definition keeps :: "('a \<Rightarrow> bool) \<Rightarrow> ('a \<Rightarrow> 'w) \<Rightarrow> ('a, 'r) state \<Rightarrow> bool" where
  "keeps good view m \<longleftrightarrow> api_law good m (\<lambda>a _ a'. view a' = view a)"

section \<open>Sequencing\<close>

lemma api_law_run:
  "api_law good m Q \<Longrightarrow> good a \<Longrightarrow> run_state m a = (res, a') \<Longrightarrow> good a' \<and> Q a res a'"
  by (auto simp: api_law_def wp_def)

lemma api_law_mono: "api_law good m Q \<Longrightarrow> (\<And>a res a'. Q a res a' \<Longrightarrow> R a res a') \<Longrightarrow> api_law good m R"
  by (auto simp: api_law_def elim!: wp_mono)

lemma keeps_run:
  "keeps good view m \<Longrightarrow> good a \<Longrightarrow> run_state m a = (res, a') \<Longrightarrow> good a' \<and> view a' = view a"
  by (auto simp: keeps_def dest: api_law_run)

named_theorems keeps_intros \<open>calls that leave the view alone\<close>

lemma keeps_return [keeps_intros]: "keeps good view (State_Monad.return x)"
  by (simp add: keeps_def api_law_def wp_simps)

lemma keeps_ok [keeps_intros]: "keeps good view (ok x)"
  by (simp add: ok_def keeps_return)

lemma keeps_fail [keeps_intros]: "keeps good view (fail_with err)"
  by (simp add: fail_with_def keeps_return)

lemma keeps_bind [keeps_intros]:
  assumes "keeps good view m" and "\<And>x. keeps good view (f x)"
  shows "keeps good view (m \<bind> f)"
  unfolding keeps_def api_law_def
proof (intro allI impI)
  fix a assume "good a"
  obtain x a1 where m: "run_state m a = (x, a1)" by fastforce
  obtain y a2 where f: "run_state (f x) a1 = (y, a2)" by fastforce
  from keeps_run [OF assms(1) \<open>good a\<close> m] keeps_run [OF assms(2) _ f] m f
  show "wp (m \<bind> f) (\<lambda>res a'. good a' \<and> view a' = view a) a" by (simp add: wp_def run_state_bind)
qed

lemma keeps_if [keeps_intros]:
  "keeps good view m \<Longrightarrow> keeps good view n \<Longrightarrow> keeps good view (if b then m else n)"
  by simp

lemma keeps_case_sum [keeps_intros]:
  "(\<And>x. keeps good view (f x)) \<Longrightarrow> (\<And>y. keeps good view (g y)) \<Longrightarrow>
   keeps good view (case z of Inl x \<Rightarrow> f x | Inr y \<Rightarrow> g y)"
  by (cases z) simp_all

lemma keeps_sdk [keeps_intros]: "keeps good view m \<Longrightarrow> keeps good view (sdk op m)"
  unfolding sdk_def by (intro keeps_intros)

lemma keeps_onOk [keeps_intros]:
  "keeps good view m \<Longrightarrow> (\<And>x. keeps good view (f x)) \<Longrightarrow> keeps good view (onOk m f)"
  unfolding onOk_def by (intro keeps_intros)

lemma keeps_tolerate [keeps_intros]: "keeps good view m \<Longrightarrow> keeps good view (tolerate P m)"
  unfolding tolerate_def by (intro keeps_intros)

lemma keeps_orElse [keeps_intros]:
  "keeps good view m \<Longrightarrow> keeps good view n \<Longrightarrow> keeps good view (orElse P m n)"
  unfolding orElse_def by (intro keeps_intros)

lemma keeps_exactlyOne [keeps_intros]: "keeps good view (exactlyOne kind xs)"
  by (auto simp: exactlyOne_def intro: keeps_intros split: list.split)

lemma IsNotFound_classify [simp]: "IsNotFound (classifySDKError op err) \<longleftrightarrow> sde_StatusCode err = Some 404"
  by (auto simp: classifySDKError_def sdk_fail_def IsNotFound_def split: option.splits)

section \<open>Answers\<close>

text \<open>Error answers, for concrete instances of the API.\<close>

definition answer :: "int \<Rightarrow> ('a, 'r) api_call" where
  "answer code = State_Monad.return (Inl \<lparr>sde_StatusCode = Some code, sde_Text = ''error''\<rparr>)"

lemma keeps_answer: "keeps good view (answer code)"
  by (simp add: answer_def keeps_return)

definition no_IaaS :: "'a IaaS" where
  "no_IaaS =
     \<lparr>iaas_GetServer = (\<lambda>_ _ _. answer 503), iaas_ListServers = (\<lambda>_ _ _. answer 503),
      iaas_CreateServer = (\<lambda>_ _ _. answer 503), iaas_DeleteServer = (\<lambda>_ _ _. answer 503),
      iaas_ListServerNICs = (\<lambda>_ _ _. answer 503), iaas_ListAvailabilityZones = (\<lambda>_. answer 503),
      iaas_GetNetwork = (\<lambda>_ _ _. answer 503), iaas_ListNetworks = (\<lambda>_ _ _. answer 503),
      iaas_CreateNetwork = (\<lambda>_ _ _. answer 503), iaas_DeleteNetwork = (\<lambda>_ _ _. answer 503),
      iaas_AddPublicIpToServer = (\<lambda>_ _ _ _. answer 503),
      iaas_RemovePublicIpFromServer = (\<lambda>_ _ _ _. answer 503),
      iaas_AddSecurityGroupToServer = (\<lambda>_ _ _ _. answer 503),
      iaas_RemoveSecurityGroupFromServer = (\<lambda>_ _ _ _. answer 503),
      iaas_ListPublicIPs = (\<lambda>_ _ _. answer 503), iaas_GetPublicIP = (\<lambda>_ _ _. answer 503),
      iaas_CreatePublicIP = (\<lambda>_ _ _. answer 503), iaas_DeletePublicIP = (\<lambda>_ _ _. answer 503),
      iaas_ListSecurityGroups = (\<lambda>_ _ _. answer 503), iaas_CreateSecurityGroup = (\<lambda>_ _ _. answer 503),
      iaas_DeleteSecurityGroup = (\<lambda>_ _ _. answer 503), iaas_ListSecurityGroupRules = (\<lambda>_ _ _. answer 503),
      iaas_CreateSecurityGroupRule = (\<lambda>_ _ _ _. answer 503),
      iaas_DeleteSecurityGroupRule = (\<lambda>_ _ _ _. answer 503)\<rparr>"

definition no_LBAPI :: "'a LBAPI" where
  "no_LBAPI =
     \<lparr>lba_ListLoadBalancers = (\<lambda>_ _. answer 503), lba_GetLoadBalancer = (\<lambda>_ _ _. answer 503),
      lba_CreateLoadBalancer = (\<lambda>_ _ _. answer 503), lba_DeleteLoadBalancer = (\<lambda>_ _ _. answer 503),
      lba_UpdateTargetPool = (\<lambda>_ _ _ _ _. answer 503)\<rparr>"

end
