(* ===== verification/SDK_Servers.thy ===== *)
theory SDK_Servers
  imports SDK_Laws Machine_Cloud
begin

text \<open>
  The SDK client as a provider of \<open>server_store\<close>. What the IaaS API promises about servers is the
  predicate \<open>iaas_server_laws\<close>, a hypothesis of the theorems here: a view gives the servers of the
  project with their labels, a lookup answers from it, a create adds at most one server with the
  labels of its payload, and calls on other resources leave it alone. Under it the SDK client keeps
  the promises of the interface, so that the lemmas of the machine controller hold for it.
\<close>

section \<open>What the API promises\<close>

definition listing :: "unit server_view \<Rightarrow> string gomap \<Rightarrow> sdk_Server list \<Rightarrow> bool" where
  \<comment> \<open>what is listed exists, and every server that has the labels is listed\<close>
  "listing v tags items \<longleftrightarrow>
     (\<forall>s \<in> set items. v (ss_Id s) = Some ((), ss_Labels s)) \<and>
     (\<forall>i t. v i = Some ((), t) \<longrightarrow> labelsContainTags t tags \<longrightarrow> i \<in> ss_Id ` set items)"

definition server_lookup_laws ::
  "'a IaaS \<Rightarrow> string \<Rightarrow> string \<Rightarrow> ('a \<Rightarrow> unit server_view) \<Rightarrow> ('a \<Rightarrow> bool) \<Rightarrow> bool" where
  "server_lookup_laws A p r view good \<longleftrightarrow>
     (\<forall>a. good a \<longrightarrow> view a [] = None) \<and>
     (\<forall>i. api_law good (iaas_GetServer A p r i) (\<lambda>a res a'. view a' = view a \<and>
        (case res of Inr s \<Rightarrow> ss_Id s = i \<and> view a i \<noteq> None
         | Inl e \<Rightarrow> sde_StatusCode e = Some 404 \<longrightarrow> view a i = None))) \<and>
     (\<forall>tags. api_law good (iaas_ListServers A p r (labelSelector tags)) (\<lambda>a res a'. view a' = view a \<and>
        (case res of Inr items \<Rightarrow> listing (view a) tags items
         | Inl e \<Rightarrow> sde_StatusCode e \<noteq> Some 404)))"

definition payload_labels :: "CreateServerPayload \<Rightarrow> string gomap" where
  "payload_labels payload = (case csp_Labels payload of None \<Rightarrow> [] | Some l \<Rightarrow> l)"

definition server_change_laws ::
  "'a IaaS \<Rightarrow> string \<Rightarrow> string \<Rightarrow> ('a \<Rightarrow> unit server_view) \<Rightarrow> ('a \<Rightarrow> bool) \<Rightarrow> bool" where
  "server_change_laws A p r view good \<longleftrightarrow>
     (\<forall>payload. api_law good (iaas_CreateServer A p r payload) (\<lambda>a res a'.
        (view a' = view a \<or> adds_server (view a) (view a') (payload_labels payload)) \<and>
        (\<forall>s. res = Inr s \<longrightarrow> view a' (ss_Id s) \<noteq> None))) \<and>
     (\<forall>i. api_law good (iaas_DeleteServer A p r i) (\<lambda>a res a'.
        view a' = view a \<or> view a' = (view a)(i := None)))"

definition server_frame_laws ::
  "'a IaaS \<Rightarrow> string \<Rightarrow> string \<Rightarrow> ('a \<Rightarrow> unit server_view) \<Rightarrow> ('a \<Rightarrow> bool) \<Rightarrow> bool" where
  \<comment> \<open>calls on network interfaces and security groups do not create or delete servers\<close>
  "server_frame_laws A p r view good \<longleftrightarrow>
     (\<forall>i. keeps good view (iaas_ListServerNICs A p r i)) \<and>
     (\<forall>sel. keeps good view (iaas_ListSecurityGroups A p r sel)) \<and>
     (\<forall>payload. keeps good view (iaas_CreateSecurityGroup A p r payload)) \<and>
     (\<forall>g. keeps good view (iaas_ListSecurityGroupRules A p r g)) \<and>
     (\<forall>g rule. keeps good view (iaas_CreateSecurityGroupRule A p r g rule)) \<and>
     (\<forall>i g. keeps good view (iaas_AddSecurityGroupToServer A p r i g))"

definition iaas_server_laws :: "'a SDKClient \<Rightarrow> ('a \<Rightarrow> unit server_view) \<Rightarrow> ('a \<Rightarrow> bool) \<Rightarrow> bool" where
  "iaas_server_laws c view good \<longleftrightarrow>
     server_lookup_laws (sdk_iaas c) (sdk_projectID c) (sdk_region c) view good \<and>
     server_change_laws (sdk_iaas c) (sdk_projectID c) (sdk_region c) view good \<and>
     server_frame_laws (sdk_iaas c) (sdk_projectID c) (sdk_region c) view good"

section \<open>The client over a lawful API\<close>

lemma labelsContainTags_contains: "labelsContainTags t tags \<Longrightarrow> mapContains t tags"
  by (auto simp: labelsContainTags_def mapContains_def list_all_iff lookup_or_def)

lemma labelsContainTags_cong:
  "labelsContainTags t tags \<Longrightarrow> map_of t = map_of t' \<Longrightarrow> labelsContainTags t' tags"
  by (simp add: labelsContainTags_def)

lemma map_of_tagsToSDKLabels [simp]: "map_of (tagsToSDKLabels tags) = map_of tags"
  by (induction tags) (auto simp: tagsToSDKLabels_def update_conv')

lemma payload_labels_serverPayload [simp]:
  "map_of (payload_labels (serverPayload input)) = map_of (csi_Tags input)"
  by (simp add: payload_labels_def serverPayload_def unlessEmpty_def Let_def)

lemma keeps_serverFromSDK:
  assumes "iaas_server_laws c view good"
  shows "keeps good view (serverFromSDK c server)"
  using assms unfolding serverFromSDK_def iaas_server_laws_def server_frame_laws_def
  by (intro keeps_intros) simp

lemma srv_ID_serverFromSDK:
  "run_state (serverFromSDK c server) a = (sv, a') \<Longrightarrow> srv_ID sv = ss_Id server"
  by (auto simp: serverFromSDK_def run_state_bind split: prod.splits)

lemma serversFromSDK_listed:
  assumes "iaas_server_laws c view good" and "good a"
    and "run_state (serversFromSDK c tags items) a = (svs, a')"
  shows "good a' \<and> view a' = view a \<and>
    map srv_ID svs = map ss_Id (filter (\<lambda>s. labelsContainTags (ss_Labels s) tags) items)"
  using assms(2,3)
proof (induction items arbitrary: a svs)
  case (Cons s items)
  obtain sv a1 where s: "run_state (serverFromSDK c s) a = (sv, a1)" by fastforce
  obtain rest a2 where r: "run_state (serversFromSDK c tags items) a1 = (rest, a2)" by fastforce
  have "good a1 \<and> view a1 = view a"
    using keeps_run [OF keeps_serverFromSDK [OF assms(1)] Cons.prems(1) s] .
  with Cons srv_ID_serverFromSDK [OF s] s r show ?case
    by (auto simp: run_state_bind split: if_splits)
qed simp

lemma ListServers_listed:
  assumes "iaas_server_laws c view good" and "good a" and "tags \<noteq> []"
    and "run_state (sdk_ListServersByTags c tags) a = (res, a')"
  shows "good a' \<and> view a' = view a \<and>
    (case res of Inr svs \<Rightarrow> srv_ID ` set svs = matching labelsContainTags (view a) tags
     | Inl err \<Rightarrow> \<not> IsNotFound err)"
proof -
  let ?list = "iaas_ListServers (sdk_iaas c) (sdk_projectID c) (sdk_region c) (labelSelector tags)"
  obtain out a1 where l: "run_state ?list a = (out, a1)" by fastforce
  have law: "good a1" "view a1 = view a"
    "case out of Inr items \<Rightarrow> listing (view a) tags items | Inl e \<Rightarrow> sde_StatusCode e \<noteq> Some 404"
    using assms(1,2) l unfolding iaas_server_laws_def server_lookup_laws_def by (auto dest!: api_law_run)
  show ?thesis
  proof (cases out)
    case (Inl e)
    with law assms(3,4) l show ?thesis
      by (auto simp: sdk_ListServersByTags_def onOk_def sdk_def run_state_bind)
  next
    case (Inr items)
    obtain svs a2 where s: "run_state (serversFromSDK c tags items) a1 = (svs, a2)" by fastforce
    from serversFromSDK_listed [OF assms(1) law(1) s] law(2) have k: "good a2" "view a2 = view a"
      and "set (map srv_ID svs) = set (map ss_Id (filter (\<lambda>s. labelsContainTags (ss_Labels s) tags) items))"
      by simp_all
    then have ids: "srv_ID ` set svs = ss_Id ` {s \<in> set items. labelsContainTags (ss_Labels s) tags}"
      by simp
    from law(3) Inr have "srv_ID ` set svs = matching labelsContainTags (view a) tags"
      unfolding ids listing_def matching_def by (auto simp: image_iff) (metis option.inject prod.inject)+
    with k Inr assms(3,4) l s show ?thesis
      by (auto simp: sdk_ListServersByTags_def onOk_def sdk_def run_state_bind)
  qed
qed

lemma FindServer_found:
  assumes "iaas_server_laws c view good" and "good a"
    and "run_state (sdk_FindServerByTags c tags) a = (res, a')"
  shows "good a' \<and> view a' = view a \<and>
    (case res of Inr sv \<Rightarrow> srv_ID sv \<in> matching labelsContainTags (view a) tags
     | Inl err \<Rightarrow> IsNotFound err \<longrightarrow> tags \<noteq> [] \<and> matching labelsContainTags (view a) tags = {})"
proof (cases "tags = []")
  case True
  with assms(2,3) show ?thesis
    by (auto simp: sdk_FindServerByTags_def sdk_ListServersByTags_def onOk_def run_state_bind IsNotFound_def)
next
  case False
  obtain out a1 where l: "run_state (sdk_ListServersByTags c tags) a = (out, a1)" by fastforce
  from ListServers_listed [OF assms(1,2) False l] assms(3) l False show ?thesis
    by (auto simp: sdk_FindServerByTags_def onOk_def run_state_bind exactlyOne_def IsNotFound_def
        split: sum.splits list.splits)
qed

lemma CreateServer_adds:
  assumes "iaas_server_laws c view good" and "good a"
    and "run_state (sdk_CreateServer c input) a = (res, a')"
  shows "good a' \<and> (view a' = view a \<or> adds_server (view a) (view a') (csi_Tags input)) \<and>
    (\<forall>sv. res = Inr sv \<longrightarrow> view a' (srv_ID sv) \<noteq> None)"
proof -
  obtain found a1 where f: "run_state (sdk_FindServerByTags c (csi_Tags input)) a = (found, a1)"
    by fastforce
  note find = FindServer_found [OF assms(1,2) f]
  let ?create = "iaas_CreateServer (sdk_iaas c) (sdk_projectID c) (sdk_region c) (serverPayload input)"
  obtain out a2 where r: "run_state ?create a1 = (out, a2)" by fastforce
  have "api_law good ?create (\<lambda>a res a'.
        (view a' = view a \<or> adds_server (view a) (view a') (payload_labels (serverPayload input))) \<and>
        (\<forall>s. res = Inr s \<longrightarrow> view a' (ss_Id s) \<noteq> None))"
    using assms(1) by (simp add: iaas_server_laws_def server_change_laws_def)
  from api_law_run [OF this _ r] find
  have create: "good a2" "view a2 = view a \<or> adds_server (view a) (view a2) (csi_Tags input)"
    "\<And>s. out = Inr s \<Longrightarrow> view a2 (ss_Id s) \<noteq> None"
    by (auto simp: adds_server_def)
  show ?thesis
  proof (cases found)
    case (Inr sv)
    with find assms(3) f show ?thesis
      by (auto simp: sdk_CreateServer_def orElse_def run_state_bind matching_def)
  next
    case (Inl err)
    have "good a' \<and> view a' = view a2 \<and> srv_ID sv = ss_Id s"
      if "run_state (serverFromSDK c s) a2 = (sv, a')" for s sv a'
      using keeps_run [OF keeps_serverFromSDK [OF assms(1)] create(1) that] srv_ID_serverFromSDK [OF that]
      by simp
    with create find Inl assms(3) f r show ?thesis
      by (cases out) (auto simp: sdk_CreateServer_def orElse_def onOk_def sdk_def run_state_bind
          split: if_splits prod.splits)
  qed
qed

lemma keeps_EnsureNodeSSHAccess:
  assumes "iaas_server_laws c view good"
  shows "keeps good view (sdk_EnsureNodeSSHAccess c input)"
  using assms
  unfolding sdk_EnsureNodeSSHAccess_def ensureNodeSSHSecurityGroup_def findSecurityGroupByTags_def
    sdk_ListSecurityGroupsByTags_def createSecurityGroup_def ensureNodeSSHSecurityGroupRule_def
    listRules_def createRule_def addSecurityGroupToServer_def iaas_server_laws_def server_frame_laws_def
  by (intro keeps_intros) simp_all

lemma GetServer_law:
  assumes "iaas_server_laws c view good" and "good a"
    and "run_state (sdk_GetServer c i) a = (res, a')"
  shows "good a' \<and> view a' = view a \<and>
    (case res of Inr sv \<Rightarrow> srv_ID sv = i \<and> view a i \<noteq> None
     | Inl err \<Rightarrow> IsNotFound err \<longrightarrow> view a i = None)"
proof -
  let ?get = "iaas_GetServer (sdk_iaas c) (sdk_projectID c) (sdk_region c) i"
  obtain out a1 where r: "run_state ?get a = (out, a1)" by fastforce
  have law: "good a1" "view a1 = view a"
    "case out of Inr s \<Rightarrow> ss_Id s = i \<and> view a i \<noteq> None
     | Inl e \<Rightarrow> sde_StatusCode e = Some 404 \<longrightarrow> view a i = None"
    using assms(1,2) r unfolding iaas_server_laws_def server_lookup_laws_def by (auto dest!: api_law_run)
  have "good a' \<and> view a' = view a1 \<and> srv_ID sv = ss_Id s"
    if "run_state (serverFromSDK c s) a1 = (sv, a')" for s sv a'
    using keeps_run [OF keeps_serverFromSDK [OF assms(1)] law(1) that] srv_ID_serverFromSDK [OF that]
    by simp
  with law assms(3) r show ?thesis
    by (cases out) (auto simp: sdk_GetServer_def onOk_def sdk_def run_state_bind split: prod.splits)
qed

lemma DeleteServer_law:
  assumes "iaas_server_laws c view good" and "good a"
    and "run_state (sdk_DeleteServer c i) a = (res, a')"
  shows "good a' \<and> (view a' = view a \<or> view a' = (view a)(i := None))"
proof -
  have "api_law good (iaas_DeleteServer (sdk_iaas c) (sdk_projectID c) (sdk_region c) i)
      (\<lambda>a res a'. view a' = view a \<or> view a' = (view a)(i := None))"
    using assms(1) by (simp add: iaas_server_laws_def server_change_laws_def)
  from api_law_run [OF this assms(2)] assms(3) show ?thesis
    by (auto simp: sdk_DeleteServer_def sdk_def run_state_bind split: prod.splits)
qed

lemma sdk_Client_sel [simp]:
  "GetServer (sdk_Client c) = sdk_GetServer c"
  "FindServerByTags (sdk_Client c) = sdk_FindServerByTags c"
  "CreateServer (sdk_Client c) = sdk_CreateServer c"
  "DeleteServer (sdk_Client c) = sdk_DeleteServer c"
  "EnsureNodeSSHAccess (sdk_Client c) = sdk_EnsureNodeSSHAccess c"
  by (simp_all add: sdk_Client_def)

lemma sdk_server_store:
  assumes "iaas_server_laws c view good"
  shows "server_store (sdk_Client c) labelsContainTags view good"
proof
  fix a i vt assume "good a" "view a i = Some vt"
  with assms show "i \<noteq> []"
    by (auto simp: iaas_server_laws_def server_lookup_laws_def)
qed (auto dest: GetServer_law [OF assms] FindServer_found [OF assms] CreateServer_adds [OF assms]
      DeleteServer_law [OF assms] keeps_run [OF keeps_EnsureNodeSSHAccess [OF assms]]
      intro: labelsContainTags_contains labelsContainTags_cong)

section \<open>An API in memory\<close>

text \<open>
  A concrete instance of the parameter \<open>IaaS\<close> for the witnesses: a list of servers. Listing ignores
  the selector, which the laws allow: the client filters what it gets. Calls that the witnesses do
  not need answer 503.
\<close>

definition mem_new :: "sdk_Server list \<Rightarrow> CreateServerPayload \<Rightarrow> sdk_Server" where
  "mem_new ss payload =
     \<lparr>ss_Id = replicate (Suc (sum_list (map (\<lambda>s. length (ss_Id s)) ss))) CHR ''s'',
      ss_Name = csp_Name payload, ss_Status = ''ACTIVE'', ss_PowerStatus = ''RUNNING'',
      ss_AvailabilityZone = [], ss_Labels = payload_labels payload\<rparr>"

definition mem_IaaS :: "sdk_Server list IaaS" where
  "mem_IaaS = no_IaaS
     \<lparr>iaas_GetServer := (\<lambda>_ _ i. do {
        ss \<leftarrow> State_Monad.get;
        case find (\<lambda>s. ss_Id s = i) ss of None \<Rightarrow> answer 404 | Some s \<Rightarrow> ret (Inr s) }),
      iaas_ListServers := (\<lambda>_ _ _. do { ss \<leftarrow> State_Monad.get; ret (Inr ss) }),
      iaas_CreateServer := (\<lambda>_ _ payload. State (\<lambda>ss. (Inr (mem_new ss payload), ss @ [mem_new ss payload]))),
      iaas_DeleteServer := (\<lambda>_ _ i. State (\<lambda>ss. (Inr (), filter (\<lambda>s. ss_Id s \<noteq> i) ss))),
      iaas_ListServerNICs := (\<lambda>_ _ _. ret (Inr []))\<rparr>"

definition mem_SDKClient :: "sdk_Server list SDKClient" where
  "mem_SDKClient =
     \<lparr>sdk_projectID = ''proj'', sdk_region = ''eu01'', sdk_iaas = mem_IaaS, sdk_lb = no_LBAPI\<rparr>"

definition mem_view :: "sdk_Server list \<Rightarrow> unit server_view" where
  "mem_view ss = map_of (map (\<lambda>s. (ss_Id s, ((), ss_Labels s))) ss)"

definition mem_good :: "sdk_Server list \<Rightarrow> bool" where
  "mem_good ss \<longleftrightarrow> distinct (map ss_Id ss) \<and> [] \<notin> set (map ss_Id ss)"

lemma mem_view_Some_iff:
  "mem_good ss \<Longrightarrow> mem_view ss i = Some ((), t) \<longleftrightarrow> (\<exists>s \<in> set ss. ss_Id s = i \<and> ss_Labels s = t)"
  by (auto simp: mem_view_def mem_good_def comp_def dest!: map_of_SomeD)

lemma mem_view_None_iff: "mem_view ss i = None \<longleftrightarrow> i \<notin> ss_Id ` set ss"
  by (auto simp: mem_view_def map_of_eq_None_iff image_iff)

lemma mem_new_fresh: "ss_Id (mem_new ss payload) \<notin> ss_Id ` set ss"
proof
  assume "ss_Id (mem_new ss payload) \<in> ss_Id ` set ss"
  then obtain s where s: "s \<in> set ss" "ss_Id s = ss_Id (mem_new ss payload)" by auto
  then have "length (ss_Id s) = Suc (sum_list (map (\<lambda>s. length (ss_Id s)) ss))"
    by (simp add: mem_new_def)
  moreover have "length (ss_Id s) \<le> sum_list (map (\<lambda>s. length (ss_Id s)) ss)"
    using s(1) by (intro member_le_sum_list) auto
  ultimately show False by simp
qed

lemma mem_new_ID: "ss_Id (mem_new ss payload) \<noteq> []"
  by (simp add: mem_new_def)

lemma mem_create:
  assumes "mem_good ss"
  shows "mem_good (ss @ [mem_new ss payload])"
    and "mem_view (ss @ [mem_new ss payload]) =
      (mem_view ss)(ss_Id (mem_new ss payload) \<mapsto> ((), payload_labels payload))"
proof -
  show "mem_good (ss @ [mem_new ss payload])"
    using assms mem_new_fresh [of ss payload] mem_new_ID [of ss payload] by (auto simp: mem_good_def)
  have "mem_view ss (ss_Id (mem_new ss payload)) = None"
    using mem_new_fresh by (simp add: mem_view_None_iff)
  then show "mem_view (ss @ [mem_new ss payload]) =
      (mem_view ss)(ss_Id (mem_new ss payload) \<mapsto> ((), payload_labels payload))"
    by (auto simp: mem_view_def map_add_def mem_new_def fun_eq_iff split: option.split)
qed

lemma mem_create_adds:
  assumes "mem_good ss"
  shows "adds_server (mem_view ss) (mem_view (ss @ [mem_new ss payload])) (payload_labels payload)"
  unfolding adds_server_def mem_create(2) [OF assms]
  by (rule exI [of _ "ss_Id (mem_new ss payload)"], rule exI [of _ "()"], rule exI [of _ "payload_labels payload"])
    (simp add: mem_new_ID mem_new_fresh mem_view_None_iff)

lemma mem_delete:
  assumes "mem_good ss"
  shows "mem_good (filter (\<lambda>s. ss_Id s \<noteq> i) ss)"
    and "mem_view (filter (\<lambda>s. ss_Id s \<noteq> i) ss) = (mem_view ss)(i := None)"
  using assms by (induction ss) (auto simp: mem_view_def mem_good_def fun_eq_iff)

lemma mem_laws: "iaas_server_laws mem_SDKClient mem_view mem_good"
proof -
  have get: "api_law mem_good (iaas_GetServer mem_IaaS p r i) (\<lambda>a res a'. mem_view a' = mem_view a \<and>
        (case res of Inr s \<Rightarrow> ss_Id s = i \<and> mem_view a i \<noteq> None
         | Inl e \<Rightarrow> sde_StatusCode e = Some 404 \<longrightarrow> mem_view a i = None))" for p r i
    by (auto simp: api_law_def mem_IaaS_def wp_simps answer_def mem_view_None_iff find_None_iff find_Some_iff
        image_iff split: option.split)
  have lst: "listing (mem_view ss) tags ss" if "mem_good ss" for ss tags
    using that by (auto simp: listing_def mem_view_Some_iff)
  have create: "api_law mem_good (iaas_CreateServer mem_IaaS p r payload) (\<lambda>a res a'.
        (mem_view a' = mem_view a \<or> adds_server (mem_view a) (mem_view a') (payload_labels payload)) \<and>
        (\<forall>s. res = Inr s \<longrightarrow> mem_view a' (ss_Id s) \<noteq> None))" for p r payload
    by (simp add: api_law_def mem_IaaS_def wp_simps mem_create(1) mem_create_adds mem_view_None_iff)
  have "server_frame_laws mem_IaaS p r mem_view mem_good" for p r
    by (auto simp: server_frame_laws_def mem_IaaS_def no_IaaS_def intro: keeps_return keeps_answer)
  moreover have "server_lookup_laws mem_IaaS p r mem_view mem_good" for p r
    unfolding server_lookup_laws_def using get lst
    by (auto simp: api_law_def mem_IaaS_def wp_simps mem_view_None_iff mem_good_def)
  moreover have "server_change_laws mem_IaaS p r mem_view mem_good" for p r
    unfolding server_change_laws_def using create
    by (auto simp: api_law_def mem_IaaS_def wp_simps mem_delete)
  ultimately show ?thesis by (simp add: iaas_server_laws_def mem_SDKClient_def)
qed

section \<open>The properties\<close>

text \<open>
  C18: the SDK client refines the abstract server store. Over an API that keeps the promises of
  \<open>iaas_server_laws\<close>, the client's \<open>GetServer\<close>, \<open>FindServerByTags\<close>, \<open>CreateServer\<close>, \<open>DeleteServer\<close> and
  \<open>EnsureNodeSSHAccess\<close> have the behaviour that the interface \<open>server_store\<close> promises to the machine
  controller.
\<close>

theorem sdk_refines_server_store:
  assumes "iaas_server_laws c view good"
  shows "server_store (sdk_Client c) labelsContainTags view good"
  by (rule sdk_server_store [OF assms])

theorem sdk_refines_server_store_witness:
  "server_store (sdk_Client mem_SDKClient) labelsContainTags mem_view mem_good"
  by (rule sdk_refines_server_store [OF mem_laws])

text \<open>
  With the SDK client, too, a machine never gets two servers: over a lawful API, and starting
  with at most one server whose labels match the selector of a machine, there is still at most one
  after any number of passes over this and other machines, each on an arbitrary, possibly stale
  version of its objects, as long as the labels of the machine itself do not change. A create that
  reports an error may have created the server.
\<close>

theorem sdk_machine_never_duplicated:
  assumes "iaas_server_laws c view good" and "uses_client (r_CloudClientFactory r) (sdk_Client c)"
    and "good a" and "at_most_one (matching labelsContainTags (view a) (MachineTags cl ns m uid ls))"
    and "machine_passes r (fixed_labels uid (MachineTags cl ns m uid ls)) a a'"
  shows "at_most_one (matching labelsContainTags (view a') (MachineTags cl ns m uid ls))"
  using server_store.machine_passes_one [OF sdk_server_store [OF assms(1)] assms(2,5,3,4)] by simp

definition sdk_Reconciler :: "(sdk_Server list, api) Reconciler" where
  "sdk_Reconciler =
     \<lparr>r_lib = std_lib 0, r_sha256 = (\<lambda>_. replicate 32 0), r_Client = sample_Kube,
      r_CloudClientFactory = Some (\<lambda>creds. Inr (sdk_Client mem_SDKClient))\<rparr>"

definition sdk_state :: "(sdk_Server list, api, StackitMachine) rstate" where
  "sdk_state = \<lparr>cloud = [], kube = sample_api,
     obj = add_machine_finalizer (std_lib 0) sample_StackitMachine, effects = []\<rparr>"

theorem sdk_machine_never_duplicated_witness:
  "let ss = cloud (snd (run_state (machine_reconcileScope sdk_Reconciler sample_scope) sdk_state))
   in map ss_Id ss = [''s''] \<and>
      at_most_one (matching labelsContainTags (mem_view ss) (MachineTags ''c'' ''ns'' ''m'' ''uid-m'' []))"
proof -
  let ?t = "MachineTags ''c'' ''ns'' ''m'' ''uid-m'' []"
  let ?run = "run_state (machine_reconcileScope sdk_Reconciler sample_scope) sdk_state"
  have "fixed_labels ''uid-m'' ?t sample_scope (obj sdk_state)" by code_simp
  with machine_passes.one_more [OF machine_passes.no_pass, of "fixed_labels ''uid-m'' ?t"
      sample_scope sdk_state sdk_Reconciler "fst ?run" "snd ?run"]
  have passes: "machine_passes sdk_Reconciler (fixed_labels ''uid-m'' ?t) [] (cloud (snd ?run))"
    by (simp add: sdk_state_def)
  have "uses_client (r_CloudClientFactory sdk_Reconciler) (sdk_Client mem_SDKClient)"
    by (simp add: uses_client_def sdk_Reconciler_def)
  moreover have "mem_good []" by (simp add: mem_good_def)
  moreover have "at_most_one (matching labelsContainTags (mem_view []) ?t)"
    by (simp add: matching_def mem_view_def)
  ultimately have "at_most_one (matching labelsContainTags (mem_view (cloud (snd ?run))) ?t)"
    by (rule sdk_machine_never_duplicated [OF mem_laws _ _ _ passes])
  moreover have "map ss_Id (cloud (snd ?run)) = [''s'']" by code_simp
  ultimately show ?thesis by simp
qed

end
