(* ===== verification/SDK_System.thy ===== *)
theory SDK_System
  imports SDK_Servers System Cluster_Safety
begin

text \<open>
  Both controllers over the SDK client: with an API that keeps its promises, no interleaving of
  passes duplicates the network of a cluster or the server of a machine or bastion.
\<close>

section \<open>What the API promises\<close>

abbreviation leaves :: "('a \<Rightarrow> bool) \<Rightarrow> ('a \<Rightarrow> 'w) \<Rightarrow> ('a, 'r) state \<Rightarrow> bool" where
  "leaves \<equiv> SDK_Laws.keeps"

definition network_listing :: "unit server_view \<Rightarrow> string gomap \<Rightarrow> sdk_Network list \<Rightarrow> bool" where
  \<comment> \<open>what is listed exists, and every network that has the labels is listed\<close>
  "network_listing v tags items \<longleftrightarrow>
     (\<forall>n \<in> set items. v (sn_Id n) = Some ((), sn_Labels n)) \<and>
     (\<forall>i t. v i = Some ((), t) \<longrightarrow> labelsContainTags t tags \<longrightarrow> i \<in> sn_Id ` set items)"

definition network_labels :: "CreateNetworkPayload \<Rightarrow> string gomap" where
  "network_labels payload = (case cnp_Labels payload of None \<Rightarrow> [] | Some l \<Rightarrow> l)"

definition iaas_network_laws :: "'a SDKClient \<Rightarrow> ('a \<Rightarrow> unit server_view) \<Rightarrow> ('a \<Rightarrow> bool) \<Rightarrow> bool" where
  \<comment> \<open>the view gives the networks of the project with their labels; a create that fails may have
    created the network\<close>
  "iaas_network_laws c nets good \<longleftrightarrow>
     (\<forall>tags. api_law good (iaas_ListNetworks (sdk_iaas c) (sdk_projectID c) (sdk_region c) (labelSelector tags))
        (\<lambda>a res a'. nets a' = nets a \<and>
          (case res of Inr items \<Rightarrow> network_listing (nets a) tags items | Inl e \<Rightarrow> sde_StatusCode e \<noteq> Some 404))) \<and>
     (\<forall>payload. api_law good (iaas_CreateNetwork (sdk_iaas c) (sdk_projectID c) (sdk_region c) payload)
        (\<lambda>a res a'. nets a' = nets a \<or> adds_server (nets a) (nets a') (network_labels payload))) \<and>
     (\<forall>i. api_law good (iaas_DeleteNetwork (sdk_iaas c) (sdk_projectID c) (sdk_region c) i)
        (\<lambda>a res a'. nets a' = nets a \<or> nets a' = (nets a)(i := None)))"

definition iaas_separate_laws ::
  "'a SDKClient \<Rightarrow> ('a \<Rightarrow> unit server_view) \<Rightarrow> ('a \<Rightarrow> unit server_view) \<Rightarrow> ('a \<Rightarrow> bool) \<Rightarrow> bool" where
  \<comment> \<open>calls on servers leave the networks alone, and calls on networks the servers\<close>
  "iaas_separate_laws c srvs nets good \<longleftrightarrow> (let A = sdk_iaas c; p = sdk_projectID c; r = sdk_region c in
     (\<forall>i. leaves good nets (iaas_GetServer A p r i)) \<and> (\<forall>sel. leaves good nets (iaas_ListServers A p r sel)) \<and>
     (\<forall>pl. leaves good nets (iaas_CreateServer A p r pl)) \<and> (\<forall>i. leaves good nets (iaas_DeleteServer A p r i)) \<and>
     (\<forall>sel. leaves good srvs (iaas_ListNetworks A p r sel)) \<and>
     (\<forall>pl. leaves good srvs (iaas_CreateNetwork A p r pl)) \<and> (\<forall>i. leaves good srvs (iaas_DeleteNetwork A p r i)))"

definition other_calls_laws :: "'a SDKClient \<Rightarrow> ('a \<Rightarrow> 'w) \<Rightarrow> ('a \<Rightarrow> bool) \<Rightarrow> bool" where
  \<comment> \<open>no other call creates or deletes a server or a network\<close>
  "other_calls_laws c view good \<longleftrightarrow>
     (let A = sdk_iaas c; L = sdk_lb c; p = sdk_projectID c; r = sdk_region c in
     (\<forall>i. leaves good view (iaas_GetNetwork A p r i)) \<and> leaves good view (iaas_ListAvailabilityZones A r) \<and>
     (\<forall>i. leaves good view (iaas_ListServerNICs A p r i)) \<and>
     (\<forall>i q. leaves good view (iaas_AddPublicIpToServer A p r i q)) \<and>
     (\<forall>i q. leaves good view (iaas_RemovePublicIpFromServer A p r i q)) \<and>
     (\<forall>i g. leaves good view (iaas_AddSecurityGroupToServer A p r i g)) \<and>
     (\<forall>i g. leaves good view (iaas_RemoveSecurityGroupFromServer A p r i g)) \<and>
     (\<forall>sel. leaves good view (iaas_ListPublicIPs A p r sel)) \<and> (\<forall>i. leaves good view (iaas_GetPublicIP A p r i)) \<and>
     (\<forall>ls. leaves good view (iaas_CreatePublicIP A p r ls)) \<and> (\<forall>i. leaves good view (iaas_DeletePublicIP A p r i)) \<and>
     (\<forall>sel. leaves good view (iaas_ListSecurityGroups A p r sel)) \<and>
     (\<forall>pl. leaves good view (iaas_CreateSecurityGroup A p r pl)) \<and>
     (\<forall>g. leaves good view (iaas_DeleteSecurityGroup A p r g)) \<and>
     (\<forall>g. leaves good view (iaas_ListSecurityGroupRules A p r g)) \<and>
     (\<forall>g pl. leaves good view (iaas_CreateSecurityGroupRule A p r g pl)) \<and>
     (\<forall>g i. leaves good view (iaas_DeleteSecurityGroupRule A p r g i)) \<and>
     leaves good view (lba_ListLoadBalancers L p r) \<and> (\<forall>i. leaves good view (lba_GetLoadBalancer L p r i)) \<and>
     (\<forall>pl. leaves good view (lba_CreateLoadBalancer L p r pl)) \<and>
     (\<forall>i. leaves good view (lba_DeleteLoadBalancer L p r i)) \<and>
     (\<forall>i n pl. leaves good view (lba_UpdateTargetPool L p r i n pl)))"

definition iaas_system_laws ::
  "'a SDKClient \<Rightarrow> ('a \<Rightarrow> unit server_view) \<Rightarrow> ('a \<Rightarrow> unit server_view) \<Rightarrow> ('a \<Rightarrow> bool) \<Rightarrow> bool" where
  "iaas_system_laws c srvs nets good \<longleftrightarrow> iaas_server_laws c srvs good \<and> iaas_network_laws c nets good \<and>
     iaas_separate_laws c srvs nets good \<and> other_calls_laws c (\<lambda>a. (srvs a, nets a)) good"

section \<open>Operations that create nothing\<close>

definition sdk_unique ::
  "('a \<Rightarrow> unit server_view) \<Rightarrow> ('a \<Rightarrow> unit server_view) \<Rightarrow> ('a \<Rightarrow> bool) \<Rightarrow> string gomap \<Rightarrow> string gomap \<Rightarrow> 'a \<Rightarrow> bool" where
  \<comment> \<open>at most one network matches \<open>T\<close> and at most one server matches \<open>S\<close>\<close>
  "sdk_unique srvs nets good T S a \<longleftrightarrow> good a \<and>
     at_most_one (matching labelsContainTags (nets a) T) \<and> at_most_one (matching labelsContainTags (srvs a) S)"

abbreviation steady :: "('a \<Rightarrow> bool) \<Rightarrow> ('a, 'r) state \<Rightarrow> bool" where
  "steady I m \<equiv> leaves I (\<lambda>_. ()) m"

lemma steady_iff: "Fake_Cloud.keeps I m \<longleftrightarrow> steady I m"
  by (auto simp: Fake_Cloud.keeps_def SDK_Laws.keeps_def api_law_def wp_def split_def)

lemma steadyI:
  assumes "\<And>a res a'. I a \<Longrightarrow> run_state m a = (res, a') \<Longrightarrow> I a'"
  shows "steady I m"
  using assms by (auto simp: SDK_Laws.keeps_def api_law_def wp_def split: prod.split)

lemma leaves_steady:
  "leaves good (\<lambda>a. (srvs a, nets a)) m \<Longrightarrow> steady (sdk_unique srvs nets good T S) m"
  by (rule steadyI) (auto simp: sdk_unique_def dest: keeps_run)

lemma other_calls:
  assumes "other_calls_laws c view good"
  shows "leaves good view (sdk_GetNetwork c i)" "leaves good view (sdk_ListAvailabilityZones c)"
    "leaves good view (serverFromSDK c server)" "leaves good view (ensureBastionSecurityGroup c bin)"
    "leaves good view (ensureNodeSSHSecurityGroup c nin)" "leaves good view (findSecurityGroupByTags c tags)"
    "leaves good view (findPublicIPByTags c tags)" "leaves good view (ensurePublicIP c tags)"
    "leaves good view (attachPublicIP c i ip)" "leaves good view (addSecurityGroupToServer c i g)"
    "leaves good view (removeSecurityGroupFromServer c i g)" "leaves good view (listRules c g)"
    "leaves good view (createRule c g rule)" "leaves good view (ensureNodeSSHSecurityGroupRule c g g')"
  using assms
  unfolding other_calls_laws_def Let_def sdk_GetNetwork_def sdk_ListAvailabilityZones_def serverFromSDK_def
    ensureBastionSecurityGroup_def ensureNodeSSHSecurityGroup_def findSecurityGroupByTags_def
    sdk_ListSecurityGroupsByTags_def createSecurityGroup_def findPublicIPByTags_def sdk_ListPublicIPsByTags_def
    ensurePublicIP_def attachPublicIP_def getPublicIP_def addSecurityGroupToServer_def
    removeSecurityGroupFromServer_def listRules_def createRule_def ensureNodeSSHSecurityGroupRule_def
  by (intro keeps_intros; simp)+

lemma rule_loops:
  assumes "other_calls_laws c view good"
  shows "leaves good view (deleteRules c g rs)" "leaves good view (createCIDRRules c g ex ds cidrs)"
    "leaves good view (removeFromServers c g svs)"
proof -
  have del: "leaves good view (iaas_DeleteSecurityGroupRule (sdk_iaas c) (sdk_projectID c) (sdk_region c) g i)" for i
    using assms by (simp add: other_calls_laws_def Let_def)
  show "leaves good view (deleteRules c g rs)"
    by (induction rs) (auto intro!: keeps_intros del)
  show "leaves good view (createCIDRRules c g ex ds cidrs)"
    by (induction cidrs arbitrary: ds) (auto intro!: keeps_intros other_calls [OF assms])
  show "leaves good view (removeFromServers c g svs)"
    by (induction svs) (auto intro!: keeps_intros other_calls [OF assms])
qed

lemma other_operations:
  assumes "other_calls_laws c view good"
  shows "leaves good view (ensureBastionSecurityGroupRules c g cidrs)" "leaves good view (deleteSecurityGroup c g)"
    "leaves good view (sdk_EnsureNodeSSHAccess c nin)"
  unfolding ensureBastionSecurityGroupRules_def deleteSecurityGroup_def deleteSecurityGroupRules_def
    sdk_EnsureNodeSSHAccess_def
  by (intro keeps_intros other_calls [OF assms] rule_loops [OF assms];
      use assms in \<open>simp add: other_calls_laws_def Let_def\<close>)+

lemma balancer_operations:
  assumes "other_calls_laws c view good"
  shows "leaves good view (sdk_ListAPIServerLoadBalancersByTags c tags)"
    "leaves good view (EnsureAPIServerLoadBalancer (sdk_Client c) lin)"
    "leaves good view (sdk_DeleteAPIServerLoadBalancer c i)"
    "leaves good view (sdk_SetAPIServerLoadBalancerTargets c i port ts)"
proof -
  have pool: "leaves good view (case p of None \<Rightarrow> m | Some x \<Rightarrow> f x)"
    if "leaves good view m" "\<And>x. leaves good view (f x)" for p and m :: "(_, 'r) state" and f :: "'p \<Rightarrow> _"
    using that by (cases p) simp_all
  show "leaves good view (sdk_ListAPIServerLoadBalancersByTags c tags)"
    "leaves good view (EnsureAPIServerLoadBalancer (sdk_Client c) lin)"
    "leaves good view (sdk_DeleteAPIServerLoadBalancer c i)"
    "leaves good view (sdk_SetAPIServerLoadBalancerTargets c i port ts)"
    unfolding sdk_ListAPIServerLoadBalancersByTags_def sdk_EnsureAPIServerLoadBalancer_def
      findLoadBalancerByTags_def sdk_DeleteAPIServerLoadBalancer_def sdk_SetAPIServerLoadBalancerTargets_def
      updateAPIServerTargetPool_def sdk_Client_def Client.select_convs Let_def
    by (intro keeps_intros pool; use assms in \<open>simp add: other_calls_laws_def Let_def\<close>)+
qed

lemma leaves_pair: "leaves good f m \<Longrightarrow> leaves good g m \<Longrightarrow> leaves good (\<lambda>a. (f a, g a)) m"
  by (auto simp: SDK_Laws.keeps_def api_law_def wp_def split: prod.splits)

lemma leaves_fst: "leaves good (\<lambda>a. (f a, g a)) m \<Longrightarrow> leaves good f m"
  and leaves_snd: "leaves good (\<lambda>a. (f a, g a)) m \<Longrightarrow> leaves good g m"
  by (auto simp: SDK_Laws.keeps_def api_law_def wp_def split: prod.splits)

lemma leavesI:
  assumes "\<And>a res a'. good a \<Longrightarrow> run_state m a = (res, a') \<Longrightarrow> good a' \<and> view a' = view a"
  shows "leaves good view m"
  using assms by (auto simp: SDK_Laws.keeps_def api_law_def wp_def split: prod.split)

section \<open>Servers\<close>

lemma nets_servers:
  assumes "iaas_system_laws c srvs nets good"
  shows "leaves good nets (sdk_GetServer c i)" "leaves good nets (sdk_ListServersByTags c tags)"
    "leaves good nets (sdk_FindServerByTags c tags)" "leaves good nets (sdk_CreateServer c sin)"
    "leaves good nets (sdk_DeleteServer c i)"
proof -
  have s: "leaves good nets (serverFromSDK c sv)" for sv
    using assms other_calls(3) leaves_snd unfolding iaas_system_laws_def by blast
  have l: "leaves good nets (serversFromSDK c tags items)" for tags items
    by (induction items) (auto intro!: keeps_intros s)
  show "leaves good nets (sdk_GetServer c i)" "leaves good nets (sdk_ListServersByTags c tags)"
    "leaves good nets (sdk_FindServerByTags c tags)" "leaves good nets (sdk_CreateServer c sin)"
    "leaves good nets (sdk_DeleteServer c i)"
    unfolding sdk_GetServer_def sdk_ListServersByTags_def sdk_FindServerByTags_def sdk_CreateServer_def
      sdk_DeleteServer_def
    by (intro keeps_intros s l; use assms in \<open>simp add: iaas_system_laws_def iaas_separate_laws_def Let_def\<close>)+
qed

lemma lookups_leave:
  assumes "iaas_system_laws c srvs nets good"
  shows "leaves good (\<lambda>a. (srvs a, nets a)) (sdk_GetServer c i)"
    "leaves good (\<lambda>a. (srvs a, nets a)) (sdk_FindServerByTags c tags)"
    "leaves good (\<lambda>a. (srvs a, nets a)) (sdk_ListServersByTags c tags)"
proof -
  have laws: "iaas_server_laws c srvs good" using assms by (simp add: iaas_system_laws_def)
  show "leaves good (\<lambda>a. (srvs a, nets a)) (sdk_GetServer c i)"
    by (rule leaves_pair, rule leavesI) (use nets_servers [OF assms] GetServer_law [OF laws] in blast)+
  show "leaves good (\<lambda>a. (srvs a, nets a)) (sdk_FindServerByTags c tags)"
    by (rule leaves_pair, rule leavesI) (use nets_servers [OF assms] FindServer_found [OF laws] in blast)+
  show "leaves good (\<lambda>a. (srvs a, nets a)) (sdk_ListServersByTags c tags)"
  proof (cases "tags = []")
    case True
    then show ?thesis by (simp add: sdk_ListServersByTags_def keeps_intros)
  next
    case False
    show ?thesis
      by (rule leaves_pair, rule leavesI)
        (use nets_servers [OF assms] ListServers_listed [OF laws _ False] in blast)+
  qed
qed

lemma unique_adds:
  assumes "adds_server v v' t" and "matching labelsContainTags v t = {}" and "own_or_other t S"
    and "at_most_one (matching labelsContainTags v S)"
  shows "at_most_one (matching labelsContainTags v' S)"
proof (cases "t = S")
  case True
  with assms(1,2) show ?thesis by (simp add: adds_server_unique)
next
  case False
  with assms(3) have other: "\<not> mapContains t S" by (simp add: own_or_other_def)
  from assms(1) obtain i sv t' where t': "map_of t' = map_of t" "v' = v(i \<mapsto> (sv, t'))"
    by (auto simp: adds_server_def)
  have "\<not> labelsContainTags t' S"
    using other labelsContainTags_contains labelsContainTags_cong [OF _ t'(1)] by blast
  then have "matching labelsContainTags v' S \<subseteq> matching labelsContainTags v S"
    by (auto simp: t'(2) matching_def split: if_splits)
  with assms(4) show ?thesis by (rule at_most_one_subset)
qed

lemma CreateServer_steady:
  assumes "iaas_system_laws c srvs nets good" and "own_or_other (csi_Tags inp) S"
  shows "steady (sdk_unique srvs nets good T S) (sdk_CreateServer c inp)"
proof (rule steadyI)
  fix a res a' assume u: "sdk_unique srvs nets good T S a" and run: "run_state (sdk_CreateServer c inp) a = (res, a')"
  have laws: "iaas_server_laws c srvs good" using assms(1) by (simp add: iaas_system_laws_def)
  have good: "good a" using u by (simp add: sdk_unique_def)
  obtain found a1 where f: "run_state (sdk_FindServerByTags c (csi_Tags inp)) a = (found, a1)" by fastforce
  note find = FindServer_found [OF laws good f]
  have "good a'" "srvs a' = srvs a \<or> adds_server (srvs a) (srvs a') (csi_Tags inp)"
    using CreateServer_adds [OF laws good run] by auto
  moreover have "srvs a' = srvs a \<or> matching labelsContainTags (srvs a) (csi_Tags inp) = {}"
    using find f run by (cases found) (auto simp: sdk_CreateServer_def orElse_def run_state_bind split: if_splits)
  moreover have "nets a' = nets a" using keeps_run [OF nets_servers(4) [OF assms(1)] good run] by simp
  ultimately show "sdk_unique srvs nets good T S a'"
    using u unique_adds [OF _ _ assms(2)] by (auto simp: sdk_unique_def)
qed

lemma at_most_one_removed:
  assumes "v' = v \<or> v' = v(i := None)" and "at_most_one (matching fits v T)"
  shows "at_most_one (matching fits v' T)"
  by (rule at_most_one_subset [OF assms(2)]) (use assms(1) in \<open>auto simp: matching_def split: if_splits\<close>)

lemma DeleteServer_steady:
  assumes "iaas_system_laws c srvs nets good"
  shows "steady (sdk_unique srvs nets good T S) (sdk_DeleteServer c i)"
proof (rule steadyI)
  fix a res a' assume u: "sdk_unique srvs nets good T S a" and run: "run_state (sdk_DeleteServer c i) a = (res, a')"
  have laws: "iaas_server_laws c srvs good" using assms(1) by (simp add: iaas_system_laws_def)
  have good: "good a" using u by (simp add: sdk_unique_def)
  from DeleteServer_law [OF laws good run] keeps_run [OF nets_servers(5) [OF assms(1)] good run] u
  show "sdk_unique srvs nets good T S a'"
    by (auto simp: sdk_unique_def intro: at_most_one_removed)
qed

section \<open>Networks\<close>

lemma network_labels_payload [simp]: "map_of (network_labels (networkPayload inp)) = map_of (cni_Tags inp)"
  by (simp add: network_labels_def networkPayload_def unlessEmpty_def)

lemma FindNetwork_found:
  assumes "iaas_network_laws c nets good" and "good a"
    and "run_state (sdk_FindNetworkByTags c tags) a = (res, a')"
  shows "good a' \<and> nets a' = nets a \<and>
    (\<forall>err. res = Inl err \<longrightarrow> IsNotFound err \<longrightarrow> matching labelsContainTags (nets a) tags = {})"
proof (cases "tags = []")
  case True
  with assms(2,3) show ?thesis
    by (auto simp: sdk_FindNetworkByTags_def sdk_ListNetworksByTags_def onOk_def run_state_bind IsNotFound_def)
next
  case False
  let ?list = "iaas_ListNetworks (sdk_iaas c) (sdk_projectID c) (sdk_region c) (labelSelector tags)"
  obtain out a1 where l: "run_state ?list a = (out, a1)" by fastforce
  have law: "good a1" "nets a1 = nets a"
    "case out of Inr items \<Rightarrow> network_listing (nets a) tags items | Inl e \<Rightarrow> sde_StatusCode e \<noteq> Some 404"
    using assms(1,2) l unfolding iaas_network_laws_def by (auto dest!: api_law_run)
  show ?thesis
  proof (cases out)
    case (Inl e)
    with law assms(3) False l show ?thesis
      by (auto simp: sdk_FindNetworkByTags_def sdk_ListNetworksByTags_def onOk_def sdk_def run_state_bind)
  next
    case (Inr items)
    have none: "matching labelsContainTags (nets a) tags = {}"
      if "filter (\<lambda>n. labelsContainTags (sn_Labels n) tags) items = []"
      using law(3) Inr that by (force simp: network_listing_def matching_def filter_empty_conv)
    from Inr law assms(3) False l none show ?thesis
      by (auto simp: sdk_FindNetworkByTags_def sdk_ListNetworksByTags_def onOk_def sdk_def run_state_bind
          exactlyOne_def IsNotFound_def split: list.splits)
  qed
qed

lemma srvs_networks:
  assumes "iaas_system_laws c srvs nets good"
  shows "leaves good srvs (sdk_FindNetworkByTags c tags)" "leaves good srvs (sdk_CreateNetwork c nin)"
    "leaves good srvs (sdk_DeleteNetwork c i)"
  unfolding sdk_FindNetworkByTags_def sdk_ListNetworksByTags_def sdk_CreateNetwork_def sdk_DeleteNetwork_def Let_def
  by (intro keeps_intros; use assms in \<open>simp add: iaas_system_laws_def iaas_separate_laws_def Let_def\<close>)+

lemma FindNetwork_leaves:
  assumes "iaas_system_laws c srvs nets good"
  shows "leaves good (\<lambda>a. (srvs a, nets a)) (sdk_FindNetworkByTags c tags)"
proof (rule leaves_pair [OF srvs_networks(1) [OF assms]], rule leavesI)
  have laws: "iaas_network_laws c nets good" using assms by (simp add: iaas_system_laws_def)
  show "good a' \<and> nets a' = nets a" if "good a" "run_state (sdk_FindNetworkByTags c tags) a = (res, a')" for a res a'
    using FindNetwork_found [OF laws that] by simp
qed

lemma CreateNetwork_adds:
  assumes "iaas_network_laws c nets good" and "good a" and "cni_Tags inp \<noteq> []"
    and "run_state (sdk_CreateNetwork c inp) a = (res, a')"
  shows "good a' \<and> (nets a' = nets a \<or>
    adds_server (nets a) (nets a') (cni_Tags inp) \<and> matching labelsContainTags (nets a) (cni_Tags inp) = {})"
proof -
  obtain found a1 where f: "run_state (sdk_FindNetworkByTags c (cni_Tags inp)) a = (found, a1)" by fastforce
  note find = FindNetwork_found [OF assms(1,2) f]
  let ?create = "iaas_CreateNetwork (sdk_iaas c) (sdk_projectID c) (sdk_region c) (networkPayload inp)"
  obtain out a2 where r: "run_state ?create a1 = (out, a2)" by fastforce
  have "api_law good ?create (\<lambda>a res a'. nets a' = nets a \<or>
      adds_server (nets a) (nets a') (network_labels (networkPayload inp)))"
    using assms(1) by (simp add: iaas_network_laws_def)
  from api_law_run [OF this _ r] find
  have "good a2" "nets a2 = nets a \<or> adds_server (nets a) (nets a2) (cni_Tags inp)"
    by (auto simp: adds_server_def)
  with find f r assms(2-4) show ?thesis
    by (cases found; cases out)
      (auto simp: sdk_CreateNetwork_def orElse_def onOk_def sdk_def run_state_bind Let_def split: if_splits)
qed

lemma networks_steady:
  assumes "iaas_system_laws c srvs nets good"
  shows "own_or_other (cni_Tags inp) T \<Longrightarrow> cni_Tags inp \<noteq> [] \<Longrightarrow>
      steady (sdk_unique srvs nets good T S) (sdk_CreateNetwork c inp)"
    and "steady (sdk_unique srvs nets good T S) (sdk_DeleteNetwork c i)"
proof -
  have laws: "iaas_network_laws c nets good" using assms by (simp add: iaas_system_laws_def)
  show "steady (sdk_unique srvs nets good T S) (sdk_CreateNetwork c inp)"
    if t: "own_or_other (cni_Tags inp) T" "cni_Tags inp \<noteq> []"
  proof (rule steadyI)
    fix a res a' assume u: "sdk_unique srvs nets good T S a" and run: "run_state (sdk_CreateNetwork c inp) a = (res, a')"
    then have good: "good a" by (simp add: sdk_unique_def)
    from CreateNetwork_adds [OF laws good t(2) run] keeps_run [OF srvs_networks(2) [OF assms] good run] u
    show "sdk_unique srvs nets good T S a'"
      using unique_adds [OF _ _ t(1)] by (auto simp: sdk_unique_def)
  qed
  show "steady (sdk_unique srvs nets good T S) (sdk_DeleteNetwork c i)"
  proof (rule steadyI)
    fix a res a' assume u: "sdk_unique srvs nets good T S a" and run: "run_state (sdk_DeleteNetwork c i) a = (res, a')"
    then have good: "good a" by (simp add: sdk_unique_def)
    have "api_law good (iaas_DeleteNetwork (sdk_iaas c) (sdk_projectID c) (sdk_region c) i)
        (\<lambda>a res a'. nets a' = nets a \<or> nets a' = (nets a)(i := None))"
      using laws by (simp add: iaas_network_laws_def)
    from api_law_run [OF this good] run have "nets a' = nets a \<or> nets a' = (nets a)(i := None)"
      by (auto simp: sdk_DeleteNetwork_def sdk_def run_state_bind split: prod.splits)
    with keeps_run [OF srvs_networks(3) [OF assms] good run] u show "sdk_unique srvs nets good T S a'"
      by (auto simp: sdk_unique_def intro: at_most_one_removed)
  qed
qed

section \<open>The bastion\<close>

lemma idOr_steady: "steady I m \<Longrightarrow> steady I (idOr known idOf m)"
  unfolding idOr_def by (intro keeps_intros)

lemma whenSet_steady: "steady I m \<Longrightarrow> steady I (whenSet b m)"
  unfolding whenSet_def by (intro keeps_intros)

lemma bastion_steady:
  assumes "iaas_system_laws c srvs nets good"
  shows "own_or_other (bi_Tags inp) S \<Longrightarrow> steady (sdk_unique srvs nets good T S) (sdk_EnsureBastion c inp)"
    and "steady (sdk_unique srvs nets good T S) (sdk_DeleteBastion c inp st)"
    and "steady (sdk_unique srvs nets good T S) (sdk_DeleteNodeSSHAccess c tags)"
proof -
  have o: "other_calls_laws c (\<lambda>a. (srvs a, nets a)) good" using assms by (simp add: iaas_system_laws_def)
  note quiet = other_calls [OF o, THEN leaves_steady] other_operations [OF o, THEN leaves_steady]
    rule_loops [OF o, THEN leaves_steady] lookups_leave [OF assms, THEN leaves_steady]
  show "steady (sdk_unique srvs nets good T S) (sdk_EnsureBastion c inp)" if "own_or_other (bi_Tags inp) S"
  proof -
    have "own_or_other (csi_Tags (bastionServerInput inp g)) S" for g
      using that by (simp add: bastionServerInput_def)
    then show ?thesis
      unfolding sdk_EnsureBastion_def by (intro keeps_intros quiet CreateServer_steady [OF assms])
  qed
  have ip: "steady (sdk_unique srvs nets good T S) (iaas_RemovePublicIpFromServer (sdk_iaas c) (sdk_projectID c) (sdk_region c) i q)"
    "steady (sdk_unique srvs nets good T S) (iaas_DeletePublicIP (sdk_iaas c) (sdk_projectID c) (sdk_region c) q)" for i q
    using o by (auto simp: other_calls_laws_def Let_def intro!: leaves_steady)
  show "steady (sdk_unique srvs nets good T S) (sdk_DeleteBastion c inp st)"
    unfolding sdk_DeleteBastion_def
    by (intro keeps_intros idOr_steady whenSet_steady quiet ip DeleteServer_steady [OF assms])
  show "steady (sdk_unique srvs nets good T S) (sdk_DeleteNodeSSHAccess c tags)"
    unfolding sdk_DeleteNodeSSHAccess_def by (intro keeps_intros quiet)
qed

section \<open>Passes of the controllers\<close>

lemma sdk_Client_more [simp]:
  "GetNetwork (sdk_Client c) = sdk_GetNetwork c" "FindNetworkByTags (sdk_Client c) = sdk_FindNetworkByTags c"
  "CreateNetwork (sdk_Client c) = sdk_CreateNetwork c" "DeleteNetwork (sdk_Client c) = sdk_DeleteNetwork c"
  "EnsureBastion (sdk_Client c) = sdk_EnsureBastion c" "DeleteBastion (sdk_Client c) = sdk_DeleteBastion c"
  "DeleteNodeSSHAccess (sdk_Client c) = sdk_DeleteNodeSSHAccess c"
  "ListAPIServerLoadBalancersByTags (sdk_Client c) = sdk_ListAPIServerLoadBalancersByTags c"
  "SetAPIServerLoadBalancerTargets (sdk_Client c) = sdk_SetAPIServerLoadBalancerTargets c"
  "DeleteAPIServerLoadBalancer (sdk_Client c) = sdk_DeleteAPIServerLoadBalancer c"
  "ListAvailabilityZones (sdk_Client c) = sdk_ListAvailabilityZones c"
  by (simp_all add: sdk_Client_def)

lemma sdk_machine_frame:
  assumes "iaas_system_laws c srvs nets good"
  shows "machine_frame (sdk_Client c) (sdk_unique srvs nets good T S) (machine_known S)"
proof -
  have o: "other_calls_laws c (\<lambda>a. (srvs a, nets a)) good" using assms by (simp add: iaas_system_laws_def)
  show ?thesis
    by unfold_locales
      (simp_all add: steady_iff machine_known_def machine_Tags_def createServerInput_def
        CreateServer_steady [OF assms] DeleteServer_steady [OF assms] lookups_leave [OF assms, THEN leaves_steady]
        other_operations [OF o, THEN leaves_steady])
qed

lemma sdk_cluster_frame:
  assumes "iaas_system_laws c srvs nets good"
  shows "cluster_frame (sdk_Client c) (sdk_unique srvs nets good T S) (cluster_known T S)"
proof -
  have o: "other_calls_laws c (\<lambda>a. (srvs a, nets a)) good" using assms by (simp add: iaas_system_laws_def)
  show ?thesis
  proof
    show "cluster_known T S sc' \<Longrightarrow> cluster_key sc = cluster_key sc' \<Longrightarrow> cluster_known T S sc" for sc sc'
      by (simp add: cluster_known_def cluster_key_def cluster_tags_of_def bastion_tags_def)
  qed (simp_all add: steady_iff cluster_known_def network_Input_def NetworkTags_def
      networks_steady [OF assms] bastion_steady [OF assms] FindNetwork_leaves [OF assms, THEN leaves_steady]
      other_calls [OF o, THEN leaves_steady] balancer_operations [OF o, THEN leaves_steady])
qed


section \<open>An API in memory\<close>

text \<open>
  A concrete instance for the witness: the servers of \<open>mem_IaaS\<close> and, kept in the same form, networks.
\<close>

type_synonym mem_world = "sdk_Server list \<times> sdk_Server list"

definition on_servers :: "(sdk_Server list, 'r) state \<Rightarrow> (mem_world, 'r) state" where
  "on_servers m = State (\<lambda>(ss, ns). case run_state m ss of (res, ss') \<Rightarrow> (res, ss', ns))"

definition mem_network :: "sdk_Server \<Rightarrow> sdk_Network" where
  "mem_network n = \<lparr>sn_Id = ss_Id n, sn_Name = ss_Name n, sn_Prefixes = [''10.0.0.0/24''], sn_Labels = ss_Labels n\<rparr>"

definition mem_payload :: "CreateNetworkPayload \<Rightarrow> CreateServerPayload" where
  "mem_payload pl = \<lparr>csp_Name = cnp_Name pl, csp_MachineType = [], csp_ImageId = None, csp_Labels = cnp_Labels pl,
     csp_NetworkId = None, csp_SecurityGroups = None, csp_UserData = None, csp_ConfigDrive = None,
     csp_BootVolume = None, csp_KeypairName = None, csp_AvailabilityZone = None\<rparr>"

definition world_IaaS :: "mem_world IaaS" where
  "world_IaaS = no_IaaS
     \<lparr>iaas_GetServer := (\<lambda>p r i. on_servers (iaas_GetServer mem_IaaS p r i)),
      iaas_ListServers := (\<lambda>p r sel. on_servers (iaas_ListServers mem_IaaS p r sel)),
      iaas_CreateServer := (\<lambda>p r pl. on_servers (iaas_CreateServer mem_IaaS p r pl)),
      iaas_DeleteServer := (\<lambda>p r i. on_servers (iaas_DeleteServer mem_IaaS p r i)),
      iaas_ListServerNICs := (\<lambda>_ _ _. ret (Inr [])),
      iaas_ListAvailabilityZones := (\<lambda>_. ret (Inr [''eu01-1''])),
      iaas_ListNetworks := (\<lambda>_ _ _. State (\<lambda>(ss, ns). (Inr (map mem_network ns), ss, ns))),
      iaas_CreateNetwork := (\<lambda>_ _ pl. State (\<lambda>(ss, ns).
        (Inr (mem_network (mem_new ns (mem_payload pl))), ss, ns @ [mem_new ns (mem_payload pl)]))),
      iaas_DeleteNetwork := (\<lambda>_ _ i. State (\<lambda>(ss, ns). (Inr (), ss, filter (\<lambda>n. ss_Id n \<noteq> i) ns)))\<rparr>"

definition world_SDKClient :: "mem_world SDKClient" where
  "world_SDKClient =
     \<lparr>sdk_projectID = ''proj'', sdk_region = ''eu01'', sdk_iaas = world_IaaS, sdk_lb = no_LBAPI\<rparr>"

abbreviation world_servers :: "mem_world \<Rightarrow> unit server_view" where
  "world_servers w \<equiv> mem_view (fst w)"

abbreviation world_networks :: "mem_world \<Rightarrow> unit server_view" where
  "world_networks w \<equiv> mem_view (snd w)"

abbreviation world_good :: "mem_world \<Rightarrow> bool" where
  "world_good w \<equiv> mem_good (fst w) \<and> mem_good (snd w)"

lemma on_servers_law:
  "api_law mem_good m Q \<Longrightarrow> api_law world_good (on_servers m) (\<lambda>w res w'. Q (fst w) res (fst w'))"
  by (auto simp: api_law_def wp_def on_servers_def split: prod.splits)

lemma on_servers_networks:
  "api_law mem_good m Q \<Longrightarrow> leaves world_good world_networks (on_servers m)"
  by (auto simp: api_law_def SDK_Laws.keeps_def wp_def on_servers_def split: prod.splits)

lemma mem_laws_unfolded:
  "server_lookup_laws mem_IaaS ''proj'' ''eu01'' mem_view mem_good"
  "server_change_laws mem_IaaS ''proj'' ''eu01'' mem_view mem_good"
  using mem_laws by (simp_all add: iaas_server_laws_def mem_SDKClient_def)

lemma world_server_laws: "iaas_server_laws world_SDKClient world_servers world_good"
proof -
  have "server_frame_laws world_IaaS p r world_servers world_good" for p r
    by (auto simp: server_frame_laws_def world_IaaS_def no_IaaS_def intro: SDK_Laws.keeps_return keeps_answer)
  moreover have "server_lookup_laws world_IaaS ''proj'' ''eu01'' world_servers world_good"
    using mem_laws_unfolded(1) unfolding server_lookup_laws_def
    by (auto simp: world_IaaS_def dest: on_servers_law)
  moreover have "server_change_laws world_IaaS ''proj'' ''eu01'' world_servers world_good"
    using mem_laws_unfolded(2) unfolding server_change_laws_def
    by (auto simp: world_IaaS_def dest: on_servers_law)
  ultimately show ?thesis by (simp add: iaas_server_laws_def world_SDKClient_def)
qed

lemma world_network_laws: "iaas_network_laws world_SDKClient world_networks world_good"
proof -
  have lst: "network_listing (mem_view ns) tags (map mem_network ns)" if "mem_good ns" for ns tags
    using that by (force simp: network_listing_def mem_view_Some_iff mem_network_def)
  have labels: "payload_labels (mem_payload pl) = network_labels pl" for pl
    by (simp add: payload_labels_def mem_payload_def network_labels_def)
  show ?thesis
    using lst mem_create(1) mem_create_adds [of _ "mem_payload pl" for pl] mem_delete
    unfolding iaas_network_laws_def
    by (auto simp: api_law_def world_SDKClient_def world_IaaS_def wp_def labels [symmetric])
qed

lemma world_laws: "iaas_system_laws world_SDKClient world_servers world_networks world_good"
proof -
  have "other_calls_laws world_SDKClient (\<lambda>w. (world_servers w, world_networks w)) world_good"
    by (auto simp: other_calls_laws_def world_SDKClient_def world_IaaS_def no_IaaS_def no_LBAPI_def
        intro: SDK_Laws.keeps_return keeps_answer)
  moreover have "iaas_separate_laws world_SDKClient world_servers world_networks world_good"
  proof -
    have lst: "api_law mem_good (iaas_ListServers mem_IaaS p r sel) (\<lambda>_ _ _. True)" for p r sel
      by (simp add: api_law_def mem_IaaS_def wp_simps)
    have srv: "leaves world_good world_networks (on_servers (iaas_GetServer mem_IaaS ''proj'' ''eu01'' i))"
      "leaves world_good world_networks (on_servers (iaas_CreateServer mem_IaaS ''proj'' ''eu01'' pl))"
      "leaves world_good world_networks (on_servers (iaas_DeleteServer mem_IaaS ''proj'' ''eu01'' i))" for i pl
      using mem_laws_unfolded unfolding server_lookup_laws_def server_change_laws_def
      by (blast intro: on_servers_networks)+
    show ?thesis
      using mem_create(1) mem_delete(1)
      by (auto simp: iaas_separate_laws_def world_SDKClient_def world_IaaS_def srv on_servers_networks [OF lst]
          intro!: leavesI)
  qed
  ultimately show ?thesis by (simp add: iaas_system_laws_def world_server_laws world_network_laws)
qed

definition world_Reconciler :: "(mem_world, api) Reconciler" where
  "world_Reconciler =
     \<lparr>r_lib = std_lib 0, r_sha256 = (\<lambda>_. replicate 32 0), r_Client = sample_Kube,
      r_CloudClientFactory = Some (\<lambda>creds. Inr (sdk_Client world_SDKClient))\<rparr>"

definition world_cluster_pass :: "mem_world \<Rightarrow> mem_world" where
  \<comment> \<open>a pass over a cluster whose status is empty\<close>
  "world_cluster_pass w = cloud (snd (run_state (cluster_reconcileScope world_Reconciler sample_Cluster)
     \<lparr>cloud = w, kube = sample_api, obj = sample_fresh_cluster, effects = []\<rparr>))"

definition world_machine_pass :: "mem_world \<Rightarrow> mem_world" where
  "world_machine_pass w = cloud (snd (run_state (machine_reconcileScope world_Reconciler sample_scope)
     \<lparr>cloud = w, kube = sample_api, obj = sample_StackitMachine, effects = []\<rparr>))"

definition world_one :: mem_world where
  "world_one = world_cluster_pass ([], [])"

definition world_end :: mem_world where
  \<comment> \<open>after another pass over the first version of the cluster, and one over a machine\<close>
  "world_end = world_machine_pass (world_cluster_pass world_one)"


end
