(* ===== verification/SDK_Labels.thy ===== *)
theory SDK_Labels
  imports SDK_Balancer "HOL-Library.Multiset"
begin

text \<open>
  The labels of load balancers. The load balancer API allows no slash in a label key, so the SDK
  client replaces it by a dot, in the labels of a new load balancer and in the selector by which it is
  found. The replacement is not injective.
\<close>

lemma map_of_loadBalancerLabels:
  assumes "inj_on (\<lambda>k. ReplaceChar k CHR ''/'' CHR ''.'') (insert k (fst ` set tags))"
  shows "map_of (loadBalancerLabels tags) (ReplaceChar k CHR ''/'' CHR ''.'') = map_of tags k"
  using assms
proof (induction tags)
  case (Cons p tags)
  then have "map_of (loadBalancerLabels tags) (ReplaceChar k CHR ''/'' CHR ''.'') = map_of tags k"
    by (auto intro: inj_on_subset)
  moreover have "ReplaceChar k CHR ''/'' CHR ''.'' = ReplaceChar (fst p) CHR ''/'' CHR ''.'' \<longleftrightarrow> k = fst p"
    using Cons.prems by (auto dest: inj_onD)
  ultimately show ?case by (auto simp: loadBalancerLabels_def update_conv' split_def)
qed (simp add: loadBalancerLabels_def)

lemma set_update_new: "k \<notin> fst ` set m \<Longrightarrow> set (AList.update k v m) = insert (k, v) (set m)"
  by (induction m) auto

lemma set_loadBalancerLabels:
  "inj_on (\<lambda>k. ReplaceChar k CHR ''/'' CHR ''.'') (fst ` set u) \<Longrightarrow> distinct (map fst u) \<Longrightarrow>
   set (loadBalancerLabels u) = (\<lambda>(k, v). (ReplaceChar k CHR ''/'' CHR ''.'', v)) ` set u"
proof (induction u)
  case (Cons p u)
  then have IH: "set (loadBalancerLabels u) = (\<lambda>(k, v). (ReplaceChar k CHR ''/'' CHR ''.'', v)) ` set u" by simp
  have "ReplaceChar (fst p) CHR ''/'' CHR ''.'' \<notin> fst ` set (loadBalancerLabels u)"
    using Cons.prems unfolding IH by (force simp: inj_on_def image_iff)
  with IH show ?case
    by (cases p) (simp add: loadBalancerLabels_def set_update_new)
qed (simp add: loadBalancerLabels_def)

text \<open>Where no two keys collide, a selector finds a load balancer exactly when the tags match.\<close>

lemma lb_labels_match:
  assumes "inj_on (\<lambda>k. ReplaceChar k CHR ''/'' CHR ''.'') (fst ` set t \<union> fst ` set u)" and "distinct (map fst u)"
  shows "sdk_mapContains (loadBalancerLabels t) (loadBalancerLabels u) \<longleftrightarrow> mapContains t u"
proof -
  let ?R = "\<lambda>k. ReplaceChar k CHR ''/'' CHR ''.''"
  have look: "lookup_or [] (loadBalancerLabels t) (?R k) = lookup_or [] t k" if "(k, v) \<in> set u" for k v
  proof -
    have "inj_on ?R (insert k (fst ` set t))" by (rule inj_on_subset [OF assms(1)]) (use that in force)
    from map_of_loadBalancerLabels [OF this] show ?thesis by (simp only: lookup_or_def)
  qed
  have "set (loadBalancerLabels u) = (\<lambda>(k, v). (?R k, v)) ` set u"
    by (rule set_loadBalancerLabels [OF _ assms(2)]) (rule inj_on_subset [OF assms(1)], simp)
  then have "sdk_mapContains (loadBalancerLabels t) (loadBalancerLabels u) \<longleftrightarrow>
      (\<forall>(k, v) \<in> set u. lookup_or [] (loadBalancerLabels t) (?R k) = v)"
    by (auto simp: sdk_mapContains_def list_all_iff split_def)
  also have "\<dots> \<longleftrightarrow> mapContains t u"
    unfolding mapContains_def list_all_iff by (intro ball_cong refl) (auto simp: look)
  finally show ?thesis .
qed

definition dotted_cluster_name :: string where
  "dotted_cluster_name = ReplaceChar LabelClusterName CHR ''/'' CHR ''.''"

text \<open>
  C40: an additional label can give the load balancer of a cluster to another cluster. The key
  \<open>cluster.x-k8s.io.cluster-name\<close> is not reserved in \<open>ClusterTags\<close>, but becomes the same label as the
  reserved \<open>cluster.x-k8s.io/cluster-name\<close> when the SDK client replaces the slash. Go does not fix the
  order in which the tags are visited; for one order the value of the user wins, and the load
  balancer created for cluster \<open>n\<close> carries all the labels by which the client looks for the load
  balancer of cluster \<open>x\<close>. For another order the provider's own value wins.
\<close>

theorem lb_label_collision:
  "(\<exists>tags labels. mset tags = mset (ClusterTags n ns [(dotted_cluster_name, x)]) \<and>
      clp_Labels (loadBalancerPayload (input\<lparr>lbi_Tags := tags\<rparr>)) = Some labels \<and>
      sdk_mapContains labels (loadBalancerLabels (ClusterTags x ns []))) \<and>
   (\<exists>tags labels. mset tags = mset (ClusterTags n ns [(dotted_cluster_name, x)]) \<and>
      clp_Labels (loadBalancerPayload (input\<lparr>lbi_Tags := tags\<rparr>)) = Some labels \<and>
      sdk_mapContains labels (loadBalancerLabels (ClusterTags n ns [])))"
proof -
  let ?own = "[(LabelClusterName, n), (LabelClusterNamespace, ns), (LabelManagedBy, ManagedByValue)]"
  let ?user = "(dotted_cluster_name, x)"
  note keys = dotted_cluster_name_def label_defs ReplaceChar_def
  have tags: "ClusterTags n ns [?user] = ?own @ [?user]" by (simp add: ClusterTags_def keys)
  have payload: "clp_Labels (loadBalancerPayload (input\<lparr>lbi_Tags := t\<rparr>)) = Some (loadBalancerLabels t)"
    if "t \<noteq> []" for t
    using that by (simp add: loadBalancerPayload_def unlessEmpty_def)
  have user: "sdk_mapContains (loadBalancerLabels (?user # ?own)) (loadBalancerLabels (ClusterTags x ns []))"
    and own: "sdk_mapContains (loadBalancerLabels (?own @ [?user])) (loadBalancerLabels (ClusterTags n ns []))"
    by (simp_all add: sdk_mapContains_def loadBalancerLabels_def ClusterTags_def keys lookup_or_def)
  have "mset (?user # ?own) = mset (ClusterTags n ns [?user])" by (simp add: tags)
  with payload user have "\<exists>tags labels. mset tags = mset (ClusterTags n ns [?user]) \<and>
      clp_Labels (loadBalancerPayload (input\<lparr>lbi_Tags := tags\<rparr>)) = Some labels \<and>
      sdk_mapContains labels (loadBalancerLabels (ClusterTags x ns []))" by blast
  moreover have "\<exists>tags labels. mset tags = mset (ClusterTags n ns [?user]) \<and>
      clp_Labels (loadBalancerPayload (input\<lparr>lbi_Tags := tags\<rparr>)) = Some labels \<and>
      sdk_mapContains labels (loadBalancerLabels (ClusterTags n ns []))"
    using payload own unfolding tags by blast
  ultimately show ?thesis by blast
qed

end
