(* ===== verification/SDK_Rules.thy ===== *)
theory SDK_Rules
  imports SDK_Laws
begin

text \<open>
  The SSH rules of the bastion. The hypothesis \<open>iaas_rule_laws\<close> says what the API promises about the
  rules of security groups; over it, a bastion that was ensured admits SSH from the allowed CIDRs
  and from nowhere else.
\<close>

section \<open>What the API promises\<close>

type_synonym rule_view = "string \<Rightarrow> sdk_Rule set"

definition rule_of :: "CreateSecurityGroupRulePayload \<Rightarrow> sdk_Rule \<Rightarrow> bool" where
  \<comment> \<open>the rule has the fields of the payload\<close>
  "rule_of payload rule \<longleftrightarrow>
     rule_Direction rule = crp_Direction payload \<and>
     rule_IpRange rule = (case crp_IpRange payload of None \<Rightarrow> [] | Some cidr \<Rightarrow> cidr) \<and>
     rule_PortMin rule = crp_PortMin payload \<and> rule_PortMax rule = crp_PortMax payload \<and>
     rule_Protocol rule = Some (crp_Protocol payload) \<and>
     rule_RemoteSecurityGroupId rule = (case crp_RemoteSecurityGroupId payload of None \<Rightarrow> [] | Some g \<Rightarrow> g)"

definition adds_rule :: "rule_view \<Rightarrow> rule_view \<Rightarrow> string \<Rightarrow> CreateSecurityGroupRulePayload \<Rightarrow> bool" where
  "adds_rule v v' g payload \<longleftrightarrow>
     (\<exists>rule. rule_of payload rule \<and> v' = v(g := insert rule (v g)))"

definition identified :: "sdk_Rule set \<Rightarrow> bool" where
  "identified R \<longleftrightarrow> inj_on rule_Id R \<and> [] \<notin> rule_Id ` R"

definition rule_call_laws ::
  "'a IaaS \<Rightarrow> string \<Rightarrow> string \<Rightarrow> ('a \<Rightarrow> rule_view) \<Rightarrow> ('a \<Rightarrow> bool) \<Rightarrow> bool" where
  "rule_call_laws A p r rules good \<longleftrightarrow>
     (\<forall>a g. good a \<longrightarrow> identified (rules a g)) \<and>
     (\<forall>g. api_law good (iaas_ListSecurityGroupRules A p r g) (\<lambda>a res a'. rules a' = rules a \<and>
        (\<forall>rs. res = Inr rs \<longrightarrow> set rs = rules a g))) \<and>
     (\<forall>g payload. api_law good (iaas_CreateSecurityGroupRule A p r g payload) (\<lambda>a res a'.
        res = Inr () \<longrightarrow> adds_rule (rules a) (rules a') g payload)) \<and>
     (\<forall>g i. api_law good (iaas_DeleteSecurityGroupRule A p r g i) (\<lambda>a res a'.
        case res of Inr _ \<Rightarrow> rules a' = (rules a)(g := {rule \<in> rules a g. rule_Id rule \<noteq> i})
        | Inl e \<Rightarrow> sde_StatusCode e = Some 404 \<longrightarrow> rules a' = rules a \<and> i \<notin> rule_Id ` rules a g))"

definition rule_frame_laws ::
  "'a IaaS \<Rightarrow> string \<Rightarrow> string \<Rightarrow> ('a \<Rightarrow> rule_view) \<Rightarrow> ('a \<Rightarrow> bool) \<Rightarrow> bool" where
  \<comment> \<open>calls on servers, public IPs and groups do not change the rules of an existing group\<close>
  "rule_frame_laws A p r rules good \<longleftrightarrow>
     (\<forall>sel. keeps good rules (iaas_ListServers A p r sel)) \<and>
     (\<forall>payload. keeps good rules (iaas_CreateServer A p r payload)) \<and>
     (\<forall>i. keeps good rules (iaas_ListServerNICs A p r i)) \<and>
     (\<forall>i g. keeps good rules (iaas_AddSecurityGroupToServer A p r i g)) \<and>
     (\<forall>sel. keeps good rules (iaas_ListPublicIPs A p r sel)) \<and>
     (\<forall>ls. keeps good rules (iaas_CreatePublicIP A p r ls)) \<and>
     (\<forall>i j. keeps good rules (iaas_AddPublicIpToServer A p r i j)) \<and>
     (\<forall>i. keeps good rules (iaas_GetPublicIP A p r i)) \<and>
     (\<forall>sel. keeps good rules (iaas_ListSecurityGroups A p r sel)) \<and>
     (\<forall>payload. api_law good (iaas_CreateSecurityGroup A p r payload) (\<lambda>_ _ _. True))"

definition iaas_rule_laws :: "'a SDKClient \<Rightarrow> ('a \<Rightarrow> rule_view) \<Rightarrow> ('a \<Rightarrow> bool) \<Rightarrow> bool" where
  "iaas_rule_laws c rules good \<longleftrightarrow>
     rule_call_laws (sdk_iaas c) (sdk_projectID c) (sdk_region c) rules good \<and>
     rule_frame_laws (sdk_iaas c) (sdk_projectID c) (sdk_region c) rules good"

section \<open>The loops\<close>

lemma run_sdk:
  "run_state (sdk op m) a = (res, a') \<longleftrightarrow>
     (\<exists>out. run_state m a = (out, a') \<and>
        res = (case out of Inl err \<Rightarrow> Inl (classifySDKError op err) | Inr x \<Rightarrow> Inr x))"
  by (auto simp: sdk_def run_state_bind split: prod.splits)

lemma run_onOk_Inr:
  "run_state (onOk m f) a = (Inr y, a') \<longleftrightarrow>
     (\<exists>x a1. run_state m a = (Inr x, a1) \<and> run_state (f x) a1 = (Inr y, a'))"
  by (auto simp: onOk_def run_state_bind split: prod.splits sum.splits)

lemma run_tolerate_Inr:
  "run_state (tolerate P m) a = (Inr u, a') \<longleftrightarrow>
     (\<exists>res. run_state m a = (res, a') \<and> (\<forall>err. res = Inl err \<longrightarrow> P err))"
  by (auto simp: tolerate_def run_state_bind split: prod.splits sum.splits if_splits)

definition ssh_ranges :: "sdk_Rule set \<Rightarrow> string set" where
  "ssh_ranges R = rule_IpRange ` {rule \<in> R. isSSHRule rule}"

definition other_rules :: "sdk_Rule set \<Rightarrow> sdk_Rule set" where
  "other_rules R = {rule \<in> R. \<not> isSSHRule rule}"

lemma hasSSHRule_iff: "hasSSHRule rs cidr \<longleftrightarrow> cidr \<in> ssh_ranges (set rs)"
  by (auto simp: hasSSHRule_def ssh_ranges_def list_ex_iff)

lemma rule_of_ssh:
  "rule_of (sshRulePayload (Some cidr) None) rule \<Longrightarrow> isSSHRule rule \<and> rule_IpRange rule = cidr"
  by (simp add: rule_of_def sshRulePayload_def isSSHRule_def)

definition grown :: "sdk_Rule set \<Rightarrow> string set \<Rightarrow> sdk_Rule set \<Rightarrow> bool" where
  \<comment> \<open>the snapshot \<open>E\<close> and SSH rules for CIDRs in \<open>D\<close>, each of which has one\<close>
  "grown E D R \<longleftrightarrow> E \<subseteq> R \<and> D \<subseteq> ssh_ranges R \<and> other_rules R = other_rules E \<and> ssh_ranges (R - E) \<subseteq> D"

lemma grown_seen: "grown E D R \<Longrightarrow> d \<in> ssh_ranges E \<Longrightarrow> grown E (insert d D) R"
  by (auto simp: grown_def ssh_ranges_def)

lemma grown_insert:
  "grown E D R \<Longrightarrow> isSSHRule rule \<Longrightarrow> rule_IpRange rule = d \<Longrightarrow> grown E (insert d D) (insert rule R)"
  by (auto simp: grown_def ssh_ranges_def other_rules_def)

lemma createRule_adds:
  assumes "iaas_rule_laws c rules good" and "good a"
    and "run_state (createRule c g payload) a = (Inr (), a')"
  shows "good a' \<and> adds_rule (rules a) (rules a') g payload"
  using assms unfolding iaas_rule_laws_def rule_call_laws_def createRule_def
  by (auto simp: run_sdk dest!: api_law_run split: sum.splits)

lemma createCIDRRules_grown:
  assumes "iaas_rule_laws c rules good"
    and "good a" and "grown (set existing) (set desired) (rules a g)"
    and "run_state (createCIDRRules c g existing desired cidrs) a = (Inr desired', a')"
  shows "good a' \<and> set desired' = set desired \<union> set cidrs \<and>
    grown (set existing) (set desired') (rules a' g) \<and> (\<forall>h. h \<noteq> g \<longrightarrow> rules a' h = rules a h)"
  using assms(2-4)
proof (induction cidrs arbitrary: desired a)
  case (Cons cidr cidrs)
  consider (seen) "cidr \<in> set desired" | (has) "cidr \<notin> set desired" "hasSSHRule existing cidr"
    | (new) "cidr \<notin> set desired" "\<not> hasSSHRule existing cidr" by blast
  then show ?case
  proof cases
    case seen
    with Cons.prems have "run_state (createCIDRRules c g existing desired cidrs) a = (Inr desired', a')"
      by (simp split: if_splits)
    from Cons.IH [OF Cons.prems(1,2) this] seen show ?thesis by auto
  next
    case has
    with Cons.prems have r: "run_state (createCIDRRules c g existing (cidr # desired) cidrs) a = (Inr desired', a')"
      by (simp split: if_splits)
    have "grown (set existing) (set (cidr # desired)) (rules a g)"
      using grown_seen [OF Cons.prems(2)] has by (simp add: hasSSHRule_iff)
    from Cons.IH [OF Cons.prems(1) this r] show ?thesis by auto
  next
    case new
    with Cons.prems obtain a1
      where cr: "run_state (createRule c g (sshRulePayload (Some cidr) None)) a = (Inr (), a1)"
        and r: "run_state (createCIDRRules c g existing (cidr # desired) cidrs) a1 = (Inr desired', a')"
      by (auto simp: run_onOk_Inr split: if_splits)
    from createRule_adds [OF assms(1) Cons.prems(1) cr] obtain rule
      where "good a1" and rule: "rule_of (sshRulePayload (Some cidr) None) rule"
        and v: "rules a1 = (rules a)(g := insert rule (rules a g))"
      by (auto simp: adds_rule_def)
    have "grown (set existing) (set (cidr # desired)) (rules a1 g)"
      using grown_insert [OF Cons.prems(2)] rule_of_ssh [OF rule] v by simp
    from Cons.IH [OF \<open>good a1\<close> this r] v show ?thesis by auto
  qed
qed auto

lemma deleteRule_gone:
  assumes "iaas_rule_laws c rules good" and "good a"
    and "run_state (tolerate IsNotFound (sdk ''delete security group rule''
      (iaas_DeleteSecurityGroupRule (sdk_iaas c) (sdk_projectID c) (sdk_region c) g i))) a = (Inr u, a')"
  shows "good a' \<and> rules a' = (rules a)(g := {rule \<in> rules a g. rule_Id rule \<noteq> i})"
proof -
  let ?del = "iaas_DeleteSecurityGroupRule (sdk_iaas c) (sdk_projectID c) (sdk_region c) g i"
  obtain out where run: "run_state ?del a = (out, a')"
    and tol: "\<forall>e. out = Inl e \<longrightarrow> sde_StatusCode e = Some 404"
    using assms(3) by (fastforce simp: run_tolerate_Inr run_sdk)
  have "good a'" "case out of Inr _ \<Rightarrow> rules a' = (rules a)(g := {rule \<in> rules a g. rule_Id rule \<noteq> i})
        | Inl e \<Rightarrow> sde_StatusCode e = Some 404 \<longrightarrow> rules a' = rules a \<and> i \<notin> rule_Id ` rules a g"
    using assms(1,2) run unfolding iaas_rule_laws_def rule_call_laws_def by (auto dest!: api_law_run)
  moreover have "{rule \<in> rules a g. rule_Id rule \<noteq> i} = rules a g" if "i \<notin> rule_Id ` rules a g"
    using that by auto
  ultimately show ?thesis using tol by (cases out) auto
qed

lemma deleteRules_gone:
  assumes "iaas_rule_laws c rules good" and "good a"
    and "run_state (deleteRules c g ids) a = (Inr u, a')"
  shows "good a' \<and> rules a' = (rules a)(g := {rule \<in> rules a g. rule_Id rule \<notin> set ids})"
  using assms(2,3)
proof (induction ids arbitrary: a)
  case (Cons i ids)
  show ?case
  proof (cases "i = []")
    case True
    with Cons have IH: "good a'" "rules a' = (rules a)(g := {rule \<in> rules a g. rule_Id rule \<notin> set ids})"
      by auto
    have "[] \<notin> rule_Id ` rules a g"
      using assms(1) Cons.prems(1) by (simp add: iaas_rule_laws_def rule_call_laws_def identified_def)
    with True have "{rule \<in> rules a g. rule_Id rule \<notin> set (i # ids)} = {rule \<in> rules a g. rule_Id rule \<notin> set ids}"
      by (auto simp: image_iff)
    with IH show ?thesis by simp
  next
    case False
    with Cons.prems(2) obtain x a1
      where d: "run_state (tolerate IsNotFound (sdk ''delete security group rule''
          (iaas_DeleteSecurityGroupRule (sdk_iaas c) (sdk_projectID c) (sdk_region c) g i))) a = (Inr x, a1)"
        and r: "run_state (deleteRules c g ids) a1 = (Inr u, a')"
      by (auto simp: run_onOk_Inr)
    from deleteRule_gone [OF assms(1) Cons.prems(1) d] Cons.IH [OF _ r] show ?thesis
      by (auto simp: fun_eq_iff)
  qed
qed simp

lemma grown_trimmed:
  assumes "grown E D R" and "identified R"
  shows "ssh_ranges {rule \<in> R. rule_Id rule \<notin> rule_Id ` {rule \<in> E. isSSHRule rule \<and> rule_IpRange rule \<notin> D}} = D"
    and "other_rules {rule \<in> R. rule_Id rule \<notin> rule_Id ` {rule \<in> E. isSSHRule rule \<and> rule_IpRange rule \<notin> D}} =
      other_rules E"
proof -
  have "{rule \<in> R. rule_Id rule \<notin> rule_Id ` {rule \<in> E. isSSHRule rule \<and> rule_IpRange rule \<notin> D}} =
      R - {rule \<in> E. isSSHRule rule \<and> rule_IpRange rule \<notin> D}" (is "?T = _")
    using assms by (auto simp: grown_def identified_def dest: inj_onD)
  with assms(1) show "ssh_ranges ?T = D" "other_rules ?T = other_rules E"
    by (auto simp: grown_def ssh_ranges_def other_rules_def)
qed

lemma ensureBastionSecurityGroupRules_exact:
  assumes "iaas_rule_laws c rules good" and "good a"
    and "run_state (ensureBastionSecurityGroupRules c g cidrs) a = (Inr u, a')"
  shows "good a' \<and> ssh_ranges (rules a' g) = set cidrs \<and>
    other_rules (rules a' g) = other_rules (rules a g) \<and> (\<forall>h. h \<noteq> g \<longrightarrow> rules a' h = rules a h)"
proof -
  from assms(3) obtain existing a1 desired a2
    where l: "run_state (listRules c g) a = (Inr existing, a1)"
      and cr: "run_state (createCIDRRules c g existing [] cidrs) a1 = (Inr desired, a2)"
      and d: "run_state (deleteRules c g (map rule_Id
          (filter (\<lambda>rule. isSSHRule rule \<and> rule_IpRange rule \<notin> set desired) existing))) a2 = (Inr u, a')"
    by (auto simp: ensureBastionSecurityGroupRules_def run_onOk_Inr split: if_splits)
  have a1: "good a1" "rules a1 = rules a" "set existing = rules a g"
    using assms(1,2) l unfolding iaas_rule_laws_def rule_call_laws_def listRules_def
    by (auto simp: run_sdk dest!: api_law_run split: sum.splits)
  have "grown (set existing) (set []) (rules a1 g)"
    using a1 by (simp add: grown_def ssh_ranges_def)
  from createCIDRRules_grown [OF assms(1) a1(1) this cr] a1
  have a2: "good a2" "set desired = set cidrs" "grown (rules a g) (set cidrs) (rules a2 g)"
    "\<forall>h. h \<noteq> g \<longrightarrow> rules a2 h = rules a h" by auto
  have "identified (rules a2 g)"
    using assms(1) a2(1) by (simp add: iaas_rule_laws_def rule_call_laws_def)
  note trimmed = grown_trimmed [OF a2(3) this]
  from deleteRules_gone [OF assms(1) a2(1) d] a1(3) a2(2)
  have "good a'" "rules a' = (rules a2)(g := {rule \<in> rules a2 g. rule_Id rule \<notin>
      rule_Id ` {rule \<in> rules a g. isSSHRule rule \<and> rule_IpRange rule \<notin> set cidrs}})"
    by auto
  with a2 trimmed show ?thesis by simp
qed

section \<open>Ensuring the bastion\<close>

lemma keeps_rules_CreateServer:
  assumes "iaas_rule_laws c rules good"
  shows "keeps good rules (sdk_CreateServer c input)"
proof -
  have s: "keeps good rules (serverFromSDK c sv)" for sv
    using assms unfolding serverFromSDK_def iaas_rule_laws_def rule_frame_laws_def
    by (intro keeps_intros) simp
  have "keeps good rules (serversFromSDK c tags items)" for tags items
    by (induction items) (auto intro!: keeps_intros s)
  with s assms show ?thesis
    unfolding sdk_CreateServer_def sdk_FindServerByTags_def sdk_ListServersByTags_def
      iaas_rule_laws_def rule_frame_laws_def
    by (intro keeps_intros) simp_all
qed

lemma keeps_rules_after:
  assumes "iaas_rule_laws c rules good"
  shows "keeps good rules (addSecurityGroupToServer c i g)"
    and "keeps good rules (ensurePublicIP c tags)"
    and "keeps good rules (attachPublicIP c i ip)"
  using assms
  unfolding addSecurityGroupToServer_def ensurePublicIP_def findPublicIPByTags_def
    sdk_ListPublicIPsByTags_def attachPublicIP_def getPublicIP_def iaas_rule_laws_def rule_frame_laws_def
  by (intro keeps_intros; simp)+

lemma ensureBastionSecurityGroup_good:
  assumes "iaas_rule_laws c rules good" and "good a"
    and "run_state (ensureBastionSecurityGroup c input) a = (res, a')"
  shows "good a'"
proof -
  have "keeps good (\<lambda>_. ()) m" if "api_law good m Q" for m :: "('a, 'r) state" and Q
    using that by (auto simp: keeps_def elim: api_law_mono)
  moreover have "keeps good (\<lambda>_. ()) m" if "keeps good rules m" for m :: "('a, 'r) state"
    using that by (auto simp: keeps_def elim: api_law_mono)
  ultimately have "keeps good (\<lambda>_. ()) (ensureBastionSecurityGroup c input)"
    using assms(1) unfolding ensureBastionSecurityGroup_def findSecurityGroupByTags_def
      sdk_ListSecurityGroupsByTags_def createSecurityGroup_def iaas_rule_laws_def rule_frame_laws_def
    by (intro keeps_intros) blast+
  from keeps_run [OF this assms(2,3)] show ?thesis by simp
qed

text \<open>
  C15: a bastion admits SSH from the allowed CIDRs only. When \<open>EnsureBastion\<close> of the SDK client
  succeeds, the address ranges of the ingress TCP/22 rules of the security group that it reports are
  exactly the allowed CIDRs of its input, whatever rules the group had before: missing ones are
  created, each once, and the others revoked.
\<close>

theorem EnsureBastion_exact_cidrs:
  assumes "iaas_rule_laws c rules good" and "good a"
    and "run_state (sdk_EnsureBastion c input) a = (Inr b, a')"
  shows "rule_IpRange ` {rule \<in> rules a' (bas_SecurityGroupID b). isSSHRule rule} = set (bi_AllowedCIDRs input)"
proof -
  from assms(3) obtain sg a1 u a2 sv a3 v a4 ip a5 ip'
    where g: "run_state (ensureBastionSecurityGroup c input) a = (Inr sg, a1)"
      and r: "run_state (ensureBastionSecurityGroupRules c (sg_ID sg) (bi_AllowedCIDRs input)) a1 = (Inr u, a2)"
      and s: "run_state (sdk_CreateServer c (bastionServerInput input (sg_ID sg))) a2 = (Inr sv, a3)"
      and t: "run_state (addSecurityGroupToServer c (srv_ID sv) (sg_ID sg)) a3 = (Inr v, a4)"
      and p: "run_state (ensurePublicIP c (bi_Tags input)) a4 = (Inr ip, a5)"
      and q: "run_state (attachPublicIP c (srv_ID sv) ip) a5 = (Inr ip', a')"
      and b: "bas_SecurityGroupID b = sg_ID sg"
    by (auto simp: sdk_EnsureBastion_def run_onOk_Inr split: if_splits)
  have "good a1" by (rule ensureBastionSecurityGroup_good [OF assms(1,2) g])
  with ensureBastionSecurityGroupRules_exact [OF assms(1) _ r]
  have "good a2" "ssh_ranges (rules a2 (sg_ID sg)) = set (bi_AllowedCIDRs input)" by auto
  with keeps_run [OF keeps_rules_CreateServer [OF assms(1)] _ s] keeps_run [OF keeps_rules_after(1) [OF assms(1)] _ t]
    keeps_run [OF keeps_rules_after(2) [OF assms(1)] _ p] keeps_run [OF keeps_rules_after(3) [OF assms(1)] _ q] b
  show ?thesis by (simp add: ssh_ranges_def)
qed

section \<open>An API with rules in memory\<close>

text \<open>
  A concrete instance for the witness: a list of rules, each with its group. The lists of servers,
  public IPs and groups are those of the sample: one group \<open>g\<close> and one server and IP, all labelled
  \<open>t = v\<close>.
\<close>

definition rule_new :: "(string \<times> sdk_Rule) list \<Rightarrow> CreateSecurityGroupRulePayload \<Rightarrow> sdk_Rule" where
  "rule_new rs payload =
     \<lparr>rule_Id = replicate (Suc (sum_list (map (\<lambda>(_, rule). length (rule_Id rule)) rs))) CHR ''r'',
      rule_Direction = crp_Direction payload,
      rule_IpRange = (case crp_IpRange payload of None \<Rightarrow> [] | Some cidr \<Rightarrow> cidr),
      rule_PortMin = crp_PortMin payload, rule_PortMax = crp_PortMax payload,
      rule_Protocol = Some (crp_Protocol payload),
      rule_RemoteSecurityGroupId = (case crp_RemoteSecurityGroupId payload of None \<Rightarrow> [] | Some g \<Rightarrow> g)\<rparr>"

definition sample_labels :: "string gomap" where
  "sample_labels = [(''t'', ''v'')]"

definition rule_IaaS :: "(string \<times> sdk_Rule) list IaaS" where
  "rule_IaaS = no_IaaS
     \<lparr>iaas_ListServers := (\<lambda>_ _ _. ret (Inr [\<lparr>ss_Id = ''srv'', ss_Name = ''b'', ss_Status = ''ACTIVE'',
         ss_PowerStatus = ''RUNNING'', ss_AvailabilityZone = [], ss_Labels = sample_labels\<rparr>])),
      iaas_AddSecurityGroupToServer := (\<lambda>_ _ _ _. answer 409),
      iaas_ListPublicIPs := (\<lambda>_ _ _. ret (Inr [\<lparr>spi_Id = ''ip'', spi_Ip = ''192.0.2.1'',
         spi_NetworkInterface = ''nic'', spi_Labels = sample_labels\<rparr>])),
      iaas_ListSecurityGroups := (\<lambda>_ _ _. ret (Inr [\<lparr>ssg_Id = ''g'', ssg_Name = ''b-ssh'',
         ssg_Labels = sample_labels\<rparr>])),
      iaas_ListSecurityGroupRules := (\<lambda>_ _ g. do {
         rs \<leftarrow> State_Monad.get;
         ret (Inr (map snd (filter (\<lambda>(h, _). h = g) rs))) }),
      iaas_CreateSecurityGroupRule := (\<lambda>_ _ g payload. State (\<lambda>rs. (Inr (), (g, rule_new rs payload) # rs))),
      iaas_DeleteSecurityGroupRule := (\<lambda>_ _ g i. State (\<lambda>rs.
         (Inr (), filter (\<lambda>(h, rule). h = g \<longrightarrow> rule_Id rule \<noteq> i) rs)))\<rparr>"

definition rule_SDKClient :: "(string \<times> sdk_Rule) list SDKClient" where
  "rule_SDKClient =
     \<lparr>sdk_projectID = ''proj'', sdk_region = ''eu01'', sdk_iaas = rule_IaaS, sdk_lb = no_LBAPI\<rparr>"

definition mem_rules :: "(string \<times> sdk_Rule) list \<Rightarrow> rule_view" where
  "mem_rules rs g = {rule. (g, rule) \<in> set rs}"

definition rules_good :: "(string \<times> sdk_Rule) list \<Rightarrow> bool" where
  "rules_good rs \<longleftrightarrow> distinct (map (\<lambda>(_, rule). rule_Id rule) rs) \<and> [] \<notin> (\<lambda>(_, rule). rule_Id rule) ` set rs"

lemma rules_good_identified: "rules_good rs \<Longrightarrow> identified (mem_rules rs g)"
  by (force simp: rules_good_def identified_def mem_rules_def distinct_map inj_on_def image_iff)

lemma rules_good_new:
  assumes "rules_good rs"
  shows "rules_good ((g, rule_new rs payload) # rs)"
proof -
  have "rule_Id (rule_new rs payload) \<noteq> rule_Id rule" if "(h, rule) \<in> set rs" for h rule
  proof -
    have "length (rule_Id rule) \<le> sum_list (map (\<lambda>(_, rule). length (rule_Id rule)) rs)"
      using that by (intro member_le_sum_list) (auto simp: image_iff intro!: bexI [of _ "(h, rule)"])
    moreover have "length (rule_Id (rule_new rs payload)) = Suc (sum_list (map (\<lambda>(_, rule). length (rule_Id rule)) rs))"
      by (simp add: rule_new_def)
    ultimately show ?thesis by (metis not_less_eq_eq order_refl)
  qed
  moreover have "rule_Id (rule_new rs payload) \<noteq> []" by (simp add: rule_new_def)
  ultimately show ?thesis using assms by (fastforce simp: rules_good_def)
qed

lemma rules_good_filter: "rules_good rs \<Longrightarrow> rules_good (filter P rs)"
  by (force simp: rules_good_def distinct_map_filter)

lemma rule_laws: "iaas_rule_laws rule_SDKClient mem_rules rules_good"
proof -
  have "adds_rule (mem_rules rs) (mem_rules ((g, rule_new rs payload) # rs)) g payload" for rs g payload
    unfolding adds_rule_def
    by (rule exI [of _ "rule_new rs payload"])
      (auto simp: rule_of_def rule_new_def mem_rules_def fun_eq_iff)
  then have "rule_call_laws rule_IaaS p r mem_rules rules_good" for p r
    unfolding rule_call_laws_def
    by (auto simp: rules_good_identified api_law_def rule_IaaS_def wp_simps rules_good_new rules_good_filter)
      (auto simp: mem_rules_def fun_eq_iff image_iff)
  moreover have "rule_frame_laws rule_IaaS p r mem_rules rules_good" for p r
    unfolding rule_frame_laws_def
    by (auto simp: rule_IaaS_def no_IaaS_def answer_def api_law_def wp_simps intro: keeps_return)
  ultimately show ?thesis by (simp add: iaas_rule_laws_def rule_SDKClient_def)
qed

definition sample_bastion_input :: BastionInput where
  "sample_bastion_input =
     empty_BastionInput\<lparr>bi_Name := ''b'', bi_NetworkID := ''n'', bi_ImageID := ''img'', bi_MachineType := ''c1'',
       bi_SSHKeyName := ''key'', bi_Tags := sample_labels,
       bi_AllowedCIDRs := [''10.0.0.0/8'', ''192.0.2.0/24'', ''10.0.0.0/8'']\<rparr>"

definition sample_rules :: "(string \<times> sdk_Rule) list" where
  "sample_rules =
     [(''g'', (rule_new [] (sshRulePayload (Some ''0.0.0.0/0'') None))\<lparr>rule_Id := ''old''\<rparr>)]"

theorem EnsureBastion_exact_cidrs_witness:
  "let run = run_state (sdk_EnsureBastion rule_SDKClient sample_bastion_input) sample_rules
   in \<not> isl (fst run) \<and> bas_SecurityGroupID (projr (fst run)) = ''g'' \<and>
      rule_IpRange ` {rule \<in> mem_rules (snd run) ''g''. isSSHRule rule} = {''10.0.0.0/8'', ''192.0.2.0/24''}"
proof -
  let ?run = "run_state (sdk_EnsureBastion rule_SDKClient sample_bastion_input) sample_rules"
  have r: "\<not> isl (fst ?run)" "bas_SecurityGroupID (projr (fst ?run)) = ''g''" by code_simp+
  then have run: "?run = (Inr (projr (fst ?run)), snd ?run)" by (metis prod.collapse sum.collapse(2))
  have "rules_good sample_rules" by code_simp
  from EnsureBastion_exact_cidrs [OF rule_laws this run] r(2)
  have "rule_IpRange ` {rule \<in> mem_rules (snd ?run) ''g''. isSSHRule rule} = set (bi_AllowedCIDRs sample_bastion_input)"
    by simp
  also have "\<dots> = {''10.0.0.0/8'', ''192.0.2.0/24''}" by (auto simp: sample_bastion_input_def)
  finally show ?thesis using r by simp
qed

end
