(* ===== verification/SDK_Targets.thy ===== *)
theory SDK_Targets
  imports SDK_Laws "HOL-Library.Multiset"
begin

text \<open>
  The targets of the API server load balancer in the SDK client: two lists of targets are the same
  for \<open>sameTargets\<close> when they agree as multisets, and \<open>SetAPIServerLoadBalancerTargets\<close> leaves the
  wanted targets behind and writes only when it has to. What the load balancer API promises is the
  hypothesis \<open>pool_laws\<close>.
\<close>

definition target_key :: "sdk_Target \<Rightarrow> targetKey" where
  "target_key t = targetKey (tgt_DisplayName t) (tgt_Ip t)"

lemma target_key_inject [simp]: "target_key s = target_key t \<longleftrightarrow> s = t"
  by (auto simp: target_key_def intro: sdk_Target.equality)

lemma sameTargets_iff_mset: "sameTargets xs ys \<longleftrightarrow> mset xs = mset ys"
proof -
  have keys: "sortedTargetKeys zs = sort (map target_key zs)" for zs
    by (simp add: sortedTargetKeys_def target_key_def [abs_def])
  have "sort (map target_key xs) = sort (map target_key ys) \<longleftrightarrow>
      mset (map target_key xs) = mset (map target_key ys)"
    by (metis mset_sort properties_for_sort sorted_sort)
  also have "\<dots> \<longleftrightarrow> image_mset target_key (mset xs) = image_mset target_key (mset ys)" by simp
  also have "\<dots> \<longleftrightarrow> mset xs = mset ys"
    using multiset.inj_map [of target_key] by (auto simp: inj_def)
  finally show ?thesis
    using size_mset by (metis keys sameTargets_def)
qed

type_synonym pool_view = "string \<rightharpoonup> int \<times> sdk_Target list"

definition pool_of :: "sdk_LoadBalancer \<Rightarrow> (int \<times> sdk_Target list) option" where
  "pool_of l = map_option (\<lambda>p. (tp_TargetPort p, tp_Targets p)) (apiServerTargetPool l)"

definition pool_laws :: "'a SDKClient \<Rightarrow> ('a \<Rightarrow> pool_view) \<Rightarrow> ('a \<Rightarrow> bool) \<Rightarrow> bool" where
  "pool_laws c pools good \<longleftrightarrow>
     (\<forall>i. api_law good (lba_GetLoadBalancer (sdk_lb c) (sdk_projectID c) (sdk_region c) i) (\<lambda>a res a'.
        pools a' = pools a \<and> (\<forall>l. res = Inr l \<longrightarrow> pool_of l = pools a i))) \<and>
     (\<forall>i payload. api_law good
        (lba_UpdateTargetPool (sdk_lb c) (sdk_projectID c) (sdk_region c) i ''apiserver'' payload) (\<lambda>a res a'.
        \<forall>port. res = Inr () \<longrightarrow> utp_TargetPort payload = Some port \<longrightarrow>
          pools a' = (pools a)(i \<mapsto> (port, utp_Targets payload))))"

lemma pool_of_Some:
  "pool_of l = Some (port, ts) \<longleftrightarrow>
     (\<exists>p. apiServerTargetPool l = Some p \<and> tp_TargetPort p = port \<and> tp_Targets p = ts)"
  by (auto simp: pool_of_def)

text \<open>
  C19: setting the targets of the load balancer has the wanted effect and no other. When
  \<open>SetAPIServerLoadBalancerTargets\<close> succeeds, the pool has the given port and, up to order, the given
  targets, and the pools of other load balancers are as before; and when the pool has them already,
  the call does nothing but read the load balancer.
\<close>

theorem SetTargets_effect:
  assumes "pool_laws c pools good" and "good a"
    and "run_state (sdk_SetAPIServerLoadBalancerTargets c i port targets) a = (Inr (), a')"
  shows "(\<exists>ts. pools a' i = Some (port, ts) \<and> mset ts = mset (map targetFromInput targets)) \<and>
    (\<forall>j. j \<noteq> i \<longrightarrow> pools a' j = pools a j) \<and>
    (\<forall>ts. pools a i = Some (port, ts) \<longrightarrow> mset ts = mset (map targetFromInput targets) \<longrightarrow>
       a' = snd (run_state (lba_GetLoadBalancer (sdk_lb c) (sdk_projectID c) (sdk_region c) i) a))"
proof -
  let ?get = "lba_GetLoadBalancer (sdk_lb c) (sdk_projectID c) (sdk_region c) i"
  let ?new = "map targetFromInput targets"
  obtain out a1 where get: "run_state ?get a = (out, a1)" by fastforce
  from assms(3) get obtain l p where l: "out = Inr l" and p: "apiServerTargetPool l = Some p"
    and pos: "0 < port" and rest: "run_state (if tp_TargetPort p = port \<and> sameTargets (tp_Targets p) ?new
        then ok () else updateAPIServerTargetPool c i p ?new port) a1 = (Inr (), a')"
    by (auto simp: sdk_SetAPIServerLoadBalancerTargets_def onOk_def sdk_def run_state_bind Let_def
        split: if_splits sum.splits option.splits)
  have law: "good a1" "pools a1 = pools a" "pools a i = Some (tp_TargetPort p, tp_Targets p)"
    using assms(1,2) get l p unfolding pool_laws_def by (auto simp: pool_of_def dest!: api_law_run)
  show ?thesis
  proof (cases "tp_TargetPort p = port \<and> sameTargets (tp_Targets p) ?new")
    case True
    with rest law get show ?thesis by (auto simp: sameTargets_iff_mset)
  next
    case False
    let ?payload = "\<lparr>utp_Name = ''apiserver'', utp_TargetPort = Some port, utp_Targets = ?new\<rparr>"
    have "run_state (lba_UpdateTargetPool (sdk_lb c) (sdk_projectID c) (sdk_region c) i ''apiserver'' ?payload) a1 =
        (Inr (), a')"
      using rest False pos
      by (auto simp: updateAPIServerTargetPool_def sdk_def run_state_bind split: sum.splits prod.splits)
    with assms(1) law(1) have "pools a' = (pools a1)(i \<mapsto> (port, ?new))"
      unfolding pool_laws_def by (fastforce dest!: api_law_run)
    with law False show ?thesis by (auto simp: sameTargets_iff_mset)
  qed
qed

section \<open>A load balancer API in memory\<close>

definition mem_LB :: "string \<Rightarrow> int \<times> sdk_Target list \<Rightarrow> sdk_LoadBalancer" where
  "mem_LB name pool =
     \<lparr>slb_Name = name, slb_ExternalAddress = [], slb_PrivateAddress = [], slb_Listeners = [], slb_Labels = [],
      slb_TargetPools = [\<lparr>tp_Name = ''apiserver'', tp_TargetPort = fst pool, tp_Targets = snd pool\<rparr>]\<rparr>"

definition pool_LBAPI :: "(int \<times> sdk_Target list) gomap LBAPI" where
  "pool_LBAPI = no_LBAPI
     \<lparr>lba_GetLoadBalancer := (\<lambda>_ _ i. do {
        ps \<leftarrow> State_Monad.get;
        case map_of ps i of None \<Rightarrow> answer 404 | Some pool \<Rightarrow> ret (Inr (mem_LB i pool)) }),
      lba_UpdateTargetPool := (\<lambda>_ _ i _ payload. State (\<lambda>ps.
        (Inr (), case utp_TargetPort payload of
                   None \<Rightarrow> ps | Some port \<Rightarrow> AList.update i (port, utp_Targets payload) ps)))\<rparr>"

definition pool_SDKClient :: "(int \<times> sdk_Target list) gomap SDKClient" where
  "pool_SDKClient =
     \<lparr>sdk_projectID = ''proj'', sdk_region = ''eu01'', sdk_iaas = no_IaaS, sdk_lb = pool_LBAPI\<rparr>"

lemma pool_laws_mem: "pool_laws pool_SDKClient map_of (\<lambda>_. True)"
  by (auto simp: pool_laws_def pool_SDKClient_def api_law_def pool_LBAPI_def wp_simps answer_def pool_of_def
      mem_LB_def apiServerTargetPool_def update_conv' split: option.splits)

definition sample_targets :: "LoadBalancerTargetInput list" where
  "sample_targets = [\<lparr>lti_Name = ''cp-1'', lti_IP = ''10.0.0.2''\<rparr>, \<lparr>lti_Name = ''cp-0'', lti_IP = ''10.0.0.1''\<rparr>]"

theorem SetTargets_effect_witness:
  "\<exists>ts. map_of (snd (run_state (sdk_SetAPIServerLoadBalancerTargets pool_SDKClient ''lb'' 6443
          sample_targets) [(''lb'', 6443, [])])) ''lb'' = Some (6443, ts) \<and>
     mset ts = mset (map targetFromInput sample_targets)"
proof -
  let ?run = "run_state (sdk_SetAPIServerLoadBalancerTargets pool_SDKClient ''lb'' 6443 sample_targets)
      [(''lb'', 6443, [])]"
  have "fst ?run = Inr ()" by code_simp
  then have "?run = (Inr (), snd ?run)" by (metis prod.collapse)
  from SetTargets_effect [OF pool_laws_mem _ this] show ?thesis by simp
qed

end
