(* ===== verification/Webhooks.thy ===== *)
theory Webhooks
  imports Machine_Controller Cluster_Controller Provider_Id
begin

text \<open>
  The admission webhooks (\<open>webhook/v1alpha1\<close>): defaulting and validation of the four kinds, and the
  two template types of \<open>api/v1alpha1\<close>. A field error has its type, its path and its detail (the bad
  value is left out); the label, name and metadata validators of the Kubernetes libraries are fields
  of the parameter \<open>validators\<close>. The regular expressions are predicates on strings.
\<close>

section \<open>Field errors\<close>

datatype ErrorType =
    ErrorTypeRequired | ErrorTypeInvalid | ErrorTypeForbidden | ErrorTypeNotSupported | ErrorTypeDuplicate

record field_Error =
  fe_Type :: ErrorType
  fe_Field :: string
  fe_Detail :: string

definition fieldError :: "ErrorType \<Rightarrow> string \<Rightarrow> string \<Rightarrow> field_Error" where
  "fieldError t path detail = \<lparr>fe_Type = t, fe_Field = path, fe_Detail = detail\<rparr>"

definition Child :: "string \<Rightarrow> string \<Rightarrow> string" where
  "Child path name = path @ ''.'' @ name"

definition Index :: "string \<Rightarrow> nat \<Rightarrow> string" where
  "Index path i = path @ ''['' @ show_int (int i) @ '']''"

definition Key :: "string \<Rightarrow> string \<Rightarrow> string" where
  "Key path k = path @ ''['' @ k @ '']''"

definition errIf :: "bool \<Rightarrow> field_Error \<Rightarrow> field_Error list" where
  "errIf b e = (if b then [e] else [])"

record StatusError =
  inv_Kind :: string
  inv_Name :: string
  inv_Errors :: "field_Error list"

definition invalidFor :: "string \<Rightarrow> string \<Rightarrow> field_Error list \<Rightarrow> StatusError option" where
  "invalidFor kind name allErrs =
     (if allErrs = [] then None
      else Some \<lparr>inv_Kind = kind, inv_Name = name, inv_Errors = allErrs\<rparr>)"

definition fieldPathSpec :: string where
  "fieldPathSpec = ''spec''"

section \<open>Patterns\<close>

definition lower :: "char \<Rightarrow> bool" where
  "lower c \<longleftrightarrow> c \<in> set ''abcdefghijklmnopqrstuvwxyz''"

definition upper :: "char \<Rightarrow> bool" where
  "upper c \<longleftrightarrow> c \<in> set ''ABCDEFGHIJKLMNOPQRSTUVWXYZ''"

definition digit :: "char \<Rightarrow> bool" where
  "digit c \<longleftrightarrow> c \<in> set ''0123456789''"

definition uuidPattern :: "string \<Rightarrow> bool" where
  "uuidPattern s \<longleftrightarrow> length s = 36 \<and> list_all (\<lambda>c. c \<in> set ''0123456789abcdefABCDEF-'') s"

definition regionPattern :: "string \<Rightarrow> bool" where
  "regionPattern s \<longleftrightarrow> length s = 4 \<and> list_all lower (take 2 s) \<and> list_all digit (drop 2 s)"

definition machineTypePattern :: "string \<Rightarrow> bool" where
  "machineTypePattern s \<longleftrightarrow> 2 \<le> length s \<and> (lower (hd s) \<or> digit (hd s)) \<and> (lower (last s) \<or> digit (last s)) \<and>
     list_all (\<lambda>c. lower c \<or> digit c \<or> c \<in> set ''.-'') (butlast (tl s))"

definition availabilityZonePattern :: "string \<Rightarrow> bool" where
  "availabilityZonePattern s \<longleftrightarrow> regionPattern (take 4 s) \<and> take 1 (drop 4 s) = ''-'' \<and> drop 5 s \<noteq> [] \<and>
     list_all (\<lambda>c. lower c \<or> digit c) (drop 5 s)"

definition sshKeyNamePattern :: "string \<Rightarrow> bool" where
  "sshKeyNamePattern s \<longleftrightarrow> s \<noteq> [] \<and> list_all (\<lambda>c. upper c \<or> lower c \<or> digit c \<or> c \<in> set ''_.@-'') s"

section \<open>Defaults\<close>

definition rootVolumeConfigured :: "StackitRootVolumeSpec \<Rightarrow> bool" where
  "rootVolumeConfigured v \<longleftrightarrow>
     rvs_SizeGiB v > 0 \<or> rvs_PerformanceClass v \<noteq> [] \<or> rvs_DeleteOnTermination v \<noteq> None"

definition defaultRootVolume :: "StackitRootVolumeSpec \<Rightarrow> StackitRootVolumeSpec" where
  "defaultRootVolume v =
     (if rvs_DeleteOnTermination v = None then v\<lparr>rvs_DeleteOnTermination := Some True\<rparr> else v)"

definition defaultClusterSpec :: "StackitClusterSpec \<Rightarrow> StackitClusterSpec" where
  "defaultClusterSpec spec =
     (let b = scs_Bastion spec
      in if bs_Enabled b \<or> rootVolumeConfigured (bs_RootVolume b)
         then spec\<lparr>scs_Bastion := b\<lparr>bs_RootVolume := defaultRootVolume (bs_RootVolume b)\<rparr>\<rparr>
         else spec)"

definition defaultMachineSpec :: "StackitMachineSpec \<Rightarrow> StackitMachineSpec" where
  "defaultMachineSpec spec =
     (if rootVolumeConfigured (sms_RootVolume spec)
      then spec\<lparr>sms_RootVolume := defaultRootVolume (sms_RootVolume spec)\<rparr>
      else spec)"

section \<open>Validation of single fields\<close>

record TemplateObjectMeta =
  tom_Labels :: "string gomap"
  tom_Annotations :: "string gomap"

record validators =
  v_IsQualifiedName :: "string \<Rightarrow> string list"
  v_IsValidLabelValue :: "string \<Rightarrow> string list"
  v_IsDNS1123Subdomain :: "string \<Rightarrow> string list"
  v_ObjectMeta :: "TemplateObjectMeta \<Rightarrow> string \<Rightarrow> field_Error list"

definition joinValidationErrors :: "string list \<Rightarrow> string" where
  "joinValidationErrors errs = JoinStr errs ''; ''"

definition validateDNS1123Subdomain :: "validators \<Rightarrow> string \<Rightarrow> string \<Rightarrow> field_Error list" where
  "validateDNS1123Subdomain V value path =
     errIf (v_IsDNS1123Subdomain V value \<noteq> [])
       (fieldError ErrorTypeInvalid path (joinValidationErrors (v_IsDNS1123Subdomain V value)))"

definition validateRequiredPattern ::
  "string \<Rightarrow> (string \<Rightarrow> bool) \<Rightarrow> string \<Rightarrow> string \<Rightarrow> field_Error list" where
  "validateRequiredPattern value pattern path detail =
     (if value = [] then [fieldError ErrorTypeRequired path ''required'']
      else errIf (\<not> pattern value) (fieldError ErrorTypeInvalid path detail))"

definition validateSecretReference :: "validators \<Rightarrow> SecretReference \<Rightarrow> string \<Rightarrow> field_Error list" where
  "validateSecretReference V ref path =
     (if sr_Name ref = [] then [fieldError ErrorTypeRequired (Child path ''name'') ''required'']
      else validateDNS1123Subdomain V (sr_Name ref) (Child path ''name'')) @
     (if sr_Namespace ref \<noteq> [] then validateDNS1123Subdomain V (sr_Namespace ref) (Child path ''namespace'')
      else [])"

definition validateTemplateObjectMeta :: "validators \<Rightarrow> TemplateObjectMeta \<Rightarrow> string \<Rightarrow> field_Error list" where
  "validateTemplateObjectMeta V m path = v_ObjectMeta V m path"

definition validateAdditionalLabels :: "validators \<Rightarrow> string gomap \<Rightarrow> string \<Rightarrow> field_Error list" where
  "validateAdditionalLabels V labels path =
     concat (map (\<lambda>(key, value).
       errIf (v_IsQualifiedName V key \<noteq> []) (fieldError ErrorTypeInvalid (Key path key)
         (''invalid label key: '' @ joinValidationErrors (v_IsQualifiedName V key))) @
       errIf (v_IsValidLabelValue V value \<noteq> []) (fieldError ErrorTypeInvalid (Key path key)
         (''invalid label value: '' @ joinValidationErrors (v_IsValidLabelValue V value)))) labels)"

fun validateSecurityGroupsFrom :: "string \<Rightarrow> nat \<Rightarrow> string list \<Rightarrow> string list \<Rightarrow> field_Error list" where
  "validateSecurityGroupsFrom path i seen [] = []"
| "validateSecurityGroupsFrom path i seen (g # gs) =
     (if \<not> uuidPattern g
      then fieldError ErrorTypeInvalid (Index path i) ''must be a STACKIT security group UUID'' #
           validateSecurityGroupsFrom path (Suc i) seen gs
      else if g \<in> set seen
      then fieldError ErrorTypeDuplicate (Index path i) [] # validateSecurityGroupsFrom path (Suc i) seen gs
      else validateSecurityGroupsFrom path (Suc i) (g # seen) gs)"

definition validateSecurityGroups :: "string list \<Rightarrow> string \<Rightarrow> field_Error list" where
  "validateSecurityGroups gs path = validateSecurityGroupsFrom path 0 [] gs"

definition validateRootVolume :: "StackitRootVolumeSpec \<Rightarrow> string \<Rightarrow> field_Error list" where
  "validateRootVolume v path =
     errIf (rvs_SizeGiB v < 0)
       (fieldError ErrorTypeInvalid (Child path ''sizeGiB'') ''must be greater than or equal to 0'') @
     errIf (rvs_DeleteOnTermination v \<noteq> None \<and> rvs_SizeGiB v = 0 \<and> rvs_PerformanceClass v = [])
       (fieldError ErrorTypeInvalid (Child path ''deleteOnTermination'')
         ''requires rootVolume.sizeGiB or rootVolume.performanceClass'')"

section \<open>Validation of the specs\<close>

definition validateBastionCloudInitRef ::
  "validators \<Rightarrow> StackitBastionCloudInitRef \<Rightarrow> string \<Rightarrow> field_Error list" where
  "validateBastionCloudInitRef V ref path =
     errIf (cir_Kind ref \<noteq> ''ConfigMap'' \<and> cir_Kind ref \<noteq> ''Secret'')
       (fieldError ErrorTypeNotSupported (Child path ''kind'')
         (''supported values: '' @ quote ''ConfigMap'' @ '', '' @ quote ''Secret'')) @
     (if cir_Name ref = []
      then [fieldError ErrorTypeRequired (Child path ''name'') ''required when cloudInitRef is set'']
      else validateDNS1123Subdomain V (cir_Name ref) (Child path ''name'')) @
     errIf (cir_Key ref = []) (fieldError ErrorTypeRequired (Child path ''key'') ''required when cloudInitRef is set'')"

definition webhook_validateBastionSpec :: "validators \<Rightarrow> StackitBastionSpec \<Rightarrow> string \<Rightarrow> field_Error list" where
  "webhook_validateBastionSpec V spec path =
     (if bs_Enabled spec
      then validateRequiredPattern (bs_ImageID spec) uuidPattern (Child path ''imageID'')
             ''must be a STACKIT image UUID'' @
           validateRequiredPattern (bs_MachineType spec) machineTypePattern (Child path ''machineType'')
             ''must be a valid STACKIT machine type'' @
           validateRequiredPattern (bs_SSHKeyName spec) sshKeyNamePattern (Child path ''sshKeyName'')
             ''must be a valid STACKIT SSH key name'' @
           errIf (bs_AllowedCIDRs spec = []) (fieldError ErrorTypeRequired (Child path ''allowedCIDRs'')
             ''required when bastion.enabled is true'')
      else []) @
     concat (map (\<lambda>(i, cidr). errIf (ParsePrefix cidr = None)
       (fieldError ErrorTypeInvalid (Index (Child path ''allowedCIDRs'') i) ''must be a valid CIDR''))
       (enumerate 0 (bs_AllowedCIDRs spec))) @
     errIf (bs_ImageID spec \<noteq> [] \<and> \<not> uuidPattern (bs_ImageID spec))
       (fieldError ErrorTypeInvalid (Child path ''imageID'') ''must be a STACKIT image UUID'') @
     errIf (bs_MachineType spec \<noteq> [] \<and> \<not> machineTypePattern (bs_MachineType spec))
       (fieldError ErrorTypeInvalid (Child path ''machineType'') ''must be a valid STACKIT machine type'') @
     errIf (bs_SSHKeyName spec \<noteq> [] \<and> \<not> sshKeyNamePattern (bs_SSHKeyName spec))
       (fieldError ErrorTypeInvalid (Child path ''sshKeyName'') ''must be a valid STACKIT SSH key name'') @
     validateRootVolume (bs_RootVolume spec) (Child path ''rootVolume'') @
     (case bs_CloudInitRef spec of
        None \<Rightarrow> []
      | Some ref \<Rightarrow> validateBastionCloudInitRef V ref (Child path ''cloudInitRef''))"

definition validateStackitClusterSpec :: "validators \<Rightarrow> StackitClusterSpec \<Rightarrow> string \<Rightarrow> field_Error list" where
  "validateStackitClusterSpec V spec path =
     validateRequiredPattern (scs_ProjectID spec) uuidPattern (Child path ''projectID'')
       ''must be a STACKIT project UUID'' @
     validateRequiredPattern (scs_Region spec) regionPattern (Child path ''region'')
       ''must use STACKIT region format, for example eu01'' @
     validateSecretReference V (scs_CredentialsSecretRef spec) (Child path ''credentialsSecretRef'') @
     errIf (\<not> scs_LoadBalancerEnabled spec \<and> ep_Host (scs_ControlPlaneEndpoint spec) = [])
       (fieldError ErrorTypeRequired (Child (Child path ''controlPlaneEndpoint'') ''host'')
         ''required when apiServerLoadBalancer.enabled is false'') @
     errIf (scs_NetworkID spec \<noteq> [] \<and> \<not> uuidPattern (scs_NetworkID spec))
       (fieldError ErrorTypeInvalid (Child (Child path ''network'') ''id'') ''must be a STACKIT network UUID'') @
     webhook_validateBastionSpec V (scs_Bastion spec) (Child path ''bastion'') @
     validateAdditionalLabels V (scs_AdditionalLabels spec) (Child path ''additionalLabels'')"

definition validateStackitMachineSpec ::
  "validators \<Rightarrow> StackitMachineSpec \<Rightarrow> string \<Rightarrow> bool \<Rightarrow> field_Error list" where
  "validateStackitMachineSpec V spec path allowProviderID =
     (case sms_ProviderID spec of
        None \<Rightarrow> []
      | Some p \<Rightarrow>
          if \<not> allowProviderID
          then [fieldError ErrorTypeForbidden (Child path ''providerID'')
                  ''providerID is generated per machine and must not be set in a template'']
          else errIf (isl (ParseProviderID p)) (fieldError ErrorTypeInvalid (Child path ''providerID'')
                  ''must use STACKIT providerID format stackit://<server-id>'')) @
     validateRequiredPattern (sms_ImageID spec) uuidPattern (Child path ''imageID'')
       ''must be a STACKIT image UUID'' @
     validateRequiredPattern (sms_MachineType spec) machineTypePattern (Child path ''machineType'')
       ''must be a valid STACKIT machine type'' @
     errIf (sms_AvailabilityZone spec \<noteq> [] \<and> \<not> availabilityZonePattern (sms_AvailabilityZone spec))
       (fieldError ErrorTypeInvalid (Child path ''availabilityZone'')
         ''must use STACKIT availability zone format, for example eu01-1'') @
     errIf (sms_SSHKeyName spec \<noteq> [] \<and> \<not> sshKeyNamePattern (sms_SSHKeyName spec))
       (fieldError ErrorTypeInvalid (Child path ''sshKeyName'') ''must be a valid STACKIT SSH key name'') @
     errIf (sms_NetworkID spec \<noteq> [] \<and> \<not> uuidPattern (sms_NetworkID spec))
       (fieldError ErrorTypeInvalid (Child (Child path ''network'') ''id'') ''must be a STACKIT network UUID'') @
     validateRootVolume (sms_RootVolume spec) (Child path ''rootVolume'') @
     validateSecurityGroups (sms_SecurityGroups spec) (Child path ''securityGroups'') @
     validateAdditionalLabels V (sms_AdditionalLabels spec) (Child path ''additionalLabels'')"

section \<open>Validation of updates\<close>

definition sameMap :: "string gomap \<Rightarrow> string gomap \<Rightarrow> bool" where
  \<comment> \<open>\<open>equality.Semantic.DeepEqual\<close> on maps, where a nil map and an empty one are equal\<close>
  "sameMap a b \<longleftrightarrow> list_all (\<lambda>(k, _). map_of a k = map_of b k) (a @ b)"

definition validateStackitClusterSpecUpdate :: "StackitCluster \<Rightarrow> StackitCluster \<Rightarrow> field_Error list" where
  "validateStackitClusterSpecUpdate oldCluster newCluster =
     (let old = sc_Spec oldCluster; new = sc_Spec newCluster; path = ''spec''
      in errIf (scs_ProjectID old \<noteq> scs_ProjectID new)
           (fieldError ErrorTypeForbidden (Child path ''projectID'') ''field is immutable'') @
         errIf (scs_Region old \<noteq> scs_Region new)
           (fieldError ErrorTypeForbidden (Child path ''region'') ''field is immutable'') @
         errIf (scs_NetworkID old \<noteq> scs_NetworkID new)
           (fieldError ErrorTypeForbidden (Child (Child path ''network'') ''id'') ''field is immutable'') @
         errIf (scs_CredentialsSecretRef old \<noteq> scs_CredentialsSecretRef new)
           (fieldError ErrorTypeForbidden (Child path ''credentialsSecretRef'') ''field is immutable'') @
         errIf (scst_APIServerLoadBalancerID (sc_Status oldCluster) \<noteq> [] \<and>
               scs_LoadBalancerEnabled old \<noteq> scs_LoadBalancerEnabled new)
           (fieldError ErrorTypeForbidden (Child (Child path ''apiServerLoadBalancer'') ''enabled'')
             ''field is immutable after the API server load balancer has been provisioned'') @
         errIf (bst_ServerID (scst_Bastion (sc_Status oldCluster)) \<noteq> [] \<and>
               bs_Enabled (scs_Bastion old) \<and> bs_Enabled (scs_Bastion new) \<and>
               (scs_Bastion old)\<lparr>bs_CloudInitRef := None\<rparr> \<noteq> (scs_Bastion new)\<lparr>bs_CloudInitRef := None\<rparr>)
           (fieldError ErrorTypeForbidden (Child path ''bastion'')
             (''bastion fields other than cloudInitRef are immutable '' @
              ''after the bastion server has been provisioned'')))"

definition comparedMachineSpec :: "StackitMachineSpec \<Rightarrow> StackitMachineSpec" where
  \<comment> \<open>the copy of a machine spec that is compared: defaulted, without provider ID and labels\<close>
  "comparedMachineSpec spec =
     (defaultMachineSpec (spec\<lparr>sms_ProviderID := None\<rparr>))\<lparr>sms_AdditionalLabels := []\<rparr>"

definition validateStackitMachineSpecUpdate :: "StackitMachine \<Rightarrow> StackitMachine \<Rightarrow> field_Error list" where
  "validateStackitMachineSpecUpdate oldMachine newMachine =
     (let old = sm_Spec oldMachine; new = sm_Spec newMachine; path = ''spec''
      in errIf (comparedMachineSpec old \<noteq> comparedMachineSpec new)
           (fieldError ErrorTypeForbidden path
             ''VM creation fields are immutable; create a replacement Machine instead'') @
         errIf (sms_ProviderID old \<noteq> None \<and> sms_ProviderID new = None)
           (fieldError ErrorTypeForbidden (Child path ''providerID'')
             ''providerID is controller-owned and cannot be removed'') @
         errIf (sms_ProviderID old \<noteq> None \<and> sms_ProviderID new \<noteq> None \<and>
               sms_ProviderID old \<noteq> sms_ProviderID new)
           (fieldError ErrorTypeForbidden (Child path ''providerID'')
             ''providerID is controller-owned and cannot be changed'') @
         errIf (smst_InstanceID (sm_Status oldMachine) \<noteq> [] \<and>
               \<not> sameMap (sms_AdditionalLabels old) (sms_AdditionalLabels new))
           (fieldError ErrorTypeForbidden (Child path ''additionalLabels'')
             ''field is immutable after the server has been provisioned''))"

section \<open>Templates\<close>

record StackitClusterTemplateResource =
  ctr_ObjectMeta :: TemplateObjectMeta
  ctr_Spec :: StackitClusterSpec

record StackitClusterTemplate =
  ct_meta :: ObjectMeta
  ct_Template :: StackitClusterTemplateResource

record StackitMachineTemplateResource =
  mtr_ObjectMeta :: TemplateObjectMeta
  mtr_Spec :: StackitMachineSpec

record StackitMachineTemplate =
  mt_meta :: ObjectMeta
  mt_Template :: StackitMachineTemplateResource

definition sameClusterSpec :: "StackitClusterSpec \<Rightarrow> StackitClusterSpec \<Rightarrow> bool" where
  "sameClusterSpec a b \<longleftrightarrow> a\<lparr>scs_AdditionalLabels := []\<rparr> = b\<lparr>scs_AdditionalLabels := []\<rparr> \<and>
     sameMap (scs_AdditionalLabels a) (scs_AdditionalLabels b)"

definition sameMachineSpec :: "StackitMachineSpec \<Rightarrow> StackitMachineSpec \<Rightarrow> bool" where
  "sameMachineSpec a b \<longleftrightarrow> a\<lparr>sms_AdditionalLabels := []\<rparr> = b\<lparr>sms_AdditionalLabels := []\<rparr> \<and>
     sameMap (sms_AdditionalLabels a) (sms_AdditionalLabels b)"

definition immutableTemplateSpecMessage :: string where
  "immutableTemplateSpecMessage = ''field is immutable; create a new template resource instead''"

section \<open>The webhooks\<close>

definition cluster_Default :: "StackitCluster \<Rightarrow> StackitCluster" where
  "cluster_Default sc = sc\<lparr>sc_Spec := defaultClusterSpec (sc_Spec sc)\<rparr>"

definition cluster_ValidateCreate :: "validators \<Rightarrow> StackitCluster \<Rightarrow> StatusError option" where
  "cluster_ValidateCreate V sc =
     invalidFor ''StackitCluster'' (om_Name (sc_meta sc)) (validateStackitClusterSpec V (sc_Spec sc) fieldPathSpec)"

definition cluster_ValidateUpdate :: "validators \<Rightarrow> StackitCluster \<Rightarrow> StackitCluster \<Rightarrow> StatusError option" where
  "cluster_ValidateUpdate V old new =
     invalidFor ''StackitCluster'' (om_Name (sc_meta new))
       (validateStackitClusterSpec V (sc_Spec new) fieldPathSpec @ validateStackitClusterSpecUpdate old new)"

definition cluster_ValidateDelete :: "StackitCluster \<Rightarrow> StatusError option" where
  "cluster_ValidateDelete sc = None"

definition machine_Default :: "StackitMachine \<Rightarrow> StackitMachine" where
  "machine_Default sm = sm\<lparr>sm_Spec := defaultMachineSpec (sm_Spec sm)\<rparr>"

definition machine_ValidateCreate :: "validators \<Rightarrow> StackitMachine \<Rightarrow> StatusError option" where
  "machine_ValidateCreate V sm =
     invalidFor ''StackitMachine'' (om_Name (sm_meta sm))
       (validateStackitMachineSpec V (sm_Spec sm) fieldPathSpec True)"

definition machine_ValidateUpdate :: "validators \<Rightarrow> StackitMachine \<Rightarrow> StackitMachine \<Rightarrow> StatusError option" where
  "machine_ValidateUpdate V old new =
     invalidFor ''StackitMachine'' (om_Name (sm_meta new))
       (validateStackitMachineSpec V (sm_Spec new) fieldPathSpec True @ validateStackitMachineSpecUpdate old new)"

definition machine_ValidateDelete :: "StackitMachine \<Rightarrow> StatusError option" where
  "machine_ValidateDelete sm = None"

definition clusterTemplate_Default :: "StackitClusterTemplate \<Rightarrow> StackitClusterTemplate" where
  "clusterTemplate_Default t =
     t\<lparr>ct_Template := (ct_Template t)\<lparr>ctr_Spec := defaultClusterSpec (ctr_Spec (ct_Template t))\<rparr>\<rparr>"

definition clusterTemplate_errors :: "validators \<Rightarrow> StackitClusterTemplate \<Rightarrow> field_Error list" where
  "clusterTemplate_errors V t =
     validateTemplateObjectMeta V (ctr_ObjectMeta (ct_Template t)) (Child (Child fieldPathSpec ''template'') ''metadata'') @
     validateStackitClusterSpec V (ctr_Spec (ct_Template t)) (Child (Child fieldPathSpec ''template'') ''spec'')"

definition clusterTemplate_ValidateCreate :: "validators \<Rightarrow> StackitClusterTemplate \<Rightarrow> StatusError option" where
  "clusterTemplate_ValidateCreate V t =
     invalidFor ''StackitClusterTemplate'' (om_Name (ct_meta t)) (clusterTemplate_errors V t)"

definition clusterTemplate_ValidateUpdate ::
  "validators \<Rightarrow> StackitClusterTemplate \<Rightarrow> StackitClusterTemplate \<Rightarrow> StatusError option" where
  "clusterTemplate_ValidateUpdate V old new =
     invalidFor ''StackitClusterTemplate'' (om_Name (ct_meta new))
       (clusterTemplate_errors V new @
        errIf (\<not> sameClusterSpec (defaultClusterSpec (ctr_Spec (ct_Template old)))
                  (defaultClusterSpec (ctr_Spec (ct_Template new))))
          (fieldError ErrorTypeInvalid (Child (Child fieldPathSpec ''template'') ''spec'')
            immutableTemplateSpecMessage))"

definition clusterTemplate_ValidateDelete :: "StackitClusterTemplate \<Rightarrow> StatusError option" where
  "clusterTemplate_ValidateDelete t = None"

definition machineTemplate_Default :: "StackitMachineTemplate \<Rightarrow> StackitMachineTemplate" where
  "machineTemplate_Default t =
     t\<lparr>mt_Template := (mt_Template t)\<lparr>mtr_Spec := defaultMachineSpec (mtr_Spec (mt_Template t))\<rparr>\<rparr>"

definition machineTemplate_errors :: "validators \<Rightarrow> StackitMachineTemplate \<Rightarrow> field_Error list" where
  "machineTemplate_errors V t =
     validateTemplateObjectMeta V (mtr_ObjectMeta (mt_Template t)) (Child (Child fieldPathSpec ''template'') ''metadata'') @
     validateStackitMachineSpec V (mtr_Spec (mt_Template t)) (Child (Child fieldPathSpec ''template'') ''spec'') False"

definition machineTemplate_ValidateCreate :: "validators \<Rightarrow> StackitMachineTemplate \<Rightarrow> StatusError option" where
  "machineTemplate_ValidateCreate V t =
     invalidFor ''StackitMachineTemplate'' (om_Name (mt_meta t)) (machineTemplate_errors V t)"

definition machineTemplate_ValidateUpdate ::
  "validators \<Rightarrow> StackitMachineTemplate \<Rightarrow> StackitMachineTemplate \<Rightarrow> StatusError option" where
  "machineTemplate_ValidateUpdate V old new =
     invalidFor ''StackitMachineTemplate'' (om_Name (mt_meta new))
       (machineTemplate_errors V new @
        errIf (\<not> sameMachineSpec (defaultMachineSpec (mtr_Spec (mt_Template old)))
                  (defaultMachineSpec (mtr_Spec (mt_Template new))))
          (fieldError ErrorTypeInvalid (Child (Child fieldPathSpec ''template'') ''spec'')
            immutableTemplateSpecMessage))"

definition machineTemplate_ValidateDelete :: "StackitMachineTemplate \<Rightarrow> StatusError option" where
  "machineTemplate_ValidateDelete t = None"

end
