(* ===== verification/Admission.thy ===== *)
theory Admission
  imports Webhooks Machine_Safety
begin

text \<open>
  What the webhooks guarantee to the controllers, over whole histories of an object: it is created,
  then updated any number of times by admitted updates (each defaulted first) and by writes of the
  controllers to the status, which the webhooks do not see.
\<close>

section \<open>Histories\<close>

inductive cluster_history :: "validators \<Rightarrow> StackitCluster \<Rightarrow> StackitCluster \<Rightarrow> bool" for V where
  created: "cluster_ValidateCreate V (cluster_Default sc) = None \<Longrightarrow>
    cluster_history V (cluster_Default sc) (cluster_Default sc)"
| updated: "cluster_history V a sc \<Longrightarrow> cluster_ValidateUpdate V sc (cluster_Default new) = None \<Longrightarrow>
    cluster_history V a (cluster_Default new)"
| status_written: "cluster_history V a sc \<Longrightarrow> cluster_history V a (sc\<lparr>sc_Status := st\<rparr>)"

inductive machine_history :: "validators \<Rightarrow> StackitMachine \<Rightarrow> StackitMachine \<Rightarrow> bool" for V where
  created: "machine_ValidateCreate V (machine_Default sm) = None \<Longrightarrow>
    machine_history V (machine_Default sm) (machine_Default sm)"
| updated: "machine_history V a sm \<Longrightarrow> machine_ValidateUpdate V sm (machine_Default new) = None \<Longrightarrow>
    machine_history V a (machine_Default new)"
| status_written: "machine_history V a sm \<Longrightarrow> machine_history V a (sm\<lparr>sm_Status := st\<rparr>)"

section \<open>Accepted specs\<close>

lemma errIf_Nil [simp]: "errIf b e = [] \<longleftrightarrow> \<not> b"
  by (simp add: errIf_def)

lemma invalidFor_None [simp]: "invalidFor kind name errs = None \<longleftrightarrow> errs = []"
  by (simp add: invalidFor_def)

lemma validateRequiredPattern_Nil [simp]:
  "validateRequiredPattern value pattern path detail = [] \<longleftrightarrow> value \<noteq> [] \<and> pattern value"
  by (simp add: validateRequiredPattern_def)

definition sound_cluster_spec :: "StackitClusterSpec \<Rightarrow> bool" where
  \<comment> \<open>what the cluster controller relies on\<close>
  "sound_cluster_spec spec \<longleftrightarrow>
     uuidPattern (scs_ProjectID spec) \<and> regionPattern (scs_Region spec) \<and>
     sr_Name (scs_CredentialsSecretRef spec) \<noteq> [] \<and>
     (scs_LoadBalancerEnabled spec \<or> ep_Host (scs_ControlPlaneEndpoint spec) \<noteq> []) \<and>
     (bs_Enabled (scs_Bastion spec) \<longrightarrow> validateBastionSpec (scs_Bastion spec) = None)"

lemma accepted_bastion_sound:
  assumes "webhook_validateBastionSpec V spec path = []" and "bs_Enabled spec"
  shows "validateBastionSpec spec = None"
proof -
  have "ParsePrefix cidr \<noteq> None" if "cidr \<in> set (bs_AllowedCIDRs spec)" for cidr
  proof -
    from that obtain i where "i < length (bs_AllowedCIDRs spec)" "bs_AllowedCIDRs spec ! i = cidr"
      by (auto simp: in_set_conv_nth)
    then have "(i, cidr) \<in> set (enumerate 0 (bs_AllowedCIDRs spec))"
      by (simp add: in_set_enumerate_eq)
    with assms(1) show ?thesis by (auto simp: webhook_validateBastionSpec_def)
  qed
  with assms show ?thesis
    by (auto simp: webhook_validateBastionSpec_def validateBastionSpec_def find_None_iff
        split: option.splits if_splits)
qed

lemma accepted_cluster_sound:
  "validateStackitClusterSpec V spec path = [] \<Longrightarrow> sound_cluster_spec spec"
  using accepted_bastion_sound [of V "scs_Bastion spec"]
  by (auto simp: validateStackitClusterSpec_def validateSecretReference_def sound_cluster_spec_def
      split: if_splits)

text \<open>
  C16: what an admitted StackitCluster guarantees to the controller. Through any history of admitted
  creation, admitted updates and status writes, the project, the region, the network and the
  reference to the credentials are those of the creation, and the spec is always one on which the
  controller does not stop for a configuration error: project and region are well formed, the Secret
  is named, there is an endpoint or a load balancer, and an enabled bastion passes the controller's
  own validation.
\<close>

theorem cluster_identity_fixed:
  assumes "cluster_history V a b"
  shows "scs_ProjectID (sc_Spec b) = scs_ProjectID (sc_Spec a) \<and> scs_Region (sc_Spec b) = scs_Region (sc_Spec a) \<and>
    scs_NetworkID (sc_Spec b) = scs_NetworkID (sc_Spec a) \<and>
    scs_CredentialsSecretRef (sc_Spec b) = scs_CredentialsSecretRef (sc_Spec a) \<and>
    sound_cluster_spec (sc_Spec b)"
  using assms
proof (induction rule: cluster_history.induct)
  case (created sc)
  then show ?case by (auto simp: cluster_ValidateCreate_def dest: accepted_cluster_sound)
next
  case (updated a sc new)
  then show ?case
    by (auto simp: cluster_ValidateUpdate_def validateStackitClusterSpecUpdate_def Let_def
        dest: accepted_cluster_sound)
qed simp

section \<open>Machines\<close>

lemma comparedMachineSpec_eqD:
  assumes "comparedMachineSpec x = comparedMachineSpec y"
  shows "sms_ImageID x = sms_ImageID y \<and> sms_MachineType x = sms_MachineType y \<and>
    sms_AvailabilityZone x = sms_AvailabilityZone y \<and> sms_SSHKeyName x = sms_SSHKeyName y \<and>
    sms_NetworkID x = sms_NetworkID y \<and> sms_SecurityGroups x = sms_SecurityGroups y \<and>
    rvs_SizeGiB (sms_RootVolume x) = rvs_SizeGiB (sms_RootVolume y) \<and>
    rvs_PerformanceClass (sms_RootVolume x) = rvs_PerformanceClass (sms_RootVolume y) \<and>
    (rvs_DeleteOnTermination (sms_RootVolume x) \<noteq> Some False \<longleftrightarrow>
     rvs_DeleteOnTermination (sms_RootVolume y) \<noteq> Some False)"
proof -
  have sel: "f (comparedMachineSpec x) = f (comparedMachineSpec y)" for f :: "StackitMachineSpec \<Rightarrow> 'x"
    using assms by simp
  show ?thesis
    using sel [of sms_ImageID] sel [of sms_MachineType] sel [of sms_AvailabilityZone] sel [of sms_SSHKeyName]
      sel [of sms_NetworkID] sel [of sms_SecurityGroups] sel [of "\<lambda>s. rvs_SizeGiB (sms_RootVolume s)"]
      sel [of "\<lambda>s. rvs_PerformanceClass (sms_RootVolume s)"]
      sel [of "\<lambda>s. rvs_DeleteOnTermination (sms_RootVolume s)"]
    by (auto simp: comparedMachineSpec_def defaultMachineSpec_def defaultRootVolume_def rootVolumeConfigured_def
        split: if_splits)
qed

definition creation_input :: "MachineScope \<Rightarrow> StackitMachine \<Rightarrow> string \<Rightarrow> CreateServerInput" where
  \<comment> \<open>what the controller would create a server from, less the name and the tags\<close>
  "creation_input ms sm userData =
     (createServerInput ms sm (machine_NetworkID ms sm) userData)\<lparr>csi_Name := [], csi_Tags := []\<rparr>"

lemma creation_input_cong:
  assumes "comparedMachineSpec (sm_Spec x) = comparedMachineSpec (sm_Spec y)"
  shows "creation_input ms x ud = creation_input ms y ud"
proof -
  have "(case d of None \<Rightarrow> True | Some b \<Rightarrow> b) \<longleftrightarrow> d \<noteq> Some False" for d
    by (cases d) auto
  with comparedMachineSpec_eqD [OF assms] show ?thesis
    by (simp add: creation_input_def createServerInput_def machine_NetworkID_def machine_AvailabilityZone_def)
qed

text \<open>
  C17: which server a machine gets is fixed when the machine is admitted. Through any history of
  admitted creation, admitted updates and status writes, the input from which the controller creates
  the server (image, type, zone, network, security groups, key, root volume, for any user data) stays
  the same apart from the tags, and a provider ID, once set, is neither removed nor changed.
\<close>

theorem machine_creation_fixed:
  assumes "machine_history V a b"
  shows "creation_input ms b ud = creation_input ms a ud \<and>
    (sms_ProviderID (sm_Spec a) \<noteq> None \<longrightarrow> sms_ProviderID (sm_Spec b) = sms_ProviderID (sm_Spec a))"
  using assms
proof (induction rule: machine_history.induct)
  case (updated a sm new)
  then have "comparedMachineSpec (sm_Spec sm) = comparedMachineSpec (sm_Spec (machine_Default new))"
    by (simp add: machine_ValidateUpdate_def validateStackitMachineSpecUpdate_def Let_def)
  from creation_input_cong [OF this] updated show ?case
    by (auto simp: machine_ValidateUpdate_def validateStackitMachineSpecUpdate_def Let_def)
next
  case (status_written a sm st)
  have "creation_input ms (sm\<lparr>sm_Status := st\<rparr>) ud = creation_input ms sm ud"
    by (rule creation_input_cong) simp
  with status_written show ?case by simp
qed simp

section \<open>Samples\<close>

text \<open>Validators that accept everything, and objects that are admitted.\<close>

definition lenient :: validators where
  "lenient = \<lparr>v_IsQualifiedName = (\<lambda>_. []), v_IsValidLabelValue = (\<lambda>_. []),
     v_IsDNS1123Subdomain = (\<lambda>_. []), v_ObjectMeta = (\<lambda>_ _. [])\<rparr>"

definition sample_uuid :: string where
  "sample_uuid = ''01234567-89ab-cdef-0123-456789abcdef''"

definition admitted_cluster :: StackitCluster where
  "admitted_cluster = sample_StackitCluster\<lparr>sc_Spec :=
     (sc_Spec sample_StackitCluster)\<lparr>scs_ProjectID := sample_uuid,
        scs_Bastion := (scs_Bastion (sc_Spec sample_StackitCluster))
          \<lparr>bs_Enabled := True, bs_ImageID := sample_uuid, bs_MachineType := ''c1.2'', bs_SSHKeyName := ''key'',
           bs_AllowedCIDRs := [''203.0.113.0/24'']\<rparr>\<rparr>\<rparr>"

definition relabelled_cluster :: StackitCluster where
  "relabelled_cluster = admitted_cluster\<lparr>sc_Spec :=
     (sc_Spec admitted_cluster)\<lparr>scs_AdditionalLabels := [(''team'', ''a'')]\<rparr>\<rparr>"

definition admitted_machine :: StackitMachine where
  "admitted_machine = sample_StackitMachine\<lparr>sm_Spec :=
     (sm_Spec sample_StackitMachine)\<lparr>sms_ImageID := sample_uuid\<rparr>\<rparr>"

lemma admitted_cluster_history: "cluster_history lenient (cluster_Default admitted_cluster)
    (cluster_Default relabelled_cluster)"
proof -
  have "cluster_ValidateCreate lenient (cluster_Default admitted_cluster) = None" by code_simp
  from cluster_history.created [OF this]
  have "cluster_history lenient (cluster_Default admitted_cluster) (cluster_Default admitted_cluster)" .
  moreover have "cluster_ValidateUpdate lenient (cluster_Default admitted_cluster)
      (cluster_Default relabelled_cluster) = None" by code_simp
  ultimately show ?thesis by (rule cluster_history.updated)
qed

theorem cluster_identity_fixed_witness:
  "scs_ProjectID (sc_Spec (cluster_Default relabelled_cluster)) =
     scs_ProjectID (sc_Spec (cluster_Default admitted_cluster)) \<and>
   sound_cluster_spec (sc_Spec (cluster_Default relabelled_cluster))"
  using cluster_identity_fixed [OF admitted_cluster_history] by simp

definition provided_machine :: StackitMachine where
  "provided_machine = admitted_machine\<lparr>sm_Spec :=
     (sm_Spec admitted_machine)\<lparr>sms_ProviderID := Some ''stackit://srv-1'', sms_AdditionalLabels := [(''team'', ''a'')]\<rparr>\<rparr>"

theorem machine_creation_fixed_witness:
  "creation_input sample_scope (machine_Default provided_machine) ''data'' =
     creation_input sample_scope (machine_Default admitted_machine) ''data''"
proof -
  have "machine_ValidateCreate lenient (machine_Default admitted_machine) = None" by code_simp
  from machine_history.created [OF this]
  have "machine_history lenient (machine_Default admitted_machine) (machine_Default admitted_machine)" .
  moreover have "machine_ValidateUpdate lenient (machine_Default admitted_machine)
      (machine_Default provided_machine) = None" by code_simp
  ultimately have "machine_history lenient (machine_Default admitted_machine) (machine_Default provided_machine)"
    by (rule machine_history.updated)
  from machine_creation_fixed [OF this] show ?thesis by simp
qed

section \<open>Where the webhooks fall short\<close>

text \<open>
  C38: defaulting makes a bastion without a root volume inadmissible. The defaulter sets
  \<open>deleteOnTermination\<close> on every enabled bastion, and the validator rejects that field when neither a
  size nor a performance class is given: a cluster whose bastion leaves the optional root volume out
  is always rejected, although the same spec passes validation before defaulting.
\<close>

theorem bastion_without_volume_rejected:
  assumes "bs_Enabled (scs_Bastion (sc_Spec sc))"
    and "bs_RootVolume (scs_Bastion (sc_Spec sc)) =
      \<lparr>rvs_SizeGiB = 0, rvs_PerformanceClass = [], rvs_DeleteOnTermination = None\<rparr>"
  shows "cluster_ValidateCreate V (cluster_Default sc) \<noteq> None \<and>
    cluster_ValidateUpdate V old (cluster_Default sc) \<noteq> None"
  using assms
  by (simp add: cluster_ValidateCreate_def cluster_ValidateUpdate_def cluster_Default_def defaultClusterSpec_def
      defaultRootVolume_def validateStackitClusterSpec_def webhook_validateBastionSpec_def validateRootVolume_def
      errIf_def Let_def)

definition plain_bastion_cluster :: StackitCluster where
  "plain_bastion_cluster = admitted_cluster\<lparr>sc_Spec := (sc_Spec admitted_cluster)
     \<lparr>scs_Bastion := (scs_Bastion (sc_Spec admitted_cluster))\<lparr>bs_RootVolume :=
        \<lparr>rvs_SizeGiB = 0, rvs_PerformanceClass = [], rvs_DeleteOnTermination = None\<rparr>\<rparr>\<rparr>\<rparr>"

theorem bastion_without_volume_rejected_witness:
  "cluster_ValidateCreate lenient plain_bastion_cluster = None \<and>
   cluster_ValidateCreate lenient (cluster_Default plain_bastion_cluster) \<noteq> None"
proof -
  have "cluster_ValidateCreate lenient plain_bastion_cluster = None" by code_simp
  with bastion_without_volume_rejected [of plain_bastion_cluster lenient plain_bastion_cluster]
  show ?thesis by (simp add: plain_bastion_cluster_def admitted_cluster_def)
qed

text \<open>The cluster of the sample, admitted and reconciled; its labels edited; and deleted.\<close>

definition run_cluster :: "(fake, api, StackitCluster) rstate \<Rightarrow> (fake, api, StackitCluster) rstate" where
  "run_cluster s = snd (run_state (cluster_reconcileScope sample_Reconciler sample_Cluster) s)"

definition edited :: "StackitCluster \<Rightarrow> StackitCluster" where
  "edited sc = sc\<lparr>sc_Spec := (sc_Spec sc)\<lparr>scs_AdditionalLabels := [(''team'', ''a'')]\<rparr>\<rparr>"

definition deleting :: "StackitCluster \<Rightarrow> StackitCluster" where
  "deleting sc = sc\<lparr>sc_meta := (sc_meta sc)\<lparr>om_DeletionTimestamp := Some 1\<rparr>\<rparr>"

definition plain_cluster :: StackitCluster where
  "plain_cluster = sample_StackitCluster\<lparr>sc_Spec := (sc_Spec sample_StackitCluster)\<lparr>scs_ProjectID := sample_uuid\<rparr>\<rparr>"


end
