(* ===== verification/Interference.thy ===== *)
theory Interference
  imports System Machine_Safety
begin

text \<open>
  Passes that overlap. Controllers run concurrently, and a pass may be interrupted between any two of
  its cloud calls by calls of other passes; a single call of \<open>cloud/fake\<close> is atomic, since it holds the
  mutex of the client. Here the client of a pass runs, before each call, a given piece of what the
  others do, and the frames of \<open>Frames\<close> carry over to it.
\<close>

section \<open>A client with interference\<close>

type_synonym 'c disturbed = "'c \<times> ('c \<Rightarrow> 'c) list"

definition disturbed :: "('c, 'a) call \<Rightarrow> ('c disturbed, 'a) call" where
  \<comment> \<open>the next piece of interference, then the call\<close>
  "disturbed m = State (\<lambda>(c, fs). case fs of
       [] \<Rightarrow> (case run_state m c of (res, c') \<Rightarrow> (res, c', []))
     | f # rest \<Rightarrow> (case run_state m (f c) of (res, c') \<Rightarrow> (res, c', rest)))"

definition disturbed_Client :: "'c Client \<Rightarrow> 'c disturbed Client" where
  "disturbed_Client C =
     \<lparr>GetNetwork = (\<lambda>i. disturbed (GetNetwork C i)),
      FindNetworkByTags = (\<lambda>t. disturbed (FindNetworkByTags C t)),
      ListNetworksByTags = (\<lambda>t. disturbed (ListNetworksByTags C t)),
      CreateNetwork = (\<lambda>i. disturbed (CreateNetwork C i)),
      DeleteNetwork = (\<lambda>i. disturbed (DeleteNetwork C i)),
      GetServer = (\<lambda>i. disturbed (GetServer C i)),
      FindServerByTags = (\<lambda>t. disturbed (FindServerByTags C t)),
      ListServersByTags = (\<lambda>t. disturbed (ListServersByTags C t)),
      CreateServer = (\<lambda>i. disturbed (CreateServer C i)),
      DeleteServer = (\<lambda>i. disturbed (DeleteServer C i)),
      EnsureBastion = (\<lambda>i. disturbed (EnsureBastion C i)),
      DeleteBastion = (\<lambda>i b. disturbed (DeleteBastion C i b)),
      EnsureNodeSSHAccess = (\<lambda>i. disturbed (EnsureNodeSSHAccess C i)),
      DeleteNodeSSHAccess = (\<lambda>t. disturbed (DeleteNodeSSHAccess C t)),
      ListPublicIPsByTags = (\<lambda>t. disturbed (ListPublicIPsByTags C t)),
      ListSecurityGroupsByTags = (\<lambda>t. disturbed (ListSecurityGroupsByTags C t)),
      EnsureAPIServerLoadBalancer = (\<lambda>i. disturbed (EnsureAPIServerLoadBalancer C i)),
      ListAPIServerLoadBalancersByTags = (\<lambda>t. disturbed (ListAPIServerLoadBalancersByTags C t)),
      SetAPIServerLoadBalancerTargets = (\<lambda>i p ts. disturbed (SetAPIServerLoadBalancerTargets C i p ts)),
      DeleteAPIServerLoadBalancer = (\<lambda>i. disturbed (DeleteAPIServerLoadBalancer C i)),
      ListAvailabilityZones = disturbed (ListAvailabilityZones C)\<rparr>"

definition disturbed_inv :: "('c \<Rightarrow> bool) \<Rightarrow> 'c disturbed \<Rightarrow> bool" where
  \<comment> \<open>the invariant holds, and what is still to come keeps it\<close>
  "disturbed_inv I w \<longleftrightarrow> I (fst w) \<and> (\<forall>f \<in> set (snd w). \<forall>c. I c \<longrightarrow> I (f c))"

lemma keeps_disturbed: "keeps I m \<Longrightarrow> keeps (disturbed_inv I) (disturbed m)"
  by (auto simp: keeps_def disturbed_def disturbed_inv_def split_def split: list.split)

context machine_frame
begin

lemma machine_disturbed: "machine_frame (disturbed_Client C) (disturbed_inv I) K"
  by unfold_locales
    (simp_all add: disturbed_Client_def keeps_disturbed m_get m_find m_create m_delete m_ssh K_cong)

end

context cluster_frame
begin

lemma cluster_disturbed: "cluster_frame (disturbed_Client C) (disturbed_inv I) K"
  by unfold_locales
    (simp_all add: disturbed_Client_def keeps_disturbed K_key c_zones c_getnet c_findnet c_createnet c_delnet
      c_bastion c_delbastion c_delssh c_lb c_listlb c_targets c_dellb)

end

interpretation machine_overlap: machine_frame "disturbed_Client fake_Client" "disturbed_inv (system_unique T S)"
  "machine_known S" for T S
  by (rule machine_unique.machine_disturbed)

interpretation cluster_overlap: cluster_frame "disturbed_Client fake_Client" "disturbed_inv (system_unique T S)"
  "cluster_known T S" for T S
  by (rule cluster_unique.cluster_disturbed)

section \<open>What the other passes do\<close>

inductive concurrent_call ::
  "(MachineScope \<Rightarrow> StackitMachine \<Rightarrow> bool) \<Rightarrow> (StackitCluster \<Rightarrow> bool) \<Rightarrow> fake \<Rightarrow> fake \<Rightarrow> bool"
  for ok_machine :: "MachineScope \<Rightarrow> StackitMachine \<Rightarrow> bool" and ok_cluster :: "StackitCluster \<Rightarrow> bool" where
  \<comment> \<open>one call of a pass over any machine or cluster, or a failure that becomes due\<close>
  "concurrent_call ok_machine ok_cluster c (snd (run_state (fake_GetServer i) c))"
| "concurrent_call ok_machine ok_cluster c (snd (run_state (fake_FindServerByTags t) c))"
| "ok_machine ms sm \<Longrightarrow>
    concurrent_call ok_machine ok_cluster c (snd (run_state (fake_CreateServer (createServerInput ms sm net ud)) c))"
| "concurrent_call ok_machine ok_cluster c (snd (run_state (fake_DeleteServer i) c))"
| "concurrent_call ok_machine ok_cluster c (snd (run_state (fake_EnsureNodeSSHAccess sin) c))"
| "concurrent_call ok_machine ok_cluster c (snd (run_state fake_ListAvailabilityZones c))"
| "concurrent_call ok_machine ok_cluster c (snd (run_state (fake_GetNetwork i) c))"
| "concurrent_call ok_machine ok_cluster c (snd (run_state (fake_FindNetworkByTags t) c))"
| "ok_cluster sc \<Longrightarrow> concurrent_call ok_machine ok_cluster c (snd (run_state (fake_CreateNetwork (network_Input sc)) c))"
| "concurrent_call ok_machine ok_cluster c (snd (run_state (fake_DeleteNetwork i) c))"
| "ok_cluster sc \<Longrightarrow> concurrent_call ok_machine ok_cluster c (snd (run_state (fake_EnsureBastion (bastion_Input sc ci)) c))"
| "concurrent_call ok_machine ok_cluster c (snd (run_state (fake_DeleteBastion bin st) c))"
| "concurrent_call ok_machine ok_cluster c (snd (run_state (fake_DeleteNodeSSHAccess t) c))"
| "ok_cluster sc \<Longrightarrow>
    concurrent_call ok_machine ok_cluster c (snd (run_state (fake_EnsureAPIServerLoadBalancer (APIServerInput sc ts)) c))"
| "concurrent_call ok_machine ok_cluster c (snd (run_state (fake_ListAPIServerLoadBalancersByTags t) c))"
| "concurrent_call ok_machine ok_cluster c (snd (run_state (fake_SetAPIServerLoadBalancerTargets i port ts) c))"
| "concurrent_call ok_machine ok_cluster c (snd (run_state (fake_DeleteAPIServerLoadBalancer i) c))"
| "concurrent_call ok_machine ok_cluster c (c\<lparr>failures := fs\<rparr>)"

definition interference ::
  "(MachineScope \<Rightarrow> StackitMachine \<Rightarrow> bool) \<Rightarrow> (StackitCluster \<Rightarrow> bool) \<Rightarrow> (fake \<Rightarrow> fake) \<Rightarrow> bool" where
  \<comment> \<open>any number of calls of other passes\<close>
  "interference ok_machine ok_cluster f \<longleftrightarrow> (\<forall>c. (concurrent_call ok_machine ok_cluster)\<^sup>*\<^sup>* c (f c))"

lemma failures_unique: "system_unique T S c \<Longrightarrow> system_unique T S (c\<lparr>failures := fs\<rparr>)"
  by (simp add: system_unique_def helpers_keep_wf(1))

lemma concurrent_call_unique:
  assumes "concurrent_call okm okc c c'" and "system_unique T S c"
    and "\<And>ms sm. okm ms sm \<Longrightarrow> machine_known S ms sm" and "\<And>sc. okc sc \<Longrightarrow> cluster_known T S sc"
  shows "system_unique T S c'"
  using assms(1)
  by cases (use assms(2-4) in \<open>simp_all add: machine_known_def machine_Tags_def createServerInput_def
    cluster_known_def network_Input_def NetworkTags_def APIServerInput_def APIServerTags_def
    failures_unique keep_unique [THEN keepsD]\<close>)

lemma interference_unique:
  assumes "interference okm okc f" and "system_unique T S c"
    and "\<And>ms sm. okm ms sm \<Longrightarrow> machine_known S ms sm" and "\<And>sc. okc sc \<Longrightarrow> cluster_known T S sc"
  shows "system_unique T S (f c)"
proof -
  from assms(1) have "(concurrent_call okm okc)\<^sup>*\<^sup>* c (f c)" by (simp add: interference_def)
  then show ?thesis
    by (induction rule: rtranclp_induct) (blast intro: assms(2) concurrent_call_unique [OF _ _ assms(3,4)])+
qed

lemma overlapping_run_unique:
  assumes "uses_client (r_CloudClientFactory r) (disturbed_Client fake_Client)"
    and "system_run r okm okc w w'" and "system_unique T S (fst w)"
    and "\<forall>f \<in> set (snd w). interference okm okc f"
    and "\<And>ms sm. okm ms sm \<Longrightarrow> machine_known S ms sm" and "\<And>sc. okc sc \<Longrightarrow> cluster_known T S sc"
  shows "system_unique T S (fst w')"
proof -
  have "disturbed_inv (system_unique T S) w"
    using assms(3,4) interference_unique [OF _ _ assms(5,6)] by (auto simp: disturbed_inv_def)
  with assms(2) have "disturbed_inv (system_unique T S) w'"
    by (rule system_run_keeps [OF _ _ machine_overlap.machine_pass_frame [OF assms(1)] assms(5)
      cluster_overlap.cluster_pass_frame [OF assms(1)] assms(6)])
  then show ?thesis by (simp add: disturbed_inv_def)
qed


text \<open>In the witness, the pass over a machine is overtaken by another pass over the same machine: its
  search finds no server, and before its \<open>CreateServer\<close> the other pass has created one.\<close>

definition rival_create :: "fake \<Rightarrow> fake" where
  "rival_create c = snd (run_state (fake_CreateServer sample_create_input) c)"

definition overtaken_Reconciler :: "(fake disturbed, api) Reconciler" where
  "overtaken_Reconciler =
     \<lparr>r_lib = std_lib 0, r_sha256 = (\<lambda>_. replicate 32 0), r_Client = sample_Kube,
      r_CloudClientFactory = Some (\<lambda>creds. Inr (disturbed_Client fake_Client))\<rparr>"

definition overtaken_run :: "outcome \<times> (fake disturbed, api, StackitMachine) rstate" where
  "overtaken_run = run_state (machine_reconcileScope overtaken_Reconciler sample_scope)
     \<lparr>cloud = (fake_New [], [\<lambda>c. c, rival_create]), kube = sample_api, obj = sample_StackitMachine, effects = []\<rparr>"

lemma overtaken_interference:
  assumes "okm sample_scope sample_StackitMachine"
  shows "interference okm okc rival_create" and "interference okm okc (\<lambda>c. c)"
proof -
  have "concurrent_call okm okc c (rival_create c)" for c
    unfolding rival_create_def sample_create_input_def using assms by (rule concurrent_call.intros(3))
  then show "interference okm okc rival_create" by (simp add: interference_def r_into_rtranclp)
qed (simp add: interference_def)


end
