(* ===== verification/Go_Memory.thy ===== *)
theory Go_Memory
  imports "HOL-Library.State_Monad" "HOL-Library.AList"
begin

text \<open>
  Go's memory, for code whose point is what it shares: pointers, slices and maps are addresses of
  cells, and assigning a struct copies the addresses it holds, not the cells. The types of the fields
  are values of \<open>ty\<close>; \<open>view\<close> reads a value of a type through the memory together with the cells it
  depends on, and \<open>deep_copy\<close> is the copy that the type prescribes. Its contract \<open>copies\<close> says that
  the copy reads the same, lives in new cells only and leaves every old cell as it was.
\<close>

section \<open>Memory\<close>

type_synonym addr = nat

datatype val =
    Str string
  | Num int
  | Flag bool
  | Struct "(string \<times> val) list"
  | Ptr "addr option"
  | Slice "(addr \<times> nat \<times> nat) option" \<comment> \<open>backing array, offset and length\<close>
  | MapRef "addr option"

datatype object = Cell val | Arr "val list" | Dict "(string \<times> string) list"

type_synonym memory = "object list"

definition fetch :: "memory \<Rightarrow> addr \<Rightarrow> object option" where
  "fetch h a = (if a < length h then Some (h ! a) else None)"

definition new_object :: "object \<Rightarrow> (memory, addr) state" where
  "new_object x = State (\<lambda>h. (length h, h @ [x]))"

definition store :: "addr \<Rightarrow> object \<Rightarrow> (memory, unit) state" where
  "store a x = State (\<lambda>h. ((), h[a := x]))"

definition zero :: val where
  \<comment> \<open>what a new cell holds until it is written\<close>
  "zero = Ptr None"

definition pointee :: "addr \<Rightarrow> (memory, val) state" where
  "pointee a = State (\<lambda>h. (case fetch h a of Some (Cell v) \<Rightarrow> v | _ \<Rightarrow> zero, h))"

definition elements :: "addr \<Rightarrow> nat \<Rightarrow> nat \<Rightarrow> (memory, val list) state" where
  "elements a off n = State (\<lambda>h. (case fetch h a of Some (Arr xs) \<Rightarrow> take n (drop off xs) | _ \<Rightarrow> [], h))"

definition entries :: "addr \<Rightarrow> (memory, (string \<times> string) list) state" where
  "entries a = State (\<lambda>h. (case fetch h a of Some (Dict m) \<Rightarrow> m | _ \<Rightarrow> [], h))"

definition set_element :: "addr \<Rightarrow> nat \<Rightarrow> val \<Rightarrow> (memory, unit) state" where
  "set_element a i v = State (\<lambda>h. ((), case fetch h a of Some (Arr xs) \<Rightarrow> h[a := Arr (xs[i := v])] | _ \<Rightarrow> h))"

section \<open>Fields of a struct\<close>

definition field :: "string \<Rightarrow> val \<Rightarrow> val" where
  "field n v = (case v of Struct vs \<Rightarrow> (case map_of vs n of Some w \<Rightarrow> w | None \<Rightarrow> zero) | _ \<Rightarrow> zero)"

fun put :: "string \<Rightarrow> val \<Rightarrow> (string \<times> val) list \<Rightarrow> (string \<times> val) list" where
  "put n w [] = []"
| "put n w ((m, v) # vs) = (if m = n then (m, w) # vs else (m, v) # put n w vs)"

definition set_field :: "string \<Rightarrow> val \<Rightarrow> val \<Rightarrow> val" where
  "set_field n w v = (case v of Struct vs \<Rightarrow> Struct (put n w vs) | _ \<Rightarrow> v)"

definition field_names :: "val \<Rightarrow> string list" where
  "field_names v = (case v of Struct vs \<Rightarrow> map fst vs | _ \<Rightarrow> [])"

lemma map_of_put: "map_of (put n w vs) m = (if m = n then map_option (\<lambda>_. w) (map_of vs n) else map_of vs m)"
  by (induction vs) auto

lemma put_same: "map_of vs n = Some w \<or> map_of vs n = None \<Longrightarrow> put n w vs = vs"
  by (induction vs) (auto split: if_splits)

lemma map_fst_put [simp]: "map fst (put n w vs) = map fst vs"
  by (induction vs) auto

lemma field_set_field_other [simp]: "m \<noteq> n \<Longrightarrow> field m (set_field n w v) = field m v"
  by (simp add: field_def set_field_def map_of_put split: val.split)

lemma field_set_field [simp]: "n \<in> set (field_names v) \<Longrightarrow> field n (set_field n w v) = w"
  by (simp add: field_def set_field_def field_names_def map_of_put weak_map_of_SomeI split: val.splits option.splits)
    (force dest: weak_map_of_SomeI)

lemma set_field_same: "field n v = w \<Longrightarrow> set_field n w v = v"
  by (auto simp: field_def set_field_def intro!: put_same split: val.splits option.splits)

lemma field_names_set_field [simp]: "field_names (set_field n w v) = field_names v"
  by (simp add: field_names_def set_field_def split: val.split)

section \<open>Types\<close>

datatype ty =
    TStr | TNum | TBool
  | TStruct "(string \<times> ty) list"
  | TPtr ty
  | TSlice ty
  | TMap \<comment> \<open>\<open>map[string]string\<close>\<close>
  | TForeign ty "val \<Rightarrow> (memory, val) state" \<comment> \<open>a type of another package, with its own copying method\<close>

datatype tree =
    TrStr string | TrNum int | TrFlag bool
  | TrStruct "(string \<times> tree) list"
  | TrPtr "tree option" | TrSlice "tree list option" | TrMap "(string \<times> string) list option"

type_synonym reading = "tree \<times> addr list"

lemma size_field: "(n, t) \<in> set fs \<Longrightarrow> size t < size (TStruct fs)"
  by (induction fs) auto

definition read_fields :: "(string \<times> (val \<Rightarrow> reading option)) list \<Rightarrow> val \<Rightarrow> reading option" where
  "read_fields rs v =
     map_option (\<lambda>xs. (TrStruct (zip (map fst rs) (map fst xs)), concat (map snd xs)))
       (those (map (\<lambda>(n, r). r (field n v)) rs))"

function view :: "ty \<Rightarrow> memory \<Rightarrow> val \<Rightarrow> reading option" where
  "view TStr h v = (case v of Str s \<Rightarrow> Some (TrStr s, []) | _ \<Rightarrow> None)"
| "view TNum h v = (case v of Num i \<Rightarrow> Some (TrNum i, []) | _ \<Rightarrow> None)"
| "view TBool h v = (case v of Flag b \<Rightarrow> Some (TrFlag b, []) | _ \<Rightarrow> None)"
| "view (TStruct fs) h v =
     (if field_names v = map fst fs then read_fields (map (\<lambda>p. (fst p, view (snd p) h)) fs) v else None)"
| "view (TPtr t) h v = (case v of
       Ptr None \<Rightarrow> Some (TrPtr None, [])
     | Ptr (Some a) \<Rightarrow> (case fetch h a of
           Some (Cell w) \<Rightarrow> map_option (\<lambda>(x, A). (TrPtr (Some x), a # A)) (view t h w)
         | _ \<Rightarrow> None)
     | _ \<Rightarrow> None)"
| "view (TSlice t) h v = (case v of
       Slice None \<Rightarrow> Some (TrSlice None, [])
     | Slice (Some (a, off, n)) \<Rightarrow> (case fetch h a of
           Some (Arr xs) \<Rightarrow>
             if off + n \<le> length xs
             then map_option (\<lambda>ys. (TrSlice (Some (map fst ys)), a # concat (map snd ys)))
                    (those (map (view t h) (take n (drop off xs))))
             else None
         | _ \<Rightarrow> None)
     | _ \<Rightarrow> None)"
| "view TMap h v = (case v of
       MapRef None \<Rightarrow> Some (TrMap None, [])
     | MapRef (Some a) \<Rightarrow> (case fetch h a of
           Some (Dict m) \<Rightarrow> if distinct (map fst m) then Some (TrMap (Some m), [a]) else None
         | _ \<Rightarrow> None)
     | _ \<Rightarrow> None)"
| "view (TForeign t f) h v = view t h v"
  by pat_completeness auto
termination
  by (relation "measure (\<lambda>(t, h, v). size t)") (auto dest: size_field)

section \<open>What a reading depends on\<close>

lemma those_eq_Some: "those xs = Some ys \<longleftrightarrow> xs = map Some ys"
  by (induction xs arbitrary: ys) (auto split: option.splits)

lemma those_cong:
  assumes "those (map f xs) = Some ys" and "\<And>x y. x \<in> set xs \<Longrightarrow> f x = Some y \<Longrightarrow> y \<in> set ys \<Longrightarrow> g x = Some y"
  shows "those (map g xs) = Some ys"
  using assms
proof (induction xs arbitrary: ys)
  case (Cons x xs)
  then obtain y ys' where "ys = y # ys'" "f x = Some y" "those (map f xs) = Some ys'"
    by (auto split: option.splits)
  with Cons.IH [of ys'] Cons.prems(2) show ?case by simp
qed simp

definition agree :: "addr set \<Rightarrow> memory \<Rightarrow> memory \<Rightarrow> bool" where
  "agree A h h' \<longleftrightarrow> (\<forall>a \<in> A. fetch h' a = fetch h a)"

lemma agree_mono: "agree A h h' \<Longrightarrow> B \<subseteq> A \<Longrightarrow> agree B h h'"
  by (auto simp: agree_def)

text \<open>A reading depends on the cells that it lists and on no others.\<close>

lemma view_local:
  assumes "view t h v = Some (x, A)" and "agree (set A) h h'"
  shows "view t h' v = Some (x, A)"
  using assms
proof (induction t h v arbitrary: x A rule: view.induct)
  case (4 fs h v)
  then obtain ys where ys: "field_names v = map fst fs"
      "those (map (\<lambda>(n, r). r (field n v)) (map (\<lambda>p. (fst p, view (snd p) h)) fs)) = Some ys"
      "x = TrStruct (zip (map fst fs) (map fst ys))" "A = concat (map snd ys)"
    by (auto simp: read_fields_def comp_def split: if_splits)
  have "those (map (\<lambda>p. view (snd p) h' (field (fst p) v)) fs) = Some ys"
  proof (rule those_cong)
    show "those (map (\<lambda>p. view (snd p) h (field (fst p) v)) fs) = Some ys"
      using ys(2) by (simp add: comp_def)
    fix p y assume "p \<in> set fs" "view (snd p) h (field (fst p) v) = Some y" "y \<in> set ys"
    with "4.IH" [OF ys(1), of p] "4.prems"(2) ys(4) show "view (snd p) h' (field (fst p) v) = Some y"
      by (cases y) (force intro: agree_mono)
  qed
  with ys show ?case by (simp add: read_fields_def comp_def)
next
  case (5 t h v)
  then show ?case
    by (auto simp: agree_def split: val.splits option.splits object.splits)
next
  case (6 t h v)
  show ?case
  proof (cases v)
    case (Slice s)
    show ?thesis
    proof (cases s)
      case (Some p)
      obtain a off n where p: "p = (a, off, n)" by (cases p)
      with "6.prems"(1) Slice Some obtain xs ys where xs: "fetch h a = Some (Arr xs)" "off + n \<le> length xs"
          "those (map (view t h) (take n (drop off xs))) = Some ys"
          "x = TrSlice (Some (map fst ys))" "A = a # concat (map snd ys)"
        by (auto split: option.splits object.splits if_splits)
      have "those (map (view t h') (take n (drop off xs))) = Some ys"
        using xs(3)
      proof (rule those_cong)
        fix w y assume "w \<in> set (take n (drop off xs))" "view t h w = Some y" "y \<in> set ys"
        with "6.IH" [OF Slice Some p [symmetric] refl xs(1) refl xs(2)] "6.prems"(2) xs show "view t h' w = Some y"
          by (cases y) (force intro: agree_mono)
      qed
      with "6.prems"(2) Slice Some p xs show ?thesis by (simp add: agree_def)
    qed (use "6.prems" Slice in simp)
  qed (use "6.prems" in simp_all)
qed (auto simp: agree_def split: val.splits option.splits object.splits if_splits)

lemma those_subset:
  assumes "those (map f xs) = Some ys" and "\<And>x y. x \<in> set xs \<Longrightarrow> f x = Some y \<Longrightarrow> set (snd y) \<subseteq> B"
  shows "set (concat (map snd ys)) \<subseteq> B"
proof -
  have "\<exists>x \<in> set xs. f x = Some y" if "y \<in> set ys" for y
    using assms(1) that unfolding those_eq_Some by (induction xs arbitrary: ys) auto
  with assms(2) show ?thesis by auto blast
qed

lemma fetch_Some: "fetch h a = Some x \<Longrightarrow> a < length h"
  by (simp add: fetch_def split: if_splits)

lemma view_bound: "view t h v = Some (x, A) \<Longrightarrow> set A \<subseteq> {..<length h}"
proof (induction t h v arbitrary: x A rule: view.induct)
  case (4 fs h v)
  then obtain ys where ys: "field_names v = map fst fs"
      "those (map (\<lambda>p. view (snd p) h (field (fst p) v)) fs) = Some ys" "A = concat (map snd ys)"
    by (auto simp: read_fields_def comp_def split: if_splits)
  have "set (concat (map snd ys)) \<subseteq> {..<length h}"
    using ys(2) by (rule those_subset) (metis "4.IH" [OF ys(1)] prod.collapse)
  with ys show ?case by simp
next
  case (5 t h v)
  then show ?case by (fastforce dest: fetch_Some split: val.splits option.splits object.splits)
next
  case (6 t h v)
  show ?case
  proof (cases "\<exists>a off n. v = Slice (Some (a, off, n))")
    case True
    then obtain a off n where v: "v = Slice (Some (a, off, n))" by blast
    with "6.prems"(1) obtain xs ys where xs: "fetch h a = Some (Arr xs)" "off + n \<le> length xs"
        "those (map (view t h) (take n (drop off xs))) = Some ys" "A = a # concat (map snd ys)"
      by (auto split: option.splits object.splits if_splits)
    have "set (concat (map snd ys)) \<subseteq> {..<length h}"
      using xs(3) by (rule those_subset) (metis "6.IH" [OF v refl refl refl xs(1) refl xs(2)] prod.collapse)
    with xs show ?thesis by (simp add: fetch_Some)
  qed (use "6.prems" in \<open>auto split: val.splits option.splits\<close>)
qed (auto dest: fetch_Some split: val.splits option.splits object.splits if_splits)

section \<open>Copying by type\<close>

primrec fill :: "(val \<Rightarrow> (memory, val) state) \<Rightarrow> addr \<Rightarrow> nat \<Rightarrow> val list \<Rightarrow> (memory, unit) state" where
  \<comment> \<open>\<open>for i := range *in { (*in)[i].DeepCopyInto(&(*out)[i]) }\<close>\<close>
  "fill dc b i [] = State_Monad.return ()"
| "fill dc b i (x # xs) = do {
     w \<leftarrow> dc x;
     set_element b i w;
     fill dc b (Suc i) xs
   }"

primrec copy_fields :: "(string \<times> (val \<Rightarrow> (memory, val) state)) list \<Rightarrow> val \<Rightarrow> val \<Rightarrow> (memory, val) state" where
  "copy_fields [] inp out = State_Monad.return out"
| "copy_fields (p # ps) inp out = do {
     w \<leftarrow> snd p (field (fst p) inp);
     copy_fields ps inp (set_field (fst p) w out)
   }"

definition inserted :: "(string \<times> string) list \<Rightarrow> (string \<times> string) list" where
  \<comment> \<open>\<open>for key, val := range *in { (*out)[key] = val }\<close>\<close>
  "inserted m = fold (\<lambda>(k, x). AList.update k x) m []"

lemma inserted_distinct: "distinct (map fst m) \<Longrightarrow> inserted m = m"
proof -
  have "distinct (map fst (acc @ m)) \<Longrightarrow> fold (\<lambda>(k, x). AList.update k x) m acc = acc @ m" for acc
  proof (induction m arbitrary: acc)
    case (Cons p m)
    have "k \<notin> fst ` set acc \<Longrightarrow> AList.update k x acc = acc @ [(k, x)]" for k x
      by (induction acc) auto
    with Cons show ?case by (cases p) auto
  qed simp
  from this [of "[]"] show "distinct (map fst m) \<Longrightarrow> inserted m = m" by (simp add: inserted_def)
qed

function deep_copy :: "ty \<Rightarrow> val \<Rightarrow> (memory, val) state" where
  "deep_copy TStr v = State_Monad.return v"
| "deep_copy TNum v = State_Monad.return v"
| "deep_copy TBool v = State_Monad.return v"
| "deep_copy (TStruct fs) v = copy_fields (map (\<lambda>p. (fst p, deep_copy (snd p))) fs) v v"
| "deep_copy (TPtr t) v = (case v of
       Ptr (Some a) \<Rightarrow> do {
         b \<leftarrow> new_object (Cell zero);
         x \<leftarrow> pointee a;
         w \<leftarrow> deep_copy t x;
         store b (Cell w);
         State_Monad.return (Ptr (Some b))
       }
     | _ \<Rightarrow> State_Monad.return v)"
| "deep_copy (TSlice t) v = (case v of
       Slice (Some (a, off, n)) \<Rightarrow> do {
         b \<leftarrow> new_object (Arr (replicate n zero));
         xs \<leftarrow> elements a off n;
         fill (deep_copy t) b 0 xs;
         State_Monad.return (Slice (Some (b, 0, n)))
       }
     | _ \<Rightarrow> State_Monad.return v)"
| "deep_copy TMap v = (case v of
       MapRef (Some a) \<Rightarrow> do {
         b \<leftarrow> new_object (Dict []);
         m \<leftarrow> entries a;
         store b (Dict (inserted m));
         State_Monad.return (MapRef (Some b))
       }
     | _ \<Rightarrow> State_Monad.return v)"
| "deep_copy (TForeign t f) v = f v"
  by pat_completeness auto
termination
  by (relation "measure (\<lambda>(t, v). size t)") (auto dest: size_field)

definition copies :: "ty \<Rightarrow> (val \<Rightarrow> (memory, val) state) \<Rightarrow> bool" where
  \<comment> \<open>the copy reads the same, is made of new cells, and the old cells are as before\<close>
  "copies t dc \<longleftrightarrow> (\<forall>h v x A v' h'. view t h v = Some (x, A) \<longrightarrow> run_state (dc v) h = (v', h') \<longrightarrow>
     agree {..<length h} h h' \<and> (\<exists>B. view t h' v' = Some (x, B) \<and> set B \<subseteq> {length h..<length h'}))"

lemma copiesI:
  assumes "\<And>h v x A v' h'. view t h v = Some (x, A) \<Longrightarrow> run_state (dc v) h = (v', h') \<Longrightarrow>
     agree {..<length h} h h' \<and> (\<exists>B. view t h' v' = Some (x, B) \<and> set B \<subseteq> {length h..<length h'})"
  shows "copies t dc"
  using assms unfolding copies_def by blast

lemma copiesE:
  assumes "copies t dc" and "view t h v = Some (x, A)" and "run_state (dc v) h = (v', h')"
  obtains B where "agree {..<length h} h h'" and "view t h' v' = Some (x, B)" and "set B \<subseteq> {length h..<length h'}"
  using assms unfolding copies_def by blast

lemma agree_length: "agree {..<length h} h h' \<Longrightarrow> length h \<le> length h'"
  by (cases h rule: rev_cases) (auto simp: agree_def fetch_def split: if_splits dest: bspec [of _ _ "length (_ :: memory)"])

lemma agree_trans: "agree A h h1 \<Longrightarrow> agree B h1 h2 \<Longrightarrow> A \<subseteq> B \<Longrightarrow> agree A h h2"
  by (auto simp: agree_def)

lemma view_extends:
  assumes "view t h v = Some (x, A)" and "agree {..<length h} h h'"
  shows "view t h' v = Some (x, A)"
  by (rule view_local [OF assms(1) agree_mono [OF assms(2) view_bound [OF assms(1)]]])

lemma agree_new [simp]: "agree {..<length h} h (h @ xs)"
  by (simp add: agree_def fetch_def nth_append)

lemma agree_update: "b \<notin> A \<Longrightarrow> agree A h (h[b := x])"
  by (auto simp: agree_def fetch_def intro!: nth_list_update_neq)

lemmas run_memory = run_state_bind run_state_return new_object_def store_def pointee_def elements_def
  entries_def set_element_def

lemma fill_copies:
  assumes "copies t dc" and "fetch h b = Some (Arr zs)" and "i + length xs \<le> length zs"
    and "those (map (view t h) xs) = Some ys" and "b \<notin> set (concat (map snd ys))"
    and "run_state (fill dc b i xs) h = (u, h')"
  shows "agree ({..<length h} - {b}) h h' \<and> length h \<le> length h' \<and>
    (\<exists>ws ys'. fetch h' b = Some (Arr (take i zs @ ws @ drop (i + length xs) zs)) \<and> length ws = length xs \<and>
      those (map (view t h') ws) = Some ys' \<and> map fst ys' = map fst ys \<and>
      set (concat (map snd ys')) \<subseteq> {length h..<length h'})"
  using assms(2-)
proof (induction xs arbitrary: i h ys zs)
  case Nil
  then show ?case by (simp add: agree_def)
next
  case (Cons x xs)
  from Cons.prems(3) obtain y A ys1 where ys: "ys = (y, A) # ys1" "view t h x = Some (y, A)"
      "those (map (view t h) xs) = Some ys1" by (auto split: option.splits)
  obtain w h1 where w: "run_state (dc x) h = (w, h1)" by fastforce
  from assms(1) ys(2) w obtain B where B: "agree {..<length h} h h1" "view t h1 w = Some (y, B)"
      "set B \<subseteq> {length h..<length h1}" by (rule copiesE)
  have b: "b < length h" by (rule fetch_Some [OF Cons.prems(1)])
  define h2 where "h2 = h1[b := Arr (zs[i := w])]"
  have fb: "fetch h1 b = Some (Arr zs)" using B(1) b Cons.prems(1) by (simp add: agree_def)
  have l: "length h \<le> length h1" "length h2 = length h1" by (simp_all add: agree_length B(1) h2_def)
  have a12: "agree (- {b}) h1 h2" by (simp add: h2_def agree_update)
  with B(1) have a2: "agree ({..<length h} - {b}) h h2" by (auto simp: agree_def)
  have "those (map (view t h2) xs) = Some ys1"
  proof (rule those_cong [OF ys(3)])
    fix x' y' assume v: "view t h x' = Some y'" and "y' \<in> set ys1"
    with Cons.prems(4) ys(1) have "b \<notin> set (snd y')" by auto
    with v view_bound [of t h x' "fst y'" "snd y'"] show "view t h2 x' = Some y'"
      by (cases y') (auto intro!: view_local [of t h] agree_mono [OF a2])
  qed
  moreover have "fetch h2 b = Some (Arr (zs[i := w]))" using b l by (simp add: h2_def fetch_def)
  moreover have "Suc i + length xs \<le> length (zs[i := w])" using Cons.prems(2) by simp
  moreover have "b \<notin> set (concat (map snd ys1))" using Cons.prems(4) ys(1) by simp
  moreover have "run_state (fill dc b (Suc i) xs) h2 = (u, h')"
    using Cons.prems(5) w fb by (simp add: run_memory h2_def)
  ultimately obtain ws ys' where IH: "agree ({..<length h2} - {b}) h2 h'" "length h2 \<le> length h'"
      "fetch h' b = Some (Arr (take (Suc i) (zs[i := w]) @ ws @ drop (Suc i + length xs) (zs[i := w])))"
      "length ws = length xs" "those (map (view t h') ws) = Some ys'" "map fst ys' = map fst ys1"
      "set (concat (map snd ys')) \<subseteq> {length h2..<length h'}"
    using Cons.IH by blast
  have "agree (set B) h1 h'"
    using B(3) b l a12 IH(1) by (fastforce simp: agree_def)
  with B(2) have "view t h' w = Some (y, B)" by (rule view_local)
  moreover have "take (Suc i) (zs[i := w]) = take i zs @ [w]" using Cons.prems(2) by (simp add: take_Suc_conv_app_nth)
  moreover have "agree ({..<length h} - {b}) h h'" using a2 IH(1) l by (auto simp: agree_def)
  ultimately show ?case
    using IH(2-) l B(3) ys(1) by (intro conjI exI [of _ "w # ws"] exI [of _ "(y, B) # ys'"]) auto
qed

lemma copy_fields_copies:
  assumes "\<And>p. p \<in> set fs \<Longrightarrow> copies (snd p) (dc (snd p))" and "distinct (map fst fs)"
    and "set (map fst fs) \<subseteq> set (field_names out)"
    and "those (map (\<lambda>p. view (snd p) h (field (fst p) inp)) fs) = Some ys"
    and "run_state (copy_fields (map (\<lambda>p. (fst p, dc (snd p))) fs) inp out) h = (out', h')"
  shows "agree {..<length h} h h' \<and> field_names out' = field_names out \<and>
    (\<forall>n. n \<notin> set (map fst fs) \<longrightarrow> field n out' = field n out) \<and>
    (\<exists>ys'. those (map (\<lambda>p. view (snd p) h' (field (fst p) out')) fs) = Some ys' \<and> map fst ys' = map fst ys \<and>
      set (concat (map snd ys')) \<subseteq> {length h..<length h'})"
  using assms
proof (induction fs arbitrary: h out ys)
  case Nil
  then show ?case by (simp add: agree_def)
next
  case (Cons p fs)
  obtain n t where p: "p = (n, t)" by (cases p)
  from Cons.prems(4) p obtain y A ys1 where ys: "ys = (y, A) # ys1" "view t h (field n inp) = Some (y, A)"
      "those (map (\<lambda>p. view (snd p) h (field (fst p) inp)) fs) = Some ys1" by (auto split: option.splits)
  obtain w h1 where w: "run_state (dc t (field n inp)) h = (w, h1)" by fastforce
  from Cons.prems(1) [of p] p have "copies t (dc t)" by simp
  from this ys(2) w obtain B where B: "agree {..<length h} h h1" "view t h1 w = Some (y, B)"
      "set B \<subseteq> {length h..<length h1}" by (rule copiesE)
  have "those (map (\<lambda>p. view (snd p) h1 (field (fst p) inp)) fs) = Some ys1"
    by (rule those_cong [OF ys(3)]) (metis B(1) prod.collapse view_extends)
  moreover have "run_state (copy_fields (map (\<lambda>p. (fst p, dc (snd p))) fs) inp (set_field n w out)) h1 = (out', h')"
    using Cons.prems(5) p w by simp
  ultimately obtain ys' where IH: "agree {..<length h1} h1 h'" "field_names out' = field_names out"
      "\<forall>m. m \<notin> set (map fst fs) \<longrightarrow> field m out' = field m (set_field n w out)"
      "those (map (\<lambda>p. view (snd p) h' (field (fst p) out')) fs) = Some ys'" "map fst ys' = map fst ys1"
      "set (concat (map snd ys')) \<subseteq> {length h1..<length h'}"
    using Cons.IH [of "set_field n w out" h1 ys1] Cons.prems(1-3) by auto
  have "field n out' = w" using IH(3) Cons.prems(2,3) p by simp
  moreover have "view t h' w = Some (y, B)" using B(2) IH(1) by (rule view_extends)
  moreover note l = agree_length [OF B(1)] agree_length [OF IH(1)]
  moreover have "agree {..<length h} h h'" by (rule agree_trans [OF B(1) IH(1)]) (use l in auto)
  ultimately show ?case
    using IH(2-) p B(3) ys(1) by (intro conjI exI [of _ "(y, B) # ys'"]) auto
qed

text \<open>A type is sound when its structs have distinct field names and the copying methods of foreign
  types keep the contract.\<close>

primrec sound :: "ty \<Rightarrow> bool" where
  "sound TStr \<longleftrightarrow> True" | "sound TNum \<longleftrightarrow> True" | "sound TBool \<longleftrightarrow> True" | "sound TMap \<longleftrightarrow> True"
| "sound (TStruct fs) \<longleftrightarrow> distinct (map fst fs) \<and> list_all snd (map (map_prod id sound) fs)"
| "sound (TPtr t) \<longleftrightarrow> sound t"
| "sound (TSlice t) \<longleftrightarrow> sound t"
| "sound (TForeign t f) \<longleftrightarrow> copies t f"

lemma copies_struct:
  assumes "\<And>p. p \<in> set fs \<Longrightarrow> copies (snd p) (deep_copy (snd p))" and "distinct (map fst fs)"
  shows "copies (TStruct fs) (deep_copy (TStruct fs))"
proof (rule copiesI)
  fix h v x A v' h' assume "view (TStruct fs) h v = Some (x, A)" and r: "run_state (deep_copy (TStruct fs) v) h = (v', h')"
  then obtain ys where ys: "field_names v = map fst fs"
      "those (map (\<lambda>p. view (snd p) h (field (fst p) v)) fs) = Some ys" "x = TrStruct (zip (map fst fs) (map fst ys))"
    by (auto simp: read_fields_def comp_def split: if_splits)
  with copy_fields_copies [OF assms, of v h v ys v' h'] r
  obtain ys' where "agree {..<length h} h h'" "field_names v' = map fst fs"
      "those (map (\<lambda>p. view (snd p) h' (field (fst p) v')) fs) = Some ys'" "map fst ys' = map fst ys"
      "set (concat (map snd ys')) \<subseteq> {length h..<length h'}"
    by auto
  with ys show "agree {..<length h} h h' \<and>
      (\<exists>B. view (TStruct fs) h' v' = Some (x, B) \<and> set B \<subseteq> {length h..<length h'})"
    by (auto simp: read_fields_def comp_def)
qed

lemma copies_pointer:
  assumes "copies t (deep_copy t)"
  shows "copies (TPtr t) (deep_copy (TPtr t))"
proof (rule copiesI)
  fix h v x A v' h' assume v: "view (TPtr t) h v = Some (x, A)" and r: "run_state (deep_copy (TPtr t) v) h = (v', h')"
  show "agree {..<length h} h h' \<and> (\<exists>B. view (TPtr t) h' v' = Some (x, B) \<and> set B \<subseteq> {length h..<length h'})"
  proof (cases "v = Ptr None")
    case False
    with v obtain a c y C where c: "v = Ptr (Some a)" "fetch h a = Some (Cell c)" "view t h c = Some (y, C)"
        "x = TrPtr (Some y)" by (auto split: val.splits option.splits object.splits)
    let ?h = "h @ [Cell zero]"
    from c(2) have "fetch ?h a = Some (Cell c)" by (auto simp: fetch_def nth_append split: if_splits)
    with r c(1) obtain w h1 where w: "run_state (deep_copy t c) ?h = (w, h1)" "v' = Ptr (Some (length h))"
        "h' = h1[length h := Cell w]" by (auto simp: run_memory split: prod.splits)
    from c(3) have "view t ?h c = Some (y, C)" by (rule view_extends) simp
    from assms this w(1) obtain B where B: "agree {..<length ?h} ?h h1" "view t h1 w = Some (y, B)"
        "set B \<subseteq> {length ?h..<length h1}" by (rule copiesE)
    have "set B \<subseteq> - {length h}" using B(3) by auto
    then have "view t h' w = Some (y, B)"
      unfolding w(3) by (intro view_local [OF B(2)] agree_update) blast
    moreover have "length h < length h1" using agree_length [OF B(1)] by simp
    moreover have "agree {..<length h} h h1" by (rule agree_trans [OF agree_new B(1)]) auto
    then have "agree {..<length h} h h'"
      unfolding w(3) by (rule agree_trans [OF _ agree_update order_refl]) simp
    ultimately show ?thesis using B(3) w c(4) by (auto simp: fetch_def)
  qed (use v r in \<open>auto simp: agree_def\<close>)
qed

lemma copies_slice:
  assumes "copies t (deep_copy t)"
  shows "copies (TSlice t) (deep_copy (TSlice t))"
proof (rule copiesI)
  fix h v x A v' h'
  assume v: "view (TSlice t) h v = Some (x, A)" and r: "run_state (deep_copy (TSlice t) v) h = (v', h')"
  show "agree {..<length h} h h' \<and> (\<exists>B. view (TSlice t) h' v' = Some (x, B) \<and> set B \<subseteq> {length h..<length h'})"
  proof (cases "v = Slice None")
    case False
    with v obtain a off n xs ys where c: "v = Slice (Some (a, off, n))" "fetch h a = Some (Arr xs)"
        "off + n \<le> length xs" "those (map (view t h) (take n (drop off xs))) = Some ys"
        "x = TrSlice (Some (map fst ys))"
      by (auto split: val.splits option.splits object.splits if_splits)
    let ?h = "h @ [Arr (replicate n zero)]" and ?xs = "take n (drop off xs)"
    from c(2) have "fetch ?h a = Some (Arr xs)" by (auto simp: fetch_def nth_append split: if_splits)
    with r c(1) have w: "run_state (fill (deep_copy t) (length h) 0 ?xs) ?h = ((), h')"
        "v' = Slice (Some (length h, 0, n))" by (auto simp: run_memory split: prod.splits)
    have bound: "set (snd y) \<subseteq> {..<length h}" if "view t h z = Some y" for z y
      using view_bound [of t h z "fst y"] that by simp
    have "set (concat (map snd ys)) \<subseteq> {..<length h}" using c(4) bound by (rule those_subset)
    then have nb: "length h \<notin> set (concat (map snd ys))" by blast
    have those: "those (map (view t ?h) ?xs) = Some ys"
      by (rule those_cong [OF c(4)]) (metis agree_new prod.collapse view_extends)
    have fb: "fetch ?h (length h) = Some (Arr (replicate n zero))" and n: "length ?xs = n"
      using c(3) by (simp_all add: fetch_def)
    from fill_copies [OF assms fb _ those nb w(1)] n obtain ws ys' where f: "agree ({..<length ?h} - {length h}) ?h h'" "length ?h \<le> length h'"
        "fetch h' (length h) = Some (Arr ws)" "length ws = n" "those (map (view t h') ws) = Some ys'"
        "map fst ys' = map fst ys" "set (concat (map snd ys')) \<subseteq> {length ?h..<length h'}"
      by (auto simp del: length_take)
    moreover have "agree {..<length h} h h'" by (rule agree_trans [OF agree_new f(1)]) auto
    ultimately show ?thesis using w(2) c(5) by auto
  qed (use v r in \<open>auto simp: agree_def\<close>)
qed

lemma copies_map: "copies TMap (deep_copy TMap)"
proof (rule copiesI)
  fix h v x A v' h' assume v: "view TMap h v = Some (x, A)" and r: "run_state (deep_copy TMap v) h = (v', h')"
  show "agree {..<length h} h h' \<and> (\<exists>B. view TMap h' v' = Some (x, B) \<and> set B \<subseteq> {length h..<length h'})"
  proof (cases "v = MapRef None")
    case False
    with v obtain a m where c: "v = MapRef (Some a)" "fetch h a = Some (Dict m)" "distinct (map fst m)"
        "x = TrMap (Some m)" by (auto split: val.splits option.splits object.splits if_splits)
    from c(2) have "fetch (h @ [Dict []]) a = Some (Dict m)" by (auto simp: fetch_def nth_append split: if_splits)
    with r c have "v' = MapRef (Some (length h))" "h' = h @ [Dict m]" by (auto simp: run_memory inserted_distinct)
    with c show ?thesis by (simp add: fetch_def)
  qed (use v r in \<open>auto simp: agree_def\<close>)
qed

theorem deep_copy_copies: "sound t \<Longrightarrow> copies t (deep_copy t)"
proof (induction t)
  case (TStruct fs)
  then show ?case by (intro copies_struct) (auto simp: list_all_iff)
next
  case (TPtr t)
  then have "copies t (deep_copy t)" by simp
  then show ?case by (rule copies_pointer)
next
  case (TSlice t)
  then have "copies t (deep_copy t)" by simp
  then show ?case by (rule copies_slice)
next
  case (TForeign t f)
  then show ?case by (simp add: copies_def)
qed (simp_all add: copies_map, auto simp: copies_def agree_def split: val.splits)

text \<open>A type without pointers, slices, maps and foreign types is copied by assignment.\<close>

primrec flat :: "ty \<Rightarrow> bool" where
  "flat TStr \<longleftrightarrow> True" | "flat TNum \<longleftrightarrow> True" | "flat TBool \<longleftrightarrow> True" | "flat TMap \<longleftrightarrow> False"
| "flat (TStruct fs) \<longleftrightarrow> list_all snd (map (map_prod id flat) fs)"
| "flat (TPtr t) \<longleftrightarrow> False" | "flat (TSlice t) \<longleftrightarrow> False" | "flat (TForeign t f) \<longleftrightarrow> False"

lemma copy_fields_flat:
  assumes "\<And>p v. p \<in> set ps \<Longrightarrow> snd p v = State_Monad.return v"
  shows "copy_fields ps v v = State_Monad.return v"
  using assms by (induction ps) (simp_all add: set_field_same)

lemma deep_copy_flat: "flat t \<Longrightarrow> deep_copy t v = State_Monad.return v"
proof (induction t arbitrary: v)
  case (TStruct fs)
  then have "snd p \<in> Basic_BNFs.snds p \<and> flat (snd p)" if "p \<in> set fs" for p
    using that by (auto simp: list_all_iff prod_set_defs)
  with TStruct.IH show ?case by (force intro!: copy_fields_flat)
qed simp_all

end
