(* ===== verification/Deep_Copy.thy ===== *)
theory Deep_Copy
  imports Go_Memory
begin

text \<open>
  \<open>api/v1alpha1/zz_generated.deepcopy.go\<close>: the generated \<open>DeepCopyInto\<close>, \<open>DeepCopy\<close> and
  \<open>DeepCopyObject\<close> of every API type, statement by statement on Go's memory, and the types they copy as
  the declarations of the \<open>*_types.go\<close> files have them. The patch helper, the informer caches and the
  defaulting webhooks rely on the copies sharing nothing with the original: every generated function
  copies exactly what the declaration of its type prescribes, so a field that was added without
  regenerating the file would break \<open>deep_copies_in_sync\<close>.
\<close>

section \<open>The statements of the generator\<close>

text \<open>Each statement reads the struct \<open>in\<close> and changes one field of the struct \<open>out\<close>.\<close>

definition assign :: "string \<Rightarrow> val \<Rightarrow> val \<Rightarrow> (memory, val) state" where
  \<comment> \<open>\<open>out.X = in.X\<close>\<close>
  "assign n inp out = State_Monad.return (set_field n (field n inp) out)"

definition into :: "(val \<Rightarrow> (memory, val) state) \<Rightarrow> string \<Rightarrow> val \<Rightarrow> val \<Rightarrow> (memory, val) state" where
  \<comment> \<open>\<open>in.X.DeepCopyInto(&out.X)\<close>\<close>
  "into dc n inp out = do {
     w \<leftarrow> dc (field n inp);
     State_Monad.return (set_field n w out)
   }"

definition new_pointee :: "string \<Rightarrow> val \<Rightarrow> val \<Rightarrow> (memory, val) state" where
  \<comment> \<open>\<open>if in.X != nil { *out = new(T); **out = **in }\<close>\<close>
  "new_pointee n inp out = (case field n inp of
       Ptr (Some a) \<Rightarrow> do {
         b \<leftarrow> new_object (Cell zero);
         x \<leftarrow> pointee a;
         store b (Cell x);
         State_Monad.return (set_field n (Ptr (Some b)) out)
       }
     | _ \<Rightarrow> State_Monad.return out)"

definition copy_elements :: "addr \<Rightarrow> val list \<Rightarrow> (memory, unit) state" where
  \<comment> \<open>\<open>copy(*out, *in)\<close>: as many elements as both have\<close>
  "copy_elements b xs = State (\<lambda>h. ((), case fetch h b of
       Some (Arr ys) \<Rightarrow> h[b := Arr (take (length ys) xs @ drop (length xs) ys)]
     | _ \<Rightarrow> h))"

definition copy_slice :: "string \<Rightarrow> val \<Rightarrow> val \<Rightarrow> (memory, val) state" where
  \<comment> \<open>\<open>if in.X != nil { *out = make([]T, len(*in)); copy(*out, *in) }\<close>\<close>
  "copy_slice n inp out = (case field n inp of
       Slice (Some (a, off, k)) \<Rightarrow> do {
         b \<leftarrow> new_object (Arr (replicate k zero));
         xs \<leftarrow> elements a off k;
         copy_elements b xs;
         State_Monad.return (set_field n (Slice (Some (b, 0, k))) out)
       }
     | _ \<Rightarrow> State_Monad.return out)"

definition copy_each :: "(val \<Rightarrow> (memory, val) state) \<Rightarrow> string \<Rightarrow> val \<Rightarrow> val \<Rightarrow> (memory, val) state" where
  \<comment> \<open>\<open>if in.X != nil { *out = make([]T, len(*in)); for i := range *in { ... } }\<close>\<close>
  "copy_each dc n inp out = (case field n inp of
       Slice (Some (a, off, k)) \<Rightarrow> do {
         b \<leftarrow> new_object (Arr (replicate k zero));
         xs \<leftarrow> elements a off k;
         fill dc b 0 xs;
         State_Monad.return (set_field n (Slice (Some (b, 0, k))) out)
       }
     | _ \<Rightarrow> State_Monad.return out)"

definition copy_map :: "string \<Rightarrow> val \<Rightarrow> val \<Rightarrow> (memory, val) state" where
  \<comment> \<open>\<open>if in.X != nil { *out = make(map[string]string, len(*in)); for key, val := range *in { ... } }\<close>\<close>
  "copy_map n inp out = (case field n inp of
       MapRef (Some a) \<Rightarrow> do {
         b \<leftarrow> new_object (Dict []);
         m \<leftarrow> entries a;
         store b (Dict (inserted m));
         State_Monad.return (set_field n (MapRef (Some b)) out)
       }
     | _ \<Rightarrow> State_Monad.return out)"

definition new_copy :: "(val \<Rightarrow> (memory, val) state) \<Rightarrow> addr option \<Rightarrow> (memory, addr option) state" where
  \<comment> \<open>\<open>if in == nil { return nil }; out := new(T); in.DeepCopyInto(out); return out\<close>\<close>
  "new_copy dc inp = (case inp of
       None \<Rightarrow> State_Monad.return None
     | Some a \<Rightarrow> do {
         b \<leftarrow> new_object (Cell zero);
         v \<leftarrow> pointee a;
         w \<leftarrow> dc v;
         store b (Cell w);
         State_Monad.return (Some b)
       })"

type_synonym object_ref = "(string \<times> addr) option" \<comment> \<open>a \<open>runtime.Object\<close>: nil, or a pointer with its type\<close>

definition as_object :: "string \<Rightarrow> (memory, addr option) state \<Rightarrow> (memory, object_ref) state" where
  \<comment> \<open>\<open>if c := in.DeepCopy(); c != nil { return c }; return nil\<close>\<close>
  "as_object kind dc = do {
     c \<leftarrow> dc;
     (case c of Some a \<Rightarrow> State_Monad.return (Some (kind, a)) | None \<Rightarrow> State_Monad.return None)
   }"

section \<open>The types\<close>

text \<open>The types of other packages: those of plain strings and numbers as they are documented, the others
  with their own \<open>DeepCopyInto\<close>.\<close>

record Foreign =
  f_ObjectMeta :: "ty \<times> (val \<Rightarrow> (memory, val) state)" \<comment> \<open>\<open>metav1.ObjectMeta\<close>\<close>
  f_ListMeta :: "ty \<times> (val \<Rightarrow> (memory, val) state)"
  f_Condition :: "ty \<times> (val \<Rightarrow> (memory, val) state)"
  f_TemplateMeta :: "ty \<times> (val \<Rightarrow> (memory, val) state)" \<comment> \<open>\<open>clusterv1.ObjectMeta\<close>\<close>
  f_FailureDomain :: "ty \<times> (val \<Rightarrow> (memory, val) state)"

abbreviation foreign :: "ty \<times> (val \<Rightarrow> (memory, val) state) \<Rightarrow> ty" where
  "foreign p \<equiv> TForeign (fst p) (snd p)"

definition TypeMeta_ty :: ty where
  "TypeMeta_ty = TStruct [(''Kind'', TStr), (''APIVersion'', TStr)]"

definition SecretReference_ty :: ty where
  "SecretReference_ty = TStruct [(''Name'', TStr), (''Namespace'', TStr)]"

definition APIEndpoint_ty :: ty where
  "APIEndpoint_ty = TStruct [(''Host'', TStr), (''Port'', TNum)]"

definition MachineAddress_ty :: ty where
  "MachineAddress_ty = TStruct [(''Type'', TStr), (''Address'', TStr)]"

text \<open>The types of the API, field by field in the order of their declarations.\<close>

definition StackitClusterNetworkSpec_ty :: ty where
  "StackitClusterNetworkSpec_ty = TStruct
     [(''ID'', TStr)]"

definition StackitAPIServerLoadBalancerSpec_ty :: ty where
  "StackitAPIServerLoadBalancerSpec_ty = TStruct
     [(''Enabled'', TBool)]"

definition StackitRootVolumeSpec_ty :: ty where
  "StackitRootVolumeSpec_ty = TStruct
     [(''SizeGiB'', TNum), (''PerformanceClass'', TStr), (''DeleteOnTermination'', TPtr TBool)]"

definition StackitBastionCloudInitRef_ty :: ty where
  "StackitBastionCloudInitRef_ty = TStruct
     [(''Kind'', TStr), (''Name'', TStr), (''Key'', TStr)]"

definition StackitBastionSpec_ty :: ty where
  "StackitBastionSpec_ty = TStruct
     [(''Enabled'', TBool), (''ImageID'', TStr), (''MachineType'', TStr), (''SSHKeyName'', TStr),
     (''AllowedCIDRs'', TSlice TStr), (''RootVolume'', StackitRootVolumeSpec_ty),
     (''CloudInitRef'', TPtr StackitBastionCloudInitRef_ty)]"

definition StackitClusterSpec_ty :: ty where
  "StackitClusterSpec_ty = TStruct
     [(''ProjectID'', TStr), (''Region'', TStr), (''CredentialsSecretRef'', SecretReference_ty),
     (''Network'', StackitClusterNetworkSpec_ty),
     (''APIServerLoadBalancer'', StackitAPIServerLoadBalancerSpec_ty),
     (''ControlPlaneEndpoint'', APIEndpoint_ty), (''Bastion'', StackitBastionSpec_ty),
     (''AdditionalLabels'', TMap)]"

definition StackitClusterInitializationStatus_ty :: ty where
  "StackitClusterInitializationStatus_ty = TStruct
     [(''Provisioned'', TBool)]"

definition StackitNetworkStatus_ty :: ty where
  "StackitNetworkStatus_ty = TStruct
     [(''ID'', TStr), (''Managed'', TBool)]"

definition StackitBastionStatus_ty :: ty where
  "StackitBastionStatus_ty = TStruct
     [(''ServerID'', TStr), (''PublicIPID'', TStr), (''PublicIP'', TStr),
     (''SecurityGroupID'', TStr), (''CloudInitHash'', TStr)]"

definition StackitClusterStatus_ty :: "Foreign \<Rightarrow> ty" where
  "StackitClusterStatus_ty F = TStruct
     [(''Ready'', TBool), (''Initialization'', StackitClusterInitializationStatus_ty),
     (''Network'', StackitNetworkStatus_ty), (''APIServerEndpoint'', APIEndpoint_ty),
     (''APIServerLoadBalancerID'', TStr), (''Bastion'', StackitBastionStatus_ty),
     (''FailureDomains'', TSlice (foreign (f_FailureDomain F))),
     (''Conditions'', TSlice (foreign (f_Condition F)))]"

definition StackitCluster_ty :: "Foreign \<Rightarrow> ty" where
  "StackitCluster_ty F = TStruct
     [(''TypeMeta'', TypeMeta_ty), (''ObjectMeta'', foreign (f_ObjectMeta F)),
     (''Spec'', StackitClusterSpec_ty), (''Status'', StackitClusterStatus_ty F)]"

definition StackitClusterList_ty :: "Foreign \<Rightarrow> ty" where
  "StackitClusterList_ty F = TStruct
     [(''TypeMeta'', TypeMeta_ty), (''ListMeta'', foreign (f_ListMeta F)),
     (''Items'', TSlice (StackitCluster_ty F))]"

definition StackitMachineNetworkSpec_ty :: ty where
  "StackitMachineNetworkSpec_ty = TStruct
     [(''ID'', TStr)]"

definition StackitMachineSpec_ty :: ty where
  "StackitMachineSpec_ty = TStruct
     [(''ProviderID'', TPtr TStr), (''ImageID'', TStr), (''MachineType'', TStr),
     (''AvailabilityZone'', TStr), (''SSHKeyName'', TStr),
     (''RootVolume'', StackitRootVolumeSpec_ty), (''Network'', StackitMachineNetworkSpec_ty),
     (''SecurityGroups'', TSlice TStr), (''AdditionalLabels'', TMap)]"

definition StackitMachineInitializationStatus_ty :: ty where
  "StackitMachineInitializationStatus_ty = TStruct
     [(''Provisioned'', TBool)]"

definition StackitMachineStatus_ty :: "Foreign \<Rightarrow> ty" where
  "StackitMachineStatus_ty F = TStruct
     [(''Ready'', TBool), (''Initialization'', StackitMachineInitializationStatus_ty),
     (''ProviderID'', TStr), (''InstanceID'', TStr), (''InstanceState'', TStr),
     (''AvailabilityZone'', TStr), (''Addresses'', TSlice MachineAddress_ty),
     (''Conditions'', TSlice (foreign (f_Condition F)))]"

definition StackitMachine_ty :: "Foreign \<Rightarrow> ty" where
  "StackitMachine_ty F = TStruct
     [(''TypeMeta'', TypeMeta_ty), (''ObjectMeta'', foreign (f_ObjectMeta F)),
     (''Spec'', StackitMachineSpec_ty), (''Status'', StackitMachineStatus_ty F)]"

definition StackitMachineList_ty :: "Foreign \<Rightarrow> ty" where
  "StackitMachineList_ty F = TStruct
     [(''TypeMeta'', TypeMeta_ty), (''ListMeta'', foreign (f_ListMeta F)),
     (''Items'', TSlice (StackitMachine_ty F))]"

definition StackitClusterTemplateResource_ty :: "Foreign \<Rightarrow> ty" where
  "StackitClusterTemplateResource_ty F = TStruct
     [(''ObjectMeta'', foreign (f_TemplateMeta F)), (''Spec'', StackitClusterSpec_ty)]"

definition StackitClusterTemplateSpec_ty :: "Foreign \<Rightarrow> ty" where
  "StackitClusterTemplateSpec_ty F = TStruct
     [(''Template'', StackitClusterTemplateResource_ty F)]"

definition StackitClusterTemplate_ty :: "Foreign \<Rightarrow> ty" where
  "StackitClusterTemplate_ty F = TStruct
     [(''TypeMeta'', TypeMeta_ty), (''ObjectMeta'', foreign (f_ObjectMeta F)),
     (''Spec'', StackitClusterTemplateSpec_ty F)]"

definition StackitClusterTemplateList_ty :: "Foreign \<Rightarrow> ty" where
  "StackitClusterTemplateList_ty F = TStruct
     [(''TypeMeta'', TypeMeta_ty), (''ListMeta'', foreign (f_ListMeta F)),
     (''Items'', TSlice (StackitClusterTemplate_ty F))]"

definition StackitMachineTemplateResource_ty :: "Foreign \<Rightarrow> ty" where
  "StackitMachineTemplateResource_ty F = TStruct
     [(''ObjectMeta'', foreign (f_TemplateMeta F)), (''Spec'', StackitMachineSpec_ty)]"

definition StackitMachineTemplateSpec_ty :: "Foreign \<Rightarrow> ty" where
  "StackitMachineTemplateSpec_ty F = TStruct
     [(''Template'', StackitMachineTemplateResource_ty F)]"

definition StackitMachineTemplate_ty :: "Foreign \<Rightarrow> ty" where
  "StackitMachineTemplate_ty F = TStruct
     [(''TypeMeta'', TypeMeta_ty), (''ObjectMeta'', foreign (f_ObjectMeta F)),
     (''Spec'', StackitMachineTemplateSpec_ty F)]"

definition StackitMachineTemplateList_ty :: "Foreign \<Rightarrow> ty" where
  "StackitMachineTemplateList_ty F = TStruct
     [(''TypeMeta'', TypeMeta_ty), (''ListMeta'', foreign (f_ListMeta F)),
     (''Items'', TSlice (StackitMachineTemplate_ty F))]"

section \<open>The generated functions\<close>

definition StackitClusterNetworkSpec_DeepCopyInto :: "val \<Rightarrow> (memory, val) state" where
  "StackitClusterNetworkSpec_DeepCopyInto inp = State_Monad.return inp"

definition StackitClusterNetworkSpec_DeepCopy :: "addr option \<Rightarrow> (memory, addr option) state" where
  "StackitClusterNetworkSpec_DeepCopy = new_copy StackitClusterNetworkSpec_DeepCopyInto"

definition StackitAPIServerLoadBalancerSpec_DeepCopyInto :: "val \<Rightarrow> (memory, val) state" where
  "StackitAPIServerLoadBalancerSpec_DeepCopyInto inp = State_Monad.return inp"

definition StackitAPIServerLoadBalancerSpec_DeepCopy :: "addr option \<Rightarrow> (memory, addr option) state" where
  "StackitAPIServerLoadBalancerSpec_DeepCopy = new_copy StackitAPIServerLoadBalancerSpec_DeepCopyInto"

definition StackitRootVolumeSpec_DeepCopyInto :: "val \<Rightarrow> (memory, val) state" where
  "StackitRootVolumeSpec_DeepCopyInto inp = do {
     out \<leftarrow> State_Monad.return inp;
     new_pointee ''DeleteOnTermination'' inp out
   }"

definition StackitRootVolumeSpec_DeepCopy :: "addr option \<Rightarrow> (memory, addr option) state" where
  "StackitRootVolumeSpec_DeepCopy = new_copy StackitRootVolumeSpec_DeepCopyInto"

definition StackitBastionCloudInitRef_DeepCopyInto :: "val \<Rightarrow> (memory, val) state" where
  "StackitBastionCloudInitRef_DeepCopyInto inp = State_Monad.return inp"

definition StackitBastionCloudInitRef_DeepCopy :: "addr option \<Rightarrow> (memory, addr option) state" where
  "StackitBastionCloudInitRef_DeepCopy = new_copy StackitBastionCloudInitRef_DeepCopyInto"

definition StackitBastionSpec_DeepCopyInto :: "val \<Rightarrow> (memory, val) state" where
  "StackitBastionSpec_DeepCopyInto inp = do {
     out \<leftarrow> State_Monad.return inp;
     out \<leftarrow> copy_slice ''AllowedCIDRs'' inp out;
     out \<leftarrow> into StackitRootVolumeSpec_DeepCopyInto ''RootVolume'' inp out;
     new_pointee ''CloudInitRef'' inp out
   }"

definition StackitBastionSpec_DeepCopy :: "addr option \<Rightarrow> (memory, addr option) state" where
  "StackitBastionSpec_DeepCopy = new_copy StackitBastionSpec_DeepCopyInto"

definition StackitClusterSpec_DeepCopyInto :: "val \<Rightarrow> (memory, val) state" where
  "StackitClusterSpec_DeepCopyInto inp = do {
     out \<leftarrow> State_Monad.return inp;
     out \<leftarrow> assign ''CredentialsSecretRef'' inp out;
     out \<leftarrow> assign ''Network'' inp out;
     out \<leftarrow> assign ''APIServerLoadBalancer'' inp out;
     out \<leftarrow> assign ''ControlPlaneEndpoint'' inp out;
     out \<leftarrow> into StackitBastionSpec_DeepCopyInto ''Bastion'' inp out;
     copy_map ''AdditionalLabels'' inp out
   }"

definition StackitClusterSpec_DeepCopy :: "addr option \<Rightarrow> (memory, addr option) state" where
  "StackitClusterSpec_DeepCopy = new_copy StackitClusterSpec_DeepCopyInto"

definition StackitClusterInitializationStatus_DeepCopyInto :: "val \<Rightarrow> (memory, val) state" where
  "StackitClusterInitializationStatus_DeepCopyInto inp = State_Monad.return inp"

definition StackitClusterInitializationStatus_DeepCopy :: "addr option \<Rightarrow> (memory, addr option) state" where
  "StackitClusterInitializationStatus_DeepCopy = new_copy StackitClusterInitializationStatus_DeepCopyInto"

definition StackitNetworkStatus_DeepCopyInto :: "val \<Rightarrow> (memory, val) state" where
  "StackitNetworkStatus_DeepCopyInto inp = State_Monad.return inp"

definition StackitNetworkStatus_DeepCopy :: "addr option \<Rightarrow> (memory, addr option) state" where
  "StackitNetworkStatus_DeepCopy = new_copy StackitNetworkStatus_DeepCopyInto"

definition StackitBastionStatus_DeepCopyInto :: "val \<Rightarrow> (memory, val) state" where
  "StackitBastionStatus_DeepCopyInto inp = State_Monad.return inp"

definition StackitBastionStatus_DeepCopy :: "addr option \<Rightarrow> (memory, addr option) state" where
  "StackitBastionStatus_DeepCopy = new_copy StackitBastionStatus_DeepCopyInto"

definition StackitClusterStatus_DeepCopyInto :: "Foreign \<Rightarrow> val \<Rightarrow> (memory, val) state" where
  "StackitClusterStatus_DeepCopyInto F inp = do {
     out \<leftarrow> State_Monad.return inp;
     out \<leftarrow> assign ''Initialization'' inp out;
     out \<leftarrow> assign ''Network'' inp out;
     out \<leftarrow> assign ''APIServerEndpoint'' inp out;
     out \<leftarrow> assign ''Bastion'' inp out;
     out \<leftarrow> copy_each (snd (f_FailureDomain F)) ''FailureDomains'' inp out;
     copy_each (snd (f_Condition F)) ''Conditions'' inp out
   }"

definition StackitClusterStatus_DeepCopy :: "Foreign \<Rightarrow> addr option \<Rightarrow> (memory, addr option) state" where
  "StackitClusterStatus_DeepCopy F = new_copy (StackitClusterStatus_DeepCopyInto F)"

definition StackitCluster_DeepCopyInto :: "Foreign \<Rightarrow> val \<Rightarrow> (memory, val) state" where
  "StackitCluster_DeepCopyInto F inp = do {
     out \<leftarrow> State_Monad.return inp;
     out \<leftarrow> assign ''TypeMeta'' inp out;
     out \<leftarrow> into (snd (f_ObjectMeta F)) ''ObjectMeta'' inp out;
     out \<leftarrow> into StackitClusterSpec_DeepCopyInto ''Spec'' inp out;
     into (StackitClusterStatus_DeepCopyInto F) ''Status'' inp out
   }"

definition StackitCluster_DeepCopy :: "Foreign \<Rightarrow> addr option \<Rightarrow> (memory, addr option) state" where
  "StackitCluster_DeepCopy F = new_copy (StackitCluster_DeepCopyInto F)"

definition StackitCluster_DeepCopyObject :: "Foreign \<Rightarrow> addr option \<Rightarrow> (memory, object_ref) state" where
  "StackitCluster_DeepCopyObject F = (\<lambda>inp. as_object ''StackitCluster'' (StackitCluster_DeepCopy F inp))"

definition StackitClusterList_DeepCopyInto :: "Foreign \<Rightarrow> val \<Rightarrow> (memory, val) state" where
  "StackitClusterList_DeepCopyInto F inp = do {
     out \<leftarrow> State_Monad.return inp;
     out \<leftarrow> assign ''TypeMeta'' inp out;
     out \<leftarrow> into (snd (f_ListMeta F)) ''ListMeta'' inp out;
     copy_each (StackitCluster_DeepCopyInto F) ''Items'' inp out
   }"

definition StackitClusterList_DeepCopy :: "Foreign \<Rightarrow> addr option \<Rightarrow> (memory, addr option) state" where
  "StackitClusterList_DeepCopy F = new_copy (StackitClusterList_DeepCopyInto F)"

definition StackitClusterList_DeepCopyObject :: "Foreign \<Rightarrow> addr option \<Rightarrow> (memory, object_ref) state" where
  "StackitClusterList_DeepCopyObject F = (\<lambda>inp. as_object ''StackitClusterList'' (StackitClusterList_DeepCopy F inp))"

definition StackitMachineNetworkSpec_DeepCopyInto :: "val \<Rightarrow> (memory, val) state" where
  "StackitMachineNetworkSpec_DeepCopyInto inp = State_Monad.return inp"

definition StackitMachineNetworkSpec_DeepCopy :: "addr option \<Rightarrow> (memory, addr option) state" where
  "StackitMachineNetworkSpec_DeepCopy = new_copy StackitMachineNetworkSpec_DeepCopyInto"

definition StackitMachineSpec_DeepCopyInto :: "val \<Rightarrow> (memory, val) state" where
  "StackitMachineSpec_DeepCopyInto inp = do {
     out \<leftarrow> State_Monad.return inp;
     out \<leftarrow> new_pointee ''ProviderID'' inp out;
     out \<leftarrow> into StackitRootVolumeSpec_DeepCopyInto ''RootVolume'' inp out;
     out \<leftarrow> assign ''Network'' inp out;
     out \<leftarrow> copy_slice ''SecurityGroups'' inp out;
     copy_map ''AdditionalLabels'' inp out
   }"

definition StackitMachineSpec_DeepCopy :: "addr option \<Rightarrow> (memory, addr option) state" where
  "StackitMachineSpec_DeepCopy = new_copy StackitMachineSpec_DeepCopyInto"

definition StackitMachineInitializationStatus_DeepCopyInto :: "val \<Rightarrow> (memory, val) state" where
  "StackitMachineInitializationStatus_DeepCopyInto inp = State_Monad.return inp"

definition StackitMachineInitializationStatus_DeepCopy :: "addr option \<Rightarrow> (memory, addr option) state" where
  "StackitMachineInitializationStatus_DeepCopy = new_copy StackitMachineInitializationStatus_DeepCopyInto"

definition StackitMachineStatus_DeepCopyInto :: "Foreign \<Rightarrow> val \<Rightarrow> (memory, val) state" where
  "StackitMachineStatus_DeepCopyInto F inp = do {
     out \<leftarrow> State_Monad.return inp;
     out \<leftarrow> assign ''Initialization'' inp out;
     out \<leftarrow> copy_slice ''Addresses'' inp out;
     copy_each (snd (f_Condition F)) ''Conditions'' inp out
   }"

definition StackitMachineStatus_DeepCopy :: "Foreign \<Rightarrow> addr option \<Rightarrow> (memory, addr option) state" where
  "StackitMachineStatus_DeepCopy F = new_copy (StackitMachineStatus_DeepCopyInto F)"

definition StackitMachine_DeepCopyInto :: "Foreign \<Rightarrow> val \<Rightarrow> (memory, val) state" where
  "StackitMachine_DeepCopyInto F inp = do {
     out \<leftarrow> State_Monad.return inp;
     out \<leftarrow> assign ''TypeMeta'' inp out;
     out \<leftarrow> into (snd (f_ObjectMeta F)) ''ObjectMeta'' inp out;
     out \<leftarrow> into StackitMachineSpec_DeepCopyInto ''Spec'' inp out;
     into (StackitMachineStatus_DeepCopyInto F) ''Status'' inp out
   }"

definition StackitMachine_DeepCopy :: "Foreign \<Rightarrow> addr option \<Rightarrow> (memory, addr option) state" where
  "StackitMachine_DeepCopy F = new_copy (StackitMachine_DeepCopyInto F)"

definition StackitMachine_DeepCopyObject :: "Foreign \<Rightarrow> addr option \<Rightarrow> (memory, object_ref) state" where
  "StackitMachine_DeepCopyObject F = (\<lambda>inp. as_object ''StackitMachine'' (StackitMachine_DeepCopy F inp))"

definition StackitMachineList_DeepCopyInto :: "Foreign \<Rightarrow> val \<Rightarrow> (memory, val) state" where
  "StackitMachineList_DeepCopyInto F inp = do {
     out \<leftarrow> State_Monad.return inp;
     out \<leftarrow> assign ''TypeMeta'' inp out;
     out \<leftarrow> into (snd (f_ListMeta F)) ''ListMeta'' inp out;
     copy_each (StackitMachine_DeepCopyInto F) ''Items'' inp out
   }"

definition StackitMachineList_DeepCopy :: "Foreign \<Rightarrow> addr option \<Rightarrow> (memory, addr option) state" where
  "StackitMachineList_DeepCopy F = new_copy (StackitMachineList_DeepCopyInto F)"

definition StackitMachineList_DeepCopyObject :: "Foreign \<Rightarrow> addr option \<Rightarrow> (memory, object_ref) state" where
  "StackitMachineList_DeepCopyObject F = (\<lambda>inp. as_object ''StackitMachineList'' (StackitMachineList_DeepCopy F inp))"

definition StackitClusterTemplateResource_DeepCopyInto :: "Foreign \<Rightarrow> val \<Rightarrow> (memory, val) state" where
  "StackitClusterTemplateResource_DeepCopyInto F inp = do {
     out \<leftarrow> State_Monad.return inp;
     out \<leftarrow> into (snd (f_TemplateMeta F)) ''ObjectMeta'' inp out;
     into StackitClusterSpec_DeepCopyInto ''Spec'' inp out
   }"

definition StackitClusterTemplateResource_DeepCopy :: "Foreign \<Rightarrow> addr option \<Rightarrow> (memory, addr option) state" where
  "StackitClusterTemplateResource_DeepCopy F = new_copy (StackitClusterTemplateResource_DeepCopyInto F)"

definition StackitClusterTemplateSpec_DeepCopyInto :: "Foreign \<Rightarrow> val \<Rightarrow> (memory, val) state" where
  "StackitClusterTemplateSpec_DeepCopyInto F inp = do {
     out \<leftarrow> State_Monad.return inp;
     into (StackitClusterTemplateResource_DeepCopyInto F) ''Template'' inp out
   }"

definition StackitClusterTemplateSpec_DeepCopy :: "Foreign \<Rightarrow> addr option \<Rightarrow> (memory, addr option) state" where
  "StackitClusterTemplateSpec_DeepCopy F = new_copy (StackitClusterTemplateSpec_DeepCopyInto F)"

definition StackitClusterTemplate_DeepCopyInto :: "Foreign \<Rightarrow> val \<Rightarrow> (memory, val) state" where
  "StackitClusterTemplate_DeepCopyInto F inp = do {
     out \<leftarrow> State_Monad.return inp;
     out \<leftarrow> assign ''TypeMeta'' inp out;
     out \<leftarrow> into (snd (f_ObjectMeta F)) ''ObjectMeta'' inp out;
     into (StackitClusterTemplateSpec_DeepCopyInto F) ''Spec'' inp out
   }"

definition StackitClusterTemplate_DeepCopy :: "Foreign \<Rightarrow> addr option \<Rightarrow> (memory, addr option) state" where
  "StackitClusterTemplate_DeepCopy F = new_copy (StackitClusterTemplate_DeepCopyInto F)"

definition StackitClusterTemplate_DeepCopyObject :: "Foreign \<Rightarrow> addr option \<Rightarrow> (memory, object_ref) state" where
  "StackitClusterTemplate_DeepCopyObject F = (\<lambda>inp. as_object ''StackitClusterTemplate'' (StackitClusterTemplate_DeepCopy F inp))"

definition StackitClusterTemplateList_DeepCopyInto :: "Foreign \<Rightarrow> val \<Rightarrow> (memory, val) state" where
  "StackitClusterTemplateList_DeepCopyInto F inp = do {
     out \<leftarrow> State_Monad.return inp;
     out \<leftarrow> assign ''TypeMeta'' inp out;
     out \<leftarrow> into (snd (f_ListMeta F)) ''ListMeta'' inp out;
     copy_each (StackitClusterTemplate_DeepCopyInto F) ''Items'' inp out
   }"

definition StackitClusterTemplateList_DeepCopy :: "Foreign \<Rightarrow> addr option \<Rightarrow> (memory, addr option) state" where
  "StackitClusterTemplateList_DeepCopy F = new_copy (StackitClusterTemplateList_DeepCopyInto F)"

definition StackitClusterTemplateList_DeepCopyObject :: "Foreign \<Rightarrow> addr option \<Rightarrow> (memory, object_ref) state" where
  "StackitClusterTemplateList_DeepCopyObject F = (\<lambda>inp. as_object ''StackitClusterTemplateList'' (StackitClusterTemplateList_DeepCopy F inp))"

definition StackitMachineTemplateResource_DeepCopyInto :: "Foreign \<Rightarrow> val \<Rightarrow> (memory, val) state" where
  "StackitMachineTemplateResource_DeepCopyInto F inp = do {
     out \<leftarrow> State_Monad.return inp;
     out \<leftarrow> into (snd (f_TemplateMeta F)) ''ObjectMeta'' inp out;
     into StackitMachineSpec_DeepCopyInto ''Spec'' inp out
   }"

definition StackitMachineTemplateResource_DeepCopy :: "Foreign \<Rightarrow> addr option \<Rightarrow> (memory, addr option) state" where
  "StackitMachineTemplateResource_DeepCopy F = new_copy (StackitMachineTemplateResource_DeepCopyInto F)"

definition StackitMachineTemplateSpec_DeepCopyInto :: "Foreign \<Rightarrow> val \<Rightarrow> (memory, val) state" where
  "StackitMachineTemplateSpec_DeepCopyInto F inp = do {
     out \<leftarrow> State_Monad.return inp;
     into (StackitMachineTemplateResource_DeepCopyInto F) ''Template'' inp out
   }"

definition StackitMachineTemplateSpec_DeepCopy :: "Foreign \<Rightarrow> addr option \<Rightarrow> (memory, addr option) state" where
  "StackitMachineTemplateSpec_DeepCopy F = new_copy (StackitMachineTemplateSpec_DeepCopyInto F)"

definition StackitMachineTemplate_DeepCopyInto :: "Foreign \<Rightarrow> val \<Rightarrow> (memory, val) state" where
  "StackitMachineTemplate_DeepCopyInto F inp = do {
     out \<leftarrow> State_Monad.return inp;
     out \<leftarrow> assign ''TypeMeta'' inp out;
     out \<leftarrow> into (snd (f_ObjectMeta F)) ''ObjectMeta'' inp out;
     into (StackitMachineTemplateSpec_DeepCopyInto F) ''Spec'' inp out
   }"

definition StackitMachineTemplate_DeepCopy :: "Foreign \<Rightarrow> addr option \<Rightarrow> (memory, addr option) state" where
  "StackitMachineTemplate_DeepCopy F = new_copy (StackitMachineTemplate_DeepCopyInto F)"

definition StackitMachineTemplate_DeepCopyObject :: "Foreign \<Rightarrow> addr option \<Rightarrow> (memory, object_ref) state" where
  "StackitMachineTemplate_DeepCopyObject F = (\<lambda>inp. as_object ''StackitMachineTemplate'' (StackitMachineTemplate_DeepCopy F inp))"

definition StackitMachineTemplateList_DeepCopyInto :: "Foreign \<Rightarrow> val \<Rightarrow> (memory, val) state" where
  "StackitMachineTemplateList_DeepCopyInto F inp = do {
     out \<leftarrow> State_Monad.return inp;
     out \<leftarrow> assign ''TypeMeta'' inp out;
     out \<leftarrow> into (snd (f_ListMeta F)) ''ListMeta'' inp out;
     copy_each (StackitMachineTemplate_DeepCopyInto F) ''Items'' inp out
   }"

definition StackitMachineTemplateList_DeepCopy :: "Foreign \<Rightarrow> addr option \<Rightarrow> (memory, addr option) state" where
  "StackitMachineTemplateList_DeepCopy F = new_copy (StackitMachineTemplateList_DeepCopyInto F)"

definition StackitMachineTemplateList_DeepCopyObject :: "Foreign \<Rightarrow> addr option \<Rightarrow> (memory, object_ref) state" where
  "StackitMachineTemplateList_DeepCopyObject F = (\<lambda>inp. as_object ''StackitMachineTemplateList'' (StackitMachineTemplateList_DeepCopy F inp))"

section \<open>In sync with the types\<close>

definition object_copy :: "(addr option \<Rightarrow> (memory, object_ref) state) \<Rightarrow> addr option \<Rightarrow> (memory, addr option) state" where
  \<comment> \<open>the pointer in the object\<close>
  "object_copy dc inp = do {
     r \<leftarrow> dc inp;
     State_Monad.return (map_option snd r)
   }"

definition deep_copies :: "Foreign \<Rightarrow> (ty \<times> (addr option \<Rightarrow> (memory, addr option) state)) list" where
  \<comment> \<open>every type with its generated copies\<close>
  "deep_copies F =
     [(StackitClusterNetworkSpec_ty, StackitClusterNetworkSpec_DeepCopy),
      (StackitAPIServerLoadBalancerSpec_ty, StackitAPIServerLoadBalancerSpec_DeepCopy),
      (StackitRootVolumeSpec_ty, StackitRootVolumeSpec_DeepCopy),
      (StackitBastionCloudInitRef_ty, StackitBastionCloudInitRef_DeepCopy),
      (StackitBastionSpec_ty, StackitBastionSpec_DeepCopy),
      (StackitClusterSpec_ty, StackitClusterSpec_DeepCopy),
      (StackitClusterInitializationStatus_ty, StackitClusterInitializationStatus_DeepCopy),
      (StackitNetworkStatus_ty, StackitNetworkStatus_DeepCopy),
      (StackitBastionStatus_ty, StackitBastionStatus_DeepCopy),
      (StackitClusterStatus_ty F, StackitClusterStatus_DeepCopy F),
      (StackitCluster_ty F, StackitCluster_DeepCopy F),
      (StackitClusterList_ty F, StackitClusterList_DeepCopy F),
      (StackitMachineNetworkSpec_ty, StackitMachineNetworkSpec_DeepCopy),
      (StackitMachineSpec_ty, StackitMachineSpec_DeepCopy),
      (StackitMachineInitializationStatus_ty, StackitMachineInitializationStatus_DeepCopy),
      (StackitMachineStatus_ty F, StackitMachineStatus_DeepCopy F),
      (StackitMachine_ty F, StackitMachine_DeepCopy F),
      (StackitMachineList_ty F, StackitMachineList_DeepCopy F),
      (StackitClusterTemplateResource_ty F, StackitClusterTemplateResource_DeepCopy F),
      (StackitClusterTemplateSpec_ty F, StackitClusterTemplateSpec_DeepCopy F),
      (StackitClusterTemplate_ty F, StackitClusterTemplate_DeepCopy F),
      (StackitClusterTemplateList_ty F, StackitClusterTemplateList_DeepCopy F),
      (StackitMachineTemplateResource_ty F, StackitMachineTemplateResource_DeepCopy F),
      (StackitMachineTemplateSpec_ty F, StackitMachineTemplateSpec_DeepCopy F),
      (StackitMachineTemplate_ty F, StackitMachineTemplate_DeepCopy F),
      (StackitMachineTemplateList_ty F, StackitMachineTemplateList_DeepCopy F),
      (StackitCluster_ty F, object_copy (StackitCluster_DeepCopyObject F)),
      (StackitClusterList_ty F, object_copy (StackitClusterList_DeepCopyObject F)),
      (StackitMachine_ty F, object_copy (StackitMachine_DeepCopyObject F)),
      (StackitMachineList_ty F, object_copy (StackitMachineList_DeepCopyObject F)),
      (StackitClusterTemplate_ty F, object_copy (StackitClusterTemplate_DeepCopyObject F)),
      (StackitClusterTemplateList_ty F, object_copy (StackitClusterTemplateList_DeepCopyObject F)),
      (StackitMachineTemplate_ty F, object_copy (StackitMachineTemplate_DeepCopyObject F)),
      (StackitMachineTemplateList_ty F, object_copy (StackitMachineTemplateList_DeepCopyObject F))]"

lemmas foreign_flat = TypeMeta_ty_def SecretReference_ty_def APIEndpoint_ty_def MachineAddress_ty_def

lemmas ty_defs = foreign_flat
  StackitClusterNetworkSpec_ty_def StackitAPIServerLoadBalancerSpec_ty_def StackitRootVolumeSpec_ty_def
  StackitBastionCloudInitRef_ty_def StackitBastionSpec_ty_def StackitClusterSpec_ty_def
  StackitClusterInitializationStatus_ty_def StackitNetworkStatus_ty_def StackitBastionStatus_ty_def
  StackitClusterStatus_ty_def StackitCluster_ty_def StackitClusterList_ty_def
  StackitMachineNetworkSpec_ty_def StackitMachineSpec_ty_def StackitMachineInitializationStatus_ty_def
  StackitMachineStatus_ty_def StackitMachine_ty_def StackitMachineList_ty_def
  StackitClusterTemplateResource_ty_def StackitClusterTemplateSpec_ty_def StackitClusterTemplate_ty_def
  StackitClusterTemplateList_ty_def StackitMachineTemplateResource_ty_def
  StackitMachineTemplateSpec_ty_def StackitMachineTemplate_ty_def StackitMachineTemplateList_ty_def

lemma copy_each_eq:
  assumes "field n out = field n inp"
  shows "copy_each (deep_copy t) n inp out =
    State_Monad.bind (deep_copy (TSlice t) (field n inp)) (\<lambda>w. State_Monad.return (set_field n w out))"
  by (simp add: copy_each_def set_field_same assms split: val.split option.split)

lemma fill_return:
  assumes "fetch h b = Some (Arr ys)" and "i + length xs \<le> length ys"
  shows "run_state (fill State_Monad.return b i xs) h =
    ((), h[b := Arr (take i ys @ xs @ drop (i + length xs) ys)])"
  using assms
proof (induction xs arbitrary: i ys h)
  case Nil
  then show ?case by (auto simp: fetch_def split: if_splits) (metis list_update_id)
next
  case (Cons x xs)
  from Cons.prems(1) have b: "b < length h" by (rule fetch_Some)
  let ?ys = "ys[i := x]"
  have "fetch (h[b := Arr ?ys]) b = Some (Arr ?ys)" using b by (simp add: fetch_def)
  moreover have "take (Suc i) ?ys = take i ys @ [x]" using Cons.prems(2) by (simp add: take_Suc_conv_app_nth)
  ultimately show ?case using Cons.IH [of "h[b := Arr ?ys]" ?ys "Suc i"] Cons.prems by (simp add: run_memory)
qed

lemma copy_slice_eq:
  assumes "flat t" and "field n out = field n inp"
  shows "copy_slice n inp out =
    State_Monad.bind (deep_copy (TSlice t) (field n inp)) (\<lambda>w. State_Monad.return (set_field n w out))"
proof -
  have "State_Monad.bind (new_object (Arr (replicate k zero))) (\<lambda>b. State_Monad.bind (elements a off k)
      (\<lambda>xs. State_Monad.bind (copy_elements b xs) (g b))) =
    State_Monad.bind (new_object (Arr (replicate k zero))) (\<lambda>b. State_Monad.bind (elements a off k)
      (\<lambda>xs. State_Monad.bind (fill State_Monad.return b 0 xs) (g b)))" for a off k and g :: "addr \<Rightarrow> unit \<Rightarrow> (memory, val) state"
  proof (rule state.expand, rule ext)
    fix h
    let ?h = "h @ [Arr (replicate k zero)]"
    obtain xs where xs: "run_state (elements a off k) ?h = (xs, ?h)" "length xs \<le> k"
      by (simp add: elements_def split: option.split object.split)
    have b: "fetch ?h (length h) = Some (Arr (replicate k zero))" by (simp add: fetch_def)
    have "run_state (copy_elements (length h) xs) ?h = run_state (fill State_Monad.return (length h) 0 xs) ?h"
      using xs(2) b by (simp add: copy_elements_def fill_return [OF b])
    with xs show "run_state (State_Monad.bind (new_object (Arr (replicate k zero))) (\<lambda>b. State_Monad.bind (elements a off k)
        (\<lambda>xs. State_Monad.bind (copy_elements b xs) (g b)))) h =
      run_state (State_Monad.bind (new_object (Arr (replicate k zero))) (\<lambda>b. State_Monad.bind (elements a off k)
        (\<lambda>xs. State_Monad.bind (fill State_Monad.return b 0 xs) (g b)))) h"
      by (simp add: new_object_def)
  qed
  moreover have "deep_copy t = State_Monad.return" using deep_copy_flat [OF assms(1)] by blast
  ultimately show ?thesis
    by (simp add: copy_slice_def set_field_same assms split: val.split option.split)
qed

lemma new_pointee_eq:
  assumes "flat t" and "field n out = field n inp"
  shows "new_pointee n inp out =
    State_Monad.bind (deep_copy (TPtr t) (field n inp)) (\<lambda>w. State_Monad.return (set_field n w out))"
  by (simp add: new_pointee_def set_field_same deep_copy_flat assms split: val.split option.split)

lemma copy_map_eq:
  assumes "field n out = field n inp"
  shows "copy_map n inp out =
    State_Monad.bind (deep_copy TMap (field n inp)) (\<lambda>w. State_Monad.return (set_field n w out))"
  by (simp add: copy_map_def set_field_same assms split: val.split option.split)

lemma assign_eq: "field n out = field n inp \<Longrightarrow> assign n inp out = State_Monad.return out"
  by (simp add: assign_def set_field_same)

lemma copy_each_foreign:
  assumes "field n out = field n inp"
  shows "copy_each (snd p) n inp out =
    State_Monad.bind (deep_copy (TSlice (foreign p)) (field n inp)) (\<lambda>w. State_Monad.return (set_field n w out))"
proof -
  have "deep_copy (foreign p) = snd p" by (rule ext) simp
  with copy_each_eq [OF assms, of "foreign p"] show ?thesis by simp
qed

lemma flat_types [simp]:
  "flat TypeMeta_ty" "flat SecretReference_ty" "flat APIEndpoint_ty" "flat MachineAddress_ty"
  "flat StackitClusterNetworkSpec_ty" "flat StackitAPIServerLoadBalancerSpec_ty"
  "flat StackitBastionCloudInitRef_ty" "flat StackitClusterInitializationStatus_ty"
  "flat StackitNetworkStatus_ty" "flat StackitBastionStatus_ty" "flat StackitMachineNetworkSpec_ty"
  "flat StackitMachineInitializationStatus_ty"
  by (simp_all add: ty_defs)

lemma deep_copy_flat_cells:
  assumes "flat t"
  shows "deep_copy (TPtr t) v = deep_copy (TPtr TStr) v" and "deep_copy (TSlice t) v = deep_copy (TSlice TStr) v"
proof -
  have "deep_copy t = deep_copy TStr" using deep_copy_flat [OF assms] by auto
  then show "deep_copy (TPtr t) v = deep_copy (TPtr TStr) v" and "deep_copy (TSlice t) v = deep_copy (TSlice TStr) v"
    by (simp_all split: val.split option.split)
qed

lemmas statement_eqs = assign_eq into_def copy_map_eq copy_each_eq copy_each_foreign
  copy_slice_eq [of TStr] new_pointee_eq [of TStr] deep_copy_flat set_field_same
  deep_copy_flat_cells [of TBool] deep_copy_flat_cells [of StackitBastionCloudInitRef_ty]
  deep_copy_flat_cells [of MachineAddress_ty]

text \<open>Each generated \<open>DeepCopyInto\<close> is the copy of its type.\<close>

lemma StackitClusterNetworkSpec_copy: "StackitClusterNetworkSpec_DeepCopyInto = deep_copy StackitClusterNetworkSpec_ty"
  by (rule ext) (simp add: StackitClusterNetworkSpec_DeepCopyInto_def deep_copy_flat)

lemma StackitAPIServerLoadBalancerSpec_copy: "StackitAPIServerLoadBalancerSpec_DeepCopyInto = deep_copy StackitAPIServerLoadBalancerSpec_ty"
  by (rule ext) (simp add: StackitAPIServerLoadBalancerSpec_DeepCopyInto_def deep_copy_flat)

lemma StackitRootVolumeSpec_copy: "StackitRootVolumeSpec_DeepCopyInto = deep_copy StackitRootVolumeSpec_ty"
  by (rule ext) (simp add: StackitRootVolumeSpec_DeepCopyInto_def StackitRootVolumeSpec_ty_def statement_eqs del: deep_copy.simps(5-7))

lemma StackitBastionCloudInitRef_copy: "StackitBastionCloudInitRef_DeepCopyInto = deep_copy StackitBastionCloudInitRef_ty"
  by (rule ext) (simp add: StackitBastionCloudInitRef_DeepCopyInto_def deep_copy_flat)

lemma StackitBastionSpec_copy: "StackitBastionSpec_DeepCopyInto = deep_copy StackitBastionSpec_ty"
  by (rule ext) (simp add: StackitBastionSpec_DeepCopyInto_def StackitBastionSpec_ty_def statement_eqs StackitRootVolumeSpec_copy del: deep_copy.simps(5-7))

lemma StackitClusterSpec_copy: "StackitClusterSpec_DeepCopyInto = deep_copy StackitClusterSpec_ty"
  by (rule ext) (simp add: StackitClusterSpec_DeepCopyInto_def StackitClusterSpec_ty_def statement_eqs StackitBastionSpec_copy del: deep_copy.simps(5-7))

lemma StackitClusterInitializationStatus_copy: "StackitClusterInitializationStatus_DeepCopyInto = deep_copy StackitClusterInitializationStatus_ty"
  by (rule ext) (simp add: StackitClusterInitializationStatus_DeepCopyInto_def deep_copy_flat)

lemma StackitNetworkStatus_copy: "StackitNetworkStatus_DeepCopyInto = deep_copy StackitNetworkStatus_ty"
  by (rule ext) (simp add: StackitNetworkStatus_DeepCopyInto_def deep_copy_flat)

lemma StackitBastionStatus_copy: "StackitBastionStatus_DeepCopyInto = deep_copy StackitBastionStatus_ty"
  by (rule ext) (simp add: StackitBastionStatus_DeepCopyInto_def deep_copy_flat)

lemma StackitClusterStatus_copy: "StackitClusterStatus_DeepCopyInto F = deep_copy (StackitClusterStatus_ty F)"
  by (rule ext) (simp add: StackitClusterStatus_DeepCopyInto_def StackitClusterStatus_ty_def statement_eqs del: deep_copy.simps(5-7))

lemma StackitCluster_copy: "StackitCluster_DeepCopyInto F = deep_copy (StackitCluster_ty F)"
  by (rule ext) (simp add: StackitCluster_DeepCopyInto_def StackitCluster_ty_def statement_eqs StackitClusterSpec_copy StackitClusterStatus_copy del: deep_copy.simps(5-7))

lemma StackitClusterList_copy: "StackitClusterList_DeepCopyInto F = deep_copy (StackitClusterList_ty F)"
  by (rule ext) (simp add: StackitClusterList_DeepCopyInto_def StackitClusterList_ty_def statement_eqs StackitCluster_copy del: deep_copy.simps(5-7))

lemma StackitMachineNetworkSpec_copy: "StackitMachineNetworkSpec_DeepCopyInto = deep_copy StackitMachineNetworkSpec_ty"
  by (rule ext) (simp add: StackitMachineNetworkSpec_DeepCopyInto_def deep_copy_flat)

lemma StackitMachineSpec_copy: "StackitMachineSpec_DeepCopyInto = deep_copy StackitMachineSpec_ty"
  by (rule ext) (simp add: StackitMachineSpec_DeepCopyInto_def StackitMachineSpec_ty_def statement_eqs StackitRootVolumeSpec_copy del: deep_copy.simps(5-7))

lemma StackitMachineInitializationStatus_copy: "StackitMachineInitializationStatus_DeepCopyInto = deep_copy StackitMachineInitializationStatus_ty"
  by (rule ext) (simp add: StackitMachineInitializationStatus_DeepCopyInto_def deep_copy_flat)

lemma StackitMachineStatus_copy: "StackitMachineStatus_DeepCopyInto F = deep_copy (StackitMachineStatus_ty F)"
  by (rule ext) (simp add: StackitMachineStatus_DeepCopyInto_def StackitMachineStatus_ty_def statement_eqs del: deep_copy.simps(5-7))

lemma StackitMachine_copy: "StackitMachine_DeepCopyInto F = deep_copy (StackitMachine_ty F)"
  by (rule ext) (simp add: StackitMachine_DeepCopyInto_def StackitMachine_ty_def statement_eqs StackitMachineSpec_copy StackitMachineStatus_copy del: deep_copy.simps(5-7))

lemma StackitMachineList_copy: "StackitMachineList_DeepCopyInto F = deep_copy (StackitMachineList_ty F)"
  by (rule ext) (simp add: StackitMachineList_DeepCopyInto_def StackitMachineList_ty_def statement_eqs StackitMachine_copy del: deep_copy.simps(5-7))

lemma StackitClusterTemplateResource_copy: "StackitClusterTemplateResource_DeepCopyInto F = deep_copy (StackitClusterTemplateResource_ty F)"
  by (rule ext) (simp add: StackitClusterTemplateResource_DeepCopyInto_def StackitClusterTemplateResource_ty_def statement_eqs StackitClusterSpec_copy del: deep_copy.simps(5-7))

lemma StackitClusterTemplateSpec_copy: "StackitClusterTemplateSpec_DeepCopyInto F = deep_copy (StackitClusterTemplateSpec_ty F)"
  by (rule ext) (simp add: StackitClusterTemplateSpec_DeepCopyInto_def StackitClusterTemplateSpec_ty_def statement_eqs StackitClusterTemplateResource_copy del: deep_copy.simps(5-7))

lemma StackitClusterTemplate_copy: "StackitClusterTemplate_DeepCopyInto F = deep_copy (StackitClusterTemplate_ty F)"
  by (rule ext) (simp add: StackitClusterTemplate_DeepCopyInto_def StackitClusterTemplate_ty_def statement_eqs StackitClusterTemplateSpec_copy del: deep_copy.simps(5-7))

lemma StackitClusterTemplateList_copy: "StackitClusterTemplateList_DeepCopyInto F = deep_copy (StackitClusterTemplateList_ty F)"
  by (rule ext) (simp add: StackitClusterTemplateList_DeepCopyInto_def StackitClusterTemplateList_ty_def statement_eqs StackitClusterTemplate_copy del: deep_copy.simps(5-7))

lemma StackitMachineTemplateResource_copy: "StackitMachineTemplateResource_DeepCopyInto F = deep_copy (StackitMachineTemplateResource_ty F)"
  by (rule ext) (simp add: StackitMachineTemplateResource_DeepCopyInto_def StackitMachineTemplateResource_ty_def statement_eqs StackitMachineSpec_copy del: deep_copy.simps(5-7))

lemma StackitMachineTemplateSpec_copy: "StackitMachineTemplateSpec_DeepCopyInto F = deep_copy (StackitMachineTemplateSpec_ty F)"
  by (rule ext) (simp add: StackitMachineTemplateSpec_DeepCopyInto_def StackitMachineTemplateSpec_ty_def statement_eqs StackitMachineTemplateResource_copy del: deep_copy.simps(5-7))

lemma StackitMachineTemplate_copy: "StackitMachineTemplate_DeepCopyInto F = deep_copy (StackitMachineTemplate_ty F)"
  by (rule ext) (simp add: StackitMachineTemplate_DeepCopyInto_def StackitMachineTemplate_ty_def statement_eqs StackitMachineTemplateSpec_copy del: deep_copy.simps(5-7))

lemma StackitMachineTemplateList_copy: "StackitMachineTemplateList_DeepCopyInto F = deep_copy (StackitMachineTemplateList_ty F)"
  by (rule ext) (simp add: StackitMachineTemplateList_DeepCopyInto_def StackitMachineTemplateList_ty_def statement_eqs StackitMachineTemplate_copy del: deep_copy.simps(5-7))

lemmas generated_copies =
  StackitClusterNetworkSpec_copy StackitAPIServerLoadBalancerSpec_copy StackitRootVolumeSpec_copy
  StackitBastionCloudInitRef_copy StackitBastionSpec_copy StackitClusterSpec_copy
  StackitClusterInitializationStatus_copy StackitNetworkStatus_copy StackitBastionStatus_copy
  StackitClusterStatus_copy StackitCluster_copy StackitClusterList_copy StackitMachineNetworkSpec_copy
  StackitMachineSpec_copy StackitMachineInitializationStatus_copy StackitMachineStatus_copy
  StackitMachine_copy StackitMachineList_copy StackitClusterTemplateResource_copy
  StackitClusterTemplateSpec_copy StackitClusterTemplate_copy StackitClusterTemplateList_copy
  StackitMachineTemplateResource_copy StackitMachineTemplateSpec_copy StackitMachineTemplate_copy
  StackitMachineTemplateList_copy

definition foreign_deep :: "Foreign \<Rightarrow> bool" where
  \<comment> \<open>the copies of the other packages are deep\<close>
  "foreign_deep F \<longleftrightarrow> (\<forall>p \<in> {f_ObjectMeta F, f_ListMeta F, f_Condition F, f_TemplateMeta F, f_FailureDomain F}.
     copies (fst p) (snd p))"

lemma object_copy_new: "object_copy (\<lambda>inp. as_object kind (new_copy dc inp)) = new_copy dc"
proof
  fix inp show "object_copy (\<lambda>inp. as_object kind (new_copy dc inp)) inp = new_copy dc inp"
    by (cases inp) (simp_all add: object_copy_def as_object_def new_copy_def)
qed

lemmas deep_copy_defs =
  StackitClusterNetworkSpec_DeepCopy_def StackitAPIServerLoadBalancerSpec_DeepCopy_def
  StackitRootVolumeSpec_DeepCopy_def StackitBastionCloudInitRef_DeepCopy_def
  StackitBastionSpec_DeepCopy_def StackitClusterSpec_DeepCopy_def
  StackitClusterInitializationStatus_DeepCopy_def StackitNetworkStatus_DeepCopy_def
  StackitBastionStatus_DeepCopy_def StackitClusterStatus_DeepCopy_def StackitCluster_DeepCopy_def
  StackitClusterList_DeepCopy_def StackitMachineNetworkSpec_DeepCopy_def
  StackitMachineSpec_DeepCopy_def StackitMachineInitializationStatus_DeepCopy_def
  StackitMachineStatus_DeepCopy_def StackitMachine_DeepCopy_def StackitMachineList_DeepCopy_def
  StackitClusterTemplateResource_DeepCopy_def StackitClusterTemplateSpec_DeepCopy_def
  StackitClusterTemplate_DeepCopy_def StackitClusterTemplateList_DeepCopy_def
  StackitMachineTemplateResource_DeepCopy_def StackitMachineTemplateSpec_DeepCopy_def
  StackitMachineTemplate_DeepCopy_def StackitMachineTemplateList_DeepCopy_def
  StackitCluster_DeepCopyObject_def StackitClusterList_DeepCopyObject_def
  StackitClusterTemplate_DeepCopyObject_def StackitClusterTemplateList_DeepCopyObject_def
  StackitMachine_DeepCopyObject_def StackitMachineList_DeepCopyObject_def
  StackitMachineTemplate_DeepCopyObject_def StackitMachineTemplateList_DeepCopyObject_def

theorem deep_copies_in_sync: "list_all (\<lambda>(t, dc). dc = new_copy (deep_copy t)) (deep_copies F)"
  by (simp add: deep_copies_def deep_copy_defs generated_copies object_copy_new)

lemma deep_copies_sound: "foreign_deep F \<Longrightarrow> list_all (\<lambda>(t, dc). sound t) (deep_copies F)"
  by (simp add: deep_copies_def ty_defs foreign_deep_def)

lemma new_copy_separate:
  assumes "copies t dc" and "fetch h a = Some (Cell v)" and "view t h v = Some (x, A)"
    and "run_state (new_copy dc (Some a)) h = (res, h')"
  obtains b w B where "res = Some b" and "fetch h' b = Some (Cell w)" and "view t h' w = Some (x, B)"
    and "agree {..<length h} h h'" and "set (b # B) \<inter> {..<length h} = {}"
proof -
  let ?h = "h @ [Cell zero]"
  from assms(2) have "fetch ?h a = Some (Cell v)" by (auto simp: fetch_def nth_append split: if_splits)
  with assms(4) obtain w h1 where w: "run_state (dc v) ?h = (w, h1)" "res = Some (length h)"
      "h' = h1[length h := Cell w]" by (auto simp: new_copy_def run_memory split: prod.splits)
  from assms(3) have "view t ?h v = Some (x, A)" by (rule view_extends) simp
  from assms(1) this w(1) obtain B where B: "agree {..<length ?h} ?h h1" "view t h1 w = Some (x, B)"
      "set B \<subseteq> {length ?h..<length h1}" by (rule copiesE)
  then have s: "set B \<subseteq> {Suc (length h)..}" by auto
  have "agree {..<length h} h h1" by (rule agree_trans [OF agree_new B(1)]) auto
  then have "agree {..<length h} h h'" unfolding w(3) by (rule agree_trans [OF _ agree_update order_refl]) simp
  moreover have "view t h' w = Some (x, B)"
    unfolding w(3) by (intro view_local [OF B(2)] agree_update) (use s in auto)
  moreover have "fetch h' (length h) = Some (Cell w)"
    using agree_length [OF B(1)] by (simp add: w(3) fetch_def)
  moreover have "set (length h # B) \<inter> {..<length h} = {}" using s by fastforce
  ultimately show ?thesis using that w(2) by blast
qed

text \<open>
  C34: the generated deep copies share nothing with the original. For every API type, when the copies of
  the types of other packages are deep, \<open>DeepCopy\<close> and \<open>DeepCopyObject\<close> of an object in memory give an
  object that reads the same, leave the original as it was, and the two have no cell in common: no
  write to cells of the copy is seen through the original, and none to cells of the original through
  the copy. The copy of nil is nil.
\<close>

theorem deep_copies_separate:
  assumes "foreign_deep F" and "(t, dc) \<in> set (deep_copies F)"
    and "fetch h a = Some (Cell v)" and "view t h v = Some (x, A)" and "run_state (dc (Some a)) h = (res, h')"
  shows "run_state (dc None) h = (None, h) \<and>
    (\<exists>b w B. res = Some b \<and> fetch h' b = Some (Cell w) \<and> view t h' w = Some (x, B) \<and>
      agree {..<length h} h h' \<and> set (a # A) \<inter> set (b # B) = {} \<and>
      (\<forall>h''. agree (- set (b # B)) h' h'' \<longrightarrow> fetch h'' a = Some (Cell v) \<and> view t h'' v = Some (x, A)) \<and>
      (\<forall>h''. agree (- set (a # A)) h' h'' \<longrightarrow> fetch h'' b = Some (Cell w) \<and> view t h'' w = Some (x, B)))"
proof
  from deep_copies_in_sync assms(2) have dc: "dc = new_copy (deep_copy t)" by (fastforce simp: list_all_iff)
  then show "run_state (dc None) h = (None, h)" by (simp add: new_copy_def)
  have "sound t" using deep_copies_sound [OF assms(1)] assms(2) by (fastforce simp: list_all_iff)
  then have "copies t (deep_copy t)" by (rule deep_copy_copies)
  from new_copy_separate [OF this assms(3,4) assms(5) [unfolded dc]] obtain b w B
    where c: "res = Some b" "fetch h' b = Some (Cell w)" "view t h' w = Some (x, B)"
      "agree {..<length h} h h'" "set (b # B) \<inter> {..<length h} = {}" .
  have "set (a # A) \<subseteq> {..<length h}" using view_bound [OF assms(4)] fetch_Some [OF assms(3)] by simp
  with c(5) have d: "set (a # A) \<inter> set (b # B) = {}" by blast
  have o: "fetch h' a = Some (Cell v)" "view t h' v = Some (x, A)"
    using c(4) fetch_Some [OF assms(3)] assms(3) view_extends [OF assms(4) c(4)] by (simp_all add: agree_def)
  have "fetch h'' a = Some (Cell v) \<and> view t h'' v = Some (x, A)" if "agree (- set (b # B)) h' h''" for h''
    using that d o(1) view_local [OF o(2) agree_mono [OF that]] by (auto simp: agree_def)
  moreover have "fetch h'' b = Some (Cell w) \<and> view t h'' w = Some (x, B)" if "agree (- set (a # A)) h' h''" for h''
    using that d c(2) view_local [OF c(3) agree_mono [OF that]] by (auto simp: agree_def)
  ultimately show "\<exists>b w B. res = Some b \<and> fetch h' b = Some (Cell w) \<and> view t h' w = Some (x, B) \<and>
      agree {..<length h} h h' \<and> set (a # A) \<inter> set (b # B) = {} \<and>
      (\<forall>h''. agree (- set (b # B)) h' h'' \<longrightarrow> fetch h'' a = Some (Cell v) \<and> view t h'' v = Some (x, A)) \<and>
      (\<forall>h''. agree (- set (a # A)) h' h'' \<longrightarrow> fetch h'' b = Some (Cell w) \<and> view t h'' w = Some (x, B))"
    using c(1-4) d by blast
qed

text \<open>The copy of a machine template with a label, a finalizer, a security group and the deletion
  policy of its root volume behind a pointer.\<close>

definition sample_Foreign :: Foreign where
  "sample_Foreign =
     (let om = TStruct [(''Name'', TStr), (''Labels'', TMap), (''Finalizers'', TSlice TStr)];
          lm = TStruct [(''ResourceVersion'', TStr)];
          cond = TStruct [(''Type'', TStr), (''Status'', TStr)];
          tm = TStruct [(''Labels'', TMap), (''Annotations'', TMap)];
          fd = TStruct [(''Name'', TStr), (''ControlPlane'', TPtr TBool)]
      in \<lparr>f_ObjectMeta = (om, deep_copy om), f_ListMeta = (lm, deep_copy lm), f_Condition = (cond, deep_copy cond),
          f_TemplateMeta = (tm, deep_copy tm), f_FailureDomain = (fd, deep_copy fd)\<rparr>)"

definition sample_template :: val where
  "sample_template = Struct
     [(''TypeMeta'', Struct [(''Kind'', Str ''StackitMachineTemplate''), (''APIVersion'', Str ''v1alpha1'')]),
      (''ObjectMeta'', Struct [(''Name'', Str ''t''), (''Labels'', MapRef (Some 1)), (''Finalizers'', Slice (Some (2, 0, 1)))]),
      (''Spec'', Struct [(''Template'', Struct
        [(''ObjectMeta'', Struct [(''Labels'', MapRef None), (''Annotations'', MapRef None)]),
         (''Spec'', Struct
           [(''ProviderID'', Ptr None), (''ImageID'', Str ''img''), (''MachineType'', Str ''c1.2''),
            (''AvailabilityZone'', Str []), (''SSHKeyName'', Str []),
            (''RootVolume'', Struct [(''SizeGiB'', Num 50), (''PerformanceClass'', Str []), (''DeleteOnTermination'', Ptr (Some 3))]),
            (''Network'', Struct [(''ID'', Str [])]),
            (''SecurityGroups'', Slice (Some (4, 1, 1))), (''AdditionalLabels'', MapRef (Some 1))])])])]"

definition sample_memory :: memory where
  "sample_memory = [Cell sample_template, Dict [(''team'', ''a'')], Arr [Str ''f''], Cell (Flag True), Arr [Str ''sg-0'', Str ''sg-1'']]"

definition sample_copied :: memory where
  "sample_copied = snd (run_state (StackitMachineTemplate_DeepCopyObject sample_Foreign (Some 0)) sample_memory)"

lemma sample_Foreign_deep: "foreign_deep sample_Foreign"
  by (simp add: foreign_deep_def sample_Foreign_def Let_def deep_copy_copies)

theorem deep_copies_separate_witness:
  "fst (run_state (StackitMachineTemplate_DeepCopyObject sample_Foreign (Some 0)) sample_memory) =
     Some (''StackitMachineTemplate'', 5) \<and>
   (\<exists>w B. fetch sample_copied 5 = Some (Cell w) \<and>
     view (StackitMachineTemplate_ty sample_Foreign) sample_copied w \<noteq> None \<and>
     (\<forall>h''. agree (- set (5 # B)) sample_copied h'' \<longrightarrow>
        view (StackitMachineTemplate_ty sample_Foreign) h'' sample_template =
        view (StackitMachineTemplate_ty sample_Foreign) sample_memory sample_template))"
proof
  let ?t = "StackitMachineTemplate_ty sample_Foreign"
  show res: "fst (run_state (StackitMachineTemplate_DeepCopyObject sample_Foreign (Some 0)) sample_memory) =
     Some (''StackitMachineTemplate'', 5)" by code_simp
  have "(?t, object_copy (StackitMachineTemplate_DeepCopyObject sample_Foreign)) \<in> set (deep_copies sample_Foreign)"
    by (simp add: deep_copies_def)
  moreover have "fetch sample_memory 0 = Some (Cell sample_template)" by (simp add: fetch_def sample_memory_def)
  moreover have "view ?t sample_memory sample_template \<noteq> None" by code_simp
  then obtain x A where "view ?t sample_memory sample_template = Some (x, A)" by auto
  moreover have "run_state (object_copy (StackitMachineTemplate_DeepCopyObject sample_Foreign) (Some 0)) sample_memory =
      (Some 5, sample_copied)"
    using res by (simp add: object_copy_def sample_copied_def split_def)
  ultimately show "\<exists>w B. fetch sample_copied 5 = Some (Cell w) \<and> view ?t sample_copied w \<noteq> None \<and>
     (\<forall>h''. agree (- set (5 # B)) sample_copied h'' \<longrightarrow>
        view ?t h'' sample_template = view ?t sample_memory sample_template)"
    using deep_copies_separate [OF sample_Foreign_deep] by fastforce
qed

end
