(* ===== verification/Spec2Isabelle.thy ===== *)
theory Spec2Isabelle
  imports Recovery Teardown Owned_Conditions Manager Cleanup User_Data SDK_System SDK_Labels SDK_Rules SDK_Targets Admission Interference Deep_Copy
begin

text \<open>
  \<^bold>\<open>The Cluster API provider for STACKIT\<close>

  The repository is a Kubernetes operator with two controllers. The cluster controller
  (\<open>controller/stackitcluster_*.go\<close>) drives a \<open>StackitCluster\<close> object to a cloud network, a load
  balancer for the API server and an optional bastion host; the machine controller
  (\<open>controller/stackitmachine_*.go\<close>) drives a \<open>StackitMachine\<close> object to one cloud server. Both read
  and patch objects through a Kubernetes client, talk to the cloud through the interface
  \<open>cloud.Client\<close>, and share helper packages (\<open>util\<close>, \<open>scope\<close>, \<open>cloud/services\<close>). The machine
  controller waits for the status that the cluster controller writes, and the cluster controller
  reads the machines for the target pool and waits for them on deletion. Watches
  (\<open>controller/stackitmachine_watches.go\<close>, \<open>controller/stackitcluster_controller.go\<close>) decide which
  objects an event enqueues. Admission webhooks (\<open>webhook/v1alpha1\<close>) default and validate the objects
  before the controllers see them. The cloud interface has two implementations: \<open>cloud/sdk_client.go\<close>
  over the STACKIT SDK and \<open>cloud/fake\<close> in memory. \<open>cloud/cleanup.go\<close> deletes by tags what a cluster
  left behind. Generated deep copies (\<open>api/v1alpha1/zz_generated.deepcopy.go\<close>) keep what the patch
  helper, the caches and the webhooks change apart from the original. \<open>cmd/manager\<close> reads the command line, registers controllers, webhooks and health checks
  with a controller-runtime manager and starts it.

  \<^bold>\<open>How the program is modelled\<close>

  Go functions are functions with the names of the source. A function with effects is a value of
  the state monad; a pair \<open>(T, error)\<close> is the sum \<open>go_error + 'a\<close>, and a \<open>go_error\<close> carries its text
  and the sentinels it wraps, so that \<open>errors.Is\<close> is membership (\<open>Prelude\<close>). Go maps are association
  lists, in the order in which \<open>range\<close> would visit them; theorems that mention a listing order hold
  for every order. Long functions are split at their early returns, one definition per phase, and
  composed in the order of the code.

  The state of a pass is the record \<open>rstate\<close> (\<open>Reconcile_State\<close>): the cloud, the API server, the
  object under reconciliation, and the trace of the effects in order: cloud calls with their
  arguments and outcome, patches with the object that was sent and the outcome, events. The
  in-memory object and the persisted one are different things there, as in the code: a patch may
  fail. The trace is ghost state that no definition reads.

  What is not under the repository is a parameter. The record \<open>Client\<close> (\<open>Cloud_Types\<close>) holds the
  operations of \<open>cloud.Client\<close> over an arbitrary cloud state, \<open>Kube\<close> (\<open>Util\<close>) the operations of the
  Kubernetes client, \<open>lib\<close> (\<open>K8s_Lib\<close>) the pure helpers of the Kubernetes libraries (condition
  lists, finalizers, the paused annotation), \<open>r_sha256\<close> the hash, \<open>IaaS\<close> and \<open>LBAPI\<close> (\<open>SDK_Types\<close>) the
  calls of the STACKIT SDK, \<open>validators\<close> (\<open>Webhooks\<close>) the label and name validators of the
  Kubernetes libraries, and \<open>runtime_calls\<close> (\<open>Manager\<close>) what \<open>main\<close> calls of controller-runtime. What a theorem needs of the SDK is a predicate among its hypotheses
  (\<open>iaas_server_laws\<close>, \<open>iaas_system_laws\<close>, \<open>iaas_rule_laws\<close>, \<open>pool_laws\<close>), each with an instance in memory that satisfies it.
  The laws that a theorem needs of the provider's own code are the locales \<open>condition_store\<close> and \<open>k8s_lib\<close> (\<open>K8s_Lib\<close>), interpreted on the provider's
  own \<open>SetCondition\<close> and on \<open>std_lib\<close>, and \<open>server_store\<close> and \<open>server_cloud\<close> (\<open>Cloud_Contract\<close>), the
  contract of the server operations: the second adds to the first that a delete has happened when it
  returns. Both are interpreted on \<open>cloud/fake\<close> (\<open>Fake_Servers\<close>), and the SDK client is shown to
  satisfy the first (\<open>SDK_Servers\<close>), since the API may delete later than it answers. The locales
  \<open>machine_frame\<close> and \<open>cluster_frame\<close> (\<open>Frames\<close>) say of a cloud that each call with the inputs that a
  controller gives it keeps an invariant, and conclude that whole passes do; they are interpreted on
  \<open>cloud/fake\<close> (\<open>System\<close>) and shown of the SDK client (\<open>SDK_System\<close>).

  \<^bold>\<open>The theories\<close>

  \<^item> \<open>Prelude\<close>: errors, the call monad and its weakest preconditions \<open>wp\<close>, strings.
  \<^item> \<open>Cloud_Types\<close>, \<open>Api_Types\<close>: the data types of \<open>cloud/types.go\<close>, \<open>cloud/client.go\<close>,
    \<open>cloud/errors.go\<close> and \<open>api/v1alpha1\<close>.
  \<^item> \<open>Provider_Id\<close> (\<open>cloud/providerid.go\<close>): provider IDs round-trip.
  \<^item> \<open>Tags\<close> (\<open>util/tags.go\<close>): what the tags of clusters and machines contain, and that the selector
    of a machine identifies it.
  \<^item> \<open>K8s_Lib\<close>, \<open>Util\<close> (\<open>util\<close>): conditions, failure results, pausing, credentials, bootstrap data.
  \<^item> \<open>Reconcile_State\<close>: the state of a pass, and the monitor \<open>guarded\<close> over its trace.
  \<^item> \<open>Server_State\<close> (\<open>controller/server_state.go\<close>): which server states count as usable.
  \<^item> \<open>Netip\<close>: the part of Go's \<open>net/netip\<close> that the sources use, on 32-bit and 128-bit words.
  \<^item> \<open>Services\<close> (\<open>scope/cluster_scope.go\<close>, \<open>cloud/services\<close>), \<open>Load_Balancer\<close>: inputs and tags of
    the cloud resources; the target pool and its names.
  \<^item> \<open>Fake_Client\<close> (\<open>cloud/fake/client.go\<close>), \<open>Cloud_Contract\<close>, \<open>Fake_Servers\<close>: the in-memory cloud
    and the contract of its server operations.
  \<^item> \<open>Machine_Controller\<close> (\<open>scope/machine_scope.go\<close>, \<open>controller/stackitmachine_infrastructure.go\<close>,
    \<open>controller/stackitmachine_controller.go\<close>): one pass of the machine controller, with
    \<open>Machine_Safety\<close> (what a pass may do, for every cloud), \<open>Machine_Ready\<close> (what Ready means),
    \<open>Machine_Cloud\<close> (at most one server per machine over any number of passes, and no finalizer is
    removed while a server is left), \<open>Machine_Progress\<close> (a machine comes up, and what goes wrong when
    its labels change).
  \<^item> \<open>Cluster_Controller\<close> (\<open>controller/stackitcluster_infrastructure.go\<close>,
    \<open>controller/stackitcluster_bastion.go\<close>, \<open>controller/stackitcluster_controller.go\<close>): one pass of the
    cluster controller, with \<open>Cluster_Safety\<close> (finalizer first, order of deletion, the user's network
    is left alone, the target pool is never emptied) and \<open>Cluster_Ready\<close> (what Ready means, the
    bastion, failure domains, the placeholder target).
  \<^item> \<open>Frames\<close>, \<open>System\<close>: passes of both controllers over any objects, in any order. The cloud holds at
    most one network, load balancer and bastion of a cluster and one server of a machine, provided that
    no label of a user sets the resource role; with such a label a machine loses its server.
    \<open>Interference\<close>: the same when passes overlap, with calls of other passes between any two calls of a
    pass.
  \<^item> \<open>Cluster_Deletion\<close>: a cluster whose finalizer is removed has left nothing in the cloud.
    \<open>Deletion_Progress\<close>, \<open>Teardown\<close>: the finalizers of a machine and then of its cluster are removed
    after as many failing passes as there are failures; the locale \<open>draining\<close> has the argument, and
    is interpreted on the deletion passes of both controllers. \<open>Cluster_Progress\<close>: a cluster comes up, and then a machine of it.
    \<open>Recovery\<close>: so they do when calls fail, after as many passes more as there are failures; a pass uses
    up a failure or is the pass without failures, and \<open>draining\<close> is interpreted on the normal passes of
    both controllers.
  \<^item> \<open>Owned_Conditions\<close> (\<open>PatchObject\<close> of both scopes): the conditions that a pass changes are owned by
    its patch, with one exception.
  \<^item> \<open>Watches\<close>, \<open>Registration\<close> (\<open>SetupWithManager\<close>): what an event enqueues and which watches are
    registered; a change that matters to a pass wakes it, and an update that the predicate drops does
    not change the target pool.
  \<^item> \<open>Manager\<close> (\<open>cmd/manager/main.go\<close>): the command line is read back as it was meant, the servers are
    hardened unless a flag says otherwise, and the manager starts last.
  \<^item> \<open>Fake_Cloud\<close>: the whole in-memory cloud as a state machine, its invariant, and that creating is
    idempotent. \<open>Cleanup\<close> (\<open>cloud/cleanup.go\<close>, \<open>cmd/cleanup-stackit\<close>): a cleanup that succeeds has
    deleted what the tags cover, except the security groups for node SSH access.
  \<^item> \<open>SDK_Types\<close>, \<open>SDK_Client\<close>, \<open>SDK_Bastion\<close>, \<open>SDK_Balancer\<close> (\<open>cloud/sdk_client.go\<close>): the SDK client as
    a value of \<open>Client\<close>: error classification, conversions, servers and networks; security group rules,
    bastion and node SSH access; load balancers and targets. \<open>SDK_Laws\<close> has the vocabulary for the
    promises of the API, \<open>SDK_Servers\<close> the refinement of \<open>server_store\<close> and at most one server per
    machine, \<open>SDK_Rules\<close> that a bastion admits SSH from the allowed CIDRs only, \<open>SDK_Targets\<close> the
    effect of setting the targets, \<open>User_Data\<close> that user data survives its encoding,
    \<open>SDK_System\<close> that both controllers together duplicate neither networks nor servers, \<open>SDK_Labels\<close>
    when the labels of load balancers are found again, and when they collide.
  \<^item> \<open>Webhooks\<close> (\<open>webhook/v1alpha1\<close>, the template types of \<open>api/v1alpha1\<close>): defaulting and validation.
    \<open>Admission\<close>: what stays fixed through any history of admitted writes, that an admitted spec passes
    the controller's own checks, and two places where the webhooks fall short.
  \<^item> \<open>Go_Memory\<close>: values with pointers, slices and maps on a memory of cells, the copy that a type
    prescribes, and that it reads the same and shares nothing with the original. \<open>Deep_Copy\<close>
    (\<open>api/v1alpha1/zz_generated.deepcopy.go\<close>): the generated functions statement by statement; each is the
    copy of the type as it is declared. The other theories work with immutable values, as these copies
    justify. The copies of the types of other packages are fields of the record \<open>Foreign\<close>.
  \<^item> \<open>Sample_API\<close>: an API server with one cluster and one machine, on which the witnesses run the
    controllers.

  \<^bold>\<open>Termination and bounds\<close>

  Every loop of the modelled code ranges over a list, so all recursion is structural and no
  definition uses fuel. Theorems about several passes are by induction over the relations
  \<open>machine_passes\<close> and \<open>system_run\<close>, those about several writes over \<open>cluster_history\<close> and
  \<open>machine_history\<close>, and deletions and recoveries by induction on the failures that the cloud
  still has to inject. Every
  pass starts from an arbitrary version of the object: stale reads, lost patches and restarts are
  covered. The fields of integer type are only copied and compared, so they are \<open>int\<close>; addresses are words of their width, since \<open>netip.Addr.Next\<close> can overflow.

  \<^bold>\<open>What is not modelled\<close>

  Logging, what controller-runtime does with a registered controller or webhook, how its patch helper
  merges conditions, scheme registration (declarations without logic), the helpers for end-to-end
  tests and the imports of build tools, the \<open>Before*\<close> hooks of \<open>cloud/fake\<close>, and the bad value that
  a field error of a webhook carries. The mutex of \<open>cloud/fake\<close> makes each of its calls one step. The
  SDK client's responses are taken to be present when a call succeeds. Passes overlap call by call in
  \<open>Interference\<close>; the other theorems about several passes order them as whole passes.
\<close>

end
